(* ===== verification/Prelude.thy ===== *)
theory Prelude
  imports Main "HOL-Library.Word"
begin

text \<open>
  The vocabulary shared by all components of the HardCoreVisor controller
  (\<^verbatim>\<open>src/controller\<close>): Go's fixed-width integers, its error values and the part of
  package \<^verbatim>\<open>fmt\<close> the controller uses (\<^verbatim>\<open>Errorf\<close> and \<^verbatim>\<open>Sprintf\<close> with the verbs
  \<^verbatim>\<open>%d\<close>, \<^verbatim>\<open>%s\<close>, \<^verbatim>\<open>%v\<close>, \<^verbatim>\<open>%q\<close>, \<^verbatim>\<open>%w\<close>), Go maps and the order in which
  \<^verbatim>\<open>range\<close> visits them, the string functions of package \<^verbatim>\<open>strings\<close>, and the
  generic lemmas on them.  It also states the contract of an identifier registry
  (a map filled under fresh identifiers taken from a counter), which the volume,
  snapshot, image, template, backup and firewall-rule tables of the controller
  implement.
\<close>

section \<open>Collections of facts\<close>

named_theorems op_defs \<open>definitions of the operations of a component\<close>
named_theorems inv_intros \<open>preservation of a component's invariant\<close>

section \<open>Machine integers and time\<close>

text \<open>Go's \<open>int32\<close> is a word read with \<^const>\<open>sint\<close>; \<open>uint32\<close> and \<open>uint64\<close> are
  words read with \<^const>\<open>uint\<close>.  Go's \<open>int\<close> is 64 bits wide; where the controller
  only stores or compares one it is an \<^typ>\<open>int\<close>.  A \<open>time.Time\<close> is the number of
  nanoseconds since Go's zero time.\<close>

type_synonym int32 = "32 word"
type_synonym uint32 = "32 word"
type_synonym int64 = "64 word"
type_synonym uint64 = "64 word"
type_synonym gotime = int
type_synonym duration = int

abbreviation (input) zero_time :: gotime where "zero_time \<equiv> 0"
abbreviation (input) second :: duration where "second \<equiv> 1000000000"

lemma sint_add_one:
  fixes w :: int32
  assumes "sint w < 2147483647"
  shows "sint (w + 1) = sint w + 1"
proof -
  have "- 2147483648 \<le> sint w" using sint_ge [of w] by simp
  then show ?thesis
    using assms by (simp add: sint_word_ariths signed_take_bit_int_eq_self)
qed

lemma sint_inj32 [simp]: "sint (a :: int32) = sint b \<longleftrightarrow> a = b"
  by (metis signed_word_eqI)

section \<open>Decimal printing\<close>

definition digit_char :: "nat \<Rightarrow> char" where
  "digit_char d = char_of (48 + d)"

lemma digit_chars [simp]:
  "digit_char 0 = CHR ''0''"
  "digit_char (Suc 0) = CHR ''1''"
  "digit_char 1 = CHR ''1''"
  "digit_char 2 = CHR ''2''"
  "digit_char 3 = CHR ''3''"
  "digit_char 4 = CHR ''4''"
  "digit_char 5 = CHR ''5''"
  "digit_char 6 = CHR ''6''"
  "digit_char 7 = CHR ''7''"
  "digit_char 8 = CHR ''8''"
  "digit_char 9 = CHR ''9''"
  by (simp_all add: digit_char_def char_of_def bit_0)

fun show_nat :: "nat \<Rightarrow> string" where
  "show_nat n = (if n < 10 then [digit_char n] else show_nat (n div 10) @ [digit_char (n mod 10)])"

declare show_nat.simps [simp del]

definition show_int :: "int \<Rightarrow> string" where
  "show_int i = (if i < 0 then CHR ''-'' # show_nat (nat (- i)) else show_nat (nat i))"

definition digits_val :: "string \<Rightarrow> nat" where
  "digits_val s = foldl (\<lambda>a c. 10 * a + (of_char c - 48)) 0 s"

lemma of_digit_char [simp]: "d < 10 \<Longrightarrow> (of_char (digit_char d) :: nat) = 48 + d"
  by (simp add: digit_char_def of_char_of take_bit_eq_mod)

lemma digits_val_snoc [simp]:
  "digits_val (s @ [c]) = 10 * digits_val s + (of_char c - 48)"
  by (simp add: digits_val_def)

lemma digits_val_show_nat [simp]: "digits_val (show_nat n) = n"
proof (induction n rule: show_nat.induct)
  case (1 n)
  show ?case
  proof (cases "n < 10")
    case True
    then show ?thesis using digits_val_snoc [of "[]"] by (simp add: show_nat.simps digits_val_def)
  next
    case False
    then show ?thesis using 1 by (subst show_nat.simps) simp
  qed
qed

lemma show_nat_inj [simp]: "show_nat m = show_nat n \<longleftrightarrow> m = n"
  by (metis digits_val_show_nat)

lemma inj_show_nat: "inj show_nat"
  by (simp add: inj_def)

lemma show_nat_digits: "c \<in> set (show_nat n) \<Longrightarrow> 48 \<le> (of_char c :: nat) \<and> (of_char c :: nat) < 58"
proof (induction n arbitrary: c rule: show_nat.induct)
  case (1 n)
  show ?case
    using 1 by (subst (asm) (2) show_nat.simps) (auto split: if_splits)
qed

lemma show_nat_ne [simp]: "show_nat n \<noteq> []"
  by (subst show_nat.simps) simp

lemma show_nat_no_char:
  assumes "(of_char c :: nat) < 48 \<or> 58 \<le> (of_char c :: nat)"
  shows "c \<notin> set (show_nat n)"
  using assms show_nat_digits [of c n] by auto

lemma show_int_nat [simp]: "show_int (int n) = show_nat n"
  by (simp add: show_int_def)

lemma show_int_numeral [simp]: "show_int (numeral k) = show_nat (numeral k)"
  by (simp add: show_int_def)

lemma show_nat_not_minus [simp]: "CHR ''-'' # xs \<noteq> show_nat n"
  using show_nat_no_char [of "CHR ''-''" n] by (auto dest: sym)

lemma show_nat_not_minus' [simp]: "show_nat n \<noteq> CHR ''-'' # xs"
  by (metis show_nat_not_minus)

lemma show_int_inj [simp]: "show_int i = show_int j \<longleftrightarrow> i = j"
  by (auto simp: show_int_def)

section \<open>Package strconv and integer remainder\<close>

definition is_digit :: "char \<Rightarrow> bool" where
  "is_digit c \<longleftrightarrow> 48 \<le> (of_char c :: nat) \<and> (of_char c :: nat) < 58"

text \<open>\<open>strconv.ParseInt(s, 10, bits)\<close>; every error is \<open>None\<close>.\<close>

definition ParseInt :: "nat \<Rightarrow> string \<Rightarrow> int option" where
  "ParseInt bits s =
     (let neg = (s \<noteq> [] \<and> hd s = CHR ''-'');
          ds = (if s \<noteq> [] \<and> (hd s = CHR ''-'' \<or> hd s = CHR ''+'') then tl s else s);
          v = (if neg then - int (digits_val ds) else int (digits_val ds))
      in if ds \<noteq> [] \<and> list_all is_digit ds \<and> - (2 ^ (bits - 1)) \<le> v \<and> v < 2 ^ (bits - 1)
         then Some v else None)"

lemma list_all_is_digit_show_nat [simp]: "list_all is_digit (show_nat n)"
  using show_nat_digits by (fastforce simp: list_all_iff is_digit_def)

lemma hd_show_nat_digit: "is_digit (hd (show_nat n))"
  using list_all_is_digit_show_nat [of n] by (cases "show_nat n") simp_all

lemma hd_show_nat_sign [simp]: "hd (show_nat n) \<noteq> CHR ''-''" "hd (show_nat n) \<noteq> CHR ''+''"
  using hd_show_nat_digit [of n] by (auto simp: is_digit_def)

lemma ParseInt_show_int:
  "ParseInt bits (show_int i) = (if - (2 ^ (bits - 1)) \<le> i \<and> i < 2 ^ (bits - 1) then Some i else None)"
  by (simp add: ParseInt_def show_int_def Let_def)

text \<open>Go's \<open>%\<close> truncates towards zero.\<close>

definition go_rem :: "int \<Rightarrow> int \<Rightarrow> int" where
  "go_rem a b = (if a < 0 then - ((- a) mod \<bar>b\<bar>) else a mod \<bar>b\<bar>)"

section \<open>Error values and formatting\<close>

text \<open>
  An error of the controller is either built by \<open>fmt.Errorf\<close> (the format string and
  its arguments are kept), an \<open>*ffi.FFIError\<close>, or an error returned by code outside the
  repository (a system call, a child process, a client library), of which only the
  text is known.  \<open>error_string\<close> is the method \<open>Error()\<close>.
\<close>

datatype go_error =
    Errorf string "fmt_arg list"
  | FFIError int32 string
  | ExtError string
and fmt_arg =
    FStr string
  | FInt int
  | FBool bool
  | FStrs "string list"
  | FErr go_error

type_synonym 'a result = "go_error + 'a"

abbreviation Err :: "go_error \<Rightarrow> 'a result" where "Err \<equiv> Inl"
abbreviation Ok :: "'a \<Rightarrow> 'a result" where "Ok \<equiv> Inr"

fun is_ok :: "'a result \<Rightarrow> bool" where
  "is_ok (Inl e) = False"
| "is_ok (Inr v) = True"

fun result_value :: "'a result \<Rightarrow> 'a option" where
  "result_value (Inl e) = None"
| "result_value (Inr v) = Some v"

lemma is_ok_iff: "is_ok r \<longleftrightarrow> (\<exists>v. r = Ok v)"
  by (cases r) auto

fun str_join :: "string \<Rightarrow> string list \<Rightarrow> string" where
  "str_join sep [] = []"
| "str_join sep [x] = x"
| "str_join sep (x # y # ys) = x @ sep @ str_join sep (y # ys)"

definition hex_char :: "nat \<Rightarrow> char" where
  "hex_char d = (if d < 10 then char_of (48 + d) else char_of (87 + d))"

text \<open>The verb \<open>%q\<close> for printable ASCII text, with Go's escapes.\<close>

definition quote_char :: "char \<Rightarrow> string" where
  "quote_char c = (let n = of_char c :: nat in
     if n = 34 then [char_of (92::nat), c]
     else if n = 92 then [char_of (92::nat), c]
     else if n = 10 then [char_of (92::nat), CHR ''n'']
     else if n = 9 then [char_of (92::nat), CHR ''t'']
     else if n = 13 then [char_of (92::nat), CHR ''r'']
     else if n < 32 \<or> n = 127 then [char_of (92::nat), CHR ''x'', hex_char (n div 16), hex_char (n mod 16)]
     else [c])"

definition go_quote :: "string \<Rightarrow> string" where
  "go_quote s = CHR 0x22 # concat (map quote_char s) @ [CHR 0x22]"

fun go_format :: "string \<Rightarrow> string list \<Rightarrow> string" where
  "go_format [] args = []"
| "go_format (c # cs) args =
     (if c \<noteq> CHR ''%'' then c # go_format cs args
      else case cs of
             [] \<Rightarrow> ''%!(NOVERB)''
           | v # cs' \<Rightarrow>
               if v = CHR ''%'' then CHR ''%'' # go_format cs' args
               else case args of
                      [] \<Rightarrow> ''%!'' @ [v] @ ''(MISSING)'' @ go_format cs' []
                    | a # as \<Rightarrow> (if v = CHR ''q'' then go_quote a else a) @ go_format cs' as)"

definition FFIError_desc :: "int32 \<Rightarrow> string" where
  "FFIError_desc code =
     (if code = - 1 then ''internal panic''
      else if code = - 2 then ''invalid argument''
      else if code = - 3 then ''KVM error''
      else if code = - 4 then ''not found''
      else if code = - 5 then ''invalid state''
      else if code = - 6 then ''out of memory''
      else if code = - 7 then ''not supported''
      else ''unknown error'')"

primrec error_string :: "go_error \<Rightarrow> string" and arg_string :: "fmt_arg \<Rightarrow> string" where
  "error_string (Errorf f args) = go_format f (map arg_string args)"
| "error_string (FFIError code op) =
     go_format ''vmcore %s: %s (code=%d)'' [op, FFIError_desc code, show_int (sint code)]"
| "error_string (ExtError s) = s"
| "arg_string (FStr s) = s"
| "arg_string (FInt i) = show_int i"
| "arg_string (FBool b) = (if b then ''true'' else ''false'')"
| "arg_string (FStrs ss) = ''['' @ str_join '' '' ss @ '']''"
| "arg_string (FErr e) = error_string e"

definition Sprintf :: "string \<Rightarrow> fmt_arg list \<Rightarrow> string" where
  "Sprintf f args = go_format f (map arg_string args)"

lemma FFIError_invalid_state_string:
  "error_string (FFIError (- 5) op) = ''vmcore '' @ op @ '': invalid state (code=-5)''"
  by (simp add: FFIError_desc_def show_int_def show_nat.simps)

section \<open>Package strings\<close>

fun HasPrefix :: "string \<Rightarrow> string \<Rightarrow> bool" where
  "HasPrefix s [] = True"
| "HasPrefix [] (p # ps) = False"
| "HasPrefix (c # cs) (p # ps) = (c = p \<and> HasPrefix cs ps)"

fun Contains :: "string \<Rightarrow> string \<Rightarrow> bool" where
  "Contains [] sub = (sub = [])"
| "Contains (c # cs) sub = (HasPrefix (c # cs) sub \<or> Contains cs sub)"

definition newline :: char where
  "newline = CHR 0x0A"

definition is_space :: "char \<Rightarrow> bool" where
  "is_space c \<longleftrightarrow> (of_char c :: nat) \<in> {9, 10, 11, 12, 13, 32}"

definition TrimSpace :: "string \<Rightarrow> string" where
  "TrimSpace s = rev (dropWhile is_space (rev (dropWhile is_space s)))"

fun split_on :: "(char \<Rightarrow> bool) \<Rightarrow> string \<Rightarrow> string list" where
  "split_on P [] = [[]]"
| "split_on P (c # cs) =
     (if P c then [] # split_on P cs
      else case split_on P cs of
             [] \<Rightarrow> [[c]]
           | w # ws \<Rightarrow> (c # w) # ws)"

definition split_char :: "char \<Rightarrow> string \<Rightarrow> string list" where
  "split_char d s = split_on (\<lambda>c. c = d) s"

definition Fields :: "string \<Rightarrow> string list" where
  "Fields s = filter (\<lambda>w. w \<noteq> []) (split_on is_space s)"

text \<open>\<open>strings.SplitN(s, d, n)\<close> for \<open>n > 0\<close> and a one-character separator: at most \<open>n\<close>
  parts, the last of them unsplit.\<close>

fun splitn_char :: "nat \<Rightarrow> char \<Rightarrow> string \<Rightarrow> string list" where
  "splitn_char 0 d s = []"
| "splitn_char (Suc 0) d s = [s]"
| "splitn_char (Suc (Suc n)) d s =
     (if d \<in> set s
      then takeWhile (\<lambda>c. c \<noteq> d) s # splitn_char (Suc n) d (tl (dropWhile (\<lambda>c. c \<noteq> d) s))
      else [s])"

lemma HasPrefix_iff: "HasPrefix s p \<longleftrightarrow> (\<exists>r. s = p @ r)"
  by (induction s p rule: HasPrefix.induct) auto

lemma HasPrefix_append [simp]: "HasPrefix (p @ r) p"
  by (simp add: HasPrefix_iff)

lemma Contains_iff: "Contains s sub \<longleftrightarrow> (\<exists>l r. s = l @ sub @ r)"
proof (induction s)
  case (Cons c cs)
  have "(\<exists>l r. c # cs = l @ sub @ r) \<longleftrightarrow> (\<exists>r. c # cs = sub @ r) \<or> (\<exists>l r. cs = l @ sub @ r)"
    by (metis append.simps(1,2) append_eq_Cons_conv)
  with Cons show ?case by (simp add: HasPrefix_iff)
qed simp

lemma Contains_prefix: "Contains (s @ r) s"
  by (metis Contains_iff append_Nil)

lemma Contains_append_right: "Contains r s \<Longrightarrow> Contains (l @ r) s"
  by (metis Contains_iff append.assoc)

lemma Contains_append_left: "Contains l s \<Longrightarrow> Contains (l @ r) s"
  by (metis Contains_iff append.assoc)

lemma split_on_ne [simp]: "split_on P s \<noteq> []"
  by (cases s) (auto split: list.splits)

lemma split_char_ne [simp]: "split_char d s \<noteq> []"
  by (simp add: split_char_def)

lemma length_splitn_char: "length (splitn_char n d s) \<le> n"
  by (induction n d s rule: splitn_char.induct) auto

section \<open>Go maps\<close>

text \<open>
  A Go map is a partial function.  \<open>range\<close> visits its keys in an order the language
  leaves open, so a loop over a map takes that order as a parameter: a list that
  enumerates the domain without repetition.
\<close>

definition range_order :: "'k list \<Rightarrow> ('k \<Rightarrow> 'v option) \<Rightarrow> bool" where
  "range_order ks m \<longleftrightarrow> distinct ks \<and> set ks = dom m"

fun map_values :: "'k list \<Rightarrow> ('k \<Rightarrow> 'v option) \<Rightarrow> 'v list" where
  "map_values [] m = []"
| "map_values (k # ks) m = (case m k of None \<Rightarrow> map_values ks m | Some v \<Rightarrow> v # map_values ks m)"

definition map_len :: "('k \<Rightarrow> 'v option) \<Rightarrow> nat" where
  "map_len m = card (dom m)"

lemma set_map_values: "set (map_values ks m) = {v. \<exists>k \<in> set ks. m k = Some v}"
  by (induction ks) (auto split: option.splits)

lemma set_map_values_range [simp]: "range_order ks m \<Longrightarrow> set (map_values ks m) = ran m"
  by (auto simp: set_map_values range_order_def ran_def)

lemma length_map_values: "set ks \<subseteq> dom m \<Longrightarrow> length (map_values ks m) = length ks"
  by (induction ks) (auto split: option.splits)

lemma length_map_values_range [simp]: "range_order ks m \<Longrightarrow> length (map_values ks m) = map_len m"
  by (auto simp: range_order_def map_len_def length_map_values distinct_card [symmetric])

lemma map_values_eq: "set ks \<subseteq> dom m \<Longrightarrow> map_values ks m = map (\<lambda>k. the (m k)) ks"
  by (induction ks) (auto split: option.splits)

lemma map_eq_Some_iffI: "(\<And>x v. m x = Some v \<longleftrightarrow> n x = Some v) \<Longrightarrow> m = n"
  by (rule ext) (metis option.exhaust)

lemma range_order_exists: "finite (dom m) \<Longrightarrow> \<exists>ks. range_order ks m"
  by (metis finite_distinct_list range_order_def)

section \<open>Sequences of operations\<close>

fun run_ops :: "('o \<Rightarrow> 's \<Rightarrow> 'r \<times> 's) \<Rightarrow> 'o list \<Rightarrow> 's \<Rightarrow> 'r list \<times> 's" where
  "run_ops f [] s = ([], s)"
| "run_ops f (op # ops) s = (case f op s of (r, s1) \<Rightarrow> (case run_ops f ops s1 of (rs, s2) \<Rightarrow> (r # rs, s2)))"

lemma run_ops_refines:
  assumes "\<And>op s. map_prod id view (f op s) = g op (view s)"
  shows "map_prod id view (run_ops f ops s) = run_ops g ops (view s)"
proof (induction ops arbitrary: s)
  case (Cons op ops)
  have "g op (view s) = (fst (f op s), view (snd (f op s)))" using assms [of op s] by (simp add: map_prod_def case_prod_unfold)
  then show ?case using Cons [of "snd (f op s)"] by (simp add: case_prod_unfold prod_eq_iff)
qed simp

section \<open>Identifier registries\<close>

text \<open>\<open>ids_below f m n\<close>: every identifier of the table that the counter could still
  produce has been produced already.\<close>

definition ids_below :: "(int \<Rightarrow> string) \<Rightarrow> (string \<Rightarrow> 'v option) \<Rightarrow> int \<Rightarrow> bool" where
  "ids_below f m n \<longleftrightarrow> (\<forall>k. m (f k) \<noteq> None \<longrightarrow> k < n)"

lemma ids_belowD: "ids_below f m n \<Longrightarrow> m (f n) = None"
  by (auto simp: ids_below_def)

lemma ids_below_upd:
  "inj f \<Longrightarrow> ids_below f m n \<Longrightarrow> ids_below f (m(f n \<mapsto> v)) (n + 1)"
  by (fastforce simp: ids_below_def inj_def)

lemma ids_below_del: "ids_below f m n \<Longrightarrow> ids_below f (m(i := None)) n"
  by (auto simp: ids_below_def)

lemma ids_below_dom: "ids_below f m n \<Longrightarrow> dom m' = dom m \<Longrightarrow> n \<le> n' \<Longrightarrow> ids_below f m' n'"
  by (force simp: ids_below_def dom_def)

lemma ids_below_empty [simp]: "ids_below f Map.empty n"
  by (simp add: ids_below_def)

locale id_registry =
  fixes entries :: "'s \<Rightarrow> string \<Rightarrow> 'v option"
    and next_num :: "'s \<Rightarrow> int"
    and fmt_id :: "int \<Rightarrow> string"
    and created :: "'s \<Rightarrow> string \<Rightarrow> 'v \<Rightarrow> 's \<Rightarrow> bool"
    and removed :: "'s \<Rightarrow> string \<Rightarrow> 's \<Rightarrow> bool"
    and touched :: "'s \<Rightarrow> 's \<Rightarrow> bool"
  assumes fmt_inj: "inj fmt_id"
    and created_id: "created s i v s' \<Longrightarrow> i = fmt_id (next_num s)"
    and created_entries: "created s i v s' \<Longrightarrow> entries s' = (entries s)(i \<mapsto> v)"
    and created_next: "created s i v s' \<Longrightarrow> next_num s' = next_num s + 1"
    and removed_entries: "removed s i s' \<Longrightarrow> entries s' = (entries s)(i := None)"
    and removed_present: "removed s i s' \<Longrightarrow> entries s i \<noteq> None"
    and removed_next: "removed s i s' \<Longrightarrow> next_num s' = next_num s"
    and touched_entries: "touched s s' \<Longrightarrow> dom (entries s') = dom (entries s)"
    and touched_next: "touched s s' \<Longrightarrow> next_num s \<le> next_num s'"
begin

abbreviation step :: "'s \<Rightarrow> 's \<Rightarrow> bool" where
  "step s s' \<equiv> (\<exists>i v. created s i v s') \<or> (\<exists>i. removed s i s') \<or> touched s s'"

lemma created_fresh:
  "ids_below fmt_id (entries s) (next_num s) \<Longrightarrow> created s i v s' \<Longrightarrow> entries s i = None"
  using created_id [of s i v s'] by (auto dest: ids_belowD)

lemma created_lookup: "created s i v s' \<Longrightarrow> entries s' i = Some v"
  by (simp add: created_entries)

lemma created_keeps:
  "ids_below fmt_id (entries s) (next_num s) \<Longrightarrow> created s i v s' \<Longrightarrow> entries s \<subseteq>\<^sub>m entries s'"
  using created_fresh by (auto simp: map_le_def created_entries)

lemma created_ids_below:
  "created s i v s' \<Longrightarrow> ids_below fmt_id (entries s) (next_num s)
    \<Longrightarrow> ids_below fmt_id (entries s') (next_num s')"
  by (simp add: created_entries created_next) (metis created_id fmt_inj ids_below_upd)

lemma step_ids_below:
  "step s s' \<Longrightarrow> ids_below fmt_id (entries s) (next_num s)
    \<Longrightarrow> ids_below fmt_id (entries s') (next_num s')"
  by (auto simp: removed_entries removed_next ids_below_del intro: created_ids_below
      ids_below_dom [OF _ touched_entries touched_next])

lemma steps_ids_below:
  "step\<^sup>*\<^sup>* s s' \<Longrightarrow> ids_below fmt_id (entries s) (next_num s)
    \<Longrightarrow> ids_below fmt_id (entries s') (next_num s')"
  by (induction rule: rtranclp_induct) (auto intro: step_ids_below)

lemma steps_next_mono: "step\<^sup>*\<^sup>* s s' \<Longrightarrow> next_num s \<le> next_num s'"
  by (induction rule: rtranclp_induct) (force simp: created_next removed_next dest: touched_next)+

lemma ids_never_reused:
  assumes "created s i v s1" "step\<^sup>*\<^sup>* s1 s2" "created s2 j w s3"
  shows "i \<noteq> j"
proof -
  have "next_num s + 1 \<le> next_num s2"
    using steps_next_mono [OF assms(2)] by (simp add: created_next [OF assms(1)])
  then show ?thesis
    using created_id [OF assms(1)] created_id [OF assms(3)] fmt_inj by (auto dest: injD)
qed

lemma step_gone:
  "step s s' \<Longrightarrow> entries s i = None \<and> (\<forall>k. i = fmt_id k \<longrightarrow> k < next_num s)
    \<Longrightarrow> entries s' i = None \<and> (\<forall>k. i = fmt_id k \<longrightarrow> k < next_num s')"
proof (elim disjE exE)
  fix j v
  assume c: "created s j v s'" and g: "entries s i = None \<and> (\<forall>k. i = fmt_id k \<longrightarrow> k < next_num s)"
  then have "i \<noteq> j" using created_id [OF c] by auto
  then show ?thesis using g by (auto simp: created_entries [OF c] created_next [OF c])
next
  assume t: "touched s s'" and g: "entries s i = None \<and> (\<forall>k. i = fmt_id k \<longrightarrow> k < next_num s)"
  then have "i \<notin> dom (entries s')" using touched_entries [OF t] by auto
  then show ?thesis using g touched_next [OF t] by force
qed (auto simp: removed_entries removed_next)

lemma steps_gone:
  assumes "step\<^sup>*\<^sup>* s s'" "entries s i = None \<and> (\<forall>k. i = fmt_id k \<longrightarrow> k < next_num s)"
  shows "entries s' i = None \<and> (\<forall>k. i = fmt_id k \<longrightarrow> k < next_num s')"
  using assms
proof (induction rule: rtranclp_induct)
  case (step y z)
  show ?case by (rule step_gone [OF step.hyps(2) step.IH [OF step.prems]])
qed blast

lemma removed_stays_gone:
  assumes inv: "ids_below fmt_id (entries s) (next_num s)" and r: "removed s i s1" and st: "step\<^sup>*\<^sup>* s1 s2"
  shows "entries s2 i = None"
proof -
  have "entries s1 i = None \<and> (\<forall>k. i = fmt_id k \<longrightarrow> k < next_num s1)"
    using inv removed_present [OF r] by (auto simp: removed_entries [OF r] removed_next [OF r] ids_below_def)
  from steps_gone [OF st this] show ?thesis by simp
qed

end

end
