(* ===== verification/Dhcp.thy ===== *)
theory Dhcp
  imports Prelude
begin

text \<open>
  The address pools of \<^verbatim>\<open>internal/network/dhcp.go\<close>.  A \<^verbatim>\<open>net.IP\<close> is a list of bytes of
  length 4 or 16; \<open>To4\<close> and \<open>IP_String\<close> are the methods of package \<^verbatim>\<open>net\<close> the
  code uses.  The unbounded loop of \<^verbatim>\<open>AllocateIP\<close> is a partial function whose value
  \<^const>\<open>None\<close> means that it never returns.
\<close>

section \<open>Addresses\<close>

type_synonym byte = "8 word"
type_synonym IP = "byte list"

definition To4 :: "IP \<Rightarrow> IP option" where
  "To4 ip =
     (if length ip = 4 then Some ip
      else if length ip = 16 \<and> take 10 ip = replicate 10 0 \<and> ip ! 10 = 255 \<and> ip ! 11 = 255 then Some (drop 12 ip)
      else None)"

definition hex_digit :: "nat \<Rightarrow> char" where
  "hex_digit d = (if d < 10 then char_of (48 + d) else char_of (87 + d))"

fun show_hex :: "nat \<Rightarrow> string" where
  "show_hex n = (if n < 16 then [hex_digit n] else show_hex (n div 16) @ [hex_digit (n mod 16)])"

fun groups16 :: "IP \<Rightarrow> nat list" where
  "groups16 (a # b # bs) = (256 * unat a + unat b) # groups16 bs"
| "groups16 _ = []"

definition zero_run :: "nat list \<Rightarrow> nat \<Rightarrow> nat" where
  "zero_run gs i = length (takeWhile (\<lambda>g. g = 0) (drop i gs))"

text \<open>The leftmost longest run of at least two zero groups, as start and end.\<close>

definition longest_zeros :: "nat list \<Rightarrow> (nat \<times> nat) option" where
  "longest_zeros gs =
     fold (\<lambda>i best. let l = zero_run gs i in
             if l \<ge> 2 \<and> (case best of None \<Rightarrow> True | Some (a, b) \<Rightarrow> l > b - a) then Some (i, i + l) else best)
       [0..<length gs] None"

definition ip6_string :: "IP \<Rightarrow> string" where
  "ip6_string ip =
     (let gs = groups16 ip in
      case longest_zeros gs of
        None \<Rightarrow> str_join '':'' (map show_hex gs)
      | Some (a, b) \<Rightarrow> str_join '':'' (map show_hex (take a gs)) @ ''::'' @ str_join '':'' (map show_hex (drop b gs)))"

definition IP_String :: "IP \<Rightarrow> string" where
  "IP_String ip =
     (if ip = [] then ''<nil>''
      else if length ip \<noteq> 4 \<and> length ip \<noteq> 16
      then ''?'' @ concat (map (\<lambda>b. [hex_digit (unat b div 16), hex_digit (unat b mod 16)]) ip)
      else case To4 ip of
             Some bs \<Rightarrow> str_join ''.'' (map (\<lambda>b. show_nat (unat b)) bs)
           | None \<Rightarrow> ip6_string ip)"

fun incr_rev :: "byte list \<Rightarrow> byte list" where
  "incr_rev [] = []"
| "incr_rev (b # bs) = (if b + 1 \<noteq> 0 then (b + 1) # bs else 0 # incr_rev bs)"

definition incrementIP :: "IP \<Rightarrow> IP" where
  "incrementIP ip = rev (incr_rev (rev ip))"

fun cmp_bytes :: "byte list \<Rightarrow> byte list \<Rightarrow> int" where
  "cmp_bytes (a # as) (b # bs) = (if a < b then - 1 else if a > b then 1 else cmp_bytes as bs)"
| "cmp_bytes _ _ = 0"

definition compareIP :: "IP \<Rightarrow> IP \<Rightarrow> int" where
  "compareIP a b =
     (case (To4 a, To4 b) of (Some a4, Some b4) \<Rightarrow> cmp_bytes a4 b4 | _ \<Rightarrow> cmp_bytes a b)"

section \<open>Pools\<close>

record Lease =
  ls_IP :: IP
  ls_MAC :: string
  ls_Hostname :: string
  ls_ExpiresAt :: gotime

record ipPool =
  ip_subnet :: string
  ip_gateway :: string
  ip_rangeStart :: IP
  ip_rangeEnd :: IP
  ip_allocated :: "string \<Rightarrow> bool"
  ip_leases :: "Lease list"

type_synonym DHCPManager = "string \<Rightarrow> ipPool option"

definition NewDHCPManager :: DHCPManager where
  "NewDHCPManager = Map.empty"

definition AddPool :: "string \<Rightarrow> string \<Rightarrow> string \<Rightarrow> IP \<Rightarrow> IP \<Rightarrow> DHCPManager \<Rightarrow> unit result \<times> DHCPManager" where
  "AddPool poolName subnet gateway rangeStart rangeEnd d =
     (case d poolName of
        Some p \<Rightarrow> (Err (Errorf ''pool already exists: %s'' [FStr poolName]), d)
      | None \<Rightarrow> (Ok (), d(poolName \<mapsto> \<lparr>ip_subnet = subnet, ip_gateway = gateway, ip_rangeStart = rangeStart,
                                     ip_rangeEnd = rangeEnd, ip_allocated = (\<lambda>_. False), ip_leases = []\<rparr>)))"

partial_function (option) dhcp_scan :: "(string \<Rightarrow> bool) \<Rightarrow> IP \<Rightarrow> IP \<Rightarrow> IP option option" where
  "dhcp_scan allocated rangeEnd current =
     (if \<not> allocated (IP_String current) then Some (Some current)
      else if compareIP (incrementIP current) rangeEnd > 0 then Some None
      else dhcp_scan allocated rangeEnd (incrementIP current))"

definition AllocateIP :: "gotime \<Rightarrow> string \<Rightarrow> DHCPManager \<Rightarrow> (IP result \<times> DHCPManager) option" where
  "AllocateIP now poolName d =
     (case d poolName of
        None \<Rightarrow> Some (Err (Errorf ''pool not found: %s'' [FStr poolName]), d)
      | Some pool \<Rightarrow>
          (case dhcp_scan (ip_allocated pool) (ip_rangeEnd pool) (ip_rangeStart pool) of
             None \<Rightarrow> None
           | Some None \<Rightarrow> Some (Err (Errorf ''pool %s exhausted: no available IPs'' [FStr poolName]), d)
           | Some (Some ip) \<Rightarrow>
               Some (Ok ip, d(poolName \<mapsto> pool\<lparr>
                 ip_allocated := (ip_allocated pool)(IP_String ip := True),
                 ip_leases := ip_leases pool @ [\<lparr>ls_IP = ip, ls_MAC = [], ls_Hostname = [],
                                               ls_ExpiresAt = now + 86400 * second\<rparr>]\<rparr>))))"

definition ReleaseIP :: "string \<Rightarrow> IP \<Rightarrow> DHCPManager \<Rightarrow> unit result \<times> DHCPManager" where
  "ReleaseIP poolName ip d =
     (case d poolName of
        None \<Rightarrow> (Err (Errorf ''pool not found: %s'' [FStr poolName]), d)
      | Some pool \<Rightarrow>
          if \<not> ip_allocated pool (IP_String ip) then (Err (Errorf ''IP not allocated: %s'' [FStr (IP_String ip)]), d)
          else (Ok (), d(poolName \<mapsto> pool\<lparr>
                 ip_allocated := (ip_allocated pool)(IP_String ip := False),
                 ip_leases := filter (\<lambda>l. IP_String (ls_IP l) \<noteq> IP_String ip) (ip_leases pool)\<rparr>)))"

definition ListLeases :: "string \<Rightarrow> DHCPManager \<Rightarrow> Lease list" where
  "ListLeases poolName d = (case d poolName of None \<Rightarrow> [] | Some pool \<Rightarrow> ip_leases pool)"

definition GenerateDnsmasqConfig :: "string \<Rightarrow> string \<Rightarrow> DHCPManager \<Rightarrow> string" where
  "GenerateDnsmasqConfig poolName bridge d =
     (case d poolName of
        None \<Rightarrow> []
      | Some pool \<Rightarrow>
          ''interface='' @ bridge @ [newline] @
          ''dhcp-range='' @ IP_String (ip_rangeStart pool) @ '','' @ IP_String (ip_rangeEnd pool) @ '',24h'' @ [newline] @
          ''dhcp-option=option:router,'' @ ip_gateway pool @ [newline] @
          ''bind-interfaces'' @ [newline])"

section \<open>Addresses as numbers\<close>

fun ip_val :: "IP \<Rightarrow> nat" where
  "ip_val [] = 0"
| "ip_val (b # bs) = unat b * 256 ^ length bs + ip_val bs"

definition v4 :: "IP \<Rightarrow> nat option" where
  "v4 ip = map_option ip_val (To4 ip)"

lemma unat_byte: "unat (b :: byte) < 256"
  using unsigned_less [of b, where 'a = nat] by simp

lemma ip_val_bound: "ip_val bs < 256 ^ length bs"
proof (induction bs)
  case (Cons b bs)
  have "unat b * 256 ^ length bs + ip_val bs < (unat b + 1) * 256 ^ length bs" using Cons by simp
  also have "\<dots> \<le> 256 * 256 ^ length bs" using unat_byte [of b] by (intro mult_right_mono) auto
  finally show ?case by simp
qed simp

lemma ip_val_snoc: "ip_val (bs @ [b]) = 256 * ip_val bs + unat b"
  by (induction bs) (simp_all add: algebra_simps)

lemma incrementIP_snoc: "incrementIP (bs @ [b]) = (if b + 1 \<noteq> 0 then bs @ [b + 1] else incrementIP bs @ [0])"
  by (simp add: incrementIP_def)

lemma incrementIP_length [simp]: "length (incrementIP bs) = length bs"
proof -
  have "length (incr_rev xs) = length xs" for xs by (induction xs) auto
  then show ?thesis by (simp add: incrementIP_def)
qed

lemma byte_succ: "(b :: byte) + 1 \<noteq> 0 \<Longrightarrow> unat (b + 1) = unat b + 1"
  by (simp add: add.commute unatSuc)

lemma byte_last:
  assumes "(b :: byte) + 1 = 0"
  shows "unat b = 255"
proof -
  have "unat (b + 1) = (unat b + 1) mod 256" by (simp add: unat_word_ariths)
  then show ?thesis using assms unat_byte [of b] by (cases "unat b = 255") auto
qed

lemma ip_val_incrementIP:
  "ip_val bs + 1 < 256 ^ length bs \<Longrightarrow> ip_val (incrementIP bs) = ip_val bs + 1"
proof (induction bs rule: rev_induct)
  case (snoc b bs)
  show ?case
  proof (cases "b + 1 = 0")
    case True
    have "ip_val bs + 1 < 256 ^ length bs" using snoc.prems byte_last [OF True] by (simp add: ip_val_snoc)
    then show ?thesis using snoc.IH True byte_last [OF True] by (simp add: ip_val_snoc incrementIP_snoc)
  next
    case False
    then show ?thesis using byte_succ by (simp add: ip_val_snoc incrementIP_snoc)
  qed
qed simp

lemma incrementIP_prefix:
  "ip_val bs + 1 < 256 ^ length bs \<Longrightarrow> incrementIP (p @ bs) = p @ incrementIP bs"
proof (induction bs rule: rev_induct)
  case (snoc b bs)
  have "ip_val bs + 1 < 256 ^ length bs" if "b + 1 = 0"
    using snoc.prems byte_last [OF that] by (simp add: ip_val_snoc)
  then show ?case using snoc.IH incrementIP_snoc [of "p @ bs" b] by (simp add: incrementIP_snoc)
qed simp

lemma cmp_bytes_val: "length a = length b \<Longrightarrow> cmp_bytes a b > 0 \<longleftrightarrow> ip_val a > ip_val b"
proof (induction a b rule: cmp_bytes.induct)
  case (1 a as b bs)
  have less: "unat x < unat y \<Longrightarrow> length xs = length ys \<Longrightarrow> ip_val (x # xs) < ip_val (y # ys)" for x y :: byte and xs ys
  proof -
    assume h: "unat x < unat y" "length xs = length ys"
    have "ip_val (x # xs) < (unat x + 1) * 256 ^ length xs" using ip_val_bound [of xs] by simp
    also have "\<dots> \<le> unat y * 256 ^ length xs" using h(1) by (intro mult_right_mono) auto
    finally show ?thesis using h(2) by simp
  qed
  show ?case
    using 1 less [of a b as bs] less [of b a bs as] by (cases a b rule: linorder_cases) (auto simp: word_less_nat_alt)
qed auto

lemma To4_length: "To4 ip = Some bs \<Longrightarrow> length bs = 4"
  by (auto simp: To4_def split: if_splits)

lemma To4_incrementIP:
  assumes "To4 ip = Some bs" "ip_val bs < 4294967295"
  shows "To4 (incrementIP ip) = Some (incrementIP bs)"
proof (cases "length ip = 4")
  case True
  then show ?thesis using assms by (simp add: To4_def)
next
  case False
  then have ip: "length ip = 16" "take 10 ip = replicate 10 0" "ip ! 10 = 255" "ip ! 11 = 255" "bs = drop 12 ip"
    using assms by (auto simp: To4_def split: if_splits)
  have "incrementIP ip = take 12 ip @ incrementIP bs"
    using incrementIP_prefix [of bs "take 12 ip"] assms(2) ip(1,5) by simp
  then show ?thesis using ip by (simp add: To4_def nth_append)
qed

lemma v4_incrementIP: "v4 ip = Some n \<Longrightarrow> n < 4294967295 \<Longrightarrow> v4 (incrementIP ip) = Some (n + 1)"
  using ip_val_incrementIP To4_length by (auto simp: v4_def To4_incrementIP)

lemma v4_compareIP: "v4 a = Some m \<Longrightarrow> v4 b = Some n \<Longrightarrow> compareIP a b > 0 \<longleftrightarrow> m > n"
  by (auto simp: v4_def compareIP_def cmp_bytes_val To4_length)

section \<open>Addresses as text\<close>

lemma append_sep_inj: "xs @ c # r = ys @ c # s \<Longrightarrow> c \<notin> set xs \<Longrightarrow> c \<notin> set ys \<Longrightarrow> xs = ys \<and> r = s"
proof (induction xs arbitrary: ys)
  case Nil
  then show ?case by (cases ys) auto
next
  case (Cons x xs)
  then show ?case by (cases ys) auto
qed

lemma str_join_inj:
  "length xs = length ys \<Longrightarrow> \<forall>x \<in> set xs \<union> set ys. c \<notin> set x \<Longrightarrow> str_join [c] xs = str_join [c] ys \<Longrightarrow> xs = ys"
proof (induction xs ys rule: list_induct2)
  case (Cons x xs y ys)
  show ?case
  proof (cases xs)
    case Nil
    then show ?thesis using Cons by simp
  next
    case (Cons x' xs')
    then obtain y' ys' where "ys = y' # ys'" using \<open>length xs = length ys\<close> by (cases ys) auto
    then show ?thesis
      using Cons.IH Cons.prems Cons \<open>xs = _\<close> append_sep_inj [of x c "str_join [c] xs" y "str_join [c] ys"] by simp
  qed
qed simp

lemma ip_val_inj: "length a = length b \<Longrightarrow> ip_val a = ip_val b \<Longrightarrow> a = b"
proof (induction a b rule: list_induct2)
  case (Cons x xs y ys)
  have "x = y"
  proof (rule ccontr)
    assume "x \<noteq> y"
    then have "cmp_bytes (x # xs) (y # ys) > 0 \<or> cmp_bytes (y # ys) (x # xs) > 0"
      by (cases x y rule: linorder_cases) auto
    then show False using cmp_bytes_val [of "x # xs" "y # ys"] cmp_bytes_val [of "y # ys" "x # xs"] Cons by auto
  qed
  then show ?case using Cons by simp
qed simp

lemma IP_String_v4:
  assumes "To4 ip = Some bs"
  shows "IP_String ip = str_join ''.'' (map (\<lambda>b. show_nat (unat b)) bs)"
  using assms by (auto simp: IP_String_def To4_def split: if_splits)

lemma IP_String_eq_iff:
  assumes "v4 a = Some m" "v4 b = Some n"
  shows "IP_String a = IP_String b \<longleftrightarrow> m = n"
proof -
  obtain as bs where t: "To4 a = Some as" "To4 b = Some bs" "m = ip_val as" "n = ip_val bs" using assms by (auto simp: v4_def)
  have l: "length as = length bs" using t To4_length by metis
  let ?f = "map (\<lambda>b :: byte. show_nat (unat b))"
  have "as = bs" if "str_join ''.'' (?f as) = str_join ''.'' (?f bs)"
  proof -
    have "?f as = ?f bs"
      using that l by (intro str_join_inj [where c = "CHR ''.''"]) (auto simp: show_nat_no_char)
    then have "map unat as = map unat bs"
      by (metis (no_types, lifting) digits_val_show_nat map_eq_conv map_map o_apply)
    then show ?thesis by (auto simp: list_eq_iff_nth_eq word_unat_eq_iff)
  qed
  then show ?thesis using ip_val_inj [OF l] by (auto simp: IP_String_v4 t)
qed

definition v4_bytes :: "nat \<Rightarrow> IP" where
  "v4_bytes n = [word_of_nat (n div 256 div 256 div 256), word_of_nat (n div 256 div 256), word_of_nat (n div 256), word_of_nat n]"

definition v4_text :: "nat \<Rightarrow> string" where
  "v4_text n = IP_String (v4_bytes n)"

lemma v4_v4_bytes: "n < 4294967296 \<Longrightarrow> v4 (v4_bytes n) = Some n"
proof -
  assume n: "n < 4294967296"
  define q r s where "q = n div 256" "r = q div 256" "s = r div 256"
  have "n = 256 * q + n mod 256" by (simp only: q_r_s_def(1) mult_div_mod_eq)
  moreover have "q = 256 * r + q mod 256" by (simp only: q_r_s_def(2) mult_div_mod_eq)
  moreover have "r = 256 * s + r mod 256" by (simp only: q_r_s_def(3) mult_div_mod_eq)
  moreover have "s < 256" using n by (simp add: q_r_s_def div_mult2_eq [symmetric])
  moreover have "unat (word_of_nat k :: byte) = k mod 256" for k by (simp add: unat_of_nat)
  ultimately show ?thesis
    by (simp add: v4_def To4_def v4_bytes_def q_r_s_def [symmetric] del: unsigned_of_nat)
qed

lemma v4_bound: "v4 ip = Some n \<Longrightarrow> n < 4294967296"
proof -
  assume "v4 ip = Some n"
  then obtain bs where "To4 ip = Some bs" "n = ip_val bs" by (auto simp: v4_def)
  then show ?thesis using ip_val_bound [of bs] To4_length [of ip bs] by simp
qed

lemma IP_String_text: "v4 ip = Some n \<Longrightarrow> IP_String ip = v4_text n"
  using IP_String_eq_iff [OF _ v4_v4_bytes [OF v4_bound]] by (simp add: v4_text_def)

lemma v4_text_inj: "m < 4294967296 \<Longrightarrow> n < 4294967296 \<Longrightarrow> v4_text m = v4_text n \<longleftrightarrow> m = n"
  unfolding v4_text_def by (rule IP_String_eq_iff [OF v4_v4_bytes v4_v4_bytes])

section \<open>Allocation\<close>

definition first_free :: "(string \<Rightarrow> bool) \<Rightarrow> nat \<Rightarrow> nat \<Rightarrow> IP option \<Rightarrow> bool" where
  "first_free al c e r \<longleftrightarrow>
     (case r of
        None \<Rightarrow> \<forall>n \<in> {c..e}. al (v4_text n)
      | Some ip \<Rightarrow> \<exists>n \<in> {c..e}. v4 ip = Some n \<and> \<not> al (v4_text n) \<and> (\<forall>m \<in> {c..<n}. al (v4_text m)))"

lemma first_free_step: "first_free al (c + 1) e r \<Longrightarrow> al (v4_text c) \<Longrightarrow> first_free al c e r"
proof (cases r)
  case None
  assume "first_free al (c + 1) e r" "al (v4_text c)"
  then show ?thesis using None by (auto simp: first_free_def) (metis atLeastAtMost_iff le_antisym not_less_eq_eq)
next
  case (Some ip)
  assume "first_free al (c + 1) e r" "al (v4_text c)"
  then obtain n where "n \<in> {c + 1..e}" "v4 ip = Some n" "\<not> al (v4_text n)" "\<forall>m \<in> {c + 1..<n}. al (v4_text m)"
    using Some by (auto simp: first_free_def)
  moreover from this have "\<forall>m \<in> {c..<n}. al (v4_text m)"
    using \<open>al (v4_text c)\<close> by (metis Suc_eq_plus1 Suc_leI atLeastLessThan_iff le_neq_implies_less)
  ultimately show ?thesis using Some by (auto simp: first_free_def)
qed

lemma dhcp_scan_v4:
  assumes "v4 rangeEnd = Some e" "e < 4294967295"
  shows "v4 cur = Some c \<Longrightarrow> c \<le> e \<Longrightarrow> \<exists>r. dhcp_scan al rangeEnd cur = Some r \<and> first_free al c e r"
proof (induction "e - c" arbitrary: c cur)
  case 0
  then have c: "c = e" by simp
  have n: "v4 (incrementIP cur) = Some (c + 1)" using v4_incrementIP [OF 0(2)] c assms(2) by simp
  show ?case
    using 0 v4_compareIP [OF n assms(1)] IP_String_text [OF 0(2)] c
    by (subst dhcp_scan.simps) (auto simp: first_free_def)
next
  case (Suc k)
  note t = IP_String_text [OF Suc.prems(1)]
  show ?case
  proof (cases "al (v4_text c)")
    case False
    then show ?thesis using Suc.prems t by (subst dhcp_scan.simps) (auto simp: first_free_def intro!: bexI [of _ c])
  next
    case True
    have c: "c < e" using Suc.hyps(2) by simp
    have n: "v4 (incrementIP cur) = Some (c + 1)" using v4_incrementIP [OF Suc.prems(1)] c assms(2) by simp
    have nc: "\<not> compareIP (incrementIP cur) rangeEnd > 0" using v4_compareIP [OF n assms(1)] c by simp
    have k: "k = e - (c + 1)" using Suc.hyps(2) by simp
    have "c + 1 \<le> e" using c by simp
    from Suc.hyps(1) [OF k n this] obtain r where r: "dhcp_scan al rangeEnd (incrementIP cur) = Some r" "first_free al (c + 1) e r"
      by blast
    have "dhcp_scan al rangeEnd cur = Some r"
      using True nc t r(1) by (subst dhcp_scan.simps) simp
    then show ?thesis using first_free_step [OF r(2) True] by blast
  qed
qed

text \<open>C23: Allocation from a pool of IPv4 addresses always returns, and it returns the first
  address of the range that is free: the address is in the range, was free and is marked, all
  addresses before it are taken; it reports exhaustion, and changes nothing, exactly when every
  address of the range is taken.\<close>

theorem dhcp_allocate_first_free:
  assumes "d name = Some pool" "v4 (ip_rangeStart pool) = Some s" "v4 (ip_rangeEnd pool) = Some e" "s \<le> e" "e < 4294967295"
  shows "\<exists>r d'. AllocateIP now name d = Some (r, d') \<and>
    (case r of
       Inl err \<Rightarrow> d' = d \<and> (\<forall>n \<in> {s..e}. ip_allocated pool (v4_text n))
     | Inr ip \<Rightarrow> \<exists>n \<in> {s..e}. v4 ip = Some n \<and> \<not> ip_allocated pool (v4_text n)
         \<and> (\<forall>m \<in> {s..<n}. ip_allocated pool (v4_text m))
         \<and> (\<exists>pool'. d' = d(name \<mapsto> pool') \<and> ip_allocated pool' = (ip_allocated pool)(v4_text n := True)))"
proof -
  obtain r where r: "dhcp_scan (ip_allocated pool) (ip_rangeEnd pool) (ip_rangeStart pool) = Some r"
    "first_free (ip_allocated pool) s e r"
    using dhcp_scan_v4 [OF assms(3,5,2,4)] by blast
  show ?thesis
  proof (cases r)
    case None
    then show ?thesis using r assms(1) by (simp add: AllocateIP_def first_free_def)
  next
    case (Some ip)
    then obtain n where "n \<in> {s..e}" "v4 ip = Some n" "\<not> ip_allocated pool (v4_text n)"
      "\<forall>m \<in> {s..<n}. ip_allocated pool (v4_text m)"
      using r(2) by (auto simp: first_free_def)
    then show ?thesis using Some r(1) assms(1) IP_String_text [of ip n] by (auto simp: AllocateIP_def)
  qed
qed

definition lan_pool :: ipPool where
  "lan_pool = \<lparr>ip_subnet = ''10.0.1.0/24'', ip_gateway = ''10.0.1.1'', ip_rangeStart = [10, 0, 1, 10],
     ip_rangeEnd = [10, 0, 1, 20], ip_allocated = (\<lambda>_. False), ip_leases = []\<rparr>"

theorem dhcp_allocate_first_free_witness:
  "\<exists>ip d'. AllocateIP 0 ''lan'' [''lan'' \<mapsto> lan_pool] = Some (Ok ip, d') \<and> v4 ip = Some 167772426"
proof -
  have v: "v4 (ip_rangeStart lan_pool) = Some 167772426" "v4 (ip_rangeEnd lan_pool) = Some 167772436"
    by (simp_all add: lan_pool_def v4_def To4_def)
  obtain r d' where a: "AllocateIP 0 ''lan'' [''lan'' \<mapsto> lan_pool] = Some (r, d')"
    and r: "case r of
       Inl err \<Rightarrow> d' = [''lan'' \<mapsto> lan_pool] \<and> (\<forall>n \<in> {167772426..167772436}. ip_allocated lan_pool (v4_text n))
     | Inr ip \<Rightarrow> \<exists>n \<in> {167772426..167772436}. v4 ip = Some n \<and> \<not> ip_allocated lan_pool (v4_text n)
         \<and> (\<forall>m \<in> {167772426..<n}. ip_allocated lan_pool (v4_text m))
         \<and> (\<exists>pool'. d' = [''lan'' \<mapsto> lan_pool](''lan'' \<mapsto> pool') \<and> ip_allocated pool' = (ip_allocated lan_pool)(v4_text n := True))"
    using dhcp_allocate_first_free [OF _ v, of "[''lan'' \<mapsto> lan_pool]" "''lan''" 0] by (simp only: map_upd_Some_unfold) fastforce
  have free: "\<not> ip_allocated lan_pool x" for x by (simp add: lan_pool_def)
  from r free obtain ip n where "r = Inr ip" "v4 ip = Some n" "n \<ge> 167772426" "\<forall>m \<in> {167772426..<n}. False"
    by (cases r) auto
  moreover from this have "n = 167772426" by (metis atLeastLessThan_iff le_neq_implies_less order_refl)
  ultimately show ?thesis using a by blast
qed

section \<open>Leases\<close>

inductive dhcp_step :: "DHCPManager \<Rightarrow> DHCPManager \<Rightarrow> bool" where
  dhcp_add: "AddPool name subnet gateway rangeStart rangeEnd d = (r, d') \<Longrightarrow> dhcp_step d d'"
| dhcp_alloc: "AllocateIP now name d = Some (r, d') \<Longrightarrow> dhcp_step d d'"
| dhcp_release: "ReleaseIP name ip d = (r, d') \<Longrightarrow> dhcp_step d d'"

definition pool_ok :: "ipPool \<Rightarrow> bool" where
  "pool_ok p \<longleftrightarrow> distinct (map (\<lambda>l. IP_String (ls_IP l)) (ip_leases p))
     \<and> (\<forall>x. ip_allocated p x \<longleftrightarrow> x \<in> (\<lambda>l. IP_String (ls_IP l)) ` set (ip_leases p))"

definition dhcp_ok :: "DHCPManager \<Rightarrow> bool" where
  "dhcp_ok d \<longleftrightarrow> (\<forall>name p. d name = Some p \<longrightarrow> pool_ok p)"

lemma dhcp_scan_free: "dhcp_scan al e cur = Some (Some ip) \<Longrightarrow> \<not> al (IP_String ip)"
  by (rule dhcp_scan.raw_induct [of "\<lambda>al e cur r. \<forall>ip. r = Some ip \<longrightarrow> \<not> al (IP_String ip)" al e cur "Some ip", rule_format])
    (auto split: if_splits, metis)

lemma pool_ok_alloc:
  assumes "pool_ok p" "\<not> ip_allocated p (IP_String ip)"
  shows "pool_ok (p\<lparr>ip_allocated := (ip_allocated p)(IP_String ip := True),
    ip_leases := ip_leases p @ [\<lparr>ls_IP = ip, ls_MAC = m, ls_Hostname = h, ls_ExpiresAt = t\<rparr>]\<rparr>)"
  using assms by (auto simp: pool_ok_def)

lemma pool_ok_release:
  assumes "pool_ok p"
  shows "pool_ok (p\<lparr>ip_allocated := (ip_allocated p)(i := False), ip_leases := filter (\<lambda>l. IP_String (ls_IP l) \<noteq> i) (ip_leases p)\<rparr>)"
  using assms by (auto simp: pool_ok_def distinct_map_filter)

lemma dhcp_step_ok: "dhcp_step d d' \<Longrightarrow> dhcp_ok d \<Longrightarrow> dhcp_ok d'"
proof (induction rule: dhcp_step.induct)
  case (dhcp_add name subnet gateway rangeStart rangeEnd d r d')
  then show ?case by (auto simp: AddPool_def dhcp_ok_def pool_ok_def split: option.split_asm if_splits)
next
  case (dhcp_alloc now name d r d')
  then show ?case
    by (auto simp: AllocateIP_def dhcp_ok_def pool_ok_alloc dest!: dhcp_scan_free split: option.split_asm if_splits)
next
  case (dhcp_release name ip d r d')
  then show ?case
    by (auto simp: ReleaseIP_def dhcp_ok_def pool_ok_release split: option.split_asm if_splits)
qed

lemma dhcp_steps_ok: "dhcp_step\<^sup>*\<^sup>* d d' \<Longrightarrow> dhcp_ok d \<Longrightarrow> dhcp_ok d'"
  by (induction rule: rtranclp_induct) (auto intro: dhcp_step_ok)

lemma dhcp_ok_New: "dhcp_ok NewDHCPManager"
  by (simp add: dhcp_ok_def NewDHCPManager_def)



text \<open>The bounds of the range are not checked against each other: from a fresh pool whose
  start lies behind its end the start address is handed out all the same.\<close>

theorem dhcp_inverted_range_allocates:
  assumes "d name = Some pool" "v4 (ip_rangeStart pool) = Some s" "v4 (ip_rangeEnd pool) = Some e" "e < s"
    and "\<not> ip_allocated pool (v4_text s)"
  shows "\<exists>d'. AllocateIP now name d = Some (Ok (ip_rangeStart pool), d')"
  using assms by (subst AllocateIP_def, subst dhcp_scan.simps) (simp add: IP_String_text)

theorem dhcp_inverted_range_allocates_witness:
  "\<exists>d'. AllocateIP 0 ''x'' [''x'' \<mapsto> lan_pool\<lparr>ip_rangeEnd := [10, 0, 1, 5]\<rparr>] = Some (Ok [10, 0, 1, 10], d')"
  using dhcp_inverted_range_allocates [of "[''x'' \<mapsto> lan_pool\<lparr>ip_rangeEnd := [10, 0, 1, 5]\<rparr>]" "''x''"
      "lan_pool\<lparr>ip_rangeEnd := [10, 0, 1, 5]\<rparr>" 167772426 167772421 0]
  by (simp add: lan_pool_def v4_def To4_def)

end
