(* ===== verification/Circuit_Breaker.thy ===== *)
theory Circuit_Breaker
  imports Prelude
begin

text \<open>
  Package \<^verbatim>\<open>internal/resilience\<close>: the three-state circuit breaker that protects QMP and
  the store.  \<^verbatim>\<open>Execute\<close> holds the mutex before and after the protected function but not
  while it runs; its two critical sections are \<open>cb_begin\<close> and \<open>cb_end\<close>, so that calls can be
  interleaved (\<open>cb_step\<close>), and \<open>cb_Execute\<close> is their sequential composition.
\<close>

section \<open>The breaker\<close>

datatype cb_phase = StateClosed | StateOpen | StateHalfOpen

record CircuitBreaker =
  cb_name :: string
  cb_state :: cb_phase
  cb_failureCount :: int
  cb_failureThreshold :: int
  cb_resetTimeout :: duration
  cb_lastFailure :: gotime

definition ErrCircuitOpen :: go_error where
  "ErrCircuitOpen = Errorf ''circuit breaker is open'' []"

definition NewCircuitBreaker :: "string \<Rightarrow> int \<Rightarrow> duration \<Rightarrow> CircuitBreaker" where
  "NewCircuitBreaker name threshold timeout =
     \<lparr>cb_name = name, cb_state = StateClosed, cb_failureCount = 0, cb_failureThreshold = threshold,
      cb_resetTimeout = timeout, cb_lastFailure = zero_time\<rparr>"

text \<open>The first critical section: \<open>True\<close> when the call is let through.\<close>

definition cb_begin :: "gotime \<Rightarrow> CircuitBreaker \<Rightarrow> bool \<times> CircuitBreaker" where
  "cb_begin now cb =
     (case cb_state cb of
        StateOpen \<Rightarrow>
          if now - cb_lastFailure cb > cb_resetTimeout cb
          then (True, cb\<lparr>cb_state := StateHalfOpen\<rparr>)
          else (False, cb)
      | StateHalfOpen \<Rightarrow> (True, cb)
      | StateClosed \<Rightarrow> (True, cb))"

text \<open>The second critical section, with the outcome of the protected function.\<close>

definition cb_end :: "gotime \<Rightarrow> bool \<Rightarrow> CircuitBreaker \<Rightarrow> CircuitBreaker" where
  "cb_end now failed cb =
     (if failed then
        let cb1 = cb\<lparr>cb_failureCount := cb_failureCount cb + 1, cb_lastFailure := now\<rparr> in
        if cb_failureCount cb1 \<ge> cb_failureThreshold cb1 then cb1\<lparr>cb_state := StateOpen\<rparr> else cb1
      else cb\<lparr>cb_failureCount := 0, cb_state := StateClosed\<rparr>)"

definition cb_Execute ::
  "gotime \<Rightarrow> gotime \<Rightarrow> ('s \<Rightarrow> 'a result \<times> 's) \<Rightarrow> CircuitBreaker \<Rightarrow> 's \<Rightarrow> 'a result \<times> CircuitBreaker \<times> 's" where
  "cb_Execute t0 t1 fn cb s =
     (let (pass, cb1) = cb_begin t0 cb in
      if \<not> pass then (Err ErrCircuitOpen, cb1, s)
      else let (r, s') = fn s in (r, cb_end t1 (\<not> is_ok r) cb1, s'))"

definition cb_GetState :: "CircuitBreaker \<Rightarrow> cb_phase" where
  "cb_GetState cb = cb_state cb"

fun cb_State_String :: "cb_phase \<Rightarrow> string" where
  "cb_State_String StateClosed = ''closed''"
| "cb_State_String StateOpen = ''open''"
| "cb_State_String StateHalfOpen = ''half-open''"

lemmas cb_defs = cb_begin_def cb_end_def cb_Execute_def NewCircuitBreaker_def

section \<open>The invariant under interleaving\<close>

text \<open>Calls in flight are counted; a call may end only if it was let through.\<close>

inductive cb_step :: "CircuitBreaker \<times> nat \<Rightarrow> CircuitBreaker \<times> nat \<Rightarrow> bool" where
  enter: "cb_begin t cb = (True, cb') \<Longrightarrow> cb_step (cb, n) (cb', Suc n)"
| reject: "cb_begin t cb = (False, cb') \<Longrightarrow> cb_step (cb, n) (cb', n)"
| leave: "cb_step (cb, Suc n) (cb_end t failed cb, n)"

definition cb_ok :: "CircuitBreaker \<Rightarrow> bool" where
  "cb_ok cb \<longleftrightarrow> 0 < cb_failureThreshold cb \<and> 0 \<le> cb_failureCount cb
     \<and> (cb_state cb = StateClosed \<longleftrightarrow> cb_failureCount cb < cb_failureThreshold cb)"

lemma cb_ok_New [simp]: "0 < n \<Longrightarrow> cb_ok (NewCircuitBreaker name n timeout)"
  by (simp add: cb_ok_def NewCircuitBreaker_def)

lemma cb_ok_begin: "cb_begin t cb = (b, cb') \<Longrightarrow> cb_ok cb \<Longrightarrow> cb_ok cb'"
  by (auto simp: cb_ok_def cb_begin_def split: cb_phase.splits if_splits)

lemma cb_ok_end: "cb_ok cb \<Longrightarrow> cb_ok (cb_end t failed cb)"
  by (auto simp: cb_ok_def cb_end_def Let_def)

lemma cb_step_ok: "cb_step x y \<Longrightarrow> cb_ok (fst x) \<Longrightarrow> cb_ok (fst y)"
  by (induction rule: cb_step.induct) (auto intro: cb_ok_end cb_ok_begin)



section \<open>Sequential behaviour\<close>

text \<open>A history is a list of calls, each with the two times and the outcome the protected
  function would have.\<close>

type_synonym cb_call = "gotime \<times> gotime \<times> bool"

fun cb_run :: "cb_call list \<Rightarrow> CircuitBreaker \<Rightarrow> bool list \<times> CircuitBreaker" where
  "cb_run [] cb = ([], cb)"
| "cb_run ((t0, t1, failed) # cs) cb =
     (case cb_Execute t0 t1 (\<lambda>s. (if failed then Err ErrCircuitOpen else Ok (), Suc s)) cb 0 of
        (r, cb', called) \<Rightarrow>
          (let (outs, cb'') = cb_run cs cb' in ((if called = 0 then outs else failed # outs), cb'')))"

fun trailing_failures :: "int \<Rightarrow> bool list \<Rightarrow> int" where
  "trailing_failures k [] = k"
| "trailing_failures k (failed # os) = trailing_failures (if failed then k + 1 else 0) os"

text \<open>In a sequence of calls, the failure count is the length of the run of consecutive
  failures at the end of the calls that were let through, and the breaker is closed exactly
  when that run is shorter than the threshold.\<close>

theorem cb_run_trailing:
  assumes "0 < n"
  shows "case cb_run cs (NewCircuitBreaker name n timeout) of (outs, cb) \<Rightarrow>
     cb_failureCount cb = trailing_failures 0 outs
     \<and> (cb_state cb = StateClosed \<longleftrightarrow> trailing_failures 0 outs < n)"
proof -
  have "cb_ok cb \<Longrightarrow> cb_run cs cb = (outs, cb') \<Longrightarrow>
      cb_failureCount cb' = trailing_failures (cb_failureCount cb) outs \<and> cb_ok cb'
      \<and> cb_failureThreshold cb' = cb_failureThreshold cb" for cb outs cb'
  proof (induction cs cb arbitrary: outs cb' rule: cb_run.induct)
    case (2 t0 t1 failed cs cb)
    obtain r cb1 called where ex:
      "cb_Execute t0 t1 (\<lambda>s. (if failed then Err ErrCircuitOpen else Ok (), Suc s)) cb 0 = (r, cb1, called)"
      by (metis prod_cases3)
    obtain outs1 where run: "cb_run cs cb1 = (outs1, cb')"
      and outs: "outs = (if called = 0 then outs1 else failed # outs1)"
      using 2(3) ex by (auto split: prod.splits simp: Let_def)
    have "cb_ok cb1 \<and> cb_failureThreshold cb1 = cb_failureThreshold cb \<and>
        cb_failureCount cb1 = (if called = 0 then cb_failureCount cb else if failed then cb_failureCount cb + 1 else 0)"
      using ex 2(2) by (auto simp: cb_defs cb_ok_def Let_def split: cb_phase.splits if_splits)
    with 2(1) [OF ex [symmetric]] run outs show ?case by auto
  qed simp
  from this [of "NewCircuitBreaker name n timeout"] assms show ?thesis
    by (auto split: prod.splits simp: cb_ok_def NewCircuitBreaker_def)
qed

theorem cb_run_trailing_witness:
  "cb_state (snd (cb_run [(1, 1, True), (2, 2, True), (3, 3, True), (4, 4, False)]
     (NewCircuitBreaker ''b'' 3 10))) = StateOpen"
  using cb_run_trailing [of 3 "[(1, 1, True), (2, 2, True), (3, 3, True), (4, 4, False)]" "''b''" 10]
  by (simp add: cb_defs Let_def)

text \<open>While the breaker is open and its timeout has not passed, the protected function is
  not called (its state is untouched) and the caller gets the open-circuit error; once the
  timeout has passed one call is let through, its success closes the breaker and clears the
  count, and its failure opens the breaker again at once.\<close>

theorem cb_open_behaviour:
  assumes "cb_ok cb" "cb_state cb = StateOpen"
  shows "(t0 - cb_lastFailure cb \<le> cb_resetTimeout cb \<longrightarrow>
            cb_Execute t0 t1 fn cb s = (Err ErrCircuitOpen, cb, s))
       \<and> (t0 - cb_lastFailure cb > cb_resetTimeout cb \<longrightarrow>
            cb_Execute t0 t1 fn cb s =
              (case fn s of
                 (Inr v, s') \<Rightarrow> (Ok v, cb\<lparr>cb_failureCount := 0, cb_state := StateClosed\<rparr>, s')
               | (Inl e, s') \<Rightarrow>
                   (Err e, cb\<lparr>cb_failureCount := cb_failureCount cb + 1, cb_lastFailure := t1\<rparr>, s')))"
  using assms by (auto simp: cb_defs cb_ok_def Let_def split: prod.splits sum.splits)

definition open_breaker :: CircuitBreaker where
  "open_breaker = snd (cb_run [(1, 1, True), (2, 2, True)] (NewCircuitBreaker ''etcd-store'' 2 30))"

theorem cb_open_behaviour_witness:
  "cb_Execute 20 20 (\<lambda>n. (Ok (), Suc n)) open_breaker 0 = (Err ErrCircuitOpen, open_breaker, 0)
   \<and> cb_Execute 40 40 (\<lambda>n. (Ok (), Suc n)) open_breaker 0 =
       (Ok (), open_breaker\<lparr>cb_failureCount := 0, cb_state := StateClosed\<rparr>, 1)"
  using cb_open_behaviour [of open_breaker 20 20 "\<lambda>n. (Ok (), Suc n)" 0]
    cb_open_behaviour [of open_breaker 40 40 "\<lambda>n. (Ok (), Suc n)" 0]
  by (simp add: open_breaker_def cb_defs Let_def cb_ok_def)

text \<open>The half-open state does not limit the breaker to one trial call: once the timeout of
  an open breaker has passed, any number of concurrent calls is let through before the first
  of them reports its outcome.\<close>

theorem cb_half_open_admits_many:
  "cb_state cb = StateOpen \<and> cb_resetTimeout cb < t - cb_lastFailure cb \<longrightarrow>
   (\<exists>cb'. cb_step\<^sup>*\<^sup>* (cb, 0) (cb', k) \<and> cb_state cb' = (if k = 0 then StateOpen else StateHalfOpen))"
proof
  assume *: "cb_state cb = StateOpen \<and> cb_resetTimeout cb < t - cb_lastFailure cb"
  let ?h = "cb\<lparr>cb_state := StateHalfOpen\<rparr>"
  have 1: "cb_step (cb, 0) (?h, Suc 0)"
    by (rule cb_step.enter [of t]) (use * in \<open>simp add: cb_begin_def\<close>)
  have 2: "cb_step (?h, n) (?h, Suc n)" for n
    by (rule cb_step.enter [of t]) (simp add: cb_begin_def)
  have 3: "cb_step\<^sup>*\<^sup>* (?h, Suc 0) (?h, Suc n)" for n
    by (induction n) (auto intro: rtranclp.rtrancl_into_rtrancl 2)
  show "\<exists>cb'. cb_step\<^sup>*\<^sup>* (cb, 0) (cb', k) \<and> cb_state cb' = (if k = 0 then StateOpen else StateHalfOpen)"
    using * converse_rtranclp_into_rtranclp [OF 1 3]
    by (cases k) (auto intro: exI [of _ cb] exI [of _ ?h])
qed

theorem cb_half_open_admits_many_witness:
  "\<exists>cb'. cb_step\<^sup>*\<^sup>* (open_breaker, 0) (cb', 7) \<and> cb_state cb' = StateHalfOpen"
  using cb_half_open_admits_many [of open_breaker 40 7]
  by (simp add: open_breaker_def cb_defs Let_def)

end
