(* ===== verification/Store.thy ===== *)
theory Store
  imports Circuit_Breaker
begin

text \<open>
  The key-value stores of \<^verbatim>\<open>internal/store\<close>: \<^verbatim>\<open>MemoryStore\<close> and
  \<^verbatim>\<open>EtcdStore\<close> (\<^verbatim>\<open>etcd.go\<close>) and \<^verbatim>\<open>ResilientStore\<close> (\<^verbatim>\<open>resilient.go\<close>),
  which puts a circuit breaker around another store.  A value reaches a store as the outcome of
  \<^verbatim>\<open>json.Marshal\<close> (a text or an error) and leaves it as text, checked by the decoder of the
  caller.  The etcd client is a parameter.  The contract that every store meets is the locale
  \<open>kv_store\<close>.
\<close>

section \<open>The contract\<close>

locale kv_store =
  fixes kv :: "'s \<Rightarrow> string \<Rightarrow> string option"
    and put :: "string \<Rightarrow> string result \<Rightarrow> 's \<Rightarrow> unit result \<times> 's"
    and get :: "(string \<Rightarrow> go_error option) \<Rightarrow> string \<Rightarrow> 's \<Rightarrow> string result \<times> 's"
    and delete :: "string \<Rightarrow> 's \<Rightarrow> unit result \<times> 's"
    and list :: "string list \<Rightarrow> string \<Rightarrow> 's \<Rightarrow> (string \<times> string) list result \<times> 's"
    and good_order :: "string list \<Rightarrow> 's \<Rightarrow> bool"
  assumes put_ok: "put k x s = (Ok u, s') \<Longrightarrow> \<exists>v. x = Ok v \<and> kv s' = (kv s)(k \<mapsto> v)"
    and put_err: "put k x s = (Err e, s') \<Longrightarrow> kv s' = kv s"
    and get_ok: "get chk k s = (Ok v, s') \<Longrightarrow> kv s k = Some v \<and> chk v = None \<and> kv s' = kv s"
    and get_err: "get chk k s = (Err e, s') \<Longrightarrow> kv s' = kv s"
    and delete_ok: "delete k s = (Ok u, s') \<Longrightarrow> kv s' = (kv s)(k := None)"
    and delete_err: "delete k s = (Err e, s') \<Longrightarrow> kv s' = kv s"
    and list_ok: "good_order ord s \<Longrightarrow> list ord p s = (Ok xs, s') \<Longrightarrow>
      distinct (map fst xs) \<and> (\<forall>k v. (k, v) \<in> set xs \<longleftrightarrow> HasPrefix k p \<and> kv s k = Some v) \<and> kv s' = kv s"
    and list_err: "list ord p s = (Err e, s') \<Longrightarrow> kv s' = kv s"
begin

lemma put_get:
  assumes "put k x s = (Ok u, s1)" "get chk k s1 = (Ok w, s2)"
  shows "x = Ok w"
proof -
  obtain v where v: "x = Ok v" "kv s1 = (kv s)(k \<mapsto> v)" using put_ok [OF assms(1)] by blast
  have "kv s1 k = Some w" using get_ok [OF assms(2)] by blast
  then show ?thesis using v by simp
qed

lemma delete_get_fails:
  assumes "delete k s = (Ok u, s1)"
  shows "\<exists>e s2. get chk k s1 = (Err e, s2)"
proof -
  obtain r s2 where g: "get chk k s1 = (r, s2)" by (metis prod.exhaust)
  then show ?thesis using get_ok [of chk k s1 _ s2] delete_ok [OF assms] by (cases r) auto
qed

lemma put_kv: "kv (snd (put k x s)) = (case fst (put k x s) of Inl e \<Rightarrow> kv s | Inr u \<Rightarrow> (kv s)(k := result_value x))"
proof -
  obtain r s' where p: "put k x s = (r, s')" by (metis prod.exhaust)
  then show ?thesis
  proof (cases r)
    case (Inl e)
    then show ?thesis using put_err p by simp
  next
    case (Inr u)
    then show ?thesis using put_ok [of k x s u s'] p by auto
  qed
qed

end

section \<open>The in-memory store\<close>

type_synonym MemoryStore = "string \<Rightarrow> string option"

definition NewMemoryStore :: MemoryStore where
  "NewMemoryStore = Map.empty"

definition key_not_found :: "string \<Rightarrow> go_error" where
  "key_not_found k = Errorf ''key not found: %s'' [FStr k]"

definition MS_Put :: "string \<Rightarrow> string result \<Rightarrow> MemoryStore \<Rightarrow> unit result \<times> MemoryStore" where
  "MS_Put key x s = (case x of Inl err \<Rightarrow> (Err err, s) | Inr data \<Rightarrow> (Ok (), s(key \<mapsto> data)))"

definition MS_Get :: "(string \<Rightarrow> go_error option) \<Rightarrow> string \<Rightarrow> MemoryStore \<Rightarrow> string result \<times> MemoryStore" where
  "MS_Get unmarshal key s =
     (case s key of
        None \<Rightarrow> (Err (key_not_found key), s)
      | Some data \<Rightarrow> (case unmarshal data of Some err \<Rightarrow> (Err err, s) | None \<Rightarrow> (Ok data, s)))"

definition MS_Delete :: "string \<Rightarrow> MemoryStore \<Rightarrow> unit result \<times> MemoryStore" where
  "MS_Delete key s = (Ok (), s(key := None))"

definition MS_List :: "string list \<Rightarrow> string \<Rightarrow> MemoryStore \<Rightarrow> (string \<times> string) list result \<times> MemoryStore" where
  "MS_List ord prefix s =
     (Ok (map (\<lambda>k. (k, the (s k))) (filter (\<lambda>k. HasPrefix k prefix) (filter (\<lambda>k. s k \<noteq> None) ord))), s)"

interpretation mem_store: kv_store "\<lambda>s. s" MS_Put MS_Get MS_Delete MS_List range_order
proof unfold_locales
  show "distinct (map fst xs) \<and> (\<forall>k v. (k, v) \<in> set xs \<longleftrightarrow> HasPrefix k p \<and> s k = Some v) \<and> s' = s"
    if "range_order ord s" "MS_List ord p s = (Ok xs, s')" for ord s p xs s'
    using that by (force simp: MS_List_def range_order_def comp_def)
qed (auto simp: MS_Put_def MS_Get_def MS_Delete_def MS_List_def split: sum.splits option.splits)

section \<open>The etcd store\<close>

text \<open>The calls of the etcd client the store makes: each takes a full key.\<close>

record 's etcd_client =
  ec_Put :: "string \<Rightarrow> string \<Rightarrow> 's \<Rightarrow> unit result \<times> 's"
  ec_Get :: "string \<Rightarrow> 's \<Rightarrow> (string \<times> string) list result"
  ec_GetPrefix :: "string \<Rightarrow> 's \<Rightarrow> (string \<times> string) list result"
  ec_Delete :: "string \<Rightarrow> 's \<Rightarrow> unit result \<times> 's"

record EtcdConfig =
  ecf_Endpoints :: "string list"
  ecf_DialTimeout :: duration
  ecf_Prefix :: string

text \<open>\<open>NewEtcdStore\<close>: the effective configuration, and what connecting and the health check give;
  the store is identified by its key prefix.\<close>

definition etcd_defaults :: "EtcdConfig \<Rightarrow> EtcdConfig" where
  "etcd_defaults cfg =
     \<lparr>ecf_Endpoints = (if ecf_Endpoints cfg = [] then [''localhost:2379''] else ecf_Endpoints cfg),
      ecf_DialTimeout = (if ecf_DialTimeout cfg = 0 then 5 * second else ecf_DialTimeout cfg),
      ecf_Prefix = (if ecf_Prefix cfg = [] then ''/hcv/'' else ecf_Prefix cfg)\<rparr>"

definition NewEtcdStore ::
  "(string list \<Rightarrow> duration \<Rightarrow> go_error option) \<Rightarrow> (string \<Rightarrow> go_error option) \<Rightarrow> EtcdConfig \<Rightarrow> string result" where
  "NewEtcdStore connect status cfg0 =
     (let cfg = etcd_defaults cfg0 in
      case connect (ecf_Endpoints cfg) (ecf_DialTimeout cfg) of
        Some err \<Rightarrow> Err (Errorf ''etcd connect: %w'' [FErr err])
      | None \<Rightarrow>
          (case status (hd (ecf_Endpoints cfg)) of
             Some err \<Rightarrow> Err (Errorf ''etcd health check: %w'' [FErr err])
           | None \<Rightarrow> Ok (ecf_Prefix cfg)))"

definition etcd_key :: "string \<Rightarrow> string \<Rightarrow> string" where
  "etcd_key prefix k = prefix @ k"

definition TrimPrefix :: "string \<Rightarrow> string \<Rightarrow> string" where
  "TrimPrefix s p = (if HasPrefix s p then drop (length p) s else s)"

definition ES_Put :: "'s etcd_client \<Rightarrow> string \<Rightarrow> string \<Rightarrow> string result \<Rightarrow> 's \<Rightarrow> unit result \<times> 's" where
  "ES_Put c prefix key x s =
     (case x of
        Inl err \<Rightarrow> (Err (Errorf ''marshal: %w'' [FErr err]), s)
      | Inr data \<Rightarrow> ec_Put c (etcd_key prefix key) data s)"

definition ES_Get ::
  "'s etcd_client \<Rightarrow> string \<Rightarrow> (string \<Rightarrow> go_error option) \<Rightarrow> string \<Rightarrow> 's \<Rightarrow> string result \<times> 's" where
  "ES_Get c prefix unmarshal key s =
     (case ec_Get c (etcd_key prefix key) s of
        Inl err \<Rightarrow> (Err err, s)
      | Inr [] \<Rightarrow> (Err (key_not_found key), s)
      | Inr (kv # kvs) \<Rightarrow> (case unmarshal (snd kv) of Some err \<Rightarrow> (Err err, s) | None \<Rightarrow> (Ok (snd kv), s)))"

definition ES_Delete :: "'s etcd_client \<Rightarrow> string \<Rightarrow> string \<Rightarrow> 's \<Rightarrow> unit result \<times> 's" where
  "ES_Delete c prefix key s = ec_Delete c (etcd_key prefix key) s"

definition ES_List ::
  "'s etcd_client \<Rightarrow> string \<Rightarrow> string list \<Rightarrow> string \<Rightarrow> 's \<Rightarrow> (string \<times> string) list result \<times> 's" where
  "ES_List c prefix ord p s =
     (case ec_GetPrefix c (etcd_key prefix p) s of
        Inl err \<Rightarrow> (Err err, s)
      | Inr kvs \<Rightarrow> (Ok (map (\<lambda>(k, v). (TrimPrefix k prefix, v)) kvs), s))"

text \<open>\<open>NewStore\<close>: which store the endpoints select, \<open>None\<close> for the in-memory one.\<close>

definition NewStore ::
  "(string list \<Rightarrow> duration \<Rightarrow> go_error option) \<Rightarrow> (string \<Rightarrow> go_error option) \<Rightarrow> string \<Rightarrow> string option" where
  "NewStore connect status endpoints =
     (if endpoints = [] then None
      else result_value (NewEtcdStore connect status
             \<lparr>ecf_Endpoints = split_char (CHR '','') endpoints, ecf_DialTimeout = 0, ecf_Prefix = []\<rparr>))"

section \<open>The resilient store\<close>

definition NewResilientStore :: "'s \<Rightarrow> CircuitBreaker \<times> 's" where
  "NewResilientStore inner = (NewCircuitBreaker ''etcd-store'' 5 (30 * second), inner)"

text \<open>Every call goes through \<open>Execute\<close> at the clock readings \<open>t0\<close> and \<open>t1\<close>.\<close>

definition through :: "gotime \<Rightarrow> gotime \<Rightarrow> ('s \<Rightarrow> 'a result \<times> 's) \<Rightarrow> CircuitBreaker \<times> 's \<Rightarrow> 'a result \<times> CircuitBreaker \<times> 's" where
  "through t0 t1 f = (\<lambda>(cb, s). cb_Execute t0 t1 f cb s)"

definition RS_Put where
  "RS_Put t0 t1 put key x = through t0 t1 (put key x)"

definition RS_Get where
  "RS_Get t0 t1 get unmarshal key = through t0 t1 (get unmarshal key)"

definition RS_Delete where
  "RS_Delete t0 t1 delete key = through t0 t1 (delete key)"

definition RS_List where
  "RS_List t0 t1 list ord prefix = through t0 t1 (list ord prefix)"

definition CircuitState :: "CircuitBreaker \<times> 's \<Rightarrow> string" where
  "CircuitState s = cb_State_String (cb_GetState (fst s))"

lemma through_ok: "through t0 t1 f s = (Ok v, s') \<Longrightarrow> f (snd s) = (Ok v, snd s')"
  by (auto simp: through_def cb_Execute_def Let_def split: prod.splits if_splits)

lemma through_err:
  "through t0 t1 f s = (Err e, s') \<Longrightarrow> snd s' = snd s \<or> f (snd s) = (Err e, snd s')"
  by (auto simp: through_def cb_Execute_def Let_def split: prod.splits if_splits)

text \<open>A store behind a breaker is a store again.\<close>

locale resilient_store = kv_store

sublocale resilient_store \<subseteq> res: kv_store "\<lambda>s. kv (snd s)" "RS_Put t0 t1 put" "RS_Get t0 t1 get" "RS_Delete t0 t1 delete"
  "RS_List t0 t1 list" "\<lambda>ord s. good_order ord (snd s)" for t0 t1
proof unfold_locales
  show "\<exists>v. x = Ok v \<and> kv (snd s') = (kv (snd s))(k \<mapsto> v)" if "RS_Put t0 t1 put k x s = (Ok u, s')" for k x s u s'
    using put_ok [OF through_ok [OF that [unfolded RS_Put_def]]] .
  show "kv (snd s') = kv (snd s)" if "RS_Put t0 t1 put k x s = (Err e, s')" for k x s e s'
    using through_err [OF that [unfolded RS_Put_def]] put_err by metis
  show "kv (snd s) k = Some v \<and> chk v = None \<and> kv (snd s') = kv (snd s)" if "RS_Get t0 t1 get chk k s = (Ok v, s')" for chk k s v s'
    using get_ok [OF through_ok [OF that [unfolded RS_Get_def]]] .
  show "kv (snd s') = kv (snd s)" if "RS_Get t0 t1 get chk k s = (Err e, s')" for chk k s e s'
    using through_err [OF that [unfolded RS_Get_def]] get_err by metis
  show "kv (snd s') = (kv (snd s))(k := None)" if "RS_Delete t0 t1 delete k s = (Ok u, s')" for k s u s'
    using delete_ok [OF through_ok [OF that [unfolded RS_Delete_def]]] .
  show "kv (snd s') = kv (snd s)" if "RS_Delete t0 t1 delete k s = (Err e, s')" for k s e s'
    using through_err [OF that [unfolded RS_Delete_def]] delete_err by metis
  show "distinct (map fst xs) \<and> (\<forall>k v. (k, v) \<in> set xs \<longleftrightarrow> HasPrefix k p \<and> kv (snd s) k = Some v) \<and> kv (snd s') = kv (snd s)"
    if "good_order ord (snd s)" "RS_List t0 t1 list ord p s = (Ok xs, s')" for ord s p xs s'
    using list_ok [OF that(1) through_ok [OF that(2) [unfolded RS_List_def]]] .
  show "kv (snd s') = kv (snd s)" if "RS_List t0 t1 list ord p s = (Err e, s')" for ord p s e s'
    using through_err [OF that [unfolded RS_List_def]] list_err by metis
qed

interpretation resilient_mem: resilient_store "\<lambda>s. s" MS_Put MS_Get MS_Delete MS_List range_order
  by unfold_locales

section \<open>Requests through the breaker\<close>

datatype kv_op =
    KPut string "string result"
  | KGet "string \<Rightarrow> go_error option" string
  | KDelete string
  | KList "string list" string

fun rs_exec :: "gotime \<times> gotime \<times> kv_op \<Rightarrow> CircuitBreaker \<times> MemoryStore \<Rightarrow> bool \<times> CircuitBreaker \<times> MemoryStore" where
  "rs_exec (t0, t1, KPut k x) s = map_prod is_ok id (RS_Put t0 t1 MS_Put k x s)"
| "rs_exec (t0, t1, KGet chk k) s = map_prod is_ok id (RS_Get t0 t1 MS_Get chk k s)"
| "rs_exec (t0, t1, KDelete k) s = map_prod is_ok id (RS_Delete t0 t1 MS_Delete k s)"
| "rs_exec (t0, t1, KList ord p) s = map_prod is_ok id (RS_List t0 t1 MS_List ord p s)"

fun rs_run :: "(gotime \<times> gotime \<times> kv_op) list \<Rightarrow> CircuitBreaker \<times> MemoryStore \<Rightarrow> bool list \<times> CircuitBreaker \<times> MemoryStore" where
  "rs_run [] s = ([], s)"
| "rs_run (r # rs) s = (case rs_exec r s of (ok, s1) \<Rightarrow> case rs_run rs s1 of (oks, s2) \<Rightarrow> (ok # oks, s2))"

text \<open>The specification: a plain map on which only the requests that succeeded act.\<close>

fun kv_effect :: "kv_op \<Rightarrow> bool \<Rightarrow> MemoryStore \<Rightarrow> MemoryStore" where
  "kv_effect (KPut k x) ok m = (if ok then m(k := result_value x) else m)"
| "kv_effect (KDelete k) ok m = (if ok then m(k := None) else m)"
| "kv_effect (KGet chk k) ok m = m"
| "kv_effect (KList ord p) ok m = m"

lemma map_prod_is_ok: "map_prod is_ok id p = (ok, s') \<longleftrightarrow> (\<exists>r. p = (r, s') \<and> ok = is_ok r)"
  by (cases p) auto

lemma rs_exec_effect: "rs_exec (t0, t1, op) s = (ok, s') \<Longrightarrow> snd s' = kv_effect op ok (snd s)"
proof (cases op)
  case (KPut k x)
  assume "rs_exec (t0, t1, op) s = (ok, s')"
  then obtain r where r: "RS_Put t0 t1 MS_Put k x s = (r, s')" "ok = is_ok r" using KPut by (auto simp: map_prod_is_ok)
  then show ?thesis
    using resilient_mem.res.put_ok [of t0 t1 k x s _ s'] resilient_mem.res.put_err [of t0 t1 k x s _ s'] KPut by (cases r) auto
next
  case (KGet chk k)
  assume "rs_exec (t0, t1, op) s = (ok, s')"
  then obtain r where r: "RS_Get t0 t1 MS_Get chk k s = (r, s')" using KGet by (auto simp: map_prod_is_ok)
  then show ?thesis
    using resilient_mem.res.get_ok [of t0 t1 chk k s _ s'] resilient_mem.res.get_err [of t0 t1 chk k s _ s'] KGet by (cases r) auto
next
  case (KDelete k)
  assume "rs_exec (t0, t1, op) s = (ok, s')"
  then obtain r where r: "RS_Delete t0 t1 MS_Delete k s = (r, s')" "ok = is_ok r" using KDelete by (auto simp: map_prod_is_ok)
  then show ?thesis
    using resilient_mem.res.delete_ok [of t0 t1 k s _ s'] resilient_mem.res.delete_err [of t0 t1 k s _ s'] KDelete by (cases r) auto
next
  case (KList ord p)
  assume "rs_exec (t0, t1, op) s = (ok, s')"
  then show ?thesis
    using KList by (auto simp: map_prod_is_ok RS_List_def through_def cb_Execute_def MS_List_def Let_def split: prod.splits if_splits)
qed

lemma rs_run_effect: "rs_run rs s = (oks, s') \<Longrightarrow> snd s' = fold (\<lambda>((t0, t1, op), ok). kv_effect op ok) (zip rs oks) (snd s)"
proof (induction rs arbitrary: s oks s')
  case (Cons r rs)
  obtain t0 t1 op where r: "r = (t0, t1, op)" by (metis prod_cases3)
  obtain ok s1 where e: "rs_exec r s = (ok, s1)" by (metis prod.exhaust)
  obtain oks1 s2 where n: "rs_run rs s1 = (oks1, s2)" by (metis prod.exhaust)
  then show ?case using Cons.IH [OF n] Cons.prems e rs_exec_effect [of t0 t1 op s ok s1] by (auto simp: r)
qed auto

lemma rs_run_length: "rs_run rs s = (oks, s') \<Longrightarrow> length oks = length rs"
  by (induction rs arbitrary: s oks) (auto split: prod.splits)



lemma miss_step:
  assumes "m k = None" "cb_state cb = StateClosed" "cb_failureThreshold cb = 5" "cb_failureCount cb < 5"
  shows "rs_exec (t0, t1, KGet chk k) (cb, m) =
    (False, (let cb1 = cb\<lparr>cb_failureCount := cb_failureCount cb + 1, cb_lastFailure := t1\<rparr> in
             if cb_failureCount cb1 \<ge> 5 then cb1\<lparr>cb_state := StateOpen\<rparr> else cb1), m)"
  using assms by (simp add: RS_Get_def through_def cb_defs MS_Get_def Let_def)

text \<open>A lookup of a missing key counts as a failure of the store: after five of them in a
  row a healthy store rejects every request, writes included, until thirty seconds have
  passed.\<close>

theorem misses_block_writes:
  assumes "m k = None" "t \<le> t5 + 30 * second"
  shows "fst (RS_Put t t' MS_Put key (Ok v)
     (snd (rs_run [(a1, t1, KGet chk k), (a2, t2, KGet chk k), (a3, t3, KGet chk k), (a4, t4, KGet chk k), (a5, t5, KGet chk k)]
       (NewResilientStore m)))) = Err ErrCircuitOpen"
  using assms by (simp add: NewResilientStore_def NewCircuitBreaker_def miss_step Let_def RS_Put_def through_def cb_Execute_def cb_begin_def
      del: rs_exec.simps)

theorem misses_block_writes_witness:
  "fst (RS_Put 20 21 MS_Put ''vms/1'' (Ok ''{}'')
     (snd (rs_run [(0, 1, KGet (\<lambda>_. None) ''vms/9''), (0, 1, KGet (\<lambda>_. None) ''vms/9''), (0, 1, KGet (\<lambda>_. None) ''vms/9''),
                   (0, 1, KGet (\<lambda>_. None) ''vms/9''), (0, 1, KGet (\<lambda>_. None) ''vms/9'')]
       (NewResilientStore NewMemoryStore)))) = Err ErrCircuitOpen"
  by (rule misses_block_writes) (simp_all add: NewMemoryStore_def)

end
