(* ===== verification/Vmcore.thy ===== *)
theory Vmcore
  imports Prelude
begin

text \<open>
  Package \<^verbatim>\<open>pkg/ffi\<close>: the in-memory VM core \<^verbatim>\<open>MockVMCore\<close> behind the interface
  \<^verbatim>\<open>VMCoreBackend\<close>, with its state codes, error codes and transition table.  The
  abstract life cycle of a virtual machine (\<open>phase\<close>, \<open>lifecycle\<close>) is stated here too;
  the transition tables of all three VMM backends are shown to implement it.
  Every method runs under the mutex of the core, so each is one step.
\<close>

section \<open>The abstract life cycle\<close>

datatype phase = Created | Configured | Running | Paused | Stopped

fun phase_code :: "phase \<Rightarrow> int32" where
  "phase_code Created = 0"
| "phase_code Configured = 1"
| "phase_code Running = 2"
| "phase_code Paused = 3"
| "phase_code Stopped = 4"

fun phase_string :: "phase \<Rightarrow> string" where
  "phase_string Created = ''created''"
| "phase_string Configured = ''configured''"
| "phase_string Running = ''running''"
| "phase_string Paused = ''paused''"
| "phase_string Stopped = ''stopped''"

inductive lifecycle :: "phase \<Rightarrow> phase \<Rightarrow> bool" where
  configure: "lifecycle Created Configured"
| boot: "lifecycle Configured Running"
| discard: "lifecycle Configured Stopped"
| pause: "lifecycle Running Paused"
| halt: "lifecycle Running Stopped"
| resume: "lifecycle Paused Running"
| halt_paused: "lifecycle Paused Stopped"

code_pred lifecycle .

inductive_cases lifecycle_from_stopped [elim!]: "lifecycle Stopped q"
inductive_cases lifecycle_to_created [elim!]: "lifecycle p Created"
inductive_simps lifecycle_iff: "lifecycle p q"

lemma phase_code_inj [simp]: "phase_code p = phase_code q \<longleftrightarrow> p = q"
  by (cases p; cases q) simp_all

lemma phase_string_inj [simp]: "phase_string p = phase_string q \<longleftrightarrow> p = q"
  by (cases p; cases q) simp_all

lemma stopped_terminal: "lifecycle\<^sup>*\<^sup>* Stopped q \<Longrightarrow> q = Stopped"
  by (erule converse_rtranclpE) auto

lemma created_initial: "lifecycle\<^sup>*\<^sup>* p Created \<Longrightarrow> p = Created"
  by (erule rtranclp.cases) auto

section \<open>State and error codes\<close>

definition VMStateCreated :: int32 where "VMStateCreated = 0"
definition VMStateConfigured :: int32 where "VMStateConfigured = 1"
definition VMStateRunning :: int32 where "VMStateRunning = 2"
definition VMStatePaused :: int32 where "VMStatePaused = 3"
definition VMStateStopped :: int32 where "VMStateStopped = 4"

definition ErrNotFound :: int32 where "ErrNotFound = - 4"
definition ErrInvalidState :: int32 where "ErrInvalidState = - 5"

lemmas code_defs = VMStateCreated_def VMStateConfigured_def VMStateRunning_def
  VMStatePaused_def VMStateStopped_def ErrNotFound_def ErrInvalidState_def

definition stateTransitionAllowed :: "int32 \<Rightarrow> int32 \<Rightarrow> bool" where
  "stateTransitionAllowed from_s to_s =
     (if from_s = VMStateCreated \<and> to_s = VMStateConfigured then True
      else if from_s = VMStateConfigured \<and> to_s = VMStateRunning then True
      else if from_s = VMStateConfigured \<and> to_s = VMStateStopped then True
      else if from_s = VMStateRunning \<and> to_s = VMStatePaused then True
      else if from_s = VMStateRunning \<and> to_s = VMStateStopped then True
      else if from_s = VMStatePaused \<and> to_s = VMStateRunning then True
      else if from_s = VMStatePaused \<and> to_s = VMStateStopped then True
      else False)"

definition StateString :: "int32 \<Rightarrow> string" where
  "StateString state =
     (if state = VMStateCreated then ''created''
      else if state = VMStateConfigured then ''configured''
      else if state = VMStateRunning then ''running''
      else if state = VMStatePaused then ''paused''
      else if state = VMStateStopped then ''stopped''
      else Sprintf ''unknown(%d)'' [FInt (sint state)])"

lemma StateString_phase [simp]: "StateString (phase_code p) = phase_string p"
  by (cases p) (simp_all add: StateString_def code_defs)

lemma stateTransitionAllowed_phase:
  "stateTransitionAllowed (phase_code p) (phase_code q) \<longleftrightarrow> lifecycle p q"
  by (cases p; cases q) (simp_all add: stateTransitionAllowed_def code_defs lifecycle_iff)

lemma range_phase_code: "range phase_code = {0, 1, 2, 3, 4}"
  by (auto simp: image_def) (metis phase.exhaust phase_code.simps, (metis phase_code.simps)+)

lemma stateTransitionAllowed_codes:
  assumes "stateTransitionAllowed c d"
  obtains p q where "c = phase_code p" "d = phase_code q" "lifecycle p q"
proof -
  from assms have "c \<in> range phase_code" "d \<in> range phase_code"
    by (auto simp: stateTransitionAllowed_def code_defs range_phase_code split: if_splits)
  with assms that show thesis
    by (metis imageE stateTransitionAllowed_phase)
qed

section \<open>The core\<close>

record mockVM =
  mv_handle :: int32
  mv_state :: int32
  mv_vcpus :: uint32
  mv_memoryMB :: uint64

record MockVMCore =
  core_vms :: "int32 \<Rightarrow> mockVM option"
  core_nextHandle :: int32
  core_initialized :: bool

definition NewMockVMCore :: MockVMCore where
  "NewMockVMCore = \<lparr>core_vms = Map.empty, core_nextHandle = 1, core_initialized = False\<rparr>"

definition Core_Init :: "MockVMCore \<Rightarrow> unit result \<times> MockVMCore" where
  "Core_Init m = (Ok (), m\<lparr>core_initialized := True\<rparr>)"

definition Core_Shutdown :: "MockVMCore \<Rightarrow> MockVMCore" where
  "Core_Shutdown m = m\<lparr>core_initialized := False, core_vms := Map.empty\<rparr>"

definition Core_CreateVM :: "MockVMCore \<Rightarrow> int32 result \<times> MockVMCore" where
  "Core_CreateVM m =
     (let next' = core_nextHandle m + 1; handle = next' - 1 in
      (Ok handle,
       m\<lparr>core_nextHandle := next',
         core_vms := (core_vms m)(handle \<mapsto>
           \<lparr>mv_handle = handle, mv_state = VMStateCreated, mv_vcpus = 0, mv_memoryMB = 0\<rparr>)\<rparr>))"

definition Core_DestroyVM :: "int32 \<Rightarrow> MockVMCore \<Rightarrow> unit result \<times> MockVMCore" where
  "Core_DestroyVM handle m =
     (case core_vms m handle of
        None \<Rightarrow> (Err (FFIError ErrNotFound ''vm_destroy''), m)
      | Some _ \<Rightarrow> (Ok (), m\<lparr>core_vms := (core_vms m)(handle := None)\<rparr>))"

definition Core_ConfigureVM ::
  "int32 \<Rightarrow> uint32 \<Rightarrow> uint64 \<Rightarrow> MockVMCore \<Rightarrow> unit result \<times> MockVMCore" where
  "Core_ConfigureVM handle vcpus memoryMB m =
     (case core_vms m handle of
        None \<Rightarrow> (Err (FFIError ErrNotFound ''vm_configure''), m)
      | Some vm \<Rightarrow>
          if \<not> stateTransitionAllowed (mv_state vm) VMStateConfigured
          then (Err (FFIError ErrInvalidState ''vm_configure''), m)
          else (Ok (), m\<lparr>core_vms := (core_vms m)(handle \<mapsto>
                  vm\<lparr>mv_state := VMStateConfigured, mv_vcpus := vcpus, mv_memoryMB := memoryMB\<rparr>)\<rparr>))"

definition Core_transitionVM ::
  "int32 \<Rightarrow> int32 \<Rightarrow> string \<Rightarrow> MockVMCore \<Rightarrow> unit result \<times> MockVMCore" where
  "Core_transitionVM handle targetState op m =
     (case core_vms m handle of
        None \<Rightarrow> (Err (FFIError ErrNotFound op), m)
      | Some vm \<Rightarrow>
          if \<not> stateTransitionAllowed (mv_state vm) targetState
          then (Err (FFIError ErrInvalidState op), m)
          else (Ok (), m\<lparr>core_vms := (core_vms m)(handle \<mapsto> vm\<lparr>mv_state := targetState\<rparr>)\<rparr>))"

definition Core_StartVM :: "int32 \<Rightarrow> MockVMCore \<Rightarrow> unit result \<times> MockVMCore" where
  "Core_StartVM handle = Core_transitionVM handle VMStateRunning ''vm_start''"

definition Core_StopVM :: "int32 \<Rightarrow> MockVMCore \<Rightarrow> unit result \<times> MockVMCore" where
  "Core_StopVM handle = Core_transitionVM handle VMStateStopped ''vm_stop''"

definition Core_PauseVM :: "int32 \<Rightarrow> MockVMCore \<Rightarrow> unit result \<times> MockVMCore" where
  "Core_PauseVM handle = Core_transitionVM handle VMStatePaused ''vm_pause''"

definition Core_ResumeVM :: "int32 \<Rightarrow> MockVMCore \<Rightarrow> unit result \<times> MockVMCore" where
  "Core_ResumeVM handle m =
     (case core_vms m handle of
        None \<Rightarrow> (Err (FFIError ErrNotFound ''vm_resume''), m)
      | Some vm \<Rightarrow>
          if mv_state vm \<noteq> VMStatePaused
          then (Err (FFIError ErrInvalidState ''vm_resume''), m)
          else (Ok (), m\<lparr>core_vms := (core_vms m)(handle \<mapsto> vm\<lparr>mv_state := VMStateRunning\<rparr>)\<rparr>))"

definition Core_GetVMState :: "int32 \<Rightarrow> MockVMCore \<Rightarrow> int32 result" where
  "Core_GetVMState handle m =
     (case core_vms m handle of
        None \<Rightarrow> Err (FFIError ErrNotFound ''vm_get_state'')
      | Some vm \<Rightarrow> Ok (mv_state vm))"

definition Core_VMCount :: "MockVMCore \<Rightarrow> int32" where
  "Core_VMCount m = word_of_nat (map_len (core_vms m))"

lemmas core_ops = Core_Init_def Core_Shutdown_def Core_CreateVM_def Core_DestroyVM_def
  Core_ConfigureVM_def Core_transitionVM_def Core_StartVM_def Core_StopVM_def Core_PauseVM_def
  Core_ResumeVM_def Core_GetVMState_def

section \<open>Runs of the core\<close>

datatype core_op =
    OpInit | OpShutdown | OpCreate | OpDestroy int32 | OpConfigure int32 uint32 uint64
  | OpStart int32 | OpStop int32 | OpPause int32 | OpResume int32

fun core_exec :: "core_op \<Rightarrow> MockVMCore \<Rightarrow> MockVMCore" where
  "core_exec OpInit m = snd (Core_Init m)"
| "core_exec OpShutdown m = Core_Shutdown m"
| "core_exec OpCreate m = snd (Core_CreateVM m)"
| "core_exec (OpDestroy h) m = snd (Core_DestroyVM h m)"
| "core_exec (OpConfigure h c mb) m = snd (Core_ConfigureVM h c mb m)"
| "core_exec (OpStart h) m = snd (Core_StartVM h m)"
| "core_exec (OpStop h) m = snd (Core_StopVM h m)"
| "core_exec (OpPause h) m = snd (Core_PauseVM h m)"
| "core_exec (OpResume h) m = snd (Core_ResumeVM h m)"

definition core_run :: "core_op list \<Rightarrow> MockVMCore \<Rightarrow> MockVMCore" where
  "core_run ops m = fold core_exec ops m"

text \<open>The invariant: the handle stored in an entry is its key, its state code is one of
  the five states, and every handle lies below the counter.\<close>

definition core_ok :: "MockVMCore \<Rightarrow> bool" where
  "core_ok m \<longleftrightarrow> 1 \<le> sint (core_nextHandle m) \<and>
     (\<forall>h vm. core_vms m h = Some vm \<longrightarrow>
        mv_handle vm = h \<and> mv_state vm \<in> range phase_code
        \<and> 1 \<le> sint h \<and> sint h < sint (core_nextHandle m))"

lemma core_ok_New [simp]: "core_ok NewMockVMCore"
  by (simp add: core_ok_def NewMockVMCore_def)

lemma core_ok_below: "core_ok m \<Longrightarrow> core_vms m h = Some vm \<Longrightarrow> sint h < sint (core_nextHandle m)"
  by (auto simp: core_ok_def)

lemma core_ok_phase: "core_ok m \<Longrightarrow> core_vms m h = Some vm \<Longrightarrow> \<exists>p. mv_state vm = phase_code p"
  by (auto simp: core_ok_def)

lemma core_ok_set_state:
  "core_ok m \<Longrightarrow> core_vms m h = Some mv \<Longrightarrow>
     core_ok (m\<lparr>core_vms := (core_vms m)(h \<mapsto> mv\<lparr>mv_state := phase_code p\<rparr>)\<rparr>)"
  by (simp add: core_ok_def)

lemma codes_in_range [simp]:
  "VMStateCreated \<in> range phase_code" "VMStateConfigured \<in> range phase_code"
  "VMStateRunning \<in> range phase_code" "VMStatePaused \<in> range phase_code"
  "VMStateStopped \<in> range phase_code"
  by (simp_all add: range_phase_code code_defs)

lemma core_exec_next:
  "core_nextHandle (core_exec op m) = (if op = OpCreate then core_nextHandle m + 1 else core_nextHandle m)"
  by (cases op) (auto simp: core_ops Let_def split: option.splits)

lemma core_exec_ok:
  assumes "core_ok m" "sint (core_nextHandle m) < 2147483647"
  shows "core_ok (core_exec op m)"
proof (cases op)
  case OpCreate
  then show ?thesis
    using assms by (fastforce simp: core_ok_def core_ops Let_def sint_add_one)
qed (use assms in \<open>auto simp: core_ok_def core_ops split: option.splits\<close>)

lemma core_exec_next_le:
  assumes "sint (core_nextHandle m) < 2147483647"
  shows "sint (core_nextHandle (core_exec op m)) \<le> sint (core_nextHandle m) + 1"
  using assms by (simp add: core_exec_next sint_add_one)

lemma core_run_ok:
  "core_ok m \<Longrightarrow> sint (core_nextHandle m) + int (length ops) \<le> 2147483647 \<Longrightarrow> core_ok (core_run ops m)"
proof (induction ops arbitrary: m)
  case (Cons op ops)
  have lt: "sint (core_nextHandle m) < 2147483647" using Cons.prems by simp
  have "sint (core_nextHandle (core_exec op m)) + int (length ops) \<le> 2147483647"
    using core_exec_next_le [OF lt, of op] Cons.prems by simp
  then show ?case
    using Cons.IH [OF core_exec_ok [OF Cons.prems(1) lt]] by (simp add: core_run_def)
qed (simp add: core_run_def)

text \<open>One operation moves a virtual machine that exists before and after it along at
  most one edge of the life cycle, unless the operation is the creation of that very
  handle (which the invariant excludes).\<close>

lemma core_exec_lifecycle:
  assumes ok: "core_ok m" and lt: "sint (core_nextHandle m) < 2147483647"
    and vm: "core_vms m h = Some vm" and vm': "core_vms (core_exec op m) h = Some vm'"
  shows "\<exists>p q. mv_state vm = phase_code p \<and> mv_state vm' = phase_code q \<and> lifecycle\<^sup>=\<^sup>= p q"
proof -
  obtain p where p: "mv_state vm = phase_code p"
    using core_ok_phase [OF ok vm] by blast
  have ne: "h \<noteq> core_nextHandle m" using ok vm by (auto simp: core_ok_def)
  have same: ?thesis if "vm' = vm" using p that by auto
  have move: ?thesis if "stateTransitionAllowed (mv_state vm) (mv_state vm')"
    using that p by (metis stateTransitionAllowed_codes phase_code_inj sup2CI)
  have "vm' = vm \<or> stateTransitionAllowed (mv_state vm) (mv_state vm')"
    using vm vm' ne
    by (cases op) (auto simp: core_ops Let_def stateTransitionAllowed_def code_defs
        split: option.splits if_splits)
  then show ?thesis using same move by blast
qed

lemma core_exec_gone:
  assumes "core_vms m h = None" "sint h < sint (core_nextHandle m)"
  shows "core_vms (core_exec op m) h = None"
  using assms by (cases op) (auto simp: core_ops Let_def split: option.splits)

lemma core_run_gone:
  "core_vms m h = None \<Longrightarrow> sint h < sint (core_nextHandle m)
    \<Longrightarrow> sint (core_nextHandle m) + int (length ops) \<le> 2147483647 \<Longrightarrow> core_vms (core_run ops m) h = None"
proof (induction ops arbitrary: m)
  case (Cons op ops)
  have lt: "sint (core_nextHandle m) < 2147483647" using Cons.prems by simp
  have "sint (core_nextHandle (core_exec op m)) \<le> sint (core_nextHandle m) + 1"
    "sint (core_nextHandle m) \<le> sint (core_nextHandle (core_exec op m))"
    using lt by (auto simp: core_exec_next sint_add_one)
  then show ?case
    using Cons.IH [OF core_exec_gone [OF Cons.prems(1,2), of op]] Cons.prems
    by (simp add: core_run_def)
qed (simp add: core_run_def)



end
