(* ===== verification/Vmm_Backend.thy ===== *)
theory Vmm_Backend
  imports Vmcore
begin

text \<open>
  The data and the contract shared by the VMM backends of \<^verbatim>\<open>internal/compute\<close>: the
  record \<open>VMInfo\<close>, the life-cycle actions, and the interface \<^verbatim>\<open>VMMBackend\<close> of
  \<^verbatim>\<open>compute.go\<close> as the locale \<open>vmm_backend\<close>.  The backends of the next theories
  interpret it; what every backend guarantees over whole histories is proved here once.
\<close>

section \<open>VMInfo\<close>

text \<open>A Go map field that is nil behaves like an empty map when read; \<open>vmSnapshots\<close> does not
  distinguish the two.\<close>

record VMInfo =
  vmID :: int32
  vmName :: string
  vmState :: string
  vmVCPUs :: uint32
  vmMemoryMB :: uint64
  vmNode :: string
  vmBackend :: string
  vmType :: string
  vmRestartPolicy :: string
  vmCreatedAt :: gotime
  vmSnapshots :: "string \<Rightarrow> gotime option"
  vmRootFS :: string
  vmTemplate :: string
  vmArch :: string
  vmIPAddress :: string
  vmDiskPath :: string
  vmISOPath :: string
  vmNetworkMode :: string
  vmVNCPort :: int

text \<open>The composite literal that the \<open>CreateVM\<close> methods share; fields that a literal
  leaves out have Go's zero value.\<close>

definition new_VMInfo ::
  "int32 \<Rightarrow> string \<Rightarrow> uint32 \<Rightarrow> uint64 \<Rightarrow> string \<Rightarrow> string \<Rightarrow> gotime \<Rightarrow> VMInfo" where
  "new_VMInfo handle name vcpus memoryMB backend typ now =
     \<lparr>vmID = handle, vmName = name, vmState = ''configured'', vmVCPUs = vcpus,
      vmMemoryMB = memoryMB, vmNode = ''local'', vmBackend = backend, vmType = typ,
      vmRestartPolicy = ''always'', vmCreatedAt = now, vmSnapshots = Map.empty,
      vmRootFS = [], vmTemplate = [], vmArch = [], vmIPAddress = [], vmDiskPath = [],
      vmISOPath = [], vmNetworkMode = [], vmVNCPort = 0\<rparr>"

definition vm_not_found :: "int32 \<Rightarrow> go_error" where
  "vm_not_found handle = Errorf ''VM not found: %d'' [FInt (sint handle)]"

definition invalid_state_error :: go_error where
  "invalid_state_error = Errorf ''vmcore vm_action: invalid state (code=-5)'' []"

section \<open>Actions\<close>

datatype vm_action = Start | Stop | Pause | Resume

fun action_target :: "vm_action \<Rightarrow> phase" where
  "action_target Start = Running"
| "action_target Stop = Stopped"
| "action_target Pause = Paused"
| "action_target Resume = Running"

lemma action_target_not_Created [simp]: "action_target a \<noteq> Created"
  by (cases a) simp_all

datatype vm_op =
    VCreate string uint32 uint64 gotime
  | VDestroy int32
  | VAct vm_action int32
  | VTick int32

text \<open>A backend may depend on its environment (processes, sockets, the clock).  Each operation
  comes with the answers \<open>e\<close> the environment gives while it runs; \<open>tick\<close> is one round of the
  backend's background monitoring of a machine.\<close>

fun vmm_exec ::
  "('e \<Rightarrow> string \<Rightarrow> uint32 \<Rightarrow> uint64 \<Rightarrow> gotime \<Rightarrow> 'b \<Rightarrow> VMInfo result \<times> 'b) \<Rightarrow>
   ('e \<Rightarrow> int32 \<Rightarrow> 'b \<Rightarrow> unit result \<times> 'b) \<Rightarrow>
   ('e \<Rightarrow> vm_action \<Rightarrow> int32 \<Rightarrow> 'b \<Rightarrow> unit result \<times> 'b) \<Rightarrow>
   ('e \<Rightarrow> int32 \<Rightarrow> 'b \<Rightarrow> 'b) \<Rightarrow> 'e \<times> vm_op \<Rightarrow> 'b \<Rightarrow> 'b" where
  "vmm_exec create destroy act tick (e, VCreate n c m t) b = snd (create e n c m t b)"
| "vmm_exec create destroy act tick (e, VDestroy h) b = snd (destroy e h b)"
| "vmm_exec create destroy act tick (e, VAct a h) b = snd (act e a h b)"
| "vmm_exec create destroy act tick (e, VTick h) b = tick e h b"

text \<open>The fields that identify a machine; no life-cycle operation changes them.\<close>

definition same_machine :: "VMInfo \<Rightarrow> VMInfo \<Rightarrow> bool" where
  "same_machine v w \<longleftrightarrow> v\<lparr>vmState := []\<rparr> = w\<lparr>vmState := []\<rparr>"

lemma same_machine_refl [simp]: "same_machine v v"
  by (simp add: same_machine_def)

lemma same_machine_state [simp]: "same_machine v (v\<lparr>vmState := s\<rparr>)"
  by (simp add: same_machine_def)

lemma same_machine_trans: "same_machine u v \<Longrightarrow> same_machine v w \<Longrightarrow> same_machine u w"
  by (simp add: same_machine_def)

lemma same_machine_fields:
  "same_machine v w \<Longrightarrow> vmID v = vmID w \<and> vmName v = vmName w \<and> vmVCPUs v = vmVCPUs w
     \<and> vmMemoryMB v = vmMemoryMB w \<and> vmBackend v = vmBackend w \<and> vmNode v = vmNode w"
  unfolding same_machine_def
  by (metis VMInfo.select_convs VMInfo.update_convs(3) VMInfo.surjective)

section \<open>The contract\<close>

locale vmm_backend =
  fixes table :: "'b \<Rightarrow> int32 \<Rightarrow> VMInfo option"
    and next_handle :: "'b \<Rightarrow> int32"
    and ok :: "'b \<Rightarrow> bool"
    and bname :: string
    and create :: "'e \<Rightarrow> string \<Rightarrow> uint32 \<Rightarrow> uint64 \<Rightarrow> gotime \<Rightarrow> 'b \<Rightarrow> VMInfo result \<times> 'b"
    and destroy :: "'e \<Rightarrow> int32 \<Rightarrow> 'b \<Rightarrow> unit result \<times> 'b"
    and act :: "'e \<Rightarrow> vm_action \<Rightarrow> int32 \<Rightarrow> 'b \<Rightarrow> unit result \<times> 'b"
    and tick :: "'e \<Rightarrow> int32 \<Rightarrow> 'b \<Rightarrow> 'b"
    and get :: "int32 \<Rightarrow> 'b \<Rightarrow> VMInfo result"
  assumes get_spec:
      "get h b = (case table b h of None \<Rightarrow> Err (vm_not_found h) | Some vm \<Rightarrow> Ok vm)"
    and ok_entry: "ok b \<Longrightarrow> table b h = Some vm \<Longrightarrow>
      vmID vm = h \<and> vmBackend vm = bname \<and> (\<exists>p. vmState vm = phase_string p \<and> p \<noteq> Created) \<and> sint h < sint (next_handle b)"
    and create_ok: "ok b \<Longrightarrow> sint (next_handle b) < 2147483647 \<Longrightarrow> ok (snd (create e n c m t b))"
    and create_next: "next_handle (snd (create e n c m t b)) = next_handle b + 1"
    and create_table: "ok b \<Longrightarrow> create e n c m t b = (r, b') \<Longrightarrow>
      (case r of
         Inl err \<Rightarrow> table b' = table b
       | Inr vm \<Rightarrow> table b' = (table b)(next_handle b \<mapsto> vm) \<and> vmID vm = next_handle b \<and> vmName vm = n
           \<and> vmState vm = ''configured'' \<and> vmVCPUs vm = c \<and> vmMemoryMB vm = m \<and> vmNode vm = ''local''
           \<and> vmBackend vm = bname)"
    and destroy_ok: "ok b \<Longrightarrow> ok (snd (destroy e h b))"
    and destroy_next: "next_handle (snd (destroy e h b)) = next_handle b"
    and destroy_table: "ok b \<Longrightarrow> destroy e h b = (rd, b') \<Longrightarrow>
      table b' = (table b)(h := None) \<and> (is_ok rd \<longleftrightarrow> table b h \<noteq> None)"
    and act_preserves: "ok b \<Longrightarrow> ok (snd (act e a h b))"
    and act_next: "next_handle (snd (act e a h b)) = next_handle b"
    and act_table: "ok b \<Longrightarrow> act e a h b = (rd, b') \<Longrightarrow>
      (case rd of
         Inl err \<Rightarrow> table b' = table b
       | Inr u \<Rightarrow> (\<exists>vm p. table b h = Some vm \<and> vmState vm = phase_string p \<and> lifecycle p (action_target a)
             \<and> table b' = (table b)(h \<mapsto> vm\<lparr>vmState := phase_string (action_target a)\<rparr>)))"
    and tick_preserves: "ok b \<Longrightarrow> ok (tick e h b)"
    and tick_next: "next_handle (tick e h b) = next_handle b"
    and tick_table: "ok b \<Longrightarrow> table (tick e h b) = table b \<or>
      (\<exists>vm. table b h = Some vm \<and> table (tick e h b) = (table b)(h \<mapsto> vm\<lparr>vmState := ''stopped''\<rparr>))"
begin

abbreviation exec :: "'e \<times> vm_op \<Rightarrow> 'b \<Rightarrow> 'b" where
  "exec \<equiv> vmm_exec create destroy act tick"

lemma exec_ok: "ok b \<Longrightarrow> sint (next_handle b) < 2147483647 \<Longrightarrow> ok (exec op b)"
  by (cases "(create, destroy, act, tick, op, b)" rule: vmm_exec.cases)
    (simp_all add: create_ok destroy_ok act_preserves tick_preserves)

lemma exec_next:
  assumes "sint (next_handle b) < 2147483647"
  shows "sint (next_handle b) \<le> sint (next_handle (exec op b))"
    and "sint (next_handle (exec op b)) \<le> sint (next_handle b) + 1"
  using assms by (cases "(create, destroy, act, tick, op, b)" rule: vmm_exec.cases;
      simp add: create_next destroy_next act_next tick_next sint_add_one)+

lemma create_get:
  assumes "ok b" "create e n c m t b = (Inr vm, b')"
  shows "get (vmID vm) b' = Ok vm" and "h \<noteq> vmID vm \<Longrightarrow> get h b' = get h b"
  using create_table [OF assms] by (auto simp: get_spec)

lemma create_fresh:
  assumes "ok b" "create e n c m t b = (Inr vm, b')"
  shows "table b (vmID vm) = None"
proof (rule ccontr)
  assume "table b (vmID vm) \<noteq> None"
  then obtain w where "table b (vmID vm) = Some w" by blast
  from ok_entry [OF assms(1) this] have "sint (vmID vm) < sint (next_handle b)" by blast
  with create_table [OF assms] show False by simp
qed

lemma destroy_get:
  assumes "ok b" "destroy e h b = (r, b')"
  shows "get h b' = Err (vm_not_found h)" and "h' \<noteq> h \<Longrightarrow> get h' b' = get h' b"
  using destroy_table [OF assms] by (auto simp: get_spec)

lemma act_other:
  assumes "ok b" "act e a h b = (r, b')" "h' \<noteq> h"
  shows "get h' b' = get h' b"
  using act_table [OF assms(1,2)] assms(3) by (auto simp: get_spec split: sum.splits)

lemma exec_gone:
  assumes "ok b" "table b h = None" "sint h < sint (next_handle b)"
  shows "table (exec op b) h = None"
proof (cases "(create, destroy, act, tick, op, b)" rule: vmm_exec.cases)
  case (1 cr de ac ti e n c m t b0)
  obtain r b' where c: "create e n c m t b = (r, b')" by (metis prod.exhaust)
  show ?thesis using create_table [OF assms(1) c] assms(2,3) 1 c by (auto split: sum.splits)
next
  case (2 cr de ac ti e h' b0)
  obtain r b' where c: "destroy e h' b = (r, b')" by (metis prod.exhaust)
  show ?thesis using destroy_table [OF assms(1) c] assms(2) 2 c by auto
next
  case (3 cr de ac ti e a h' b0)
  obtain r b' where c: "act e a h' b = (r, b')" by (metis prod.exhaust)
  show ?thesis using act_table [OF assms(1) c] assms(2) 3 c by (auto split: sum.splits)
next
  case (4 cr de ac ti e h' b0)
  show ?thesis using tick_table [OF assms(1), of e h'] assms(2) 4 by auto
qed

lemma exec_move:
  assumes "ok b" "table b h = Some vm" "table (exec op b) h = Some vm'"
  shows "same_machine vm vm' \<and> (\<exists>p q. vmState vm = phase_string p \<and> vmState vm' = phase_string q
     \<and> lifecycle\<^sup>=\<^sup>= p q)"
proof (cases "(create, destroy, act, tick, op, b)" rule: vmm_exec.cases)
  case (1 cr de ac ti e n c m t b0)
  obtain r b' where c: "create e n c m t b = (r, b')" by (metis prod.exhaust)
  show ?thesis using create_table [OF assms(1) c] ok_entry [OF assms(1,2)] assms(2,3) 1 c
    by (auto split: sum.splits if_splits)
next
  case (2 cr de ac ti e h' b0)
  obtain r b' where c: "destroy e h' b = (r, b')" by (metis prod.exhaust)
  show ?thesis using destroy_table [OF assms(1) c] ok_entry [OF assms(1,2)] assms(2,3) 2 c
    by (auto split: if_splits)
next
  case (3 cr de ac ti e a h' b0)
  obtain r b' where c: "act e a h' b = (r, b')" by (metis prod.exhaust)
  show ?thesis using act_table [OF assms(1) c] ok_entry [OF assms(1,2)] assms(2,3) 3 c
    by (auto split: sum.splits if_splits)
next
  case (4 cr de ac ti e h' b0)
  obtain p where p: "vmState vm = phase_string p" "p \<noteq> Created"
    using ok_entry [OF assms(1,2)] by blast
  then have "lifecycle\<^sup>=\<^sup>= p Stopped" by (cases p) (auto intro: lifecycle.intros)
  moreover have "vm' = vm \<or> vm' = vm\<lparr>vmState := phase_string Stopped\<rparr>"
    using tick_table [OF assms(1), of e h'] assms(2,3) 4 by (auto split: if_splits)
  ultimately show ?thesis using p(1) by (auto intro: exI [of _ p] exI [of _ Stopped])
qed

lemma run_ok:
  "ok b \<Longrightarrow> sint (next_handle b) + int (length ops) \<le> 2147483647 \<Longrightarrow> ok (fold exec ops b)"
proof (induction ops arbitrary: b)
  case (Cons op ops)
  have lt: "sint (next_handle b) < 2147483647" using Cons.prems by simp
  show ?case
    using Cons.IH [OF exec_ok [OF Cons.prems(1) lt]] exec_next [OF lt, of op] Cons.prems by simp
qed simp

lemma run_gone:
  "ok b \<Longrightarrow> table b h = None \<Longrightarrow> sint h < sint (next_handle b)
    \<Longrightarrow> sint (next_handle b) + int (length ops) \<le> 2147483647 \<Longrightarrow> table (fold exec ops b) h = None"
proof (induction ops arbitrary: b)
  case (Cons op ops)
  have lt: "sint (next_handle b) < 2147483647" using Cons.prems by simp
  show ?case
    using Cons.IH [OF exec_ok [OF Cons.prems(1) lt] exec_gone [OF Cons.prems(1-3), of op]]
      exec_next [OF lt, of op] Cons.prems by simp
qed simp

theorem run_history:
  assumes "ok b" "sint (next_handle b) + int (length ops) \<le> 2147483647"
    and "table b h = Some vm" "table (fold exec ops b) h = Some vm'"
  shows "same_machine vm vm' \<and> (\<exists>p q. vmState vm = phase_string p \<and> vmState vm' = phase_string q
     \<and> lifecycle\<^sup>*\<^sup>* p q)"
  using assms
proof (induction ops arbitrary: b vm)
  case Nil
  then show ?case using ok_entry [OF Nil(1,3)] by auto
next
  case (Cons op ops)
  have lt: "sint (next_handle b) < 2147483647" using Cons.prems by simp
  note ok' = exec_ok [OF Cons.prems(1) lt, of op] and nx = exec_next [OF lt, of op]
  have below: "sint h < sint (next_handle (exec op b))"
    using ok_entry [OF Cons.prems(1,3)] nx by simp
  have bound: "sint (next_handle (exec op b)) + int (length ops) \<le> 2147483647"
    using nx Cons.prems(2) by simp
  obtain vm1 where vm1: "table (exec op b) h = Some vm1"
    using Cons.prems(4) run_gone [OF ok' _ below bound] by fastforce
  obtain p q where 1: "same_machine vm vm1" "vmState vm = phase_string p" "vmState vm1 = phase_string q"
      "lifecycle\<^sup>=\<^sup>= p q"
    using exec_move [OF Cons.prems(1,3) vm1] by blast
  obtain r where 2: "same_machine vm1 vm'" "vmState vm' = phase_string r" "lifecycle\<^sup>*\<^sup>* q r"
    using Cons.IH [OF ok' bound vm1] Cons.prems(4) 1(3) by auto
  have "lifecycle\<^sup>*\<^sup>* p r" using 1(4) 2(3) by (auto intro: converse_rtranclp_into_rtranclp)
  with 1 2 show ?case by (blast intro: same_machine_trans)
qed

end

text \<open>The in-memory modes never refuse a creation, and never refuse an action that the life
  cycle allows (resuming is promised from the paused state only).\<close>

locale vmm_backend_total = vmm_backend +
  assumes create_total: "ok b \<Longrightarrow> is_ok (fst (create e n c m t b))"
    and act_total: "ok b \<Longrightarrow> table b h = Some vm \<Longrightarrow> vmState vm = phase_string p \<Longrightarrow>
      lifecycle p (action_target a) \<Longrightarrow> (a = Resume \<longrightarrow> p = Paused) \<Longrightarrow> is_ok (fst (act e a h b))"
begin

lemma act_sequence:
  assumes "ok b" "table b h = Some vm" "vmState vm = ''configured''"
  shows "\<exists>b1 b2. act e Start h b = (Ok (), b1) \<and> act e Stop h b1 = (Ok (), b2)
     \<and> get h b2 = Ok (vm\<lparr>vmState := ''stopped''\<rparr>)"
proof -
  obtain r1 b1 where a1: "act e Start h b = (r1, b1)" by (metis prod.exhaust)
  have st: "vmState vm = phase_string Configured" using assms(3) by simp
  have r1: "r1 = Ok ()"
    using act_total [OF assms(1,2) st, of Start e] a1 by (cases r1) (auto intro: lifecycle.intros)
  have t1: "table b1 h = Some (vm\<lparr>vmState := phase_string Running\<rparr>)"
    using act_table [OF assms(1) a1] r1 assms(2) by auto
  have ok1: "ok b1" using act_preserves [OF assms(1), of e Start h] a1 by simp
  obtain r2 b2 where a2: "act e Stop h b1 = (r2, b2)" by (metis prod.exhaust)
  have r2: "r2 = Ok ()"
    using act_total [OF ok1 t1, of Running Stop e] a2 by (cases r2) (auto intro: lifecycle.intros)
  have "table b2 h = Some (vm\<lparr>vmState := phase_string Stopped\<rparr>)"
    using act_table [OF ok1 a2] r2 t1 by auto
  with a1 a2 r1 r2 show ?thesis by (simp add: get_spec)
qed

end

end
