(* ===== verification/Rust_Backend.thy ===== *)
theory Rust_Backend
  imports Vmm_Backend
begin

text \<open>
  \<^verbatim>\<open>RustVMMBackend\<close> of \<^verbatim>\<open>internal/compute/compute.go\<close>: the VM core behind the
  \<^verbatim>\<open>VMMBackend\<close> interface, with its own table of \<open>VMInfo\<close> values kept beside the core.
  The invariant \<open>rust_ok\<close> says that the two tables describe the same machines.
\<close>

section \<open>Operations\<close>

record RustVMMBackend =
  rb_core :: MockVMCore
  rb_vms :: "int32 \<Rightarrow> VMInfo option"

definition NewRustVMMBackend :: "MockVMCore \<Rightarrow> RustVMMBackend" where
  "NewRustVMMBackend core = \<lparr>rb_core = core, rb_vms = Map.empty\<rparr>"

definition RustVMM_CreateVM ::
  "string \<Rightarrow> uint32 \<Rightarrow> uint64 \<Rightarrow> gotime \<Rightarrow> RustVMMBackend \<Rightarrow> VMInfo result \<times> RustVMMBackend" where
  "RustVMM_CreateVM name vcpus memoryMB now b =
     (case Core_CreateVM (rb_core b) of
        (Inl err, core1) \<Rightarrow> (Err (Errorf ''rustvmm create: %w'' [FErr err]), b\<lparr>rb_core := core1\<rparr>)
      | (Inr handle, core1) \<Rightarrow>
          (case Core_ConfigureVM handle vcpus memoryMB core1 of
             (Inl err, core2) \<Rightarrow>
               (Err (Errorf ''rustvmm configure: %w'' [FErr err]),
                b\<lparr>rb_core := snd (Core_DestroyVM handle core2)\<rparr>)
           | (Inr _, core2) \<Rightarrow>
               let vm = new_VMInfo handle name vcpus memoryMB ''rustvmm'' ''vm'' now in
               (Ok vm, b\<lparr>rb_core := core2, rb_vms := (rb_vms b)(handle \<mapsto> vm)\<rparr>)))"

definition RustVMM_DestroyVM :: "int32 \<Rightarrow> RustVMMBackend \<Rightarrow> unit result \<times> RustVMMBackend" where
  "RustVMM_DestroyVM handle b =
     (case Core_DestroyVM handle (rb_core b) of
        (Inl err, core1) \<Rightarrow> (Err err, b\<lparr>rb_core := core1\<rparr>)
      | (Inr _, core1) \<Rightarrow> (Ok (), b\<lparr>rb_core := core1, rb_vms := (rb_vms b)(handle := None)\<rparr>))"

definition RustVMM_transitionVM ::
  "int32 \<Rightarrow> (int32 \<Rightarrow> MockVMCore \<Rightarrow> unit result \<times> MockVMCore) \<Rightarrow> RustVMMBackend
     \<Rightarrow> unit result \<times> RustVMMBackend" where
  "RustVMM_transitionVM handle coreFn b =
     (case coreFn handle (rb_core b) of
        (Inl err, core1) \<Rightarrow> (Err err, b\<lparr>rb_core := core1\<rparr>)
      | (Inr _, core1) \<Rightarrow>
          (case Core_GetVMState handle core1 of
             Inl err \<Rightarrow> (Err err, b\<lparr>rb_core := core1\<rparr>)
           | Inr stateCode \<Rightarrow>
               (Ok (), b\<lparr>rb_core := core1,
                  rb_vms := (case rb_vms b handle of
                               None \<Rightarrow> rb_vms b
                             | Some vm \<Rightarrow> (rb_vms b)(handle \<mapsto> vm\<lparr>vmState := StateString stateCode\<rparr>))\<rparr>)))"

definition RustVMM_StartVM :: "int32 \<Rightarrow> RustVMMBackend \<Rightarrow> unit result \<times> RustVMMBackend" where
  "RustVMM_StartVM handle = RustVMM_transitionVM handle Core_StartVM"

definition RustVMM_StopVM :: "int32 \<Rightarrow> RustVMMBackend \<Rightarrow> unit result \<times> RustVMMBackend" where
  "RustVMM_StopVM handle = RustVMM_transitionVM handle Core_StopVM"

definition RustVMM_PauseVM :: "int32 \<Rightarrow> RustVMMBackend \<Rightarrow> unit result \<times> RustVMMBackend" where
  "RustVMM_PauseVM handle = RustVMM_transitionVM handle Core_PauseVM"

definition RustVMM_ResumeVM :: "int32 \<Rightarrow> RustVMMBackend \<Rightarrow> unit result \<times> RustVMMBackend" where
  "RustVMM_ResumeVM handle = RustVMM_transitionVM handle Core_ResumeVM"

definition RustVMM_GetVM :: "int32 \<Rightarrow> RustVMMBackend \<Rightarrow> VMInfo result" where
  "RustVMM_GetVM handle b =
     (case rb_vms b handle of
        None \<Rightarrow> Err (Errorf ''VM not found: %d'' [FInt (sint handle)])
      | Some vm \<Rightarrow> Ok vm)"

definition RustVMM_ListVMs :: "int32 list \<Rightarrow> RustVMMBackend \<Rightarrow> VMInfo list" where
  "RustVMM_ListVMs ord b = map_values ord (rb_vms b)"

fun RustVMM_act :: "vm_action \<Rightarrow> int32 \<Rightarrow> RustVMMBackend \<Rightarrow> unit result \<times> RustVMMBackend" where
  "RustVMM_act Start h b = RustVMM_StartVM h b"
| "RustVMM_act Stop h b = RustVMM_StopVM h b"
| "RustVMM_act Pause h b = RustVMM_PauseVM h b"
| "RustVMM_act Resume h b = RustVMM_ResumeVM h b"

section \<open>The two tables agree\<close>

definition same_vm :: "mockVM \<Rightarrow> VMInfo \<Rightarrow> bool" where
  "same_vm mv vm \<longleftrightarrow> vmID vm = mv_handle mv \<and> vmState vm = StateString (mv_state mv)
     \<and> vmVCPUs vm = mv_vcpus mv \<and> vmMemoryMB vm = mv_memoryMB mv \<and> vmBackend vm = ''rustvmm'' \<and> mv_state mv \<noteq> VMStateCreated"

definition rust_ok :: "RustVMMBackend \<Rightarrow> bool" where
  "rust_ok b \<longleftrightarrow> core_ok (rb_core b) \<and>
     (\<forall>h. rel_option same_vm (core_vms (rb_core b) h) (rb_vms b h))"

lemma rust_ok_New [simp]: "rust_ok (NewRustVMMBackend NewMockVMCore)"
  by (simp add: rust_ok_def NewRustVMMBackend_def) (simp add: NewMockVMCore_def)

lemma rust_next_New [simp]: "core_nextHandle (rb_core (NewRustVMMBackend NewMockVMCore)) = 1"
  by (simp add: NewRustVMMBackend_def NewMockVMCore_def)

lemma rust_ok_rel: "rust_ok b \<Longrightarrow> rel_option same_vm (core_vms (rb_core b) h) (rb_vms b h)"
  by (simp add: rust_ok_def)

lemma rust_ok_none: "rust_ok b \<Longrightarrow> core_vms (rb_core b) h = None \<longleftrightarrow> rb_vms b h = None"
  using rust_ok_rel [of b h] by (auto simp: option.rel_sel)

lemma rust_ok_some:
  assumes "rust_ok b" "rb_vms b h = Some vm"
  obtains mv where "core_vms (rb_core b) h = Some mv" "same_vm mv vm"
    "mv_handle mv = h" "mv_state mv \<in> range phase_code" "sint h < sint (core_nextHandle (rb_core b))"
proof -
  obtain mv where "core_vms (rb_core b) h = Some mv" "same_vm mv vm"
    using rust_ok_rel [OF assms(1), of h] assms(2) by (auto simp: option_rel_Some2)
  moreover from this assms(1) have "mv_handle mv = h" "mv_state mv \<in> range phase_code"
    "sint h < sint (core_nextHandle (rb_core b))"
    by (auto simp: rust_ok_def core_ok_def)
  ultimately show thesis by (rule that)
qed

lemma rust_ok_core: "rust_ok b \<Longrightarrow> core_ok (rb_core b)"
  by (simp add: rust_ok_def)

text \<open>Every core call of the four actions either leaves the core alone and fails, or moves
  the machine along one edge of the life cycle.\<close>

fun core_action :: "vm_action \<Rightarrow> int32 \<Rightarrow> MockVMCore \<Rightarrow> unit result \<times> MockVMCore" where
  "core_action Start = Core_StartVM"
| "core_action Stop = Core_StopVM"
| "core_action Pause = Core_PauseVM"
| "core_action Resume = Core_ResumeVM"

lemma RustVMM_act_eq: "RustVMM_act a h b = RustVMM_transitionVM h (core_action a) b"
  by (cases a) (simp_all add: RustVMM_StartVM_def RustVMM_StopVM_def RustVMM_PauseVM_def RustVMM_ResumeVM_def)

lemma core_action_cases:
  "core_action a h m = (r, m') \<Longrightarrow>
     (case r of
        Inl e \<Rightarrow> m' = m
      | Inr u \<Rightarrow> (\<exists>mv. core_vms m h = Some mv
           \<and> stateTransitionAllowed (mv_state mv) (phase_code (action_target a))
           \<and> m' = m\<lparr>core_vms := (core_vms m)(h \<mapsto> mv\<lparr>mv_state := phase_code (action_target a)\<rparr>)\<rparr>))"
  by (cases a) (auto simp: core_ops code_defs stateTransitionAllowed_def split: option.splits if_splits)

lemma core_action_enabled:
  "core_vms m h = Some mv \<Longrightarrow> mv_state mv = phase_code p \<Longrightarrow> lifecycle p (action_target a)
    \<Longrightarrow> (a = Resume \<longrightarrow> p = Paused) \<Longrightarrow> is_ok (fst (core_action a h m))"
  by (cases a; cases p) (auto simp: core_ops code_defs stateTransitionAllowed_def lifecycle_iff)

lemma RustVMM_act_cases:
  assumes ok: "rust_ok b" and act: "RustVMM_act a h b = (r, b')"
  shows "(case r of
      Inl e \<Rightarrow> b' = b
    | Inr u \<Rightarrow> (\<exists>mv vm p. core_vms (rb_core b) h = Some mv \<and> rb_vms b h = Some vm
         \<and> mv_state mv = phase_code p \<and> lifecycle p (action_target a)
         \<and> b' = \<lparr>rb_core = (rb_core b)\<lparr>core_vms := (core_vms (rb_core b))(h \<mapsto> mv\<lparr>mv_state := phase_code (action_target a)\<rparr>)\<rparr>,
                 rb_vms = (rb_vms b)(h \<mapsto> vm\<lparr>vmState := phase_string (action_target a)\<rparr>)\<rparr>))"
proof -
  obtain rc m1 where c: "core_action a h (rb_core b) = (rc, m1)" by (metis prod.exhaust)
  note cc = core_action_cases [OF c]
  show ?thesis
  proof (cases rc)
    case (Inl e)
    then show ?thesis using cc c act by (auto simp: RustVMM_act_eq RustVMM_transitionVM_def)
  next
    case (Inr u)
    then obtain mv where mv: "core_vms (rb_core b) h = Some mv"
        "stateTransitionAllowed (mv_state mv) (phase_code (action_target a))"
        "m1 = (rb_core b)\<lparr>core_vms := (core_vms (rb_core b))(h \<mapsto> mv\<lparr>mv_state := phase_code (action_target a)\<rparr>)\<rparr>"
      using cc by auto
    obtain p where p: "mv_state mv = phase_code p" "lifecycle p (action_target a)"
      using mv(2) by (metis stateTransitionAllowed_codes phase_code_inj)
    obtain vm where vm: "rb_vms b h = Some vm"
      using rust_ok_none [OF ok, of h] mv(1) by auto
    show ?thesis
      using act Inr c mv(1) vm p
      by (auto simp: RustVMM_act_eq RustVMM_transitionVM_def Core_GetVMState_def mv(3))
  qed
qed

lemma phase_code_Created: "phase_code p = VMStateCreated \<longleftrightarrow> p = Created"
  by (cases p) (simp_all add: code_defs)

lemma same_vm_set_state:
  "same_vm mv vm \<Longrightarrow> p \<noteq> Created \<Longrightarrow> same_vm (mv\<lparr>mv_state := phase_code p\<rparr>) (vm\<lparr>vmState := phase_string p\<rparr>)"
  by (simp add: same_vm_def phase_code_Created)

lemma rust_ok_set_state:
  assumes "rust_ok b" "core_vms (rb_core b) h = Some mv" "rb_vms b h = Some vm" "p \<noteq> Created"
  shows "rust_ok \<lparr>rb_core = (rb_core b)\<lparr>core_vms := (core_vms (rb_core b))(h \<mapsto> mv\<lparr>mv_state := phase_code p\<rparr>)\<rparr>,
                  rb_vms = (rb_vms b)(h \<mapsto> vm\<lparr>vmState := phase_string p\<rparr>)\<rparr>"
proof -
  have "same_vm mv vm" using rust_ok_rel [OF assms(1), of h] assms(2,3) by simp
  then show ?thesis
    using assms by (simp add: rust_ok_def core_ok_set_state same_vm_set_state)
qed

lemma rust_act_ok:
  assumes ok: "rust_ok b"
  shows "rust_ok (snd (RustVMM_act a h b))"
proof -
  obtain r b' where act: "RustVMM_act a h b = (r, b')" by (metis prod.exhaust)
  show ?thesis
    using RustVMM_act_cases [OF ok act] ok act rust_ok_set_state [OF ok]
    by (cases r) auto
qed

lemma rust_create_eq:
  "RustVMM_CreateVM name vcpus memoryMB now b =
     (let h = core_nextHandle (rb_core b); vm = new_VMInfo h name vcpus memoryMB ''rustvmm'' ''vm'' now in
      (Ok vm,
       \<lparr>rb_core = (rb_core b)\<lparr>core_nextHandle := h + 1,
          core_vms := (core_vms (rb_core b))(h \<mapsto>
            \<lparr>mv_handle = h, mv_state = VMStateConfigured, mv_vcpus = vcpus, mv_memoryMB = memoryMB\<rparr>)\<rparr>,
        rb_vms = (rb_vms b)(h \<mapsto> vm)\<rparr>))"
  by (simp add: RustVMM_CreateVM_def core_ops Let_def stateTransitionAllowed_def code_defs)

lemma rust_create_ok:
  assumes "rust_ok b" "sint (core_nextHandle (rb_core b)) < 2147483647"
  shows "rust_ok (snd (RustVMM_CreateVM n c m t b))"
proof -
  let ?h = "core_nextHandle (rb_core b)"
  have "core_ok (rb_core (snd (RustVMM_CreateVM n c m t b)))"
    using assms by (fastforce simp: rust_create_eq Let_def core_ok_def rust_ok_def sint_add_one)
  moreover have "same_vm \<lparr>mv_handle = ?h, mv_state = VMStateConfigured, mv_vcpus = c, mv_memoryMB = m\<rparr>
      (new_VMInfo ?h n c m ''rustvmm'' ''vm'' t)"
    by (simp add: same_vm_def new_VMInfo_def StateString_def code_defs)
  ultimately show ?thesis
    using assms(1) by (auto simp: rust_create_eq Let_def rust_ok_def)
qed

lemma rust_destroy_eq:
  assumes "rust_ok b"
  shows "RustVMM_DestroyVM h b =
     (if rb_vms b h = None then (Err (FFIError ErrNotFound ''vm_destroy''), b)
      else (Ok (), b\<lparr>rb_core := (rb_core b)\<lparr>core_vms := (core_vms (rb_core b))(h := None)\<rparr>,
                    rb_vms := (rb_vms b)(h := None)\<rparr>))"
  using rust_ok_none [OF assms, of h]
  by (auto simp: RustVMM_DestroyVM_def core_ops split: option.splits)

lemma rust_destroy_ok: "rust_ok b \<Longrightarrow> rust_ok (snd (RustVMM_DestroyVM h b))"
  by (auto simp: rust_destroy_eq rust_ok_def core_ok_def)

lemma core_action_next: "core_nextHandle (snd (core_action a h m)) = core_nextHandle m"
proof -
  obtain r m' where c: "core_action a h m = (r, m')" by (metis prod.exhaust)
  show ?thesis using core_action_cases [OF c] c by (auto split: sum.splits)
qed

lemma rust_act_next:
  "core_nextHandle (rb_core (snd (RustVMM_act a h b))) = core_nextHandle (rb_core b)"
  using core_action_next [of a h "rb_core b"]
  by (auto simp: RustVMM_act_eq RustVMM_transitionVM_def split: prod.splits sum.splits)

section \<open>The contract holds\<close>

interpretation rust: vmm_backend_total rb_vms "\<lambda>b. core_nextHandle (rb_core b)" rust_ok "''rustvmm''"
  "\<lambda>_::unit. RustVMM_CreateVM" "\<lambda>_. RustVMM_DestroyVM" "\<lambda>_. RustVMM_act" "\<lambda>_ _ b. b" RustVMM_GetVM
proof (unfold_locales, goal_cases)
  case (1 h b)
  show ?case by (simp add: RustVMM_GetVM_def vm_not_found_def split: option.splits)
next
  case (2 b h vm)
  then obtain mv where "same_vm mv vm" "mv_handle mv = h"
    "mv_state mv \<in> range phase_code" "sint h < sint (core_nextHandle (rb_core b))"
    by (rule rust_ok_some)
  then show ?case using phase_code_Created by (auto simp: same_vm_def)
next
  case (3 b e n c m t)
  then show ?case by (rule rust_create_ok)
next
  case (4 e n c m t b)
  show ?case by (simp add: rust_create_eq Let_def)
next
  case (5 b e n c m t r b')
  then show ?case by (auto simp: rust_create_eq Let_def new_VMInfo_def)
next
  case (6 b e h)
  then show ?case by (rule rust_destroy_ok)
next
  case (7 e h b)
  show ?case
    by (auto simp: RustVMM_DestroyVM_def core_ops split: option.splits)
next
  case (8 b e h rd b')
  then show ?case by (auto simp: rust_destroy_eq split: if_splits)
next
  case (9 b e a h)
  then show ?case by (rule rust_act_ok)
next
  case (10 e a h b)
  show ?case by (rule rust_act_next)
next
  case (11 b e a h rd b')
  show ?case
    using RustVMM_act_cases [OF 11] rust_ok_some [OF 11(1)]
    by (fastforce simp: same_vm_def split: sum.splits)
next
  case (12 b e h)
  then show ?case by simp
next
  case (13 e h b)
  show ?case by simp
next
  case (14 b e h)
  show ?case by simp
next
  case (15 b e n c m t)
  show ?case by (simp add: rust_create_eq Let_def)
next
  case (16 b h vm p a e)
  obtain mv where mv: "core_vms (rb_core b) h = Some mv" "same_vm mv vm" "mv_state mv \<in> range phase_code"
    using rust_ok_some [OF 16(1,2)] by metis
  then have "mv_state mv = phase_code p" using 16(3) by (auto simp: same_vm_def)
  then have "is_ok (fst (core_action a h (rb_core b)))"
    using core_action_enabled mv(1) 16(4,5) by blast
  then show ?case
    using core_action_cases [of a h "rb_core b"]
    by (auto simp: RustVMM_act_eq RustVMM_transitionVM_def Core_GetVMState_def split: prod.splits sum.splits)
qed

abbreviation rust_run :: "vm_op list \<Rightarrow> RustVMMBackend \<Rightarrow> RustVMMBackend" where
  "rust_run ops b \<equiv> fold (vmm_exec (\<lambda>_. RustVMM_CreateVM) (\<lambda>_. RustVMM_DestroyVM) (\<lambda>_. RustVMM_act) (\<lambda>_ _ b. b))
     (map (Pair ()) ops) b"

text \<open>After any sequence of creations, destructions and life-cycle actions through the
  RustVMM backend, its own table and the table of the VM core describe the same machines: the
  same handles, and for each the same state, CPU count and memory size.\<close>

theorem rust_run_sync:
  assumes "length ops \<le> 2147483646"
  shows "rel_option same_vm (core_vms (rb_core (rust_run ops (NewRustVMMBackend NewMockVMCore))) h)
           (rb_vms (rust_run ops (NewRustVMMBackend NewMockVMCore)) h)"
  by (rule rust_ok_rel, rule rust.run_ok) (use assms in simp_all)

theorem rust_run_sync_witness:
  "rel_option same_vm
     (core_vms (rb_core (rust_run [VCreate ''web'' 2 512 7, VAct Start 1, VDestroy 9]
        (NewRustVMMBackend NewMockVMCore))) 1)
     (rb_vms (rust_run [VCreate ''web'' 2 512 7, VAct Start 1, VDestroy 9]
        (NewRustVMMBackend NewMockVMCore)) 1)"
  by (rule rust_run_sync) simp

text \<open>A machine of the RustVMM backend that exists before and after a sequence of
  creations, destructions and actions is the same machine (all fields but the state are
  unchanged), and its state was reached along the edges of the life cycle; in particular a
  stopped machine stays stopped.\<close>

theorem rust_run_history:
  assumes "rust_ok b" "sint (core_nextHandle (rb_core b)) + int (length ops) \<le> 2147483647"
    and "rb_vms b h = Some vm" "rb_vms (rust_run ops b) h = Some vm'"
  shows "same_machine vm vm' \<and> (\<exists>p q. vmState vm = phase_string p \<and> vmState vm' = phase_string q
     \<and> lifecycle\<^sup>*\<^sup>* p q) \<and> (vmState vm = ''stopped'' \<longrightarrow> vmState vm' = ''stopped'')"
proof -
  obtain p q where *: "same_machine vm vm'" "vmState vm = phase_string p" "vmState vm' = phase_string q"
      "lifecycle\<^sup>*\<^sup>* p q"
    using rust.run_history [of b "map (Pair ()) ops" h vm vm'] assms by auto
  moreover have "p = Stopped" if "vmState vm = ''stopped''"
    using that *(2) by (cases p) simp_all
  ultimately show ?thesis using stopped_terminal by fastforce
qed

definition rust_one :: RustVMMBackend where
  "rust_one = rust_run [VCreate ''web'' 2 512 7] (NewRustVMMBackend NewMockVMCore)"

theorem rust_run_history_witness:
  "same_machine (new_VMInfo 1 ''web'' 2 512 ''rustvmm'' ''vm'' 7)
     (new_VMInfo 1 ''web'' 2 512 ''rustvmm'' ''vm'' 7\<lparr>vmState := ''paused''\<rparr>)"
proof -
  have "rust_ok rust_one"
    unfolding rust_one_def by (rule rust.run_ok) simp_all
  then show ?thesis
    using rust_run_history [of rust_one "[VAct Start 1, VAct Pause 1]" 1
      "new_VMInfo 1 ''web'' 2 512 ''rustvmm'' ''vm'' 7"
      "new_VMInfo 1 ''web'' 2 512 ''rustvmm'' ''vm'' 7\<lparr>vmState := ''paused''\<rparr>"]
    by (simp add: rust_one_def rust_create_eq Let_def NewRustVMMBackend_def NewMockVMCore_def
        RustVMM_act_eq RustVMM_transitionVM_def core_ops stateTransitionAllowed_def code_defs
        new_VMInfo_def StateString_def)
qed

end
