(* ===== verification/Qemu_Backend.thy ===== *)
theory Qemu_Backend
  imports Vmm_Backend Circuit_Breaker
begin

text \<open>
  \<^verbatim>\<open>QEMUBackend\<close> of \<^verbatim>\<open>internal/compute/qemu_backend.go\<close> with the QMP client of
  \<^verbatim>\<open>qmp.go\<close>.  In emulated mode the backend is a table in memory; in real mode it starts a
  QEMU process per machine and talks to it over a unix socket, behind a circuit breaker.
  The operating system and QEMU are parameters: a \<open>qmp_conn\<close> gives the answers of one
  connection, a \<open>qemu_env\<close> the answers given to one backend operation.
\<close>

section \<open>The QMP client\<close>

record QMPResponse =
  qr_return :: "string option"
  qr_error :: "(string \<times> string) option"

text \<open>The answers of one connection: dialling, the greeting, writing and reading for each
  command with its arguments, and Go's JSON decoder on what was read.\<close>

record qmp_conn =
  qc_dial :: "unit result"
  qc_greeting :: "unit result"
  qc_write :: "string \<Rightarrow> (string \<times> string) list \<Rightarrow> unit result"
  qc_read :: "string \<Rightarrow> (string \<times> string) list \<Rightarrow> string result"
  qc_parse :: "string \<Rightarrow> QMPResponse result"

definition QMP_Execute :: "qmp_conn \<Rightarrow> string \<Rightarrow> (string \<times> string) list \<Rightarrow> unit result" where
  "QMP_Execute c command args =
     (case qc_write c command args of
        Inl e \<Rightarrow> Err (Errorf ''QMP write: %w'' [FErr e])
      | Inr _ \<Rightarrow>
          (case qc_read c command args of
             Inl e \<Rightarrow> Err (Errorf ''QMP read: %w'' [FErr e])
           | Inr buf \<Rightarrow>
               (case qc_parse c buf of
                  Inl e \<Rightarrow> Err (Errorf ''QMP parse: %w'' [FErr e])
                | Inr resp \<Rightarrow>
                    (case qr_error resp of
                       Some (cls, desc) \<Rightarrow> Err (Errorf ''QMP error: %s: %s'' [FStr cls, FStr desc])
                     | None \<Rightarrow> Ok ()))))"

definition QMPDial :: "qmp_conn \<Rightarrow> string \<Rightarrow> unit result" where
  "QMPDial c socketPath =
     (case qc_dial c of
        Inl e \<Rightarrow> Err (Errorf ''QMP connect %s: %w'' [FStr socketPath, FErr e])
      | Inr _ \<Rightarrow>
          (case qc_greeting c of
             Inl e \<Rightarrow> Err e
           | Inr _ \<Rightarrow>
               (case QMP_Execute c ''qmp_capabilities'' [] of
                  Inl e \<Rightarrow> Err (Errorf ''QMP capabilities: %w'' [FErr e])
                | Inr _ \<Rightarrow> Ok ())))"

definition QMP_QueryStatus :: "qmp_conn \<Rightarrow> string result" where
  "QMP_QueryStatus c =
     (case qc_write c ''query-status'' [] of
        Inl e \<Rightarrow> Err (Errorf ''QMP write query-status: %w'' [FErr e])
      | Inr _ \<Rightarrow>
          (case qc_read c ''query-status'' [] of
             Inl e \<Rightarrow> Err (Errorf ''QMP read query-status: %w'' [FErr e])
           | Inr buf \<Rightarrow>
               (case qc_parse c buf of
                  Inl e \<Rightarrow> Err (Errorf ''QMP parse query-status: %w'' [FErr e])
                | Inr resp \<Rightarrow>
                    (case qr_error resp of
                       Some (cls, desc) \<Rightarrow> Err (Errorf ''QMP query-status error: %s: %s'' [FStr cls, FStr desc])
                     | None \<Rightarrow>
                         (case qr_return resp of
                            None \<Rightarrow> Err (Errorf ''QMP query-status: empty return'' [])
                          | Some status \<Rightarrow> Ok status)))))"

section \<open>The backend\<close>

record QEMUConfig =
  qcfg_QMPSocket :: string
  qcfg_Emulated :: bool
  qcfg_DefaultDisk :: string
  qcfg_NetworkMode :: string

text \<open>A process entry keeps the socket path; the process itself is outside the model.\<close>

record QEMUBackend =
  qb_vms :: "int32 \<Rightarrow> VMInfo option"
  qb_processes :: "int32 \<Rightarrow> string option"
  qb_nextID :: int32
  qb_qmpAddr :: string
  qb_emulated :: bool
  qb_defaultDisk :: string
  qb_networkMode :: string
  qb_cb :: CircuitBreaker

definition NewQEMUBackend :: "QEMUConfig option \<Rightarrow> QEMUBackend" where
  "NewQEMUBackend config =
     (let b = \<lparr>qb_vms = Map.empty, qb_processes = Map.empty, qb_nextID = 10000, qb_qmpAddr = [],
               qb_emulated = True, qb_defaultDisk = [], qb_networkMode = [],
               qb_cb = NewCircuitBreaker ''qemu-qmp'' 3 (15 * second)\<rparr>;
          b1 = (case config of
                  None \<Rightarrow> b
                | Some cfg \<Rightarrow> b\<lparr>qb_qmpAddr := qcfg_QMPSocket cfg, qb_emulated := qcfg_Emulated cfg,
                                 qb_defaultDisk := qcfg_DefaultDisk cfg, qb_networkMode := qcfg_NetworkMode cfg\<rparr>)
      in if qb_networkMode b1 = [] then b1\<lparr>qb_networkMode := ''user''\<rparr> else b1)"

text \<open>The answers of the operating system during one operation: finding the QEMU binary,
  starting it with an argument list, the connection of each dialling attempt, whether the
  process still answers signal 0, and the clock before and after a QMP command.\<close>

record qemu_env =
  qe_lookpath :: "string result"
  qe_start :: "string \<Rightarrow> string list \<Rightarrow> unit result"
  qe_conn :: "nat \<Rightarrow> string \<Rightarrow> qmp_conn"
  qe_alive :: bool
  qe_t0 :: gotime
  qe_t1 :: gotime

definition qmpSocketPath :: "int32 \<Rightarrow> QEMUBackend \<Rightarrow> string" where
  "qmpSocketPath handle b =
     (let base = (if qb_qmpAddr b = [] then ''/var/run/hcv'' else qb_qmpAddr b) in
      Sprintf ''%s/qmp-%d.sock'' [FStr base, FInt (sint handle)])"

text \<open>The command line of QEMU.\<close>

definition qemu_args :: "int32 \<Rightarrow> string \<Rightarrow> uint32 \<Rightarrow> uint64 \<Rightarrow> VMInfo option \<Rightarrow> QEMUBackend \<Rightarrow> string list" where
  "qemu_args handle name vcpus memoryMB vm b =
     (let socketPath = qmpSocketPath handle b;
          vncDisplay = (if sint (handle - 10000) < 0 then 0 else sint (handle - 10000));
          diskPath = (case vm of
                        Some v \<Rightarrow> if vmDiskPath v \<noteq> [] then vmDiskPath v
                                 else if qb_defaultDisk b \<noteq> [] then qb_defaultDisk b else []
                      | None \<Rightarrow> if qb_defaultDisk b \<noteq> [] then qb_defaultDisk b else []);
          netMode = (case vm of
                       Some v \<Rightarrow> if vmNetworkMode v \<noteq> [] then vmNetworkMode v else qb_networkMode b
                     | None \<Rightarrow> qb_networkMode b);
          tapName = Sprintf ''tap-hcv-%d'' [FInt (sint handle)]
      in [''-name'', name, ''-machine'', ''q35,accel=kvm'', ''-smp'', show_int (uint vcpus),
          ''-m'', show_int (uint memoryMB), ''-qmp'', Sprintf ''unix:%s,server,nowait'' [FStr socketPath],
          ''-vnc'', Sprintf '':%d'' [FInt vncDisplay], ''-vga'', ''virtio'']
         @ (if diskPath \<noteq> []
            then [''-drive'', Sprintf ''file=%s,format=qcow2,if=virtio,cache=writeback'' [FStr diskPath]] else [])
         @ (case vm of
              Some v \<Rightarrow> if vmISOPath v \<noteq> [] then [''-cdrom'', vmISOPath v, ''-boot'', ''d''] else []
            | None \<Rightarrow> [])
         @ (if netMode = ''tap''
            then [''-netdev'', Sprintf ''tap,id=net0,ifname=%s,script=no,downscript=no'' [FStr tapName],
                  ''-device'', ''virtio-net-pci,netdev=net0'']
            else if netMode = ''user''
            then [''-netdev'', Sprintf ''user,id=net0,hostfwd=tcp::%d-:22'' [FInt (2222 + sint (handle - 10000))],
                  ''-device'', ''virtio-net-pci,netdev=net0'']
            else [''-nic'', ''none'']))"

text \<open>The retry loop: the error after the loop is nil if an attempt succeeded, and otherwise
  the error of the last attempt.\<close>

fun qmp_retry :: "(nat \<Rightarrow> unit result) \<Rightarrow> nat list \<Rightarrow> unit result \<Rightarrow> unit result" where
  "qmp_retry dial [] err = err"
| "qmp_retry dial (attempt # as) err =
     (case dial attempt of Inr _ \<Rightarrow> Ok () | Inl e \<Rightarrow> qmp_retry dial as (Err e))"

definition qmpCreateVM ::
  "qemu_env \<Rightarrow> int32 \<Rightarrow> string \<Rightarrow> uint32 \<Rightarrow> uint64 \<Rightarrow> QEMUBackend \<Rightarrow> unit result \<times> QEMUBackend" where
  "qmpCreateVM env handle name vcpus memoryMB b =
     (let socketPath = qmpSocketPath handle b in
      case qe_lookpath env of
        Inl e \<Rightarrow> (Err (Errorf ''qemu-system-x86_64 not found: %w'' [FErr e]), b)
      | Inr qemuBin \<Rightarrow>
          let vm = qb_vms b handle;
              vncDisplay = (if sint (handle - 10000) < 0 then 0 else sint (handle - 10000));
              args = qemu_args handle name vcpus memoryMB vm b;
              b1 = (case vm of
                      None \<Rightarrow> b
                    | Some v \<Rightarrow> b\<lparr>qb_vms := (qb_vms b)(handle \<mapsto> v\<lparr>vmVNCPort := 5900 + vncDisplay\<rparr>)\<rparr>)
          in case qe_start env qemuBin args of
               Inl e \<Rightarrow> (Err (Errorf ''qemu start failed: %w'' [FErr e]), b1)
             | Inr _ \<Rightarrow>
                 let b2 = b1\<lparr>qb_processes := (qb_processes b1)(handle \<mapsto> socketPath)\<rparr> in
                 case qmp_retry (\<lambda>attempt. QMPDial (qe_conn env attempt socketPath) socketPath) [0..<5] (Ok ()) of
                   Inl e \<Rightarrow>
                     (Err (Errorf ''QMP socket connection failed for handle %d after %d retries: %w''
                             [FInt (sint handle), FInt 5, FErr e]),
                      b2\<lparr>qb_processes := (qb_processes b2)(handle := None)\<rparr>)
                 | Inr _ \<Rightarrow> (Ok (), b2))"

definition qmpCommand :: "qemu_env \<Rightarrow> int32 \<Rightarrow> string \<Rightarrow> QEMUBackend \<Rightarrow> unit result \<times> QEMUBackend" where
  "qmpCommand env handle command b =
     (case qb_processes b handle of
        None \<Rightarrow> (Err (Errorf ''no QEMU process for handle %d: socket connection failed'' [FInt (sint handle)]), b)
      | Some socketPath \<Rightarrow>
          (case cb_Execute (qe_t0 env) (qe_t1 env)
                  (\<lambda>s. (case QMPDial (qe_conn env 0 socketPath) socketPath of
                          Inl e \<Rightarrow> Err (Errorf ''QMP connect for handle %d: %w'' [FInt (sint handle), FErr e])
                        | Inr _ \<Rightarrow>
                            (case QMP_Execute (qe_conn env 0 socketPath) command [] of
                               Inl e \<Rightarrow> Err (Errorf ''QMP command %q for handle %d: %w''
                                              [FStr command, FInt (sint handle), FErr e])
                             | Inr _ \<Rightarrow> Ok ()), s))
                  (qb_cb b) () of
             (r, cb', _) \<Rightarrow> (r, b\<lparr>qb_cb := cb'\<rparr>)))"

definition QEMU_CreateVM ::
  "qemu_env \<Rightarrow> string \<Rightarrow> uint32 \<Rightarrow> uint64 \<Rightarrow> gotime \<Rightarrow> QEMUBackend \<Rightarrow> VMInfo result \<times> QEMUBackend" where
  "QEMU_CreateVM env name vcpus memoryMB now b =
     (let next' = qb_nextID b + 1; handle = next' - 1; b0 = b\<lparr>qb_nextID := next'\<rparr>;
          (r, b1) = (if \<not> qb_emulated b0 then qmpCreateVM env handle name vcpus memoryMB b0 else (Ok (), b0))
      in case r of
           Inl err \<Rightarrow> (Err (Errorf ''qemu create: %w'' [FErr err]), b1)
         | Inr _ \<Rightarrow>
             let vm = new_VMInfo handle name vcpus memoryMB ''qemu'' ''vm'' now in
             (Ok vm, b1\<lparr>qb_vms := (qb_vms b1)(handle \<mapsto> vm)\<rparr>))"

definition QEMU_DestroyVM :: "qemu_env \<Rightarrow> int32 \<Rightarrow> QEMUBackend \<Rightarrow> unit result \<times> QEMUBackend" where
  "QEMU_DestroyVM env handle b =
     (case qb_vms b handle of
        None \<Rightarrow> (Err (Errorf ''VM not found: %d'' [FInt (sint handle)]), b)
      | Some vm \<Rightarrow>
          let b1 = (if \<not> qb_emulated b
                    then let b' = snd (qmpCommand env handle ''quit'' b)
                         in b'\<lparr>qb_processes := (qb_processes b')(handle := None)\<rparr>
                    else b)
          in (Ok (), b1\<lparr>qb_vms := (qb_vms b1)(handle := None)\<rparr>))"

definition qemuValidTransitions :: "string \<Rightarrow> (string \<Rightarrow> bool) option" where
  "qemuValidTransitions = [''configured'' \<mapsto> (\<lambda>t. t = ''running'' \<or> t = ''stopped''),
                           ''running'' \<mapsto> (\<lambda>t. t = ''paused'' \<or> t = ''stopped''),
                           ''paused'' \<mapsto> (\<lambda>t. t = ''running'' \<or> t = ''stopped'')]"

definition QEMU_transition ::
  "qemu_env \<Rightarrow> int32 \<Rightarrow> string \<Rightarrow> string \<Rightarrow> QEMUBackend \<Rightarrow> unit result \<times> QEMUBackend" where
  "QEMU_transition env handle targetState qmpCmd b =
     (case qb_vms b handle of
        None \<Rightarrow> (Err (Errorf ''VM not found: %d'' [FInt (sint handle)]), b)
      | Some vm \<Rightarrow>
          if (case qemuValidTransitions (vmState vm) of None \<Rightarrow> True | Some allowed \<Rightarrow> \<not> allowed targetState)
          then (Err invalid_state_error, b)
          else
            let (r, b1) = (if \<not> qb_emulated b then qmpCommand env handle qmpCmd b else (Ok (), b)) in
            case r of
              Inl err \<Rightarrow> (Err (Errorf ''qemu %s: %w'' [FStr qmpCmd, FErr err]), b1)
            | Inr _ \<Rightarrow> (Ok (), b1\<lparr>qb_vms := (qb_vms b1)(handle \<mapsto> vm\<lparr>vmState := targetState\<rparr>)\<rparr>))"

text \<open>The result of the status check after a start is only logged.\<close>

definition verifyQMPStatus :: "qemu_env \<Rightarrow> int32 \<Rightarrow> bool \<Rightarrow> QEMUBackend \<Rightarrow> unit result" where
  "verifyQMPStatus env handle expectedRunning b =
     (case qb_processes b handle of
        None \<Rightarrow> Ok ()
      | Some socketPath \<Rightarrow>
          (case QMPDial (qe_conn env 1 socketPath) socketPath of
             Inl e \<Rightarrow> Err (Errorf ''QMP connect for status query handle %d: %w'' [FInt (sint handle), FErr e])
           | Inr _ \<Rightarrow>
               (case QMP_QueryStatus (qe_conn env 1 socketPath) of
                  Inl e \<Rightarrow> Err (Errorf ''QMP query-status handle %d: %w'' [FInt (sint handle), FErr e])
                | Inr status \<Rightarrow>
                    if (status = ''running'') \<noteq> expectedRunning
                    then Err (Errorf ''QMP state mismatch for handle %d: expected running=%v, got status=%q''
                                [FInt (sint handle), FBool expectedRunning, FStr status])
                    else Ok ())))"

definition QEMU_StartVM :: "qemu_env \<Rightarrow> int32 \<Rightarrow> QEMUBackend \<Rightarrow> unit result \<times> QEMUBackend" where
  "QEMU_StartVM env handle b =
     (case QEMU_transition env handle ''running'' ''cont'' b of
        (Inl err, b1) \<Rightarrow> (Err err, b1)
      | (Inr _, b1) \<Rightarrow>
          let ignored = (if \<not> qb_emulated b1 then verifyQMPStatus env handle True b1 else Ok ()) in (Ok (), b1))"

definition QEMU_StopVM :: "qemu_env \<Rightarrow> int32 \<Rightarrow> QEMUBackend \<Rightarrow> unit result \<times> QEMUBackend" where
  "QEMU_StopVM env handle = QEMU_transition env handle ''stopped'' ''system_powerdown''"

definition QEMU_PauseVM :: "qemu_env \<Rightarrow> int32 \<Rightarrow> QEMUBackend \<Rightarrow> unit result \<times> QEMUBackend" where
  "QEMU_PauseVM env handle = QEMU_transition env handle ''paused'' ''stop''"

definition QEMU_ResumeVM :: "qemu_env \<Rightarrow> int32 \<Rightarrow> QEMUBackend \<Rightarrow> unit result \<times> QEMUBackend" where
  "QEMU_ResumeVM env handle = QEMU_transition env handle ''running'' ''cont''"

definition QEMU_GetVM :: "int32 \<Rightarrow> QEMUBackend \<Rightarrow> VMInfo result" where
  "QEMU_GetVM handle b =
     (case qb_vms b handle of
        None \<Rightarrow> Err (Errorf ''VM not found: %d'' [FInt (sint handle)])
      | Some vm \<Rightarrow> Ok vm)"

definition QEMU_ListVMs :: "int32 list \<Rightarrow> QEMUBackend \<Rightarrow> VMInfo list" where
  "QEMU_ListVMs ord b = map_values ord (qb_vms b)"

fun QEMU_act :: "qemu_env \<Rightarrow> vm_action \<Rightarrow> int32 \<Rightarrow> QEMUBackend \<Rightarrow> unit result \<times> QEMUBackend" where
  "QEMU_act env Start h b = QEMU_StartVM env h b"
| "QEMU_act env Stop h b = QEMU_StopVM env h b"
| "QEMU_act env Pause h b = QEMU_PauseVM env h b"
| "QEMU_act env Resume h b = QEMU_ResumeVM env h b"

text \<open>One round of the process monitor.\<close>

definition QEMU_monitor_round :: "qemu_env \<Rightarrow> int32 \<Rightarrow> QEMUBackend \<Rightarrow> QEMUBackend" where
  "QEMU_monitor_round env handle b =
     (case (qb_processes b handle, qb_vms b handle) of
        (Some proc, Some vm) \<Rightarrow>
          if \<not> qe_alive env
          then b\<lparr>qb_vms := (qb_vms b)(handle \<mapsto> vm\<lparr>vmState := ''stopped''\<rparr>),
                 qb_processes := (qb_processes b)(handle := None)\<rparr>
          else b
      | _ \<Rightarrow> b)"

definition QEMU_SnapshotVM ::
  "qemu_env \<Rightarrow> int32 \<Rightarrow> string \<Rightarrow> gotime \<Rightarrow> QEMUBackend \<Rightarrow> unit result \<times> QEMUBackend" where
  "QEMU_SnapshotVM env handle name now b =
     (case qb_vms b handle of
        None \<Rightarrow> (Err (Errorf ''VM not found: %d'' [FInt (sint handle)]), b)
      | Some vm \<Rightarrow>
          if qb_emulated b
          then (Ok (), b\<lparr>qb_vms := (qb_vms b)(handle \<mapsto> vm\<lparr>vmSnapshots := (vmSnapshots vm)(name \<mapsto> now)\<rparr>)\<rparr>)
          else case qb_processes b handle of
                 None \<Rightarrow> (Err (Errorf ''no QEMU process for handle %d'' [FInt (sint handle)]), b)
               | Some socketPath \<Rightarrow>
                   (case QMPDial (qe_conn env 0 socketPath) socketPath of
                      Inl e \<Rightarrow> (Err (Errorf ''QMP connect for snapshot handle %d: %w'' [FInt (sint handle), FErr e]), b)
                    | Inr _ \<Rightarrow>
                        (case QMP_Execute (qe_conn env 0 socketPath) ''savevm'' [(''name'', name)] of
                           Inl e \<Rightarrow> (Err (Errorf ''QMP savevm for handle %d: %w'' [FInt (sint handle), FErr e]), b)
                         | Inr _ \<Rightarrow> (Ok (), b))))"

definition QEMU_RestoreSnapshot :: "qemu_env \<Rightarrow> int32 \<Rightarrow> string \<Rightarrow> QEMUBackend \<Rightarrow> unit result" where
  "QEMU_RestoreSnapshot env handle name b =
     (case qb_vms b handle of
        None \<Rightarrow> Err (Errorf ''VM not found: %d'' [FInt (sint handle)])
      | Some vm \<Rightarrow>
          if qb_emulated b
          then (if vmSnapshots vm name = None \<or> vmSnapshots vm name = Some zero_time
                then Err (Errorf ''snapshot not found: %s'' [FStr name]) else Ok ())
          else case qb_processes b handle of
                 None \<Rightarrow> Err (Errorf ''no QEMU process for handle %d'' [FInt (sint handle)])
               | Some socketPath \<Rightarrow>
                   (case QMPDial (qe_conn env 0 socketPath) socketPath of
                      Inl e \<Rightarrow> Err (Errorf ''QMP connect for restore handle %d: %w'' [FInt (sint handle), FErr e])
                    | Inr _ \<Rightarrow>
                        (case QMP_Execute (qe_conn env 0 socketPath) ''loadvm'' [(''name'', name)] of
                           Inl e \<Rightarrow> Err (Errorf ''QMP loadvm for handle %d: %w'' [FInt (sint handle), FErr e])
                         | Inr _ \<Rightarrow> Ok ())))"

section \<open>The transition table implements the life cycle\<close>

lemma qemuValidTransitions_phase:
  "(\<exists>allowed. qemuValidTransitions (phase_string p) = Some allowed \<and> allowed (phase_string q))
     \<longleftrightarrow> lifecycle p q \<and> p \<noteq> Created"
  by (cases p; cases q) (auto simp: qemuValidTransitions_def lifecycle_iff)

section \<open>Frame facts\<close>

lemma qmpCommand_frame [simp]:
  "qb_vms (snd (qmpCommand env h c b)) = qb_vms b"
  "qb_nextID (snd (qmpCommand env h c b)) = qb_nextID b"
  "qb_emulated (snd (qmpCommand env h c b)) = qb_emulated b"
  "qb_processes (snd (qmpCommand env h c b)) = qb_processes b"
  by (simp_all add: qmpCommand_def split: option.splits prod.splits)

lemma qmpCreateVM_frame:
  "qmpCreateVM env h n c m b = (r, b') \<Longrightarrow> qb_vms b h = None \<Longrightarrow> qb_vms b' = qb_vms b"
  "qmpCreateVM env h n c m b = (r, b') \<Longrightarrow> qb_nextID b' = qb_nextID b"
  "qmpCreateVM env h n c m b = (r, b') \<Longrightarrow> qb_emulated b' = qb_emulated b"
  by (auto simp: qmpCreateVM_def Let_def split: sum.splits option.splits)

lemma qmpCreateVM_other:
  "qmpCreateVM env h n c m b = (r, b') \<Longrightarrow> k \<noteq> h \<Longrightarrow> qb_vms b' k = qb_vms b k"
  by (auto simp: qmpCreateVM_def Let_def split: sum.splits option.splits)

section \<open>The contract holds\<close>

definition qemu_ok :: "QEMUBackend \<Rightarrow> bool" where
  "qemu_ok b \<longleftrightarrow> (\<forall>h vm. qb_vms b h = Some vm \<longrightarrow>
     vmID vm = h \<and> vmBackend vm = ''qemu'' \<and> (\<exists>p. vmState vm = phase_string p \<and> p \<noteq> Created)
     \<and> 10000 \<le> sint h \<and> sint h < sint (qb_nextID b)) \<and> 10000 \<le> sint (qb_nextID b)"

lemma qemu_ok_New [simp]: "qemu_ok (NewQEMUBackend cfg)"
  by (auto simp: qemu_ok_def NewQEMUBackend_def Let_def split: option.splits)

lemma qemu_next_New [simp]: "qb_nextID (NewQEMUBackend cfg) = 10000"
  by (auto simp: NewQEMUBackend_def Let_def split: option.splits)

lemma qemu_ok_next_free: "qemu_ok b \<Longrightarrow> qb_vms b (qb_nextID b) = None"
  by (metis (no_types, lifting) less_irrefl not_None_eq qemu_ok_def)

lemma QEMU_transition_cases:
  assumes "QEMU_transition env h (phase_string q) c b = (r, b')"
  shows "qb_nextID b' = qb_nextID b \<and> qb_emulated b' = qb_emulated b \<and>
    (case r of
       Inl e \<Rightarrow> qb_vms b' = qb_vms b
     | Inr u \<Rightarrow> (\<exists>vm allowed. qb_vms b h = Some vm \<and> qemuValidTransitions (vmState vm) = Some allowed
         \<and> allowed (phase_string q) \<and> qb_vms b' = (qb_vms b)(h \<mapsto> vm\<lparr>vmState := phase_string q\<rparr>)))"
proof (cases "qb_vms b h")
  case None
  then show ?thesis using assms by (auto simp: QEMU_transition_def)
next
  case (Some vm)
  obtain rc b1 where q: "(if \<not> qb_emulated b then qmpCommand env h c b else (Ok (), b)) = (rc, b1)"
    by (metis prod.exhaust)
  have fr: "qb_vms b1 = qb_vms b" "qb_nextID b1 = qb_nextID b" "qb_emulated b1 = qb_emulated b"
    using q qmpCommand_frame [of env h c b] by (auto simp del: qmpCommand_frame split: if_splits)
  show ?thesis
    using assms Some q fr
    by (auto simp: QEMU_transition_def split: if_splits option.splits sum.splits)
qed

definition qemu_command :: "vm_action \<Rightarrow> string" where
  "qemu_command a = (case a of Start \<Rightarrow> ''cont'' | Stop \<Rightarrow> ''system_powerdown'' | Pause \<Rightarrow> ''stop'' | Resume \<Rightarrow> ''cont'')"

lemma QEMU_act_eq:
  "QEMU_act env a h b = QEMU_transition env h (phase_string (action_target a)) (qemu_command a) b"
  by (cases a) (auto simp: QEMU_StartVM_def QEMU_StopVM_def QEMU_PauseVM_def QEMU_ResumeVM_def
      qemu_command_def Let_def split: prod.splits sum.splits)

lemma qemu_create_cases:
  assumes ok: "qemu_ok b" and c: "QEMU_CreateVM env n c m t b = (r, b')"
  shows "qb_nextID b' = qb_nextID b + 1 \<and> qb_emulated b' = qb_emulated b \<and>
    (case r of
       Inl e \<Rightarrow> qb_vms b' = qb_vms b \<and> \<not> qb_emulated b
     | Inr vm \<Rightarrow> vm = new_VMInfo (qb_nextID b) n c m ''qemu'' ''vm'' t
         \<and> qb_vms b' = (qb_vms b)(qb_nextID b \<mapsto> vm))"
proof -
  let ?b0 = "b\<lparr>qb_nextID := qb_nextID b + 1\<rparr>"
  obtain rq b1 where q: "(if \<not> qb_emulated b then qmpCreateVM env (qb_nextID b) n c m ?b0 else (Ok (), ?b0)) = (rq, b1)"
    by (metis prod.exhaust)
  have free: "qb_vms ?b0 (qb_nextID b) = None" using qemu_ok_next_free [OF ok] by simp
  have fr: "qb_vms b1 = qb_vms b" "qb_nextID b1 = qb_nextID b + 1" "qb_emulated b1 = qb_emulated b"
    using q qmpCreateVM_frame [of env "qb_nextID b" n c m ?b0 rq b1] free by (auto split: if_splits)
  show ?thesis
    using c q fr by (auto simp: QEMU_CreateVM_def Let_def split: sum.splits if_splits)
qed

lemma qemu_ok_upd_state:
  assumes "qemu_ok b" "qb_vms b h = Some vm" "qb_vms b' = (qb_vms b)(h \<mapsto> vm\<lparr>vmState := phase_string p\<rparr>)"
    "qb_nextID b' = qb_nextID b" "p \<noteq> Created"
  shows "qemu_ok b'"
  using assms by (auto simp: qemu_ok_def)

lemma qemu_ok_cong: "qemu_ok b \<Longrightarrow> qb_vms b' = qb_vms b \<Longrightarrow> qb_nextID b' = qb_nextID b \<Longrightarrow> qemu_ok b'"
  by (simp add: qemu_ok_def)

lemma qemu_create_ok:
  assumes ok: "qemu_ok b" and lt: "sint (qb_nextID b) < 2147483647"
  shows "qemu_ok (snd (QEMU_CreateVM env n c m t b))"
proof -
  obtain r b' where c: "QEMU_CreateVM env n c m t b = (r, b')" by (metis prod.exhaust)
  have old: "qb_vms b h = Some vm \<Longrightarrow> sint h < sint (qb_nextID b) + 1" for h vm
    using ok by (fastforce simp: qemu_ok_def)
  show ?thesis
    using qemu_create_cases [OF ok c] ok lt c old
    by (cases r) (auto simp: qemu_ok_def sint_add_one new_VMInfo_def intro!: exI [of _ Configured])
qed

lemma qemu_act_preserves: "qemu_ok b \<Longrightarrow> qemu_ok (snd (QEMU_act env a h b))"
proof -
  assume ok: "qemu_ok b"
  obtain r b' where c: "QEMU_transition env h (phase_string (action_target a)) (qemu_command a) b = (r, b')"
    by (metis prod.exhaust)
  show ?thesis
    using QEMU_transition_cases [OF c] c ok
    by (cases r) (auto simp: QEMU_act_eq intro: qemu_ok_upd_state [OF ok] qemu_ok_cong [OF ok])
qed

lemma qemu_destroy_eq:
  "qb_vms (snd (QEMU_DestroyVM env h b)) = (qb_vms b)(h := None)"
  "qb_nextID (snd (QEMU_DestroyVM env h b)) = qb_nextID b"
  "qb_emulated (snd (QEMU_DestroyVM env h b)) = qb_emulated b"
  "is_ok (fst (QEMU_DestroyVM env h b)) \<longleftrightarrow> qb_vms b h \<noteq> None"
  by (auto simp: QEMU_DestroyVM_def Let_def split: option.splits)

lemma qemu_monitor_cases:
  "qb_nextID (QEMU_monitor_round env h b) = qb_nextID b \<and> qb_emulated (QEMU_monitor_round env h b) = qb_emulated b
   \<and> (qb_vms (QEMU_monitor_round env h b) = qb_vms b \<or>
      (\<exists>vm. qb_vms b h = Some vm
        \<and> qb_vms (QEMU_monitor_round env h b) = (qb_vms b)(h \<mapsto> vm\<lparr>vmState := ''stopped''\<rparr>)))"
  by (auto simp: QEMU_monitor_round_def split: option.splits)

lemma qemu_monitor_ok:
  assumes ok: "qemu_ok b"
  shows "qemu_ok (QEMU_monitor_round env h b)"
proof -
  consider (same) "qb_vms (QEMU_monitor_round env h b) = qb_vms b"
    | (stopped) vm where "qb_vms b h = Some vm"
      "qb_vms (QEMU_monitor_round env h b) = (qb_vms b)(h \<mapsto> vm\<lparr>vmState := phase_string Stopped\<rparr>)"
    using qemu_monitor_cases [of env h b] by auto
  then show ?thesis
  proof cases
    case same
    then show ?thesis using qemu_monitor_cases [of env h b] qemu_ok_cong [OF ok] by blast
  next
    case (stopped vm)
    then show ?thesis using qemu_monitor_cases [of env h b] qemu_ok_upd_state [OF ok stopped] by blast
  qed
qed

interpretation qemu: vmm_backend qb_vms qb_nextID qemu_ok "''qemu''"
  QEMU_CreateVM QEMU_DestroyVM QEMU_act QEMU_monitor_round QEMU_GetVM
proof (unfold_locales, goal_cases)
  case (1 h b)
  show ?case by (simp add: QEMU_GetVM_def vm_not_found_def split: option.splits)
next
  case (2 b h vm)
  then show ?case by (auto simp: qemu_ok_def)
next
  case (3 b e n c m t)
  then show ?case by (rule qemu_create_ok)
next
  case (4 e n c m t b)
  show ?case
    by (auto simp: QEMU_CreateVM_def Let_def split: sum.splits if_splits prod.splits dest: qmpCreateVM_frame(2))
next
  case (5 b e n c m t r b')
  then show ?case using qemu_create_cases [OF 5] by (auto simp: new_VMInfo_def split: sum.splits)
next
  case (6 b e h)
  then show ?case by (auto simp: qemu_ok_def qemu_destroy_eq)
next
  case (7 e h b)
  show ?case by (rule qemu_destroy_eq)
next
  case (8 b e h rd b')
  then show ?case using qemu_destroy_eq [of e h b] by simp
next
  case (9 b e a h)
  then show ?case by (rule qemu_act_preserves)
next
  case (10 e a h b)
  show ?case using QEMU_transition_cases [of e h "action_target a" "qemu_command a" b]
    by (metis QEMU_act_eq prod.collapse)
next
  case (11 b e a h rd b')
  note * = QEMU_transition_cases [of e h "action_target a" "qemu_command a" b rd b']
  show ?case
  proof (cases rd)
    case (Inl err)
    then show ?thesis using * 11(2) by (simp add: QEMU_act_eq)
  next
    case (Inr u)
    then obtain vm allowed where vm: "qb_vms b h = Some vm" "qemuValidTransitions (vmState vm) = Some allowed"
        "allowed (phase_string (action_target a))"
        "qb_vms b' = (qb_vms b)(h \<mapsto> vm\<lparr>vmState := phase_string (action_target a)\<rparr>)"
      using * 11(2) by (auto simp: QEMU_act_eq)
    obtain p where "vmState vm = phase_string p" using 11(1) vm(1) by (auto simp: qemu_ok_def)
    with vm Inr show ?thesis using qemuValidTransitions_phase [of p "action_target a"] by auto
  qed
next
  case (12 b e h)
  then show ?case by (rule qemu_monitor_ok)
next
  case (13 e h b)
  show ?case using qemu_monitor_cases [of e h b] by blast
next
  case (14 b e h)
  show ?case using qemu_monitor_cases [of e h b] by blast
qed

interpretation qemu_emu: vmm_backend_total qb_vms qb_nextID "\<lambda>b. qemu_ok b \<and> qb_emulated b" "''qemu''"
  QEMU_CreateVM QEMU_DestroyVM QEMU_act QEMU_monitor_round QEMU_GetVM
proof (unfold_locales, goal_cases)
  case (1 h b)
  show ?case by (rule qemu.get_spec)
next
  case (2 b h vm)
  then show ?case using qemu.ok_entry by blast
next
  case (3 b e n c m t)
  then show ?case using qemu.create_ok qemu_create_cases [of b e n c m t] by (metis prod.collapse)
next
  case (4 e n c m t b)
  show ?case by (rule qemu.create_next)
next
  case (5 b e n c m t r b')
  then show ?case using qemu.create_table by blast
next
  case (6 b e h)
  then show ?case using qemu.destroy_ok qemu_destroy_eq(3) by blast
next
  case (7 e h b)
  show ?case by (rule qemu.destroy_next)
next
  case (8 b e h rd b')
  then show ?case using qemu.destroy_table by blast
next
  case (9 b e a h)
  then show ?case using qemu.act_preserves QEMU_transition_cases QEMU_act_eq by (metis prod.collapse)
next
  case (10 e a h b)
  show ?case by (rule qemu.act_next)
next
  case (11 b e a h rd b')
  then show ?case using qemu.act_table by blast
next
  case (12 b e h)
  then show ?case using qemu.tick_preserves qemu_monitor_cases by metis
next
  case (13 e h b)
  show ?case by (rule qemu.tick_next)
next
  case (14 b e h)
  then show ?case using qemu.tick_table by blast
next
  case (15 b e n c m t)
  then show ?case by (simp add: QEMU_CreateVM_def Let_def)
next
  case (16 b h vm p a e)
  have "p \<noteq> Created" using 16(4) by (cases a) (auto simp: lifecycle_iff)
  then obtain allowed where "qemuValidTransitions (phase_string p) = Some allowed" "allowed (phase_string (action_target a))"
    using qemuValidTransitions_phase 16(4) by blast
  then show ?case using 16 by (simp add: QEMU_act_eq QEMU_transition_def)
qed

section \<open>Properties\<close>

abbreviation qemu_exec :: "qemu_env \<times> vm_op \<Rightarrow> QEMUBackend \<Rightarrow> QEMUBackend" where
  "qemu_exec \<equiv> vmm_exec QEMU_CreateVM QEMU_DestroyVM QEMU_act QEMU_monitor_round"


definition dead_env :: qemu_env where
  "dead_env = \<lparr>qe_lookpath = Err (ExtError ''not found''), qe_start = (\<lambda>_ _. Err (ExtError ''x'')),
     qe_conn = (\<lambda>_ _. \<lparr>qc_dial = Err (ExtError ''x''), qc_greeting = Ok (), qc_write = (\<lambda>_ _. Ok ()),
        qc_read = (\<lambda>_ _. Ok []), qc_parse = (\<lambda>_. Ok \<lparr>qr_return = None, qr_error = None\<rparr>)\<rparr>),
     qe_alive = False, qe_t0 = 1, qe_t1 = 2\<rparr>"

definition qemu_one :: QEMUBackend where
  "qemu_one = fold qemu_exec [(dead_env, VCreate ''win'' 4 4096 9)] (NewQEMUBackend None)"


text \<open>A machine that the QEMU backend creates never gets the disk path, ISO path, network
  mode or VNC port of its own: the lookup of these settings happens before the machine is
  entered in the table, so QEMU is started with the backend's defaults only.\<close>

theorem qemu_create_ignores_vm_settings:
  assumes "qemu_ok b" "QEMU_CreateVM env n c m t b = (Ok vm, b')"
  shows "vmDiskPath vm = [] \<and> vmISOPath vm = [] \<and> vmNetworkMode vm = [] \<and> vmVNCPort vm = 0
    \<and> qb_vms b' (vmID vm) = Some vm \<and> qb_vms b (vmID vm) = None"
  using qemu_create_cases [OF assms] qemu_ok_next_free [OF assms(1)] by (auto simp: new_VMInfo_def)

theorem qemu_create_ignores_vm_settings_witness:
  "vmVNCPort (new_VMInfo 10000 ''win'' 4 4096 ''qemu'' ''vm'' 9) = 0"
  using qemu_create_ignores_vm_settings [of "NewQEMUBackend None" dead_env "''win''" 4 4096 9
      "new_VMInfo 10000 ''win'' 4 4096 ''qemu'' ''vm'' 9"]
  by (simp add: QEMU_CreateVM_def NewQEMUBackend_def Let_def qemu_ok_def)

end
