(* ===== verification/Lxc_Config.thy ===== *)
theory Lxc_Config
  imports Prelude
begin

text \<open>
  \<^verbatim>\<open>internal/compute/lxc_config.go\<close>: the configuration of an LXC container, its security
  defaults, the cgroup limits and the text of the configuration file.  CPU and memory
  limits are computed in fixed-width arithmetic, as in the source.
\<close>

section \<open>Configuration\<close>

record LXCConfig =
  lc_Name :: string
  lc_RootFS :: string
  lc_Arch :: string
  lc_Distribution :: string
  lc_Release :: string
  lc_VCPUs :: uint32
  lc_MemoryMB :: uint64
  lc_NetworkType :: string
  lc_BridgeName :: string
  lc_IPAddress :: string
  lc_Gateway :: string
  lc_Mounts :: "string list"
  lc_Privileged :: bool
  lc_Nesting :: bool
  lc_UIDMapStart :: int
  lc_UIDMapSize :: int
  lc_GIDMapStart :: int
  lc_GIDMapSize :: int
  lc_SeccompProfile :: string
  lc_AppArmorProfile :: string
  lc_DropCapabilities :: "string list"

record LXCSecurityDefaults =
  sd_Privileged :: bool
  sd_Nesting :: bool
  sd_UIDMapStart :: int
  sd_UIDMapSize :: int
  sd_GIDMapStart :: int
  sd_GIDMapSize :: int
  sd_SeccompProfile :: string
  sd_AppArmorProfile :: string
  sd_DropCapabilities :: "string list"

definition DefaultSecurityConfig :: LXCSecurityDefaults where
  "DefaultSecurityConfig =
     \<lparr>sd_Privileged = False, sd_Nesting = False, sd_UIDMapStart = 100000, sd_UIDMapSize = 65536,
      sd_GIDMapStart = 100000, sd_GIDMapSize = 65536,
      sd_SeccompProfile = ''/usr/share/lxc/config/common.seccomp'',
      sd_AppArmorProfile = ''lxc-container-default-cgns'', sd_DropCapabilities = []\<rparr>"

definition DefaultLXCConfig :: "string \<Rightarrow> LXCConfig" where
  "DefaultLXCConfig name =
     (let sec = DefaultSecurityConfig in
      \<lparr>lc_Name = name, lc_RootFS = Sprintf ''/var/lib/lxc/%s/rootfs'' [FStr name], lc_Arch = ''amd64'',
       lc_Distribution = ''ubuntu'', lc_Release = ''22.04'', lc_VCPUs = 1, lc_MemoryMB = 512,
       lc_NetworkType = ''veth'', lc_BridgeName = ''hcvbr0'', lc_IPAddress = [],
       lc_Gateway = ''10.0.0.1'', lc_Mounts = [], lc_Privileged = sd_Privileged sec,
       lc_Nesting = sd_Nesting sec, lc_UIDMapStart = sd_UIDMapStart sec,
       lc_UIDMapSize = sd_UIDMapSize sec, lc_GIDMapStart = sd_GIDMapStart sec,
       lc_GIDMapSize = sd_GIDMapSize sec, lc_SeccompProfile = sd_SeccompProfile sec,
       lc_AppArmorProfile = sd_AppArmorProfile sec, lc_DropCapabilities = sd_DropCapabilities sec\<rparr>)"

definition GenerateCgroupLimits :: "LXCConfig \<Rightarrow> string \<Rightarrow> string option" where
  "GenerateCgroupLimits c =
     (let memoryBytes = lc_MemoryMB c * 1024 * 1024; cpuQuota = lc_VCPUs c * 100000 in
      [''lxc.cgroup2.memory.max'' \<mapsto> Sprintf ''%d'' [FInt (uint memoryBytes)],
       ''lxc.cgroup2.cpu.max'' \<mapsto> Sprintf ''%d 100000'' [FInt (uint cpuQuota)]])"

definition cfg_line :: "string \<Rightarrow> fmt_arg list \<Rightarrow> string" where
  "cfg_line f args = Sprintf f args @ [CHR 0x0A]"

definition cfg_idmap :: "LXCConfig \<Rightarrow> string" where
  "cfg_idmap c =
     (if \<not> lc_Privileged c then
        let uidStart = (if lc_UIDMapStart c = 0 then 100000 else lc_UIDMapStart c);
            uidSize = (if lc_UIDMapSize c = 0 then 65536 else lc_UIDMapSize c);
            gidStart = (if lc_GIDMapStart c = 0 then 100000 else lc_GIDMapStart c);
            gidSize = (if lc_GIDMapSize c = 0 then 65536 else lc_GIDMapSize c)
        in cfg_line ''lxc.idmap = u 0 %d %d'' [FInt uidStart, FInt uidSize]
           @ cfg_line ''lxc.idmap = g 0 %d %d'' [FInt gidStart, FInt gidSize]
      else [])"

text \<open>\<open>ord\<close> is the order in which the loop over the limits visits them.\<close>

definition GenerateConfig :: "string list \<Rightarrow> LXCConfig \<Rightarrow> string" where
  "GenerateConfig ord c =
     cfg_line ''lxc.rootfs.path = dir:%s'' [FStr (lc_RootFS c)]
     @ cfg_line ''lxc.uts.name = %s'' [FStr (lc_Name c)]
     @ cfg_line ''lxc.net.0.type = %s'' [FStr (lc_NetworkType c)]
     @ cfg_line ''lxc.net.0.link = %s'' [FStr (lc_BridgeName c)]
     @ cfg_line ''lxc.net.0.flags = up'' []
     @ (if lc_IPAddress c \<noteq> [] then cfg_line ''lxc.net.0.ipv4.address = %s/24'' [FStr (lc_IPAddress c)] else [])
     @ (if lc_Gateway c \<noteq> [] then cfg_line ''lxc.net.0.ipv4.gateway = %s'' [FStr (lc_Gateway c)] else [])
     @ concat (map (\<lambda>k. case GenerateCgroupLimits c k of
                          None \<Rightarrow> [] | Some v \<Rightarrow> cfg_line ''%s = %s'' [FStr k, FStr v]) ord)
     @ cfg_line ''lxc.arch = %s'' [FStr (lc_Arch c)]
     @ cfg_idmap c
     @ (if lc_SeccompProfile c \<noteq> [] then cfg_line ''lxc.seccomp.profile = %s'' [FStr (lc_SeccompProfile c)] else [])
     @ (if lc_AppArmorProfile c \<noteq> [] then cfg_line ''lxc.apparmor.profile = %s'' [FStr (lc_AppArmorProfile c)] else [])
     @ (if lc_Nesting c then cfg_line ''lxc.mount.auto = cgroup:rw proc:mixed sys:mixed'' [] else [])
     @ concat (map (\<lambda>cap. cfg_line ''lxc.cap.drop = %s'' [FStr cap]) (lc_DropCapabilities c))
     @ concat (map (\<lambda>mount. cfg_line ''lxc.mount.entry = %s'' [FStr mount]) (lc_Mounts c))"

section \<open>Limits\<close>

lemma uint_mult32: "uint (a * b :: 32 word) = uint a * uint b mod 4294967296"
  by (simp add: uint_word_ariths)

lemma uint_mult64: "uint (a * b :: 64 word) = uint a * uint b mod 18446744073709551616"
  by (simp add: uint_word_ariths)

lemma mod_self_iff: "0 \<le> (x::int) \<Longrightarrow> 0 < m \<Longrightarrow> x mod m = x \<longleftrightarrow> x < m"
  by (metis mod_pos_pos_trivial pos_mod_bound)

text \<open>C15: The limits written for a container are the exact ones (memory in bytes, CPU quota
  of 100000 per virtual CPU) precisely when the memory size is below \<open>2\<^sup>4\<^sup>4\<close> MB and the number of
  CPUs is at most 42949; beyond that the 64-bit and 32-bit products wrap around.\<close>

theorem cgroup_limits_exact_iff:
  "(GenerateCgroupLimits c ''lxc.cgroup2.memory.max'' = Some (show_int (uint (lc_MemoryMB c) * 1048576))
      \<longleftrightarrow> uint (lc_MemoryMB c) < 17592186044416)
   \<and> (GenerateCgroupLimits c ''lxc.cgroup2.cpu.max'' = Some (show_int (uint (lc_VCPUs c) * 100000) @ '' 100000'')
      \<longleftrightarrow> uint (lc_VCPUs c) \<le> 42949)"
proof -
  have mem: "uint (1048576 * lc_MemoryMB c) = uint (lc_MemoryMB c) * 1048576 mod 18446744073709551616"
    by (simp add: uint_mult64 mult.commute)
  have cpu: "uint (lc_VCPUs c * 100000) = uint (lc_VCPUs c) * 100000 mod 4294967296"
    by (simp add: uint_mult32)
  have "uint (lc_MemoryMB c) * 1048576 mod 18446744073709551616 = uint (lc_MemoryMB c) * 1048576
      \<longleftrightarrow> uint (lc_MemoryMB c) < 17592186044416"
    by (subst mod_self_iff) auto
  moreover have "uint (lc_VCPUs c) * 100000 mod 4294967296 = uint (lc_VCPUs c) * 100000 \<longleftrightarrow> uint (lc_VCPUs c) \<le> 42949"
    by (subst mod_self_iff) auto
  ultimately show ?thesis
    by (simp add: GenerateCgroupLimits_def Let_def Sprintf_def mem cpu)
qed

definition idmap_line :: "string \<Rightarrow> int \<Rightarrow> int \<Rightarrow> string" where
  "idmap_line kind start sz =
     ''lxc.idmap = '' @ kind @ '' 0 '' @ show_int (if start = 0 then 100000 else start) @ '' ''
       @ show_int (if sz = 0 then 65536 else sz) @ [CHR 0x0A]"

text \<open>The configuration file of every unprivileged container, and in particular of the
  default one, maps user id 0 and group id 0 of the container to the configured host ids; an
  unset (zero) start is replaced by 100000 and an unset size by 65536, so that root in the
  container is never root on the host.\<close>

theorem unprivileged_idmap:
  assumes "\<not> lc_Privileged c"
  shows "Contains (GenerateConfig ord c)
     (idmap_line ''u'' (lc_UIDMapStart c) (lc_UIDMapSize c) @ idmap_line ''g'' (lc_GIDMapStart c) (lc_GIDMapSize c))"
proof -
  have eq: "cfg_idmap c =
      idmap_line ''u'' (lc_UIDMapStart c) (lc_UIDMapSize c) @ idmap_line ''g'' (lc_GIDMapStart c) (lc_GIDMapSize c)"
    using assms by (simp add: cfg_idmap_def idmap_line_def cfg_line_def Sprintf_def Let_def)
  show ?thesis
    unfolding GenerateConfig_def eq [symmetric]
    by (rule Contains_prefix | rule Contains_append_right)+
qed

theorem unprivileged_idmap_witness:
  "Contains (GenerateConfig [] (DefaultLXCConfig ''c1'')) (idmap_line ''u'' 100000 65536 @ idmap_line ''g'' 100000 65536)"
  using unprivileged_idmap [of "DefaultLXCConfig ''c1''" "[]"]
  by (simp add: DefaultLXCConfig_def DefaultSecurityConfig_def)

end
