(* ===== verification/Lxc_Backend.thy ===== *)
theory Lxc_Backend
  imports Vmm_Backend Lxc_Config
begin

text \<open>
  \<^verbatim>\<open>LXCBackend\<close> of \<^verbatim>\<open>internal/compute/lxc_backend.go\<close>.  In emulated mode the backend is a
  table in memory; in real mode it runs the \<open>lxc-*\<close> programs, reads the cgroup file system
  and calls the storage driver it was given.  These are parameters: a \<open>lxc_env\<close> holds their
  answers during one operation.
\<close>

section \<open>State\<close>

record ContainerStats =
  cs_CPUUsageNs :: int64
  cs_MemoryUsageBytes :: int64
  cs_MemoryLimitBytes :: int64
  cs_PIDCount :: int
  cs_NetRxBytes :: int64
  cs_NetTxBytes :: int64

record LXCBackendConfig =
  lbc_Emulated :: bool
  lbc_LXCPath :: string
  lbc_BridgeName :: string

text \<open>A missing snapshot list reads as the empty list.\<close>

record LXCBackend =
  lb_vms :: "int32 \<Rightarrow> VMInfo option"
  lb_configs :: "int32 \<Rightarrow> LXCConfig option"
  lb_nextID :: int32
  lb_emulated :: bool
  lb_lxcPath :: string
  lb_bridgeName :: string
  lb_storage :: bool
  lb_snapshots :: "int32 \<Rightarrow> string list"

record lxc_env =
  le_run :: "string \<Rightarrow> string list \<Rightarrow> string \<times> go_error option"
  le_readFile :: "string \<Rightarrow> string result"
  le_createVolume :: "string \<Rightarrow> string \<Rightarrow> string \<Rightarrow> uint64 \<Rightarrow> string result"
  le_deleteVolume :: "string \<Rightarrow> unit result"
  le_createSnapshot :: "string \<Rightarrow> string \<Rightarrow> unit result"
  le_cloneSnapshot :: "string \<Rightarrow> string \<Rightarrow> string result"

definition NewLXCBackend :: "LXCBackendConfig option \<Rightarrow> LXCBackend" where
  "NewLXCBackend config =
     (let b = \<lparr>lb_vms = Map.empty, lb_configs = Map.empty, lb_nextID = 20000, lb_emulated = True,
               lb_lxcPath = ''/var/lib/lxc'', lb_bridgeName = ''hcvbr0'', lb_storage = False,
               lb_snapshots = (\<lambda>_. [])\<rparr>
      in case config of
           None \<Rightarrow> b
         | Some cfg \<Rightarrow>
             let b1 = b\<lparr>lb_emulated := lbc_Emulated cfg\<rparr>;
                 b2 = (if lbc_LXCPath cfg \<noteq> [] then b1\<lparr>lb_lxcPath := lbc_LXCPath cfg\<rparr> else b1)
             in if lbc_BridgeName cfg \<noteq> [] then b2\<lparr>lb_bridgeName := lbc_BridgeName cfg\<rparr> else b2)"

definition LXC_SetStorageDriver :: "LXCBackend \<Rightarrow> LXCBackend" where
  "LXC_SetStorageDriver b = b\<lparr>lb_storage := True\<rparr>"

section \<open>Command line\<close>

definition lxcExec :: "lxc_env \<Rightarrow> string \<Rightarrow> string list \<Rightarrow> unit result" where
  "lxcExec env name args =
     (case le_run env name args of
        (out, Some err) \<Rightarrow> Err (Errorf ''%s %v: %s: %w'' [FStr name, FStrs args, FStr out, FErr err])
      | (out, None) \<Rightarrow> Ok ())"

definition lxcCreate :: "lxc_env \<Rightarrow> string \<Rightarrow> LXCConfig \<Rightarrow> unit result" where
  "lxcCreate env name cfg =
     lxcExec env ''lxc-create''
       [''-t'', ''download'', ''-n'', name, ''--'', ''--dist'', lc_Distribution cfg,
        ''--release'', lc_Release cfg, ''--arch'', lc_Arch cfg]"

section \<open>Creation\<close>

definition lxc_ip :: "int32 \<Rightarrow> string" where
  "lxc_ip handle = Sprintf ''10.0.0.%d'' [FInt (go_rem (sint handle) 254 + 1)]"

text \<open>The rootfs size: twice the memory, at least 1 GiB, in 64-bit arithmetic.\<close>

definition lxc_rootfs_size :: "uint64 \<Rightarrow> uint64" where
  "lxc_rootfs_size memoryMB =
     (let sizeBytes = memoryMB * 1024 * 1024 * 2 in
      if sizeBytes < 1073741824 then 1073741824 else sizeBytes)"

text \<open>The tail common to both creation methods: the emulated address, the \<open>VMInfo\<close> literal
  and the two table entries.\<close>

definition lxc_register ::
  "int32 \<Rightarrow> string \<Rightarrow> uint32 \<Rightarrow> uint64 \<Rightarrow> gotime \<Rightarrow> LXCConfig \<Rightarrow> LXCBackend \<Rightarrow> VMInfo \<times> LXCBackend" where
  "lxc_register handle name vcpus memoryMB now cfg b =
     (let ipAddr = (if lb_emulated b then lxc_ip handle else []);
          cfg' = (if lb_emulated b then cfg\<lparr>lc_IPAddress := ipAddr\<rparr> else cfg);
          vm = (new_VMInfo handle name vcpus memoryMB ''lxc'' ''container'' now)
                 \<lparr>vmRootFS := lc_RootFS cfg', vmTemplate := lc_Distribution cfg', vmArch := lc_Arch cfg',
                  vmIPAddress := ipAddr\<rparr>
      in (vm, b\<lparr>lb_vms := (lb_vms b)(handle \<mapsto> vm), lb_configs := (lb_configs b)(handle \<mapsto> cfg')\<rparr>))"

definition LXC_CreateVM ::
  "lxc_env \<Rightarrow> string \<Rightarrow> uint32 \<Rightarrow> uint64 \<Rightarrow> gotime \<Rightarrow> LXCBackend \<Rightarrow> VMInfo result \<times> LXCBackend" where
  "LXC_CreateVM env name vcpus memoryMB now b =
     (let next' = lb_nextID b + 1; handle = next' - 1; b0 = b\<lparr>lb_nextID := next'\<rparr>;
          cfg = (DefaultLXCConfig name)\<lparr>lc_VCPUs := vcpus, lc_MemoryMB := memoryMB, lc_BridgeName := lb_bridgeName b\<rparr>;
          prep = (if lb_emulated b0 then Ok cfg
                  else case (if lb_storage b0
                             then case le_createVolume env ''local-zfs'' (Sprintf ''lxc-%s-rootfs'' [FStr name]) ''raw''
                                         (lxc_rootfs_size memoryMB) of
                                    Inl err \<Rightarrow> Err (Errorf ''lxc rootfs volume: %w'' [FErr err])
                                  | Inr path \<Rightarrow> Ok (cfg\<lparr>lc_RootFS := path\<rparr>)
                             else Ok cfg) of
                         Inl err \<Rightarrow> Err err
                       | Inr cfg1 \<Rightarrow>
                           (case lxcCreate env name cfg1 of
                              Inl err \<Rightarrow> Err (Errorf ''lxc create: %w'' [FErr err])
                            | Inr _ \<Rightarrow> Ok cfg1))
      in case prep of
           Inl err \<Rightarrow> (Err err, b0)
         | Inr cfg2 \<Rightarrow> let (vm, b1) = lxc_register handle name vcpus memoryMB now cfg2 b0 in (Ok vm, b1))"

definition LXC_CreateVMWithTemplate ::
  "lxc_env \<Rightarrow> string \<Rightarrow> uint32 \<Rightarrow> uint64 \<Rightarrow> string \<Rightarrow> gotime \<Rightarrow> LXCBackend \<Rightarrow> VMInfo result \<times> LXCBackend" where
  "LXC_CreateVMWithTemplate env name vcpus memoryMB tmpl now b =
     (let next' = lb_nextID b + 1; handle = next' - 1; b0 = b\<lparr>lb_nextID := next'\<rparr>;
          cfg0 = (DefaultLXCConfig name)\<lparr>lc_VCPUs := vcpus, lc_MemoryMB := memoryMB, lc_BridgeName := lb_bridgeName b\<rparr>;
          cfg = (if tmpl \<noteq> [] then cfg0\<lparr>lc_Distribution := tmpl\<rparr> else cfg0)
      in case (if lb_emulated b0 then Ok () else lxcCreate env name cfg) of
           Inl err \<Rightarrow> (Err (Errorf ''lxc create: %w'' [FErr err]), b0)
         | Inr _ \<Rightarrow> let (vm, b1) = lxc_register handle name vcpus memoryMB now cfg b0 in (Ok vm, b1))"

section \<open>Destruction and queries\<close>

text \<open>Failures of \<open>lxc-destroy\<close> and of the volume cleanup are only logged.\<close>

definition LXC_DestroyVM :: "lxc_env \<Rightarrow> int32 \<Rightarrow> LXCBackend \<Rightarrow> unit result \<times> LXCBackend" where
  "LXC_DestroyVM env handle b =
     (case lb_vms b handle of
        None \<Rightarrow> (Err (Errorf ''VM not found: %d'' [FInt (sint handle)]), b)
      | Some vm \<Rightarrow>
          let ignored = (if lb_emulated b then [] else
                [lxcExec env ''lxc-destroy'' [''-n'', vmName vm]] @
                (if lb_storage b then [le_deleteVolume env (Sprintf ''lxc-%s-rootfs'' [FStr (vmName vm)])] else []))
          in (Ok (), b\<lparr>lb_vms := (lb_vms b)(handle := None), lb_configs := (lb_configs b)(handle := None),
                       lb_snapshots := (lb_snapshots b)(handle := [])\<rparr>))"

definition LXC_GetVM :: "int32 \<Rightarrow> LXCBackend \<Rightarrow> VMInfo result" where
  "LXC_GetVM handle b =
     (case lb_vms b handle of
        None \<Rightarrow> Err (Errorf ''VM not found: %d'' [FInt (sint handle)])
      | Some vm \<Rightarrow> Ok vm)"

definition LXC_ListVMs :: "int32 list \<Rightarrow> LXCBackend \<Rightarrow> VMInfo list" where
  "LXC_ListVMs ord b = map_values ord (lb_vms b)"

definition LXC_AvailableTemplates :: "string list" where
  "LXC_AvailableTemplates = [''ubuntu'', ''alpine'', ''debian'', ''centos'']"

section \<open>Transitions\<close>

definition lxcValidTransitions :: "string \<Rightarrow> (string \<Rightarrow> bool) option" where
  "lxcValidTransitions = [''configured'' \<mapsto> (\<lambda>t. t = ''running'' \<or> t = ''stopped''),
                          ''running'' \<mapsto> (\<lambda>t. t = ''paused'' \<or> t = ''stopped''),
                          ''paused'' \<mapsto> (\<lambda>t. t = ''running'' \<or> t = ''stopped'')]"

definition LXC_transition ::
  "lxc_env \<Rightarrow> int32 \<Rightarrow> string \<Rightarrow> string \<Rightarrow> string list \<Rightarrow> LXCBackend \<Rightarrow> unit result \<times> LXCBackend" where
  "LXC_transition env handle targetState cmd args b =
     (case lb_vms b handle of
        None \<Rightarrow> (Err (Errorf ''VM not found: %d'' [FInt (sint handle)]), b)
      | Some vm \<Rightarrow>
          if (case lxcValidTransitions (vmState vm) of None \<Rightarrow> True | Some allowed \<Rightarrow> \<not> allowed targetState)
          then (Err invalid_state_error, b)
          else case (if lb_emulated b then Ok ()
                     else lxcExec env cmd (map (\<lambda>a. if a = ''%NAME%'' then vmName vm else a) args)) of
                 Inl err \<Rightarrow> (Err (Errorf ''lxc %s: %w'' [FStr cmd, FErr err]), b)
               | Inr _ \<Rightarrow> (Ok (), b\<lparr>lb_vms := (lb_vms b)(handle \<mapsto> vm\<lparr>vmState := targetState\<rparr>)\<rparr>))"

definition LXC_StartVM :: "lxc_env \<Rightarrow> int32 \<Rightarrow> LXCBackend \<Rightarrow> unit result \<times> LXCBackend" where
  "LXC_StartVM env handle = LXC_transition env handle ''running'' ''lxc-start'' [''-n'', ''%NAME%'', ''-d'']"

definition LXC_StopVM :: "lxc_env \<Rightarrow> int32 \<Rightarrow> LXCBackend \<Rightarrow> unit result \<times> LXCBackend" where
  "LXC_StopVM env handle = LXC_transition env handle ''stopped'' ''lxc-stop'' [''-n'', ''%NAME%'']"

definition LXC_PauseVM :: "lxc_env \<Rightarrow> int32 \<Rightarrow> LXCBackend \<Rightarrow> unit result \<times> LXCBackend" where
  "LXC_PauseVM env handle = LXC_transition env handle ''paused'' ''lxc-freeze'' [''-n'', ''%NAME%'']"

definition LXC_ResumeVM :: "lxc_env \<Rightarrow> int32 \<Rightarrow> LXCBackend \<Rightarrow> unit result \<times> LXCBackend" where
  "LXC_ResumeVM env handle = LXC_transition env handle ''running'' ''lxc-unfreeze'' [''-n'', ''%NAME%'']"

fun LXC_act :: "lxc_env \<Rightarrow> vm_action \<Rightarrow> int32 \<Rightarrow> LXCBackend \<Rightarrow> unit result \<times> LXCBackend" where
  "LXC_act env Start h b = LXC_StartVM env h b"
| "LXC_act env Stop h b = LXC_StopVM env h b"
| "LXC_act env Pause h b = LXC_PauseVM env h b"
| "LXC_act env Resume h b = LXC_ResumeVM env h b"

section \<open>Statistics\<close>

text \<open>The loop over the lines of \<open>cpu.stat\<close>: the last well-formed \<open>usage_usec\<close> line counts.\<close>

fun cpu_usage :: "int64 \<Rightarrow> string list \<Rightarrow> int64" where
  "cpu_usage acc [] = acc"
| "cpu_usage acc (line # ls) =
     cpu_usage
       (if HasPrefix line ''usage_usec ''
        then case Fields line of
               [_, n] \<Rightarrow> (case ParseInt 64 n of Some v \<Rightarrow> word_of_int v * 1000 | None \<Rightarrow> acc)
             | _ \<Rightarrow> acc
        else acc) ls"

definition readCgroupStats :: "lxc_env \<Rightarrow> string \<Rightarrow> ContainerStats" where
  "readCgroupStats env containerName =
     (let cgroupBase = Sprintf ''/sys/fs/cgroup/lxc.payload.%s'' [FStr containerName] in
      \<lparr>cs_CPUUsageNs = (case le_readFile env (cgroupBase @ ''/cpu.stat'') of
                          Inr content \<Rightarrow> cpu_usage 0 (split_char newline content)
                        | Inl e \<Rightarrow> 0),
       cs_MemoryUsageBytes = (case le_readFile env (cgroupBase @ ''/memory.current'') of
                                Inr content \<Rightarrow> (case ParseInt 64 (TrimSpace content) of Some v \<Rightarrow> word_of_int v | None \<Rightarrow> 0)
                              | Inl e \<Rightarrow> 0),
       cs_MemoryLimitBytes = (case le_readFile env (cgroupBase @ ''/memory.max'') of
                                Inr content \<Rightarrow>
                                  if TrimSpace content \<noteq> ''max''
                                  then case ParseInt 64 (TrimSpace content) of Some v \<Rightarrow> word_of_int v | None \<Rightarrow> 0
                                  else 0
                              | Inl e \<Rightarrow> 0),
       cs_PIDCount = (case le_readFile env (cgroupBase @ ''/pids.current'') of
                        Inr content \<Rightarrow> (case ParseInt 64 (TrimSpace content) of Some v \<Rightarrow> v | None \<Rightarrow> 0)
                      | Inl e \<Rightarrow> 0),
       cs_NetRxBytes = 0, cs_NetTxBytes = 0\<rparr>)"

definition LXC_GetContainerStats :: "lxc_env \<Rightarrow> int32 \<Rightarrow> LXCBackend \<Rightarrow> ContainerStats result" where
  "LXC_GetContainerStats env handle b =
     (case lb_vms b handle of
        None \<Rightarrow> Err (Errorf ''VM not found: %d'' [FInt (sint handle)])
      | Some vm \<Rightarrow>
          if lb_emulated b
          then Ok \<lparr>cs_CPUUsageNs = ucast (vmVCPUs vm) * 1000000000,
                   cs_MemoryUsageBytes = vmMemoryMB vm * 512 * 1024,
                   cs_MemoryLimitBytes = vmMemoryMB vm * 1024 * 1024,
                   cs_PIDCount = 10, cs_NetRxBytes = 4096, cs_NetTxBytes = 2048\<rparr>
          else Ok (readCgroupStats env (vmName vm)))"

section \<open>Snapshots, clones, checkpoints, exec\<close>

definition LXC_SnapshotContainer ::
  "lxc_env \<Rightarrow> int32 \<Rightarrow> string \<Rightarrow> LXCBackend \<Rightarrow> unit result \<times> LXCBackend" where
  "LXC_SnapshotContainer env handle name b =
     (case lb_vms b handle of
        None \<Rightarrow> (Err (Errorf ''VM not found: %d'' [FInt (sint handle)]), b)
      | Some vm \<Rightarrow>
          let b1 = b\<lparr>lb_snapshots := (lb_snapshots b)(handle := lb_snapshots b handle @ [name])\<rparr> in
          if lb_emulated b then (Ok (), b1)
          else if \<not> lb_storage b then (Err (Errorf ''storage driver not configured'' []), b)
          else case le_createSnapshot env (Sprintf ''lxc-%s-rootfs'' [FStr (vmName vm)]) name of
                 Inl err \<Rightarrow> (Err (Errorf ''lxc snapshot: %w'' [FErr err]), b)
               | Inr _ \<Rightarrow> (Ok (), b1))"

definition clone_config :: "string \<Rightarrow> LXCConfig option \<Rightarrow> LXCConfig" where
  "clone_config newName cfg =
     (case cfg of
        None \<Rightarrow> DefaultLXCConfig newName
      | Some c \<Rightarrow> (DefaultLXCConfig newName)\<lparr>lc_VCPUs := lc_VCPUs c, lc_MemoryMB := lc_MemoryMB c,
                     lc_Distribution := lc_Distribution c, lc_BridgeName := lc_BridgeName c\<rparr>)"

definition LXC_CloneContainer ::
  "lxc_env \<Rightarrow> int32 \<Rightarrow> string \<Rightarrow> gotime \<Rightarrow> LXCBackend \<Rightarrow> int32 result \<times> LXCBackend" where
  "LXC_CloneContainer env handle newName now b =
     (case lb_vms b handle of
        None \<Rightarrow> (Err (Errorf ''VM not found: %d'' [FInt (sint handle)]), b)
      | Some vm \<Rightarrow>
          (let snaps = lb_snapshots b handle; cfg = lb_configs b handle in
           if snaps = [] then (Err (Errorf ''no snapshots for container %d'' [FInt (sint handle)]), b)
           else
             let latestSnap = last snaps; next' = lb_nextID b + 1; newHandle = next' - 1;
                 b0 = b\<lparr>lb_nextID := next'\<rparr>;
                 newVM = (new_VMInfo newHandle newName (vmVCPUs vm) (vmMemoryMB vm) ''lxc'' ''container'' now)
                           \<lparr>vmTemplate := vmTemplate vm, vmArch := vmArch vm\<rparr>
             in if lb_emulated b
                then (Ok newHandle,
                      b0\<lparr>lb_vms := (lb_vms b0)(newHandle \<mapsto>
                             newVM\<lparr>vmRootFS := Sprintf ''/var/lib/lxc/%s/rootfs'' [FStr newName], vmIPAddress := lxc_ip newHandle\<rparr>),
                         lb_configs := (lb_configs b0)(newHandle \<mapsto> clone_config newName cfg)\<rparr>)
                else if \<not> lb_storage b then (Err (Errorf ''storage driver not configured'' []), b0)
                else case le_cloneSnapshot env (Sprintf ''snap-%s'' [FStr latestSnap])
                            (Sprintf ''lxc-%s-rootfs'' [FStr newName]) of
                       Inl err \<Rightarrow> (Err (Errorf ''lxc clone: %w'' [FErr err]), b0)
                     | Inr path \<Rightarrow>
                         (Ok newHandle,
                          b0\<lparr>lb_vms := (lb_vms b0)(newHandle \<mapsto> newVM\<lparr>vmRootFS := path\<rparr>),
                             lb_configs := (lb_configs b0)(newHandle \<mapsto> (clone_config newName cfg)\<lparr>lc_RootFS := path\<rparr>)\<rparr>)))"

definition LXC_MigrateContainer ::
  "lxc_env \<Rightarrow> int32 \<Rightarrow> string \<Rightarrow> LXCBackend \<Rightarrow> unit result \<times> LXCBackend" where
  "LXC_MigrateContainer env handle targetNode b =
     (case lb_vms b handle of
        None \<Rightarrow> (Err (Errorf ''VM not found: %d'' [FInt (sint handle)]), b)
      | Some vm \<Rightarrow>
          if vmState vm \<noteq> ''running''
          then (Err (Errorf ''container must be running to migrate, current state: %s'' [FStr (vmState vm)]), b)
          else if vmNode vm = targetNode
          then (Err (Errorf ''container %d is already on node %s'' [FInt (sint handle), FStr targetNode]), b)
          else case (if lb_emulated b then Ok ()
                     else lxcExec env ''lxc-checkpoint''
                            [''-n'', vmName vm, ''-D'', Sprintf ''/tmp/lxc-checkpoint-%s'' [FStr (vmName vm)], ''-s'']) of
                 Inl err \<Rightarrow> (Err (Errorf ''lxc checkpoint: %w'' [FErr err]), b)
               | Inr _ \<Rightarrow> (Ok (), b\<lparr>lb_vms := (lb_vms b)(handle \<mapsto> vm\<lparr>vmNode := targetNode\<rparr>)\<rparr>))"

definition LXC_CheckpointContainer :: "lxc_env \<Rightarrow> int32 \<Rightarrow> string \<Rightarrow> LXCBackend \<Rightarrow> unit result" where
  "LXC_CheckpointContainer env handle dir b =
     (case lb_vms b handle of
        None \<Rightarrow> Err (Errorf ''VM not found: %d'' [FInt (sint handle)])
      | Some vm \<Rightarrow>
          (case (if lb_emulated b then Ok () else lxcExec env ''lxc-checkpoint'' [''-n'', vmName vm, ''-D'', dir, ''-s'']) of
             Inl err \<Rightarrow> Err (Errorf ''lxc checkpoint: %w'' [FErr err])
           | Inr _ \<Rightarrow> Ok ()))"

definition LXC_RestoreContainer ::
  "lxc_env \<Rightarrow> int32 \<Rightarrow> string \<Rightarrow> LXCBackend \<Rightarrow> unit result \<times> LXCBackend" where
  "LXC_RestoreContainer env handle dir b =
     (case lb_vms b handle of
        None \<Rightarrow> (Err (Errorf ''VM not found: %d'' [FInt (sint handle)]), b)
      | Some vm \<Rightarrow>
          (case (if lb_emulated b then Ok () else lxcExec env ''lxc-checkpoint'' [''-n'', vmName vm, ''-D'', dir, ''-r'']) of
             Inl err \<Rightarrow> (Err (Errorf ''lxc restore: %w'' [FErr err]), b)
           | Inr _ \<Rightarrow> (Ok (), b\<lparr>lb_vms := (lb_vms b)(handle \<mapsto> vm\<lparr>vmState := ''running''\<rparr>)\<rparr>)))"

text \<open>\<open>ExecContainer\<close> returns the output beside the error.\<close>

definition LXC_ExecContainer ::
  "lxc_env \<Rightarrow> int32 \<Rightarrow> string list \<Rightarrow> LXCBackend \<Rightarrow> string \<times> go_error option" where
  "LXC_ExecContainer env handle command b =
     (case lb_vms b handle of
        None \<Rightarrow> ([], Some (Errorf ''VM not found: %d'' [FInt (sint handle)]))
      | Some vm \<Rightarrow>
          if vmState vm \<noteq> ''running''
          then ([], Some (Errorf ''invalid state: container must be running to exec, current state: %s'' [FStr (vmState vm)]))
          else if lb_emulated b then (Sprintf ''exec: %s'' [FStr (str_join '' '' command)], None)
          else case le_run env ''lxc-attach'' ([''-n'', vmName vm, ''--''] @ command) of
                 (out, Some err) \<Rightarrow> (out, Some (Errorf ''lxc-attach: %s: %w'' [FStr out, FErr err]))
               | (out, None) \<Rightarrow> (out, None))"

section \<open>The contract holds\<close>

lemma lxcValidTransitions_phase:
  "(\<exists>allowed. lxcValidTransitions (phase_string p) = Some allowed \<and> allowed (phase_string q))
     \<longleftrightarrow> lifecycle p q \<and> p \<noteq> Created"
  by (cases p; cases q) (auto simp: lxcValidTransitions_def lifecycle_iff)

definition lxc_entry_ok :: "int32 \<Rightarrow> int32 \<Rightarrow> VMInfo \<Rightarrow> bool" where
  "lxc_entry_ok nxt h vm \<longleftrightarrow> vmID vm = h \<and> vmBackend vm = ''lxc''
     \<and> (\<exists>p. vmState vm = phase_string p \<and> p \<noteq> Created) \<and> 20000 \<le> sint h \<and> sint h < sint nxt"

definition lxc_ok :: "LXCBackend \<Rightarrow> bool" where
  "lxc_ok b \<longleftrightarrow> 20000 \<le> sint (lb_nextID b) \<and>
     (\<forall>h vm. lb_vms b h = Some vm \<longrightarrow> lxc_entry_ok (lb_nextID b) h vm)"

lemma lxc_ok_New [simp]: "lxc_ok (NewLXCBackend cfg)"
  by (auto simp: lxc_ok_def NewLXCBackend_def Let_def split: option.splits)

lemma lxc_next_New [simp]: "lb_nextID (NewLXCBackend cfg) = 20000"
  by (auto simp: NewLXCBackend_def Let_def split: option.splits)

lemma lxc_ok_cong: "lxc_ok b \<Longrightarrow> lb_vms b' = lb_vms b \<Longrightarrow> lb_nextID b' = lb_nextID b \<Longrightarrow> lxc_ok b'"
  by (simp add: lxc_ok_def)

lemma lxc_ok_add:
  assumes "lxc_ok b" "sint (lb_nextID b) < 2147483647" "lb_nextID b' = lb_nextID b + 1"
    and "lb_vms b' = lb_vms b \<or> (\<exists>vm. lb_vms b' = (lb_vms b)(lb_nextID b \<mapsto> vm) \<and> vmID vm = lb_nextID b
      \<and> vmBackend vm = ''lxc'' \<and> vmState vm = ''configured'')"
  shows "lxc_ok b'"
proof -
  have old: "lb_vms b h = Some vm \<Longrightarrow> lxc_entry_ok (lb_nextID b + 1) h vm" for h vm
    using assms(1,2) by (fastforce simp: lxc_ok_def lxc_entry_ok_def sint_add_one)
  have new: "lxc_entry_ok (lb_nextID b + 1) (lb_nextID b) vm"
    if "vmID vm = lb_nextID b" "vmBackend vm = ''lxc''" "vmState vm = ''configured''" for vm
    using that assms(1,2) by (auto simp: lxc_ok_def lxc_entry_ok_def sint_add_one intro!: exI [of _ Configured])
  show ?thesis
    using assms(1,2,3,4) old new by (auto simp: lxc_ok_def sint_add_one split: if_splits)
qed

lemma lxc_ok_upd_state:
  assumes "lxc_ok b" "lb_vms b h = Some vm" "lb_vms b' = (lb_vms b)(h \<mapsto> vm\<lparr>vmState := phase_string p\<rparr>)"
    "lb_nextID b' = lb_nextID b" "p \<noteq> Created"
  shows "lxc_ok b'"
  using assms by (auto simp: lxc_ok_def lxc_entry_ok_def)

lemma lxc_create_cases:
  assumes "LXC_CreateVM env n c m t b = (r, b')"
  shows "lb_nextID b' = lb_nextID b + 1 \<and> lb_emulated b' = lb_emulated b \<and>
    (case r of
       Inl e \<Rightarrow> lb_vms b' = lb_vms b \<and> \<not> lb_emulated b
     | Inr vm \<Rightarrow> lb_vms b' = (lb_vms b)(lb_nextID b \<mapsto> vm) \<and> vmID vm = lb_nextID b \<and> vmName vm = n
         \<and> vmState vm = ''configured'' \<and> vmVCPUs vm = c \<and> vmMemoryMB vm = m \<and> vmNode vm = ''local''
         \<and> vmBackend vm = ''lxc'')"
  using assms
  by (auto simp: LXC_CreateVM_def lxc_register_def Let_def new_VMInfo_def split: sum.splits if_splits)

lemma lxc_create_ok:
  assumes ok: "lxc_ok b" and lt: "sint (lb_nextID b) < 2147483647"
  shows "lxc_ok (snd (LXC_CreateVM env n c m t b))"
proof -
  obtain r b' where c: "LXC_CreateVM env n c m t b = (r, b')" by (metis prod.exhaust)
  have "lxc_ok b'"
    using lxc_create_cases [OF c] by (cases r) (auto intro!: lxc_ok_add [OF ok lt])
  then show ?thesis using c by simp
qed

lemma lxc_destroy_eq:
  "lb_vms (snd (LXC_DestroyVM env h b)) = (lb_vms b)(h := None)"
  "lb_nextID (snd (LXC_DestroyVM env h b)) = lb_nextID b"
  "lb_emulated (snd (LXC_DestroyVM env h b)) = lb_emulated b"
  "is_ok (fst (LXC_DestroyVM env h b)) \<longleftrightarrow> lb_vms b h \<noteq> None"
  by (auto simp: LXC_DestroyVM_def Let_def split: option.splits)

definition lxc_command :: "vm_action \<Rightarrow> string \<times> string list" where
  "lxc_command a = (case a of
       Start \<Rightarrow> (''lxc-start'', [''-n'', ''%NAME%'', ''-d''])
     | Stop \<Rightarrow> (''lxc-stop'', [''-n'', ''%NAME%''])
     | Pause \<Rightarrow> (''lxc-freeze'', [''-n'', ''%NAME%''])
     | Resume \<Rightarrow> (''lxc-unfreeze'', [''-n'', ''%NAME%'']))"

lemma LXC_act_eq:
  "LXC_act env a h b =
     LXC_transition env h (phase_string (action_target a)) (fst (lxc_command a)) (snd (lxc_command a)) b"
  by (cases a) (simp_all add: LXC_StartVM_def LXC_StopVM_def LXC_PauseVM_def LXC_ResumeVM_def lxc_command_def)

lemma LXC_act_cases:
  assumes "LXC_act env a h b = (r, b')"
  shows "lb_nextID b' = lb_nextID b \<and> lb_emulated b' = lb_emulated b \<and>
    (case r of
       Inl e \<Rightarrow> lb_vms b' = lb_vms b
     | Inr u \<Rightarrow> (\<exists>vm allowed. lb_vms b h = Some vm \<and> lxcValidTransitions (vmState vm) = Some allowed
         \<and> allowed (phase_string (action_target a))
         \<and> lb_vms b' = (lb_vms b)(h \<mapsto> vm\<lparr>vmState := phase_string (action_target a)\<rparr>)))"
  using assms by (auto simp: LXC_act_eq LXC_transition_def split: option.splits if_splits sum.splits)

lemma lxc_act_preserves:
  assumes ok: "lxc_ok b"
  shows "lxc_ok (snd (LXC_act env a h b))"
proof -
  obtain r b' where c: "LXC_act env a h b = (r, b')" by (metis prod.exhaust)
  have "lxc_ok b'"
    using LXC_act_cases [OF c] by (cases r) (auto intro: lxc_ok_upd_state [OF ok] lxc_ok_cong [OF ok])
  then show ?thesis using c by simp
qed

interpretation lxc: vmm_backend lb_vms lb_nextID lxc_ok "''lxc''"
  LXC_CreateVM LXC_DestroyVM LXC_act "\<lambda>_ _ b. b" LXC_GetVM
proof (unfold_locales, goal_cases)
  case (1 h b)
  show ?case by (simp add: LXC_GetVM_def vm_not_found_def split: option.splits)
next
  case (2 b h vm)
  then show ?case by (auto simp: lxc_ok_def lxc_entry_ok_def)
next
  case (3 b e n c m t)
  then show ?case by (rule lxc_create_ok)
next
  case (4 e n c m t b)
  show ?case using lxc_create_cases [of e n c m t b] by (metis prod.collapse)
next
  case (5 b e n c m t r b')
  then show ?case using lxc_create_cases [OF 5(2)] by (auto split: sum.splits)
next
  case (6 b e h)
  then show ?case by (auto simp: lxc_ok_def lxc_destroy_eq)
next
  case (7 e h b)
  show ?case by (rule lxc_destroy_eq)
next
  case (8 b e h rd b')
  then show ?case using lxc_destroy_eq [of e h b] by simp
next
  case (9 b e a h)
  then show ?case by (rule lxc_act_preserves)
next
  case (10 e a h b)
  show ?case using LXC_act_cases [of e a h b] by (metis prod.collapse)
next
  case (11 b e a h rd b')
  note * = LXC_act_cases [OF 11(2)]
  show ?case
  proof (cases rd)
    case (Inr u)
    then obtain vm allowed where vm: "lb_vms b h = Some vm" "lxcValidTransitions (vmState vm) = Some allowed"
        "allowed (phase_string (action_target a))"
        "lb_vms b' = (lb_vms b)(h \<mapsto> vm\<lparr>vmState := phase_string (action_target a)\<rparr>)"
      using * by auto
    obtain p where "vmState vm = phase_string p" using 11(1) vm(1) by (auto simp: lxc_ok_def lxc_entry_ok_def)
    with vm Inr show ?thesis using lxcValidTransitions_phase [of p "action_target a"] by auto
  qed (use * in simp)
next
  case (12 b e h)
  then show ?case .
next
  case (13 e h b)
  show ?case by simp
next
  case (14 b e h)
  show ?case by simp
qed

text \<open>The operations outside the interface keep the invariant too.\<close>

lemma lxc_restore_ok:
  assumes ok: "lxc_ok b"
  shows "lxc_ok (snd (LXC_RestoreContainer env h dir b))"
proof (cases "lb_vms b h")
  case None
  then show ?thesis using ok by (simp add: LXC_RestoreContainer_def)
next
  case (Some vm)
  have "lxc_ok (b\<lparr>lb_vms := (lb_vms b)(h \<mapsto> vm\<lparr>vmState := phase_string Running\<rparr>)\<rparr>)"
    by (rule lxc_ok_upd_state [OF ok Some, where p = Running]) simp_all
  then show ?thesis using ok Some by (auto simp: LXC_RestoreContainer_def split: sum.splits)
qed

lemma lxc_snapshot_ok: "lxc_ok b \<Longrightarrow> lxc_ok (snd (LXC_SnapshotContainer env h n b))"
  by (auto simp: LXC_SnapshotContainer_def Let_def lxc_ok_def split: option.splits sum.splits)

lemma lxc_clone_ok:
  assumes ok: "lxc_ok b" and lt: "sint (lb_nextID b) < 2147483647"
  shows "lxc_ok (snd (LXC_CloneContainer env h n t b))"
  using ok
  by (auto simp: LXC_CloneContainer_def Let_def new_VMInfo_def split: option.splits sum.splits
      intro!: lxc_ok_add [OF ok lt])

section \<open>Properties\<close>

abbreviation lxc_exec :: "lxc_env \<times> vm_op \<Rightarrow> LXCBackend \<Rightarrow> LXCBackend" where
  "lxc_exec \<equiv> vmm_exec LXC_CreateVM LXC_DestroyVM LXC_act (\<lambda>_ _ b. b)"


definition mute_env :: lxc_env where
  "mute_env = \<lparr>le_run = (\<lambda>_ _. ([], Some (ExtError ''exit status 1''))), le_readFile = (\<lambda>_. Err (ExtError ''ENOENT'')),
     le_createVolume = (\<lambda>_ _ _ _. Err (ExtError ''x'')), le_deleteVolume = (\<lambda>_. Err (ExtError ''x'')),
     le_createSnapshot = (\<lambda>_ _. Err (ExtError ''x'')), le_cloneSnapshot = (\<lambda>_ _. Err (ExtError ''x''))\<rparr>"

definition lxc_one :: LXCBackend where
  "lxc_one = fold lxc_exec [(mute_env, VCreate ''c1'' 1 256 5)] (NewLXCBackend None)"

lemma lxc_one_ok: "lxc_ok lxc_one"
  unfolding lxc_one_def by (rule lxc.run_ok) simp_all

lemma lxc_one_entry:
  "lb_vms lxc_one 20000 = Some ((new_VMInfo 20000 ''c1'' 1 256 ''lxc'' ''container'' 5)
     \<lparr>vmRootFS := ''/var/lib/lxc/c1/rootfs'', vmTemplate := ''ubuntu'', vmArch := ''amd64'', vmIPAddress := lxc_ip 20000\<rparr>)"
  "lb_nextID lxc_one = 20001" "lb_emulated lxc_one"
  by (simp_all add: lxc_one_def LXC_CreateVM_def NewLXCBackend_def Let_def lxc_register_def
      DefaultLXCConfig_def DefaultSecurityConfig_def Sprintf_def)


text \<open>Restoring a checkpoint is outside the life cycle: in emulated mode it makes a
  container run from every state, also from the stopped state, from which no action can start
  it.\<close>

theorem lxc_restore_revives_stopped:
  assumes "lb_emulated b" "lb_vms b h = Some vm" "vmState vm = ''stopped''"
  shows "(\<exists>b'. LXC_RestoreContainer env h dir b = (Ok (), b')
        \<and> lb_vms b' = (lb_vms b)(h \<mapsto> vm\<lparr>vmState := ''running''\<rparr>))
    \<and> \<not> lifecycle\<^sup>*\<^sup>* Stopped Running \<and> (\<forall>a. LXC_act env a h b = (Err invalid_state_error, b))"
proof -
  have "\<not> lifecycle\<^sup>*\<^sup>* Stopped Running" using stopped_terminal by fastforce
  with assms show ?thesis
    by (simp add: LXC_RestoreContainer_def LXC_act_eq LXC_transition_def lxcValidTransitions_def)
qed

theorem lxc_restore_revives_stopped_witness:
  "\<exists>b'. LXC_RestoreContainer mute_env 20000 ''/tmp/cp'' (snd (LXC_StopVM mute_env 20000 lxc_one)) = (Ok (), b')"
proof -
  have "lb_emulated (snd (LXC_StopVM mute_env 20000 lxc_one))"
    "lb_vms (snd (LXC_StopVM mute_env 20000 lxc_one)) 20000 = Some ((the (lb_vms lxc_one 20000))\<lparr>vmState := ''stopped''\<rparr>)"
    by (simp_all add: LXC_StopVM_def LXC_transition_def lxc_one_entry lxcValidTransitions_def new_VMInfo_def)
  from lxc_restore_revives_stopped [OF this, of mute_env "''/tmp/cp''"] show ?thesis by auto
qed

text \<open>The emulated address of a container depends on its handle modulo 254 only: two
  containers get the same address exactly when their handles are congruent, and a container
  gets the address 10.0.0.1 of the default gateway exactly when its handle is a multiple of
  254.\<close>

theorem lxc_ip_collisions:
  assumes "0 \<le> sint h" "0 \<le> sint k"
  shows "(lxc_ip h = lxc_ip k \<longleftrightarrow> sint h mod 254 = sint k mod 254)
    \<and> (lxc_ip h = lc_Gateway (DefaultLXCConfig name) \<longleftrightarrow> 254 dvd sint h)"
proof -
  have ip: "lxc_ip x = ''10.0.0.'' @ show_int (sint x mod 254 + 1)" if "0 \<le> sint x" for x
    using that by (simp add: lxc_ip_def Sprintf_def go_rem_def)
  have gw: "lc_Gateway (DefaultLXCConfig name) = ''10.0.0.'' @ show_int 1"
    by (simp add: DefaultLXCConfig_def show_int_def show_nat.simps Let_def)
  show ?thesis using assms by (simp add: ip gw del: show_int_numeral) auto
qed

theorem lxc_ip_collisions_witness:
  "lxc_ip 20066 = ''10.0.0.1'' \<and> lxc_ip 20000 = lxc_ip 20254"
  using lxc_ip_collisions [of 20066 20066 "''c''"] lxc_ip_collisions [of 20000 20254 "''c''"]
  by (simp add: DefaultLXCConfig_def Let_def)

end
