(* ===== verification/Compute_Service.thy ===== *)
theory Compute_Service
  imports Rust_Backend Qemu_Backend Lxc_Backend
begin

text \<open>
  \<^verbatim>\<open>BackendSelector\<close> and \<^verbatim>\<open>ComputeService\<close> of \<^verbatim>\<open>internal/compute/compute.go\<close>: routing a
  request to a VMM backend, looking a machine up across all backends, and the synchronous
  operations on machines.  The registered backends are a Go map; \<open>ord\<close> is the order in which
  a call of \<open>listBackends\<close> visits it.  Live migration is in the next theory.
\<close>

section \<open>Backends behind the interface\<close>

datatype backend =
    BRust RustVMMBackend
  | BQemu QEMUBackend
  | BLxc LXCBackend

record comp_env =
  ce_qemu :: qemu_env
  ce_lxc :: lxc_env

fun backend_Name :: "backend \<Rightarrow> string" where
  "backend_Name (BRust b) = ''rustvmm''"
| "backend_Name (BQemu b) = ''qemu''"
| "backend_Name (BLxc b) = ''lxc''"

fun backend_table :: "backend \<Rightarrow> int32 \<Rightarrow> VMInfo option" where
  "backend_table (BRust b) = rb_vms b"
| "backend_table (BQemu b) = qb_vms b"
| "backend_table (BLxc b) = lb_vms b"

fun backend_next :: "backend \<Rightarrow> int32" where
  "backend_next (BRust b) = core_nextHandle (rb_core b)"
| "backend_next (BQemu b) = qb_nextID b"
| "backend_next (BLxc b) = lb_nextID b"

fun backend_ok :: "backend \<Rightarrow> bool" where
  "backend_ok (BRust b) = rust_ok b"
| "backend_ok (BQemu b) = qemu_ok b"
| "backend_ok (BLxc b) = lxc_ok b"

fun backend_CreateVM ::
  "comp_env \<Rightarrow> string \<Rightarrow> uint32 \<Rightarrow> uint64 \<Rightarrow> gotime \<Rightarrow> backend \<Rightarrow> VMInfo result \<times> backend" where
  "backend_CreateVM e n c m t (BRust b) = apsnd BRust (RustVMM_CreateVM n c m t b)"
| "backend_CreateVM e n c m t (BQemu b) = apsnd BQemu (QEMU_CreateVM (ce_qemu e) n c m t b)"
| "backend_CreateVM e n c m t (BLxc b) = apsnd BLxc (LXC_CreateVM (ce_lxc e) n c m t b)"

fun backend_DestroyVM :: "comp_env \<Rightarrow> int32 \<Rightarrow> backend \<Rightarrow> unit result \<times> backend" where
  "backend_DestroyVM e h (BRust b) = apsnd BRust (RustVMM_DestroyVM h b)"
| "backend_DestroyVM e h (BQemu b) = apsnd BQemu (QEMU_DestroyVM (ce_qemu e) h b)"
| "backend_DestroyVM e h (BLxc b) = apsnd BLxc (LXC_DestroyVM (ce_lxc e) h b)"

fun backend_act :: "comp_env \<Rightarrow> vm_action \<Rightarrow> int32 \<Rightarrow> backend \<Rightarrow> unit result \<times> backend" where
  "backend_act e a h (BRust b) = apsnd BRust (RustVMM_act a h b)"
| "backend_act e a h (BQemu b) = apsnd BQemu (QEMU_act (ce_qemu e) a h b)"
| "backend_act e a h (BLxc b) = apsnd BLxc (LXC_act (ce_lxc e) a h b)"

fun backend_GetVM :: "int32 \<Rightarrow> backend \<Rightarrow> VMInfo result" where
  "backend_GetVM h (BRust b) = RustVMM_GetVM h b"
| "backend_GetVM h (BQemu b) = QEMU_GetVM h b"
| "backend_GetVM h (BLxc b) = LXC_GetVM h b"

fun backend_ListVMs :: "int32 list \<Rightarrow> backend \<Rightarrow> VMInfo list" where
  "backend_ListVMs ord (BRust b) = RustVMM_ListVMs ord b"
| "backend_ListVMs ord (BQemu b) = QEMU_ListVMs ord b"
| "backend_ListVMs ord (BLxc b) = LXC_ListVMs ord b"

fun backend_tick :: "comp_env \<Rightarrow> int32 \<Rightarrow> backend \<Rightarrow> backend" where
  "backend_tick e h (BRust b) = BRust b"
| "backend_tick e h (BQemu b) = BQemu (QEMU_monitor_round (ce_qemu e) h b)"
| "backend_tick e h (BLxc b) = BLxc b"

text \<open>What the three contracts give for the sum.\<close>

lemma backend_GetVM_eq:
  "backend_GetVM h b = (case backend_table b h of None \<Rightarrow> Err (vm_not_found h) | Some vm \<Rightarrow> Ok vm)"
  by (cases b) (simp_all add: rust.get_spec qemu.get_spec lxc.get_spec)

lemma backend_entry:
  "backend_ok b \<Longrightarrow> backend_table b h = Some vm \<Longrightarrow>
     vmID vm = h \<and> vmBackend vm = backend_Name b \<and> (\<exists>p. vmState vm = phase_string p \<and> p \<noteq> Created)
     \<and> sint h < sint (backend_next b)"
  by (cases b) (use rust.ok_entry qemu.ok_entry lxc.ok_entry in auto)

lemma backend_create:
  assumes "backend_ok b" "backend_CreateVM e n c m t b = (r, b')"
  shows "backend_Name b' = backend_Name b \<and> backend_next b' = backend_next b + 1 \<and>
    (sint (backend_next b) < 2147483647 \<longrightarrow> backend_ok b') \<and>
    (case r of
       Inl err \<Rightarrow> backend_table b' = backend_table b
     | Inr vm \<Rightarrow> backend_table b' = (backend_table b)(backend_next b \<mapsto> vm) \<and> vmID vm = backend_next b
         \<and> vmName vm = n \<and> vmState vm = ''configured'' \<and> vmVCPUs vm = c \<and> vmMemoryMB vm = m
         \<and> vmNode vm = ''local'' \<and> vmBackend vm = backend_Name b)"
proof (cases b)
  case (BRust x)
  then show ?thesis
    using assms rust.create_table [of x n c m t r] rust.create_next [of n c m t x]
      rust.create_ok [of x n c m t]
    by (cases "RustVMM_CreateVM n c m t x") (auto split: sum.splits)
next
  case (BQemu x)
  then show ?thesis
    using assms qemu.create_table [of x "ce_qemu e" n c m t r] qemu.create_next [of "ce_qemu e" n c m t x]
      qemu.create_ok [of x "ce_qemu e" n c m t]
    by (cases "QEMU_CreateVM (ce_qemu e) n c m t x") (auto split: sum.splits)
next
  case (BLxc x)
  then show ?thesis
    using assms lxc.create_table [of x "ce_lxc e" n c m t r] lxc.create_next [of "ce_lxc e" n c m t x]
      lxc.create_ok [of x "ce_lxc e" n c m t]
    by (cases "LXC_CreateVM (ce_lxc e) n c m t x") (auto split: sum.splits)
qed

lemma backend_destroy:
  assumes "backend_ok b" "backend_DestroyVM e h b = (r, b')"
  shows "backend_Name b' = backend_Name b \<and> backend_next b' = backend_next b \<and> backend_ok b'
    \<and> backend_table b' = (backend_table b)(h := None) \<and> (is_ok r \<longleftrightarrow> backend_table b h \<noteq> None)"
proof (cases b)
  case (BRust x)
  then show ?thesis
    using assms rust.destroy_table [of x h r] rust.destroy_next [of h x] rust.destroy_ok [of x h]
    by (cases "RustVMM_DestroyVM h x") auto
next
  case (BQemu x)
  then show ?thesis
    using assms qemu.destroy_table [of x "ce_qemu e" h r] qemu.destroy_next [of "ce_qemu e" h x]
      qemu.destroy_ok [of x "ce_qemu e" h]
    by (cases "QEMU_DestroyVM (ce_qemu e) h x") auto
next
  case (BLxc x)
  then show ?thesis
    using assms lxc.destroy_table [of x "ce_lxc e" h r] lxc.destroy_next [of "ce_lxc e" h x]
      lxc.destroy_ok [of x "ce_lxc e" h]
    by (cases "LXC_DestroyVM (ce_lxc e) h x") auto
qed

lemma backend_action:
  assumes "backend_ok b" "backend_act e a h b = (r, b')"
  shows "backend_Name b' = backend_Name b \<and> backend_next b' = backend_next b \<and> backend_ok b' \<and>
    (case r of
       Inl err \<Rightarrow> backend_table b' = backend_table b
     | Inr u \<Rightarrow> (\<exists>vm p. backend_table b h = Some vm \<and> vmState vm = phase_string p \<and> lifecycle p (action_target a)
         \<and> backend_table b' = (backend_table b)(h \<mapsto> vm\<lparr>vmState := phase_string (action_target a)\<rparr>)))"
proof (cases b)
  case (BRust x)
  then show ?thesis
    using assms rust.act_table [of x a h r] rust.act_next [of a h x] rust.act_preserves [of x a h]
    by (cases "RustVMM_act a h x") (auto split: sum.splits)
next
  case (BQemu x)
  then show ?thesis
    using assms qemu.act_table [of x "ce_qemu e" a h r] qemu.act_next [of "ce_qemu e" a h x]
      qemu.act_preserves [of x "ce_qemu e" a h]
    by (cases "QEMU_act (ce_qemu e) a h x") (auto split: sum.splits)
next
  case (BLxc x)
  then show ?thesis
    using assms lxc.act_table [of x "ce_lxc e" a h r] lxc.act_next [of "ce_lxc e" a h x]
      lxc.act_preserves [of x "ce_lxc e" a h]
    by (cases "LXC_act (ce_lxc e) a h x") (auto split: sum.splits)
qed

interpretation any_backend: vmm_backend backend_table backend_next
  "\<lambda>b. backend_ok b \<and> backend_Name b = nm" nm
  backend_CreateVM backend_DestroyVM backend_act backend_tick backend_GetVM for nm
proof (unfold_locales, goal_cases)
  case (1 h b)
  show ?case by (rule backend_GetVM_eq)
next
  case (2 b h vm)
  then show ?case using backend_entry by blast
next
  case (3 b e n c m t)
  then show ?case using backend_create [of b e n c m t] by (metis prod.collapse)
next
  case (4 e n c m t b)
  show ?case
    by (cases b) (simp_all add: rust.create_next qemu.create_next lxc.create_next apsnd_def map_prod_def split_beta)
next
  case (5 b e n c m t r b')
  then show ?case using backend_create [of b e n c m t r b'] by (auto split: sum.splits)
next
  case (6 b e h)
  then show ?case using backend_destroy [of b e h] by (metis prod.collapse)
next
  case (7 e h b)
  show ?case
    by (cases b) (simp_all add: rust.destroy_next qemu.destroy_next lxc.destroy_next apsnd_def map_prod_def split_beta)
next
  case (8 b e h rd b')
  then show ?case using backend_destroy [of b e h rd b'] by blast
next
  case (9 b e a h)
  then show ?case using backend_action [of b e a h] by (metis prod.collapse)
next
  case (10 e a h b)
  show ?case
    by (cases b) (simp_all add: rust.act_next qemu.act_next lxc.act_next apsnd_def map_prod_def split_beta)
next
  case (11 b e a h rd b')
  then show ?case using backend_action [of b e a h rd b'] by blast
next
  case (12 b e h)
  then show ?case by (cases b) (auto intro: qemu.tick_preserves)
next
  case (13 e h b)
  show ?case by (cases b) (simp_all add: qemu.tick_next)
next
  case (14 b e h)
  then show ?case by (cases b) (use qemu.tick_table in auto)
qed

section \<open>The selector\<close>

record BackendSelector =
  sel_backends :: "string \<Rightarrow> backend option"
  sel_policy :: string

record BackendInfo =
  bi_Name :: string
  bi_Status :: string

definition NewBackendSelector :: "string \<Rightarrow> BackendSelector" where
  "NewBackendSelector policy = \<lparr>sel_backends = Map.empty, sel_policy = policy\<rparr>"

definition Selector_Register :: "backend \<Rightarrow> BackendSelector \<Rightarrow> BackendSelector" where
  "Selector_Register b s = s\<lparr>sel_backends := (sel_backends s)(backend_Name b \<mapsto> b)\<rparr>"

text \<open>Selection returns the key of the backend in the map.\<close>

definition Selector_Select :: "string \<Rightarrow> BackendSelector \<Rightarrow> string result" where
  "Selector_Select backendHint s =
     (let name = (if backendHint = [] then ''rustvmm'' else backendHint) in
      case sel_backends s name of
        None \<Rightarrow> Err (Errorf ''backend not found: %s'' [FStr name])
      | Some b \<Rightarrow> Ok name)"

definition Selector_SelectAuto ::
  "string list \<Rightarrow> uint32 \<Rightarrow> uint64 \<Rightarrow> bool \<Rightarrow> BackendSelector \<Rightarrow> string result" where
  "Selector_SelectAuto ord vcpus memoryMB needsGPU s =
     (if (needsGPU \<or> memoryMB > 8192 \<or> vcpus > 8) \<and> sel_backends s ''qemu'' \<noteq> None then Ok ''qemu''
      else if sel_backends s ''rustvmm'' \<noteq> None then Ok ''rustvmm''
      else case ord of
             [] \<Rightarrow> Err (Errorf ''no backends registered'' [])
           | name # _ \<Rightarrow> Ok name)"

definition Selector_List :: "string list \<Rightarrow> BackendSelector \<Rightarrow> BackendInfo list" where
  "Selector_List ord s = map (\<lambda>name. \<lparr>bi_Name = name, bi_Status = ''ready''\<rparr>) ord"

section \<open>The service\<close>

text \<open>The part of \<^verbatim>\<open>ComputeService\<close> that the synchronous operations use is its selector.
  \<open>set_backend\<close> writes a backend object back: the map holds pointers, so a method call on a
  backend changes the object the map refers to.\<close>

definition set_backend :: "string \<Rightarrow> backend \<Rightarrow> BackendSelector \<Rightarrow> BackendSelector" where
  "set_backend name b s = s\<lparr>sel_backends := (sel_backends s)(name \<mapsto> b)\<rparr>"

definition Svc_CreateVM ::
  "comp_env \<Rightarrow> string \<Rightarrow> uint32 \<Rightarrow> uint64 \<Rightarrow> string \<Rightarrow> gotime \<Rightarrow> BackendSelector \<Rightarrow> VMInfo result \<times> BackendSelector" where
  "Svc_CreateVM env name vcpus memoryMB backendHint now s =
     (case Selector_Select backendHint s of
        Inl err \<Rightarrow> (Err err, s)
      | Inr key \<Rightarrow>
          (case sel_backends s key of
             None \<Rightarrow> (Err (Errorf ''backend not found: %s'' [FStr key]), s)
           | Some b \<Rightarrow> let (r, b') = backend_CreateVM env name vcpus memoryMB now b in (r, set_backend key b' s)))"

fun Svc_GetVM_loop :: "string list \<Rightarrow> int32 \<Rightarrow> BackendSelector \<Rightarrow> VMInfo result" where
  "Svc_GetVM_loop [] handle s = Err (Errorf ''VM not found: %d'' [FInt (sint handle)])"
| "Svc_GetVM_loop (key # ord) handle s =
     (case sel_backends s key of
        None \<Rightarrow> Svc_GetVM_loop ord handle s
      | Some b \<Rightarrow> (case backend_GetVM handle b of Inr vm \<Rightarrow> Ok vm | Inl _ \<Rightarrow> Svc_GetVM_loop ord handle s))"

definition Svc_GetVM :: "string list \<Rightarrow> int32 \<Rightarrow> BackendSelector \<Rightarrow> VMInfo result" where
  "Svc_GetVM ord handle s = Svc_GetVM_loop ord handle s"

fun findBackendForVM :: "string list \<Rightarrow> int32 \<Rightarrow> BackendSelector \<Rightarrow> string result" where
  "findBackendForVM [] handle s = Err (Errorf ''VM not found: %d'' [FInt (sint handle)])"
| "findBackendForVM (key # ord) handle s =
     (case sel_backends s key of
        None \<Rightarrow> findBackendForVM ord handle s
      | Some b \<Rightarrow> (case backend_GetVM handle b of Inr _ \<Rightarrow> Ok key | Inl _ \<Rightarrow> findBackendForVM ord handle s))"

definition Svc_ListVMs :: "string list \<Rightarrow> (string \<Rightarrow> int32 list) \<Rightarrow> BackendSelector \<Rightarrow> VMInfo list" where
  "Svc_ListVMs ord vords s =
     concat (map (\<lambda>key. case sel_backends s key of None \<Rightarrow> [] | Some b \<Rightarrow> backend_ListVMs (vords key) b) ord)"

definition parse_action :: "string \<Rightarrow> vm_action option" where
  "parse_action action =
     (if action = ''start'' then Some Start
      else if action = ''stop'' then Some Stop
      else if action = ''pause'' then Some Pause
      else if action = ''resume'' then Some Resume
      else None)"

definition Svc_ActionVM ::
  "comp_env \<Rightarrow> string list \<Rightarrow> int32 \<Rightarrow> string \<Rightarrow> BackendSelector \<Rightarrow> VMInfo result \<times> BackendSelector" where
  "Svc_ActionVM env ord handle action s =
     (case findBackendForVM ord handle s of
        Inl err \<Rightarrow> (Err err, s)
      | Inr key \<Rightarrow>
          (case sel_backends s key of
             None \<Rightarrow> (Err (Errorf ''VM not found: %d'' [FInt (sint handle)]), s)
           | Some b \<Rightarrow>
               (case parse_action action of
                  None \<Rightarrow> (Err (Errorf ''unknown action: %s'' [FStr action]), s)
                | Some a \<Rightarrow>
                    (case backend_act env a handle b of
                       (Inl err, b') \<Rightarrow> (Err err, set_backend key b' s)
                     | (Inr _, b') \<Rightarrow> (backend_GetVM handle b', set_backend key b' s)))))"

definition Svc_DestroyVM ::
  "comp_env \<Rightarrow> string list \<Rightarrow> int32 \<Rightarrow> BackendSelector \<Rightarrow> unit result \<times> BackendSelector" where
  "Svc_DestroyVM env ord handle s =
     (case findBackendForVM ord handle s of
        Inl err \<Rightarrow> (Err err, s)
      | Inr key \<Rightarrow>
          (case sel_backends s key of
             None \<Rightarrow> (Err (Errorf ''VM not found: %d'' [FInt (sint handle)]), s)
           | Some b \<Rightarrow> let (r, b') = backend_DestroyVM env handle b in (r, set_backend key b' s)))"

section \<open>Invariant\<close>

text \<open>Every backend is registered under its own name and satisfies its contract's invariant,
  and the handle ranges of the three backends are disjoint: this holds as long as RustVMM has
  handed out at most 9999 handles and QEMU at most 10000.\<close>

definition svc_ok :: "BackendSelector \<Rightarrow> bool" where
  "svc_ok s \<longleftrightarrow> (\<forall>key b. sel_backends s key = Some b \<longrightarrow> backend_Name b = key \<and> backend_ok b)"

definition ranges_ok :: "BackendSelector \<Rightarrow> bool" where
  "ranges_ok s \<longleftrightarrow> (\<forall>key b. sel_backends s key = Some b \<longrightarrow>
     (key = ''rustvmm'' \<longrightarrow> sint (backend_next b) \<le> 10000) \<and> (key = ''qemu'' \<longrightarrow> sint (backend_next b) \<le> 20000))"

text \<open>The machine with a given handle, over all backends.\<close>

definition owns :: "BackendSelector \<Rightarrow> string \<Rightarrow> int32 \<Rightarrow> VMInfo \<Rightarrow> bool" where
  "owns s key h vm \<longleftrightarrow> (\<exists>b. sel_backends s key = Some b \<and> backend_table b h = Some vm)"

lemma owns_unique:
  assumes ok: "svc_ok s" "ranges_ok s" and o: "owns s k h v" "owns s k' h v'"
  shows "k = k' \<and> v = v'"
proof -
  obtain b b' where b: "sel_backends s k = Some b" "backend_table b h = Some v"
      "sel_backends s k' = Some b'" "backend_table b' h = Some v'"
    using o by (auto simp: owns_def)
  have ok': "backend_ok b" "backend_ok b'" "backend_Name b = k" "backend_Name b' = k'"
    using ok(1) b by (auto simp: svc_ok_def)
  have lt: "sint h < sint (backend_next b)" "sint h < sint (backend_next b')"
    using backend_entry [OF ok'(1) b(2)] backend_entry [OF ok'(2) b(4)] by auto
  have r: "(k = ''rustvmm'' \<longrightarrow> sint (backend_next b) \<le> 10000) \<and> (k = ''qemu'' \<longrightarrow> sint (backend_next b) \<le> 20000)"
    "(k' = ''rustvmm'' \<longrightarrow> sint (backend_next b') \<le> 10000) \<and> (k' = ''qemu'' \<longrightarrow> sint (backend_next b') \<le> 20000)"
    using ok(2) b by (auto simp: ranges_ok_def)
  have lo: "(\<exists>q. x = BQemu q) \<longrightarrow> 10000 \<le> sint h" "(\<exists>l. x = BLxc l) \<longrightarrow> 20000 \<le> sint h"
    if "backend_ok x" "backend_table x h = Some w" for x w
    using that by (auto simp: qemu_ok_def lxc_ok_def lxc_entry_ok_def)
  have "k = k'"
    using lt r ok'(3,4) lo [OF ok'(1) b(2)] lo [OF ok'(2) b(4)]
    by (cases b; cases b') auto
  then show ?thesis using b by simp
qed

lemma Svc_GetVM_owner:
  assumes "set ord = dom (sel_backends s)"
  shows "(\<exists>vm. Svc_GetVM ord h s = Ok vm \<and> (\<exists>k. owns s k h vm))
    \<or> (Svc_GetVM ord h s = Err (vm_not_found h) \<and> (\<forall>k vm. \<not> owns s k h vm))"
proof -
  have "(\<exists>vm. Svc_GetVM_loop ks h s = Ok vm \<and> (\<exists>k. owns s k h vm))
      \<or> (Svc_GetVM_loop ks h s = Err (vm_not_found h) \<and> (\<forall>k vm. k \<in> set ks \<longrightarrow> \<not> owns s k h vm))" for ks
  proof (induction ks)
    case (Cons k ks)
    then show ?case
      by (auto simp: owns_def backend_GetVM_eq split: option.splits)
  qed (simp add: vm_not_found_def)
  from this [of ord] assms show ?thesis by (auto simp: Svc_GetVM_def owns_def)
qed

lemma findBackend_owner:
  assumes "set ord = dom (sel_backends s)"
  shows "(\<exists>k vm. findBackendForVM ord h s = Ok k \<and> owns s k h vm)
    \<or> (findBackendForVM ord h s = Err (vm_not_found h) \<and> (\<forall>k vm. \<not> owns s k h vm))"
proof -
  have "(\<exists>k vm. findBackendForVM ks h s = Ok k \<and> owns s k h vm)
      \<or> (findBackendForVM ks h s = Err (vm_not_found h) \<and> (\<forall>k vm. k \<in> set ks \<longrightarrow> \<not> owns s k h vm))" for ks
  proof (induction ks)
    case (Cons k ks)
    then show ?case
      by (auto simp: owns_def backend_GetVM_eq split: option.splits)
  qed (simp add: vm_not_found_def)
  from this [of ord] assms show ?thesis by (auto simp: owns_def)
qed

section \<open>The service implements one table of machines\<close>

text \<open>The abstract state: one partial function from handles to machines.\<close>

definition backend_names :: "string list" where
  "backend_names = [''rustvmm'', ''qemu'', ''lxc'']"

definition svc_view :: "BackendSelector \<Rightarrow> int32 \<Rightarrow> VMInfo option" where
  "svc_view s h = result_value (Svc_GetVM backend_names h s)"

definition svc_inv :: "BackendSelector \<Rightarrow> bool" where
  "svc_inv s \<longleftrightarrow> svc_ok s \<and> ranges_ok s"

lemma backend_Name_known: "backend_Name b \<in> set backend_names"
  by (cases b) (simp_all add: backend_names_def)

lemma svc_ok_key: "svc_ok s \<Longrightarrow> owns s k h vm \<Longrightarrow> k \<in> set backend_names"
  using backend_Name_known by (metis owns_def svc_ok_def)

lemma svc_view_iff:
  assumes "svc_inv s"
  shows "svc_view s h = Some vm \<longleftrightarrow> (\<exists>k. owns s k h vm)"
proof -
  have loop: "result_value (Svc_GetVM_loop ks h s) = None \<longleftrightarrow> (\<forall>k \<in> set ks. \<forall>vm. \<not> owns s k h vm)"
    "result_value (Svc_GetVM_loop ks h s) = Some w \<Longrightarrow> \<exists>k. owns s k h w" for ks w
    by (induction ks) (auto simp: owns_def backend_GetVM_eq split: option.splits)
  show ?thesis
  proof
    show "svc_view s h = Some vm \<Longrightarrow> \<exists>k. owns s k h vm"
      using loop(2) by (simp add: svc_view_def Svc_GetVM_def)
  next
    assume "\<exists>k. owns s k h vm"
    then obtain k where k: "owns s k h vm" ..
    then have "k \<in> set backend_names" using svc_ok_key assms by (auto simp: svc_inv_def)
    then obtain w where w: "svc_view s h = Some w"
      using loop(1) [of backend_names] k by (fastforce simp: svc_view_def Svc_GetVM_def)
    then obtain k' where "owns s k' h w" using loop(2) by (auto simp: svc_view_def Svc_GetVM_def)
    with k w assms show "svc_view s h = Some vm"
      using owns_unique by (auto simp: svc_inv_def)
  qed
qed

lemma owns_set_backend:
  "owns (set_backend key b s) k h vm \<longleftrightarrow> (if k = key then backend_table b h = Some vm else owns s k h vm)"
  by (simp add: owns_def set_backend_def)

lemma svc_inv_set_backend:
  assumes "svc_inv s" "sel_backends s key = Some b" "backend_ok b'" "backend_Name b' = backend_Name b"
    "key = ''rustvmm'' \<longrightarrow> sint (backend_next b') \<le> 10000" "key = ''qemu'' \<longrightarrow> sint (backend_next b') \<le> 20000"
  shows "svc_inv (set_backend key b' s)"
  using assms by (auto simp: svc_inv_def svc_ok_def ranges_ok_def set_backend_def)

lemma svc_inv_set_same_next:
  assumes "svc_inv s" "sel_backends s key = Some b" "backend_ok b'" "backend_Name b' = backend_Name b"
    "backend_next b' = backend_next b"
  shows "svc_inv (set_backend key b' s)"
  using assms by (intro svc_inv_set_backend) (auto simp: svc_inv_def ranges_ok_def)

lemma svc_view_set_backend:
  assumes inv: "svc_inv s" "svc_inv (set_backend key b' s)" and b: "sel_backends s key = Some b"
    and t: "backend_table b' = (backend_table b)(h := x)" and h: "\<And>k vm. owns s k h vm \<Longrightarrow> k = key"
  shows "svc_view (set_backend key b' s) = (svc_view s)(h := x)"
proof (rule map_eq_Some_iffI)
  fix h' v
  have "owns s key h' v \<longleftrightarrow> backend_table b h' = Some v" using b by (simp add: owns_def)
  then show "svc_view (set_backend key b' s) h' = Some v \<longleftrightarrow> ((svc_view s)(h := x)) h' = Some v"
    using h
    by (cases "h' = h"; simp add: svc_view_iff [OF inv(1)] svc_view_iff [OF inv(2)] owns_set_backend t; metis)
qed

lemma svc_get_view:
  assumes "svc_inv s" "range_order ord (sel_backends s)"
  shows "Svc_GetVM ord h s = (case svc_view s h of None \<Rightarrow> Err (vm_not_found h) | Some vm \<Rightarrow> Ok vm)"
proof -
  have set: "set ord = dom (sel_backends s)" using assms(2) by (simp add: range_order_def)
  from Svc_GetVM_owner [OF set, of h] show ?thesis
  proof (elim disjE exE conjE)
    fix vm k assume "Svc_GetVM ord h s = Ok vm" "owns s k h vm"
    moreover from this have "svc_view s h = Some vm" using svc_view_iff [OF assms(1)] by blast
    ultimately show ?thesis by simp
  next
    assume "Svc_GetVM ord h s = Err (vm_not_found h)" "\<forall>k vm. \<not> owns s k h vm"
    moreover from this have "svc_view s h = None" using svc_view_iff [OF assms(1), of h] by (metis not_None_eq)
    ultimately show ?thesis by simp
  qed
qed

lemma svc_find_view:
  assumes "svc_inv s" "range_order ord (sel_backends s)"
  shows "(\<exists>key b vm. findBackendForVM ord h s = Ok key \<and> sel_backends s key = Some b \<and> backend_table b h = Some vm
            \<and> svc_view s h = Some vm \<and> (\<forall>k w. owns s k h w \<longrightarrow> k = key) \<and> backend_ok b)
    \<or> (findBackendForVM ord h s = Err (vm_not_found h) \<and> svc_view s h = None)"
proof -
  have set: "set ord = dom (sel_backends s)" using assms(2) by (simp add: range_order_def)
  from findBackend_owner [OF set, of h] show ?thesis
  proof (elim disjE exE conjE)
    fix k vm assume f: "findBackendForVM ord h s = Ok k" and o: "owns s k h vm"
    then obtain b where "sel_backends s k = Some b" "backend_table b h = Some vm" by (auto simp: owns_def)
    moreover have "svc_view s h = Some vm" using o svc_view_iff [OF assms(1)] by blast
    moreover have "\<forall>k' w. owns s k' h w \<longrightarrow> k' = k" using owns_unique assms(1) o by (auto simp: svc_inv_def)
    moreover have "backend_ok b" using assms(1) calculation(1) by (auto simp: svc_inv_def svc_ok_def)
    ultimately show ?thesis using f by blast
  next
    assume "findBackendForVM ord h s = Err (vm_not_found h)" "\<forall>k vm. \<not> owns s k h vm"
    then show ?thesis using svc_view_iff [OF assms(1), of h] by (cases "svc_view s h") auto
  qed
qed

section \<open>Properties\<close>

text \<open>The service as the controller's main function builds it, with emulated backends.\<close>

definition svc_fresh :: BackendSelector where
  "svc_fresh = Selector_Register (BLxc (NewLXCBackend None))
     (Selector_Register (BQemu (NewQEMUBackend None))
       (Selector_Register (BRust (NewRustVMMBackend NewMockVMCore)) (NewBackendSelector ''auto'')))"

lemma svc_fresh_backends:
  "sel_backends svc_fresh = [''rustvmm'' \<mapsto> BRust (NewRustVMMBackend NewMockVMCore),
     ''qemu'' \<mapsto> BQemu (NewQEMUBackend None), ''lxc'' \<mapsto> BLxc (NewLXCBackend None)]"
  by (simp add: svc_fresh_def Selector_Register_def NewBackendSelector_def)

lemma svc_fresh_inv: "svc_inv svc_fresh"
  by (auto simp: svc_inv_def svc_ok_def ranges_ok_def svc_fresh_backends split: if_splits)

lemma svc_fresh_order: "range_order backend_names (sel_backends svc_fresh)"
  by (auto simp: range_order_def backend_names_def svc_fresh_backends)

definition has_room :: "string \<Rightarrow> BackendSelector \<Rightarrow> bool" where
  "has_room key s \<longleftrightarrow> (\<forall>b. sel_backends s key = Some b \<longrightarrow>
     sint (backend_next b) < (if key = ''rustvmm'' then 10000 else if key = ''qemu'' then 20000 else 2147483647))"

text \<open>While the handle ranges are disjoint, looking a machine up does not depend on the
  order in which Go visits the map of backends, and neither does the backend that an action
  or a destruction is sent to.\<close>

theorem svc_lookup_order_independent:
  assumes "svc_inv s" "range_order ord (sel_backends s)" "range_order ord' (sel_backends s)"
  shows "Svc_GetVM ord h s = Svc_GetVM ord' h s \<and> findBackendForVM ord h s = findBackendForVM ord' h s"
proof
  show "Svc_GetVM ord h s = Svc_GetVM ord' h s"
    by (simp add: svc_get_view [OF assms(1,2)] svc_get_view [OF assms(1,3)])
  show "findBackendForVM ord h s = findBackendForVM ord' h s"
    using svc_find_view [OF assms(1,2), of h] svc_find_view [OF assms(1,3), of h]
    by (auto simp: owns_def)
qed

theorem svc_lookup_order_independent_witness:
  "Svc_GetVM [''lxc'', ''rustvmm'', ''qemu''] 10000 svc_fresh = Svc_GetVM backend_names 10000 svc_fresh"
  using svc_lookup_order_independent [OF svc_fresh_inv _ svc_fresh_order, of "[''lxc'', ''rustvmm'', ''qemu'']" 10000]
  by (auto simp: range_order_def svc_fresh_backends)

lemma svc_inv_create:
  assumes inv: "svc_inv s" "sel_backends s key = Some b" and room: "has_room key s"
    and c: "backend_CreateVM env n c m t b = (r, b')"
  shows "svc_inv (set_backend key b' s)"
proof -
  have "backend_ok b" using inv by (auto simp: svc_inv_def svc_ok_def)
  note cr = backend_create [OF this c]
  have "sint (backend_next b) < (if key = ''rustvmm'' then 10000 else if key = ''qemu'' then 20000 else 2147483647)"
    using room inv(2) unfolding has_room_def by blast
  moreover from this have "sint (backend_next b) < 2147483647" by (simp split: if_splits)
  ultimately show ?thesis
    using cr by (intro svc_inv_set_backend [OF inv]) (auto simp: sint_add_one)
qed

lemma svc_create_fresh:
  assumes inv: "svc_inv s" "svc_inv (set_backend key b' s)" "sel_backends s key = Some b"
    and t: "backend_table b' (backend_next b) = Some vm"
  shows "\<not> owns s k (backend_next b) v"
proof
  assume o: "owns s k (backend_next b) v"
  have "owns (set_backend key b' s) k (backend_next b) (if k = key then vm else v)"
    "owns (set_backend key b' s) key (backend_next b) vm"
    using o t by (simp_all add: owns_set_backend)
  then have "k = key" using owns_unique inv(2) by (auto simp: svc_inv_def)
  moreover have "backend_ok b" using inv(1,3) by (auto simp: svc_inv_def svc_ok_def)
  ultimately have "sint (backend_next b) < sint (backend_next b)"
    using o inv(3) backend_entry by (auto simp: owns_def)
  then show False by simp
qed

lemma svc_destroy_dom: "Svc_DestroyVM env ord h s = (r, s') \<Longrightarrow> dom (sel_backends s') = dom (sel_backends s)"
  by (auto simp: Svc_DestroyVM_def set_backend_def split: sum.splits option.splits prod.splits if_splits)

lemma svc_view_same_table:
  assumes "svc_inv s" "svc_inv (set_backend key b' s)" "sel_backends s key = Some b"
    "backend_table b' = backend_table b"
  shows "svc_view (set_backend key b' s) = svc_view s"
proof -
  have "owns (set_backend key b' s) k h v \<longleftrightarrow> owns s k h v" for k h v
    using assms(3,4) by (simp add: owns_def set_backend_def)
  then show ?thesis
    by (intro map_eq_Some_iffI) (simp add: svc_view_iff [OF assms(1)] svc_view_iff [OF assms(2)])
qed

lemma svc_create_view:
  assumes inv: "svc_inv s" and c: "Svc_CreateVM env n c m hint t s = (r, s')"
    and room: "has_room (if hint = [] then ''rustvmm'' else hint) s"
  shows "svc_inv s' \<and>
    (case r of
       Inl e \<Rightarrow> svc_view s' = svc_view s
     | Inr vm \<Rightarrow> svc_view s' = (svc_view s)(vmID vm \<mapsto> vm) \<and> svc_view s (vmID vm) = None
         \<and> vmName vm = n \<and> vmVCPUs vm = c \<and> vmMemoryMB vm = m \<and> vmState vm = ''configured''
         \<and> vmBackend vm = (if hint = [] then ''rustvmm'' else hint))"
proof -
  define key where "key = (if hint = [] then ''rustvmm'' else hint)"
  show ?thesis
  proof (cases "sel_backends s key")
    case None
    then show ?thesis
      using inv c by (auto simp: Svc_CreateVM_def Selector_Select_def Let_def key_def split: if_splits)
  next
    case (Some b)
    obtain b' where cb: "backend_CreateVM env n c m t b = (r, b')" and s': "s' = set_backend key b' s"
      using c Some by (auto simp: Svc_CreateVM_def Selector_Select_def Let_def key_def split: if_splits prod.splits)
    have b: "backend_ok b" "backend_Name b = key" using inv Some by (auto simp: svc_inv_def svc_ok_def)
    note cr = backend_create [OF b(1) cb]
    have inv': "svc_inv (set_backend key b' s)"
      by (rule svc_inv_create [OF inv Some room [folded key_def] cb])
    show ?thesis
    proof (cases r)
      case (Inl e)
      then show ?thesis using svc_view_same_table [OF inv inv' Some] cr inv' s' by simp
    next
      case (Inr vm)
      have fresh: "\<not> owns s k (backend_next b) v" for k v
        by (rule svc_create_fresh [OF inv inv' Some]) (use cr Inr in simp)
      have "svc_view s' = (svc_view s)(backend_next b := Some vm)"
        unfolding s' by (rule svc_view_set_backend [OF inv inv' Some]) (use cr Inr fresh in auto)
      moreover have "svc_view s (backend_next b) = None"
        using fresh svc_view_iff [OF inv, of "backend_next b"] by (metis not_None_eq)
      ultimately show ?thesis using cr Inr b(2) inv' s' by (simp add: key_def)
    qed
  qed
qed

text \<open>C2: Creating a machine through the service is adding an entry to one table: on success
  the new machine is configured, has the requested name, CPU count and memory size, lives on
  the requested backend (RustVMM when no backend is named) under a handle that no machine of
  any backend had, every other machine is unchanged and the invariant is kept; a failing
  creation changes no machine.\<close>

theorem svc_create_refines:
  assumes inv: "svc_inv s" and c: "Svc_CreateVM env n c m hint t s = (r, s')"
    and room: "has_room (if hint = [] then ''rustvmm'' else hint) s"
  shows "svc_inv s' \<and>
    (case r of
       Inl e \<Rightarrow> svc_view s' = svc_view s
     | Inr vm \<Rightarrow> svc_view s' = (svc_view s)(vmID vm \<mapsto> vm) \<and> svc_view s (vmID vm) = None
         \<and> vmName vm = n \<and> vmVCPUs vm = c \<and> vmMemoryMB vm = m \<and> vmState vm = ''configured''
         \<and> vmBackend vm = (if hint = [] then ''rustvmm'' else hint))"
  by (rule svc_create_view [OF assms])

theorem svc_create_refines_witness:
  "svc_view (snd (Svc_CreateVM \<lparr>ce_qemu = dead_env, ce_lxc = mute_env\<rparr> ''win'' 4 4096 ''qemu'' 9 svc_fresh)) 10000
     = Some (new_VMInfo 10000 ''win'' 4 4096 ''qemu'' ''vm'' 9)"
  using svc_create_refines [OF svc_fresh_inv, of "\<lparr>ce_qemu = dead_env, ce_lxc = mute_env\<rparr>" "''win''" 4 4096 "''qemu''" 9]
  by (simp add: Svc_CreateVM_def Selector_Select_def svc_fresh_backends has_room_def
      QEMU_CreateVM_def NewQEMUBackend_def Let_def new_VMInfo_def)

definition quiet_env :: comp_env where
  "quiet_env = \<lparr>ce_qemu = dead_env, ce_lxc = mute_env\<rparr>"

definition qemu_with_one :: backend where
  "qemu_with_one = snd (backend_CreateVM quiet_env ''win'' 4 4096 9 (BQemu (NewQEMUBackend None)))"

definition svc_one :: BackendSelector where
  "svc_one = set_backend ''qemu'' qemu_with_one svc_fresh"

lemma svc_one_inv: "svc_inv svc_one"
  unfolding svc_one_def
proof (rule svc_inv_create [OF svc_fresh_inv])
  show "sel_backends svc_fresh ''qemu'' = Some (BQemu (NewQEMUBackend None))"
    by (simp add: svc_fresh_backends)
  show "has_room ''qemu'' svc_fresh" by (simp add: has_room_def svc_fresh_backends)
  show "backend_CreateVM quiet_env ''win'' 4 4096 9 (BQemu (NewQEMUBackend None)) =
      (fst (backend_CreateVM quiet_env ''win'' 4 4096 9 (BQemu (NewQEMUBackend None))), qemu_with_one)"
    by (simp only: qemu_with_one_def prod.collapse)
qed

lemma svc_one_order: "range_order backend_names (sel_backends svc_one)"
  by (auto simp: range_order_def backend_names_def svc_one_def set_backend_def svc_fresh_backends)

lemma qemu_with_one_eq:
  "qemu_with_one = BQemu ((NewQEMUBackend None)\<lparr>qb_nextID := 10001,
     qb_vms := [10000 \<mapsto> new_VMInfo 10000 ''win'' 4 4096 ''qemu'' ''vm'' 9]\<rparr>)"
  by (simp add: qemu_with_one_def QEMU_CreateVM_def NewQEMUBackend_def Let_def)

lemma svc_action_view:
  assumes inv: "svc_inv s" and ord: "range_order ord (sel_backends s)"
    and c: "Svc_ActionVM env ord h action s = (r, s')"
  shows "svc_inv s' \<and>
    (case r of
       Inl e \<Rightarrow> svc_view s' = svc_view s
         \<and> (svc_view s h = None \<longrightarrow> e = vm_not_found h)
         \<and> (svc_view s h \<noteq> None \<and> parse_action action = None \<longrightarrow> e = Errorf ''unknown action: %s'' [FStr action])
     | Inr vm' \<Rightarrow> (\<exists>a vm p. parse_action action = Some a \<and> svc_view s h = Some vm \<and> vmState vm = phase_string p
         \<and> lifecycle p (action_target a) \<and> vm' = vm\<lparr>vmState := phase_string (action_target a)\<rparr>
         \<and> svc_view s' = (svc_view s)(h \<mapsto> vm')))"
  using svc_find_view [OF inv ord, of h]
proof (elim disjE exE conjE)
  assume f: "findBackendForVM ord h s = Err (vm_not_found h)" "svc_view s h = None"
  then show ?thesis using inv c by (auto simp: Svc_ActionVM_def)
next
  fix key b vm
  assume f: "findBackendForVM ord h s = Ok key" "sel_backends s key = Some b" "backend_table b h = Some vm"
    and v: "svc_view s h = Some vm" and own: "\<forall>k w. owns s k h w \<longrightarrow> k = key" and ok: "backend_ok b"
  show ?thesis
  proof (cases "parse_action action")
    case None
    then show ?thesis using inv c f v by (auto simp: Svc_ActionVM_def)
  next
    case (Some a)
    obtain rb b' where act: "backend_act env a h b = (rb, b')" by (metis prod.exhaust)
    note ba = backend_action [OF ok act]
    have inv': "svc_inv (set_backend key b' s)"
      using svc_inv_set_same_next [OF inv f(2)] ba by blast
    show ?thesis
    proof (cases rb)
      case (Inl err)
      then show ?thesis
        using c f Some act ba inv' v svc_view_same_table [OF inv inv' f(2)] by (auto simp: Svc_ActionVM_def)
    next
      case (Inr u)
      let ?vm = "vm\<lparr>vmState := phase_string (action_target a)\<rparr>"
      have t: "backend_table b' = (backend_table b)(h := Some ?vm)"
        and p: "\<exists>p. vmState vm = phase_string p \<and> lifecycle p (action_target a)"
        using ba Inr f(3) by auto
      have "svc_view (set_backend key b' s) = (svc_view s)(h := Some ?vm)"
        by (rule svc_view_set_backend [OF inv inv' f(2) t]) (use own in blast)
      then show ?thesis
        using c f Some act Inr inv' v t p by (auto simp: Svc_ActionVM_def backend_GetVM_eq)
    qed
  qed
qed

text \<open>C3: A life-cycle action through the service is a step on one table: it fails and changes
  no machine when the handle is unknown, the action has no name of the four, or the backend
  refuses it; when it succeeds the machine's state has moved along one edge of the life cycle
  to the target of the action, the returned machine is the new entry, and every other machine
  is unchanged.\<close>

theorem svc_action_refines:
  assumes inv: "svc_inv s" and ord: "range_order ord (sel_backends s)"
    and c: "Svc_ActionVM env ord h action s = (r, s')"
  shows "svc_inv s' \<and>
    (case r of
       Inl e \<Rightarrow> svc_view s' = svc_view s
         \<and> (svc_view s h = None \<longrightarrow> e = vm_not_found h)
         \<and> (svc_view s h \<noteq> None \<and> parse_action action = None \<longrightarrow> e = Errorf ''unknown action: %s'' [FStr action])
     | Inr vm' \<Rightarrow> (\<exists>a vm p. parse_action action = Some a \<and> svc_view s h = Some vm \<and> vmState vm = phase_string p
         \<and> lifecycle p (action_target a) \<and> vm' = vm\<lparr>vmState := phase_string (action_target a)\<rparr>
         \<and> svc_view s' = (svc_view s)(h \<mapsto> vm')))"
  by (rule svc_action_view [OF assms])

theorem svc_action_refines_witness:
  "fst (Svc_ActionVM quiet_env backend_names 10000 ''start'' svc_one)
     = Ok ((new_VMInfo 10000 ''win'' 4 4096 ''qemu'' ''vm'' 9)\<lparr>vmState := ''running''\<rparr>)
   \<and> svc_view (snd (Svc_ActionVM quiet_env backend_names 10000 ''start'' svc_one))
     = (svc_view svc_one)(10000 \<mapsto> (new_VMInfo 10000 ''win'' 4 4096 ''qemu'' ''vm'' 9)\<lparr>vmState := ''running''\<rparr>)"
proof -
  let ?vm = "(new_VMInfo 10000 ''win'' 4 4096 ''qemu'' ''vm'' 9)\<lparr>vmState := ''running''\<rparr>"
  obtain s' where c: "Svc_ActionVM quiet_env backend_names 10000 ''start'' svc_one = (Ok ?vm, s')"
    by (simp add: Svc_ActionVM_def backend_names_def svc_one_def set_backend_def svc_fresh_backends qemu_with_one_eq
        backend_GetVM_eq NewRustVMMBackend_def parse_action_def QEMU_StartVM_def QEMU_transition_def
        qemuValidTransitions_def new_VMInfo_def NewQEMUBackend_def)
  from svc_action_refines [OF svc_one_inv svc_one_order c] c show ?thesis by auto
qed

lemma svc_destroy_view:
  assumes inv: "svc_inv s" and ord: "range_order ord (sel_backends s)"
    and c: "Svc_DestroyVM env ord h s = (r, s')"
  shows "svc_inv s' \<and> (is_ok r \<longleftrightarrow> svc_view s h \<noteq> None) \<and> svc_view s' = (svc_view s)(h := None)
    \<and> (\<forall>ord'. range_order ord' (sel_backends s') \<longrightarrow> Svc_GetVM ord' h s' = Err (vm_not_found h))"
proof -
  have "svc_inv s' \<and> (is_ok r \<longleftrightarrow> svc_view s h \<noteq> None) \<and> svc_view s' = (svc_view s)(h := None)"
    using svc_find_view [OF inv ord, of h]
  proof (elim disjE exE conjE)
    assume f: "findBackendForVM ord h s = Err (vm_not_found h)" "svc_view s h = None"
    then show ?thesis using inv c by (auto simp: Svc_DestroyVM_def)
  next
    fix key b vm
    assume f: "findBackendForVM ord h s = Ok key" "sel_backends s key = Some b" "backend_table b h = Some vm"
      and v: "svc_view s h = Some vm" and own: "\<forall>k w. owns s k h w \<longrightarrow> k = key" and ok: "backend_ok b"
    obtain b' where d: "backend_DestroyVM env h b = (r, b')" and s': "s' = set_backend key b' s"
      using c f by (auto simp: Svc_DestroyVM_def split: prod.splits)
    note bd = backend_destroy [OF ok d]
    have inv': "svc_inv s'" unfolding s' using svc_inv_set_same_next [OF inv f(2)] bd by blast
    have "svc_view s' = (svc_view s)(h := None)"
      unfolding s' by (rule svc_view_set_backend [OF inv inv' [unfolded s'] f(2)]) (use bd own in auto)
    with inv' bd f(3) v show ?thesis by simp
  qed
  then show ?thesis using svc_get_view by auto
qed

text \<open>C4: Destroying a machine through the service removes exactly its entry: it succeeds if
  and only if the handle is known, afterwards every lookup of the handle fails whatever the
  order of the backends, and every other machine is unchanged.\<close>

theorem svc_destroy_refines:
  assumes inv: "svc_inv s" and ord: "range_order ord (sel_backends s)"
    and c: "Svc_DestroyVM env ord h s = (r, s')"
  shows "svc_inv s' \<and> (is_ok r \<longleftrightarrow> svc_view s h \<noteq> None) \<and> svc_view s' = (svc_view s)(h := None)
    \<and> (\<forall>ord'. range_order ord' (sel_backends s') \<longrightarrow> Svc_GetVM ord' h s' = Err (vm_not_found h))"
  by (rule svc_destroy_view [OF assms])

theorem svc_destroy_refines_witness:
  "Svc_GetVM backend_names 10000 (snd (Svc_DestroyVM quiet_env backend_names 10000 svc_one)) = Err (vm_not_found 10000)"
proof -
  obtain r s' where c: "Svc_DestroyVM quiet_env backend_names 10000 svc_one = (r, s')" by (metis prod.exhaust)
  have "range_order backend_names (sel_backends s')"
    using svc_one_order svc_destroy_dom [OF c] by (simp add: range_order_def)
  with svc_destroy_refines [OF svc_one_inv svc_one_order c] c show ?thesis by auto
qed

text \<open>Automatic selection fails only when no backend is registered; a workload that needs
  a GPU, more than 8192 MB or more than 8 CPUs goes to QEMU when QEMU is registered, every
  other workload goes to RustVMM when that is registered, and the chosen backend is always a
  registered one.\<close>

theorem select_auto_spec:
  assumes "range_order ord (sel_backends s)"
  shows "(Selector_SelectAuto ord c m gpu s = Err (Errorf ''no backends registered'' []) \<longleftrightarrow> sel_backends s = Map.empty)
    \<and> (\<forall>k. Selector_SelectAuto ord c m gpu s = Ok k \<longrightarrow> sel_backends s k \<noteq> None)
    \<and> ((gpu \<or> 8192 < uint m \<or> 8 < uint c) \<and> sel_backends s ''qemu'' \<noteq> None \<longrightarrow> Selector_SelectAuto ord c m gpu s = Ok ''qemu'')
    \<and> (\<not> (gpu \<or> 8192 < uint m \<or> 8 < uint c) \<and> sel_backends s ''rustvmm'' \<noteq> None \<longrightarrow> Selector_SelectAuto ord c m gpu s = Ok ''rustvmm'')"
proof -
  have "ord = [] \<longleftrightarrow> sel_backends s = Map.empty" "set ord = dom (sel_backends s)"
    using assms by (auto simp: range_order_def) (metis dom_eq_empty_conv)
  moreover have "8192 < m \<longleftrightarrow> 8192 < uint m" "8 < c \<longleftrightarrow> 8 < uint c"
    by (simp_all add: word_less_def)
  ultimately show ?thesis
    by (auto simp: Selector_SelectAuto_def split: list.splits)
qed

theorem select_auto_spec_witness:
  "Selector_SelectAuto backend_names 16 1024 False svc_fresh = Ok ''qemu''"
  using select_auto_spec [OF svc_fresh_order, of 16 1024 False] by (simp add: svc_fresh_backends)

definition rust_full :: RustVMMBackend where
  "rust_full = rust_run (replicate 9999 (VCreate ''m'' 1 128 0)) (NewRustVMMBackend NewMockVMCore)"

lemma rust_run_creates_next:
  "core_nextHandle (rb_core (rust_run (replicate k (VCreate n c m t)) b)) = core_nextHandle (rb_core b) + word_of_nat k"
  by (induction k arbitrary: b) (simp_all add: rust_create_eq Let_def)

lemma rust_full_next: "core_nextHandle (rb_core rust_full) = 10000"
  unfolding rust_full_def rust_run_creates_next by simp

text \<open>The disjointness of the handle ranges is not enforced: after 9999 creations on
  RustVMM its next machine gets handle 10000, the handle of the first QEMU machine, and then
  what a lookup returns depends on the order in which Go visits the backends.\<close>

theorem handle_ranges_collide:
  "case Svc_CreateVM quiet_env ''web'' 2 512 ''rustvmm'' 3 (set_backend ''rustvmm'' (BRust rust_full) svc_one) of
     (Inr vm, s) \<Rightarrow> vmID vm = 10000
       \<and> Svc_GetVM [''rustvmm'', ''qemu'', ''lxc''] 10000 s = Ok (new_VMInfo 10000 ''web'' 2 512 ''rustvmm'' ''vm'' 3)
       \<and> Svc_GetVM [''qemu'', ''rustvmm'', ''lxc''] 10000 s = Ok (new_VMInfo 10000 ''win'' 4 4096 ''qemu'' ''vm'' 9)
   | (Inl e, s) \<Rightarrow> False"
  by (simp add: Svc_CreateVM_def Selector_Select_def set_backend_def svc_one_def svc_fresh_backends
      rust_create_eq rust_full_next Let_def Svc_GetVM_def backend_GetVM_eq qemu_with_one_eq new_VMInfo_def)

end
