(* ===== verification/Migration.thy ===== *)
theory Migration
  imports Compute_Service
begin

text \<open>
  Live migration in \<^verbatim>\<open>internal/compute/compute.go\<close>: \<^verbatim>\<open>doMigration\<close>, \<^verbatim>\<open>MigrateVM\<close>,
  \<^verbatim>\<open>MigrateLive\<close>, \<^verbatim>\<open>CancelMigration\<close>, \<^verbatim>\<open>GetMigrationStatus\<close> and \<^verbatim>\<open>updateVMNode\<close>.
  A migration is a goroutine; its program counter \<open>mig_pc\<close> stops between two critical
  sections, so that goroutines and requests can be interleaved.  Status objects are shared by
  pointer: they live in a store \<open>cs_status\<close> and \<open>cs_migrations\<close> maps a machine to the address of
  its latest one.  A context is a number; \<open>cs_cancelled\<close> says which contexts are cancelled.
\<close>

section \<open>State\<close>

record MigrationStatus =
  ms_VMID :: int32
  ms_SourceNode :: string
  ms_TargetNode :: string
  ms_Phase :: string
  ms_Progress :: int
  ms_StartedAt :: gotime
  ms_CompletedAt :: gotime
  ms_Error :: string

record ComputeService =
  cs_selector :: BackendSelector
  cs_migrations :: "int32 \<Rightarrow> nat option"
  cs_status :: "nat \<Rightarrow> MigrationStatus option"
  cs_nextStatus :: nat
  cs_active :: "int32 \<Rightarrow> nat option"
  cs_cancelled :: "nat \<Rightarrow> bool"
  cs_nextCtx :: nat

definition NewComputeService :: "BackendSelector \<Rightarrow> ComputeService" where
  "NewComputeService selector =
     \<lparr>cs_selector = selector, cs_migrations = Map.empty, cs_status = Map.empty, cs_nextStatus = 0,
      cs_active = Map.empty, cs_cancelled = (\<lambda>_. False), cs_nextCtx = 0\<rparr>"

datatype mig_pc =
    MgStart
  | MgPhase
  | MgTransfer "int list"
  | MgUpdate
  | MgComplete
  | MgDone "unit result"

record goroutine =
  g_handle :: int32
  g_target :: string
  g_ctx :: nat
  g_status :: nat
  g_pc :: mig_pc

section \<open>The node of a machine\<close>

fun backend_set_node :: "int32 \<Rightarrow> string \<Rightarrow> backend \<Rightarrow> backend" where
  "backend_set_node h node (BRust b) =
     (case rb_vms b h of None \<Rightarrow> BRust b | Some vm \<Rightarrow> BRust (b\<lparr>rb_vms := (rb_vms b)(h \<mapsto> vm\<lparr>vmNode := node\<rparr>)\<rparr>))"
| "backend_set_node h node (BQemu b) =
     (case qb_vms b h of None \<Rightarrow> BQemu b | Some vm \<Rightarrow> BQemu (b\<lparr>qb_vms := (qb_vms b)(h \<mapsto> vm\<lparr>vmNode := node\<rparr>)\<rparr>))"
| "backend_set_node h node (BLxc b) =
     (case lb_vms b h of None \<Rightarrow> BLxc b | Some vm \<Rightarrow> BLxc (b\<lparr>lb_vms := (lb_vms b)(h \<mapsto> vm\<lparr>vmNode := node\<rparr>)\<rparr>))"

text \<open>Every case of the type switch over the three backend types returns, so only the first
  backend visited is looked at.\<close>

fun updateVMNode :: "string list \<Rightarrow> int32 \<Rightarrow> string \<Rightarrow> BackendSelector \<Rightarrow> BackendSelector" where
  "updateVMNode [] handle node s = s"
| "updateVMNode (key # ord) handle node s =
     (case sel_backends s key of
        None \<Rightarrow> updateVMNode ord handle node s
      | Some b \<Rightarrow> set_backend key (backend_set_node handle node b) s)"

section \<open>The steps of a migration\<close>

definition upd_status :: "nat \<Rightarrow> (MigrationStatus \<Rightarrow> MigrationStatus) \<Rightarrow> ComputeService \<Rightarrow> ComputeService" where
  "upd_status a f cs = cs\<lparr>cs_status := (cs_status cs)(a := map_option f (cs_status cs a))\<rparr>"

definition new_status :: "int32 \<Rightarrow> MigrationStatus \<Rightarrow> ComputeService \<Rightarrow> nat \<times> ComputeService" where
  "new_status handle st cs =
     (let a = cs_nextStatus cs in
      (a, cs\<lparr>cs_nextStatus := Suc a, cs_status := (cs_status cs)(a \<mapsto> st),
            cs_migrations := (cs_migrations cs)(handle \<mapsto> a)\<rparr>))"

definition cancel_status :: "gotime \<Rightarrow> MigrationStatus \<Rightarrow> MigrationStatus" where
  "cancel_status now st = st\<lparr>ms_Phase := ''failed'', ms_Error := ''migration cancelled'', ms_CompletedAt := now\<rparr>"

definition mig_cancelled_error :: "int32 \<Rightarrow> go_error" where
  "mig_cancelled_error handle = Errorf ''migration cancelled for VM %d'' [FInt (sint handle)]"

definition mig_start :: "string list \<Rightarrow> gotime \<Rightarrow> ComputeService \<times> goroutine \<Rightarrow> ComputeService \<times> goroutine" where
  "mig_start ord now = (\<lambda>(cs, g).
     let handle = g_handle g; targetNode = g_target g; s = cs_selector cs in
     case findBackendForVM ord handle s of
       Inl err \<Rightarrow> (cs, g\<lparr>g_pc := MgDone (Err (vm_not_found handle))\<rparr>)
     | Inr key \<Rightarrow>
         (case Option.bind (sel_backends s key) (\<lambda>b. result_value (backend_GetVM handle b)) of
            None \<Rightarrow> (cs, g\<lparr>g_pc := MgDone (Err (vm_not_found handle))\<rparr>)
          | Some vm \<Rightarrow>
              if vmState vm \<noteq> ''running'' then
                let (a, cs1) = new_status handle
                      \<lparr>ms_VMID = handle, ms_SourceNode = vmNode vm, ms_TargetNode = targetNode,
                       ms_Phase = ''failed'', ms_Progress = 0, ms_StartedAt = now, ms_CompletedAt = zero_time,
                       ms_Error = Sprintf ''VM must be running to migrate, current state: %s'' [FStr (vmState vm)]\<rparr> cs
                in (cs1, g\<lparr>g_pc := MgDone (Err (Errorf ''VM %d must be running to migrate, current state: %s''
                                               [FInt (sint handle), FStr (vmState vm)]))\<rparr>)
              else if vmNode vm = targetNode then
                (cs, g\<lparr>g_pc := MgDone (Err (Errorf ''VM %d is already on node %s'' [FInt (sint handle), FStr targetNode]))\<rparr>)
              else
                let (a, cs1) = new_status handle
                      \<lparr>ms_VMID = handle, ms_SourceNode = vmNode vm, ms_TargetNode = targetNode,
                       ms_Phase = ''pre-check'', ms_Progress = 0, ms_StartedAt = now, ms_CompletedAt = zero_time,
                       ms_Error = []\<rparr> cs
                in (cs1, g\<lparr>g_status := a, g_pc := MgPhase\<rparr>)))"

definition transferSteps :: "int list" where
  "transferSteps = [10, 30, 60, 90]"

definition mig_step :: "string list \<Rightarrow> gotime \<Rightarrow> ComputeService \<times> goroutine \<Rightarrow> ComputeService \<times> goroutine" where
  "mig_step ord now = (\<lambda>(cs, g).
     (case g_pc g of
        MgStart \<Rightarrow> mig_start ord now (cs, g)
      | MgPhase \<Rightarrow>
          (upd_status (g_status g) (\<lambda>st. st\<lparr>ms_Phase := ''transfer''\<rparr>) cs, g\<lparr>g_pc := MgTransfer transferSteps\<rparr>)
      | MgTransfer ps \<Rightarrow>
          if cs_cancelled cs (g_ctx g)
          then (upd_status (g_status g) (cancel_status now) cs, g\<lparr>g_pc := MgDone (Err (mig_cancelled_error (g_handle g)))\<rparr>)
          else (case ps of
                  progress # ps' \<Rightarrow>
                    (upd_status (g_status g) (\<lambda>st. st\<lparr>ms_Progress := progress\<rparr>) cs, g\<lparr>g_pc := MgTransfer ps'\<rparr>)
                | [] \<Rightarrow>
                    (upd_status (g_status g) (\<lambda>st. st\<lparr>ms_Phase := ''switchover'', ms_Progress := 95\<rparr>) cs, g\<lparr>g_pc := MgUpdate\<rparr>))
      | MgUpdate \<Rightarrow>
          (cs\<lparr>cs_selector := updateVMNode ord (g_handle g) (g_target g) (cs_selector cs)\<rparr>, g\<lparr>g_pc := MgComplete\<rparr>)
      | MgComplete \<Rightarrow>
          (upd_status (g_status g) (\<lambda>st. st\<lparr>ms_Phase := ''completed'', ms_Progress := 100, ms_CompletedAt := now\<rparr>) cs,
           g\<lparr>g_pc := MgDone (Ok ())\<rparr>)
      | MgDone r \<Rightarrow> (cs, g)))"

text \<open>\<open>doMigration\<close> without interleaving: each step comes with its map order and clock.\<close>

fun doMigration :: "(string list \<times> gotime) list \<Rightarrow> ComputeService \<times> goroutine \<Rightarrow> ComputeService \<times> goroutine" where
  "doMigration [] x = x"
| "doMigration ((ord, now) # inputs) x = doMigration inputs (mig_step ord now x)"

definition mig_steps_total :: nat where
  "mig_steps_total = 9"

definition MigrateVM ::
  "(string list \<times> gotime) list \<Rightarrow> int32 \<Rightarrow> string \<Rightarrow> ComputeService \<Rightarrow> mig_pc \<times> ComputeService" where
  "MigrateVM inputs handle targetNode cs =
     (let ctx = cs_nextCtx cs;
          (cs', g) = doMigration inputs
             (cs\<lparr>cs_nextCtx := Suc ctx\<rparr>,
              \<lparr>g_handle = handle, g_target = targetNode, g_ctx = ctx, g_status = 0, g_pc = MgStart\<rparr>)
      in (g_pc g, cs'))"

text \<open>\<open>MigrateLive\<close> checks the request, records a pending status and the cancel function, and
  returns the goroutine it starts.\<close>

definition MigrateLive ::
  "string list \<Rightarrow> gotime \<Rightarrow> int32 \<Rightarrow> string \<Rightarrow> ComputeService \<Rightarrow> goroutine result \<times> ComputeService" where
  "MigrateLive ord now handle targetNode cs =
     (let s = cs_selector cs in
      case findBackendForVM ord handle s of
        Inl err \<Rightarrow> (Err (vm_not_found handle), cs)
      | Inr key \<Rightarrow>
          (case Option.bind (sel_backends s key) (\<lambda>b. result_value (backend_GetVM handle b)) of
             None \<Rightarrow> (Err (vm_not_found handle), cs)
           | Some vm \<Rightarrow>
               if vmState vm \<noteq> ''running''
               then (Err (Errorf ''VM %d must be running to migrate, current state: %s''
                            [FInt (sint handle), FStr (vmState vm)]), cs)
               else if vmNode vm = targetNode
               then (Err (Errorf ''VM %d is already on node %s'' [FInt (sint handle), FStr targetNode]), cs)
               else
                 let (a, cs1) = new_status handle
                       \<lparr>ms_VMID = handle, ms_SourceNode = vmNode vm, ms_TargetNode = targetNode,
                        ms_Phase = ''pending'', ms_Progress = 0, ms_StartedAt = now, ms_CompletedAt = zero_time,
                        ms_Error = []\<rparr> cs;
                     ctx = cs_nextCtx cs1;
                     cs2 = cs1\<lparr>cs_nextCtx := Suc ctx, cs_active := (cs_active cs1)(handle \<mapsto> ctx)\<rparr>
                 in (Ok \<lparr>g_handle = handle, g_target = targetNode, g_ctx = ctx, g_status = a, g_pc = MgStart\<rparr>, cs2)))"

text \<open>The deferred function of the goroutine that \<open>MigrateLive\<close> starts.\<close>

definition mig_finish :: "goroutine \<Rightarrow> ComputeService \<Rightarrow> ComputeService" where
  "mig_finish g cs = cs\<lparr>cs_active := (cs_active cs)(g_handle g := None)\<rparr>"

definition CancelMigration :: "int32 \<Rightarrow> ComputeService \<Rightarrow> unit result \<times> ComputeService" where
  "CancelMigration handle cs =
     (case cs_active cs handle of
        None \<Rightarrow> (Err (Errorf ''no active migration for VM %d'' [FInt (sint handle)]), cs)
      | Some ctx \<Rightarrow> (Ok (), cs\<lparr>cs_cancelled := (cs_cancelled cs)(ctx := True)\<rparr>))"

definition GetMigrationStatus :: "int32 \<Rightarrow> ComputeService \<Rightarrow> MigrationStatus result" where
  "GetMigrationStatus handle cs =
     (case Option.bind (cs_migrations cs handle) (cs_status cs) of
        None \<Rightarrow> Err (Errorf ''no migration status for VM %d'' [FInt (sint handle)])
      | Some st \<Rightarrow> Ok st)"

section \<open>Termination\<close>

fun pc_rank :: "mig_pc \<Rightarrow> nat" where
  "pc_rank MgStart = 9"
| "pc_rank MgPhase = 8"
| "pc_rank (MgTransfer ps) = 3 + length ps"
| "pc_rank MgUpdate = 2"
| "pc_rank MgComplete = 1"
| "pc_rank (MgDone r) = 0"

lemma pc_rank_0: "pc_rank pc = 0 \<longleftrightarrow> (\<exists>r. pc = MgDone r)"
  by (cases pc) auto

lemma mig_start_frame:
  "cs_selector (fst (mig_start ord now (cs, g))) = cs_selector cs"
  "cs_cancelled (fst (mig_start ord now (cs, g))) = cs_cancelled cs"
  "g_ctx (snd (mig_start ord now (cs, g))) = g_ctx g"
  "g_handle (snd (mig_start ord now (cs, g))) = g_handle g"
  "g_target (snd (mig_start ord now (cs, g))) = g_target g"
  by (auto simp: mig_start_def new_status_def Let_def split: sum.splits option.splits)

lemma mig_start_pc:
  "g_pc (snd (mig_start ord now (cs, g))) = MgPhase \<or> (\<exists>e. g_pc (snd (mig_start ord now (cs, g))) = MgDone (Err e))"
  by (auto simp: mig_start_def new_status_def Let_def split: sum.splits option.splits)

lemma mig_step_rank: "pc_rank (g_pc (snd (mig_step ord now (cs, g)))) \<le> pc_rank (g_pc g) - 1"
  using mig_start_pc [of ord now cs g]
  by (cases "g_pc g") (auto simp: mig_step_def transferSteps_def split: list.splits)

text \<open>A run in which other parts of the controller change the service between the steps.\<close>

fun mig_interleaved ::
  "(string list \<times> gotime \<times> (ComputeService \<Rightarrow> ComputeService)) list \<Rightarrow> ComputeService \<times> goroutine \<Rightarrow> ComputeService \<times> goroutine" where
  "mig_interleaved [] x = x"
| "mig_interleaved ((ord, now, other) # inputs) x =
     mig_interleaved inputs (let (cs, g) = mig_step ord now x in (other cs, g))"

lemma mig_interleaved_rank:
  "pc_rank (g_pc (snd (mig_interleaved inputs (cs, g)))) \<le> pc_rank (g_pc g) - length inputs"
proof (induction inputs arbitrary: cs g)
  case (Cons i inputs)
  obtain ord now other where i: "i = (ord, now, other)" by (metis prod_cases3)
  obtain cs1 g1 where st: "mig_step ord now (cs, g) = (cs1, g1)" by (metis prod.exhaust)
  have "pc_rank (g_pc g1) \<le> pc_rank (g_pc g) - 1" using mig_step_rank [of ord now cs g] st by simp
  with Cons.IH [of "other cs1" g1] show ?case by (simp add: i st)
qed simp



section \<open>Cancellation\<close>

definition before_switchover :: "mig_pc \<Rightarrow> bool" where
  "before_switchover pc \<longleftrightarrow> pc = MgStart \<or> pc = MgPhase \<or> (\<exists>ps. pc = MgTransfer ps) \<or> (\<exists>e. pc = MgDone (Err e))"

lemma upd_status_frame [simp]:
  "cs_selector (upd_status a f cs) = cs_selector cs"
  "cs_cancelled (upd_status a f cs) = cs_cancelled cs"
  "cs_active (upd_status a f cs) = cs_active cs"
  "cs_migrations (upd_status a f cs) = cs_migrations cs"
  "cs_nextStatus (upd_status a f cs) = cs_nextStatus cs"
  "cs_nextCtx (upd_status a f cs) = cs_nextCtx cs"
  by (simp_all add: upd_status_def)

lemma mig_step_cancelled:
  assumes "cs_cancelled cs (g_ctx g)" "before_switchover (g_pc g)" "mig_step ord now (cs, g) = (cs', g')"
  shows "cs_cancelled cs' (g_ctx g') \<and> before_switchover (g_pc g') \<and> cs_selector cs' = cs_selector cs"
proof (cases "g_pc g")
  case MgStart
  then show ?thesis
    using assms mig_start_frame [of ord now cs g] mig_start_pc [of ord now cs g]
    by (auto simp: mig_step_def before_switchover_def)
qed (use assms in \<open>auto simp: mig_step_def before_switchover_def\<close>)

lemma doMigration_cancelled:
  "cs_cancelled c (g_ctx h) \<Longrightarrow> before_switchover (g_pc h) \<Longrightarrow>
      before_switchover (g_pc (snd (doMigration xs (c, h)))) \<and> cs_selector (fst (doMigration xs (c, h))) = cs_selector c
      \<and> pc_rank (g_pc (snd (doMigration xs (c, h)))) \<le> pc_rank (g_pc h) - length xs"
proof (induction xs arbitrary: c h)
  case (Cons i xs)
  obtain ord now where i: "i = (ord, now)" by (metis prod.exhaust)
  obtain c1 h1 where st: "mig_step ord now (c, h) = (c1, h1)" by (metis prod.exhaust)
  show ?case
    using Cons.IH [of c1 h1] mig_step_cancelled [OF Cons.prems st] mig_step_rank [of ord now c h] st
    by (auto simp: i)
qed simp

lemma doMigration_done: "g_pc h = MgDone r \<Longrightarrow> doMigration xs (c, h) = (c, h)"
  by (induction xs) (auto simp: mig_step_def)



section \<open>Outcome of an undisturbed migration\<close>

lemma backend_set_node_props:
  "backend_Name (backend_set_node h node b) = backend_Name b"
  "backend_next (backend_set_node h node b) = backend_next b"
  "backend_table (backend_set_node h node b) =
     (case backend_table b h of None \<Rightarrow> backend_table b | Some vm \<Rightarrow> (backend_table b)(h \<mapsto> vm\<lparr>vmNode := node\<rparr>))"
  by (cases b; auto split: option.splits)+

lemma rust_ok_set_node:
  assumes "rust_ok b" "rb_vms b h = Some vm"
  shows "rust_ok (b\<lparr>rb_vms := (rb_vms b)(h \<mapsto> vm\<lparr>vmNode := node\<rparr>)\<rparr>)"
proof -
  obtain mv where "core_vms (rb_core b) h = Some mv" "same_vm mv vm" by (rule rust_ok_some [OF assms])
  then show ?thesis using assms(1) by (simp add: rust_ok_def same_vm_def)
qed

lemma backend_set_node_ok: "backend_ok b \<Longrightarrow> backend_ok (backend_set_node h node b)"
proof (cases b)
  case (BQemu x)
  assume "backend_ok b"
  then show ?thesis using BQemu by (auto simp: qemu_ok_def split: option.splits)
next
  case (BLxc x)
  assume "backend_ok b"
  then show ?thesis using BLxc by (auto simp: lxc_ok_def lxc_entry_ok_def split: option.splits)
qed (auto simp: rust_ok_set_node split: option.splits)

lemma updateVMNode_first:
  assumes "range_order (key # ord) (sel_backends s)"
  shows "\<exists>b. sel_backends s key = Some b \<and> updateVMNode (key # ord) h node s = set_backend key (backend_set_node h node b) s"
proof -
  have "key \<in> dom (sel_backends s)" using assms by (auto simp: range_order_def)
  then obtain b where "sel_backends s key = Some b" by blast
  then show ?thesis by simp
qed

lemma updateVMNode_inv:
  assumes "svc_inv s" "range_order ord (sel_backends s)"
  shows "svc_inv (updateVMNode ord h node s)"
proof (cases ord)
  case (Cons key rest)
  then obtain b where b: "sel_backends s key = Some b" "updateVMNode ord h node s = set_backend key (backend_set_node h node b) s"
    using updateVMNode_first assms(2) by blast
  have "backend_ok b" using assms(1) b(1) by (auto simp: svc_inv_def svc_ok_def)
  then show ?thesis
    unfolding b(2) by (intro svc_inv_set_same_next [OF assms(1) b(1)])
      (simp_all add: backend_set_node_ok backend_set_node_props)
qed (use assms in simp)

lemma updateVMNode_view:
  assumes inv: "svc_inv s" and ord: "range_order ord (sel_backends s)" and o: "owns s key h vm"
  shows "svc_view (updateVMNode ord h node s) =
    (if hd ord = key then (svc_view s)(h \<mapsto> vm\<lparr>vmNode := node\<rparr>) else svc_view s)"
proof -
  have "ord \<noteq> []" using o ord by (auto simp: owns_def range_order_def)
  then obtain k rest where k: "ord = k # rest" by (cases ord) auto
  obtain b where b: "sel_backends s k = Some b" "updateVMNode ord h node s = set_backend k (backend_set_node h node b) s"
    using updateVMNode_first ord k by blast
  note inv' = updateVMNode_inv [OF inv ord, of h node, unfolded b(2)]
  have uniq: "owns s k' h w \<Longrightarrow> k' = key" for k' w using owns_unique inv o by (auto simp: svc_inv_def)
  show ?thesis
  proof (cases "k = key")
    case True
    then have "backend_table b h = Some vm" using o b(1) by (simp add: owns_def)
    then have "svc_view (set_backend k (backend_set_node h node b) s) = (svc_view s)(h := Some (vm\<lparr>vmNode := node\<rparr>))"
      using uniq True by (intro svc_view_set_backend [OF inv inv' b(1)]) (auto simp: backend_set_node_props)
    then show ?thesis using True k b(2) by simp
  next
    case False
    then have "backend_table b h = None" using uniq [of k] b(1) by (cases "backend_table b h") (auto simp: owns_def)
    then show ?thesis
      using False k b svc_view_same_table [OF inv inv' b(1)] by (simp add: backend_set_node_props)
  qed
qed

lemma mig_start_running:
  assumes "svc_inv (cs_selector cs)" "range_order ord (sel_backends (cs_selector cs))"
    "svc_view (cs_selector cs) (g_handle g) = Some vm" "vmState vm = ''running''" "vmNode vm \<noteq> g_target g"
  shows "mig_start ord now (cs, g) =
    (let (a, cs1) = new_status (g_handle g)
           \<lparr>ms_VMID = g_handle g, ms_SourceNode = vmNode vm, ms_TargetNode = g_target g, ms_Phase = ''pre-check'',
            ms_Progress = 0, ms_StartedAt = now, ms_CompletedAt = zero_time, ms_Error = []\<rparr> cs
     in (cs1, g\<lparr>g_status := a, g_pc := MgPhase\<rparr>))"
  using svc_find_view [OF assms(1,2), of "g_handle g"] assms(3,4,5)
  by (auto simp: mig_start_def Let_def backend_GetVM_eq)

lemma length_nine: "length xs = 9 \<Longrightarrow> \<exists>a b c d e f g h i. xs = [a, b, c, d, e, f, g, h, i]"
  by (auto simp: numeral_eq_Suc length_Suc_conv)

text \<open>C17: The outcome of an undisturbed synchronous migration of a running machine to another
  node: it reports success and the status is completed with progress 100, but the node of the
  machine changes only when the backend that owns the machine happens to be the first one that
  Go visits; otherwise no machine changes at all.\<close>

theorem migrate_outcome:
  assumes inv: "svc_inv (cs_selector cs)" and len: "length inputs = mig_steps_total"
    and ord: "\<forall>(ord, now) \<in> set inputs. range_order ord (sel_backends (cs_selector cs))"
    and own: "owns (cs_selector cs) key h vm" and run: "vmState vm = ''running''" "vmNode vm \<noteq> target"
    and ctx: "\<not> cs_cancelled cs (cs_nextCtx cs)"
  shows "\<exists>cs'. MigrateVM inputs h target cs = (MgDone (Ok ()), cs')
    \<and> (\<exists>st. GetMigrationStatus h cs' = Ok st \<and> ms_Phase st = ''completed'' \<and> ms_Progress st = 100
         \<and> ms_SourceNode st = vmNode vm \<and> ms_TargetNode st = target)
    \<and> svc_view (cs_selector cs') =
        (if hd (fst (inputs ! 7)) = key then (svc_view (cs_selector cs))(h \<mapsto> vm\<lparr>vmNode := target\<rparr>)
         else svc_view (cs_selector cs))"
proof -
  have view: "svc_view (cs_selector cs) h = Some vm" using own svc_view_iff [OF inv] by blast
  obtain o0 t0 o1 t1 o2 t2 o3 t3 o4 t4 o5 t5 o6 t6 o7 t7 o8 t8 where
    i: "inputs = [(o0,t0),(o1,t1),(o2,t2),(o3,t3),(o4,t4),(o5,t5),(o6,t6),(o7,t7),(o8,t8)]"
    using length_nine [of inputs] len unfolding mig_steps_total_def by (metis surj_pair)
  have ords: "range_order o0 (sel_backends (cs_selector cs))" "range_order o7 (sel_backends (cs_selector cs))"
    using ord by (auto simp: i)
  let ?g = "\<lparr>g_handle = h, g_target = target, g_ctx = cs_nextCtx cs, g_status = 0, g_pc = MgStart\<rparr>"
  note st = mig_start_running [of "cs\<lparr>cs_nextCtx := Suc (cs_nextCtx cs)\<rparr>" o0 ?g vm t0, simplified, OF inv ords(1) view run]
  have nv: "svc_view (updateVMNode o7 h target (cs_selector cs)) =
      (if hd o7 = key then (svc_view (cs_selector cs))(h \<mapsto> vm\<lparr>vmNode := target\<rparr>) else svc_view (cs_selector cs))"
    by (rule updateVMNode_view [OF inv ords(2) own])
  show ?thesis
    using ctx nv
    by (simp add: MigrateVM_def i mig_step_def st new_status_def Let_def transferSteps_def upd_status_def GetMigrationStatus_def)
qed

definition win_running :: VMInfo where
  "win_running = (new_VMInfo 10000 ''win'' 4 4096 ''qemu'' ''vm'' 9)\<lparr>vmState := ''running''\<rparr>"

definition svc_running :: BackendSelector where
  "svc_running = set_backend ''qemu'' (BQemu ((NewQEMUBackend None)\<lparr>qb_nextID := 10001, qb_vms := [10000 \<mapsto> win_running]\<rparr>)) svc_one"

lemma svc_running_inv: "svc_inv svc_running"
  unfolding svc_running_def
proof (rule svc_inv_set_same_next [OF svc_one_inv, where b = qemu_with_one])
  show "sel_backends svc_one ''qemu'' = Some qemu_with_one"
    by (simp add: svc_one_def set_backend_def)
  show "backend_ok (BQemu ((NewQEMUBackend None)\<lparr>qb_nextID := 10001, qb_vms := [10000 \<mapsto> win_running]\<rparr>))"
    by (auto simp: qemu_ok_def win_running_def new_VMInfo_def intro!: exI [of _ Running])
qed (simp_all add: qemu_with_one_eq)

lemma svc_running_order: "set xs = {''rustvmm'', ''qemu'', ''lxc''} \<Longrightarrow> distinct xs \<Longrightarrow> range_order xs (sel_backends svc_running)"
  by (auto simp: range_order_def svc_running_def svc_one_def set_backend_def svc_fresh_backends)

lemma win_running_fields: "vmState win_running = ''running''" "vmNode win_running = ''local''"
  by (simp_all add: win_running_def new_VMInfo_def)

lemma svc_running_owns: "owns svc_running ''qemu'' 10000 win_running"
  by (simp add: owns_def svc_running_def set_backend_def)

theorem migrate_outcome_witness:
  "\<exists>cs'. MigrateVM (replicate 9 ([''rustvmm'', ''qemu'', ''lxc''], 5)) 10000 ''n2'' (NewComputeService svc_running) = (MgDone (Ok ()), cs')
    \<and> svc_view (cs_selector cs') = svc_view svc_running"
  using migrate_outcome [of "NewComputeService svc_running" "replicate 9 ([''rustvmm'', ''qemu'', ''lxc''], 5)"
      "''qemu''" 10000 win_running "''n2''"]
  by (auto simp: NewComputeService_def svc_running_inv svc_running_order svc_running_owns mig_steps_total_def
      win_running_fields)

section \<open>Interleaved migrations\<close>

text \<open>The controller with any number of migration goroutines: each step starts a migration
  (synchronous or live), runs one critical section of one goroutine, runs the deferred function
  of a finished goroutine, cancels, or changes the machines in some other way.\<close>

inductive mig_sys :: "ComputeService \<times> goroutine list \<Rightarrow> ComputeService \<times> goroutine list \<Rightarrow> bool" where
  sys_live: "MigrateLive ord now h t cs = (Ok g, cs') \<Longrightarrow> mig_sys (cs, gs) (cs', gs @ [g])"
| sys_sync: "mig_sys (cs, gs) (cs\<lparr>cs_nextCtx := Suc (cs_nextCtx cs)\<rparr>,
     gs @ [\<lparr>g_handle = h, g_target = t, g_ctx = cs_nextCtx cs, g_status = 0, g_pc = MgStart\<rparr>])"
| sys_step: "i < length gs \<Longrightarrow> mig_step ord now (cs, gs ! i) = (cs', g') \<Longrightarrow> mig_sys (cs, gs) (cs', gs[i := g'])"
| sys_finish: "g \<in> set gs \<Longrightarrow> g_pc g = MgDone r \<Longrightarrow> mig_sys (cs, gs) (mig_finish g cs, gs)"
| sys_cancel: "CancelMigration h cs = (r, cs') \<Longrightarrow> mig_sys (cs, gs) (cs', gs)"
| sys_other: "mig_sys (cs, gs) (cs\<lparr>cs_selector := s'\<rparr>, gs)"

inductive_cases mig_sysE: "mig_sys (cs, gs) x"

fun pc_status :: "mig_pc \<Rightarrow> (string \<times> int) option" where
  "pc_status MgStart = None"
| "pc_status MgPhase = Some (''pre-check'', 0)"
| "pc_status (MgTransfer ps) =
     Some (''transfer'', if length ps < 4 then transferSteps ! (3 - length ps) else 0)"
| "pc_status MgUpdate = Some (''switchover'', 95)"
| "pc_status MgComplete = Some (''switchover'', 95)"
| "pc_status (MgDone r) = None"

definition status_table :: "(string \<times> int) set" where
  "status_table = {(''pending'', 0), (''pre-check'', 0), (''switchover'', 95), (''completed'', 100)}
     \<union> {''transfer'', ''failed''} \<times> {0, 10, 30, 60, 90}"

definition st_view :: "MigrationStatus \<Rightarrow> string \<times> int" where
  "st_view st = (ms_Phase st, ms_Progress st)"

definition pc_wf :: "mig_pc \<Rightarrow> bool" where
  "pc_wf pc \<longleftrightarrow> (\<forall>ps. pc = MgTransfer ps \<longrightarrow> (\<exists>k \<le> 4. ps = drop k transferSteps))"

definition busy :: "goroutine \<Rightarrow> bool" where
  "busy g \<longleftrightarrow> pc_status (g_pc g) \<noteq> None"

definition g_ok :: "ComputeService \<Rightarrow> goroutine \<Rightarrow> bool" where
  "g_ok cs g \<longleftrightarrow> pc_wf (g_pc g) \<and> (busy g \<longrightarrow> map_option st_view (cs_status cs (g_status g)) = pc_status (g_pc g))"

definition own_distinct :: "goroutine list \<Rightarrow> bool" where
  "own_distinct gs \<longleftrightarrow> (\<forall>i < length gs. \<forall>j < length gs. i \<noteq> j \<longrightarrow> busy (gs ! i) \<longrightarrow> busy (gs ! j)
     \<longrightarrow> g_status (gs ! i) \<noteq> g_status (gs ! j))"

definition sys_ok :: "ComputeService \<times> goroutine list \<Rightarrow> bool" where
  "sys_ok = (\<lambda>(cs, gs).
     (\<forall>a st. cs_status cs a = Some st \<longrightarrow> a < cs_nextStatus cs \<and> st_view st \<in> status_table) \<and>
     (\<forall>i < length gs. g_ok cs (gs ! i)) \<and> own_distinct gs)"

definition st_mono :: "MigrationStatus \<Rightarrow> MigrationStatus \<Rightarrow> bool" where
  "st_mono st st' \<longleftrightarrow> ms_Progress st \<le> ms_Progress st' \<and> (ms_Phase st \<in> {''completed'', ''failed''} \<longrightarrow> st' = st)
     \<and> ms_VMID st' = ms_VMID st \<and> ms_SourceNode st' = ms_SourceNode st \<and> ms_TargetNode st' = ms_TargetNode st"

lemma status_table_iff [simp]:
  "(p, n) \<in> status_table \<longleftrightarrow> (p, n) \<in> {(''pending'', 0), (''pre-check'', 0), (''switchover'', 95), (''completed'', 100)}
     \<or> (p = ''transfer'' \<or> p = ''failed'') \<and> n \<in> {0, 10, 30, 60, 90}"
  by (auto simp: status_table_def)

text \<open>What one critical section does to the status store: nothing, a new status, or a change of
  the goroutine's own status.\<close>

definition step_new :: "ComputeService \<Rightarrow> ComputeService \<Rightarrow> goroutine \<Rightarrow> bool" where
  "step_new cs cs' g' \<longleftrightarrow> (\<exists>st. cs_status cs' = (cs_status cs)(cs_nextStatus cs \<mapsto> st) \<and> cs_nextStatus cs' = Suc (cs_nextStatus cs)
     \<and> st_view st \<in> status_table \<and> (pc_status (g_pc g') = None \<or> g_status g' = cs_nextStatus cs \<and> pc_status (g_pc g') = Some (st_view st)))"

definition step_upd :: "ComputeService \<Rightarrow> goroutine \<Rightarrow> ComputeService \<Rightarrow> goroutine \<Rightarrow> bool" where
  "step_upd cs g cs' g' \<longleftrightarrow> (\<exists>f v. pc_status (g_pc g) = Some v \<and> cs_nextStatus cs' = cs_nextStatus cs \<and> g_status g' = g_status g
     \<and> cs_status cs' = (cs_status cs)(g_status g := map_option f (cs_status cs (g_status g)))
     \<and> (\<forall>st. st_view st = v \<longrightarrow> st_view (f st) \<in> status_table \<and> st_mono st (f st)
           \<and> (pc_status (g_pc g') = None \<or> pc_status (g_pc g') = Some (st_view (f st)))))"

definition step_same :: "ComputeService \<Rightarrow> ComputeService \<Rightarrow> goroutine \<Rightarrow> bool" where
  "step_same cs cs' g' \<longleftrightarrow> cs_status cs' = cs_status cs \<and> cs_nextStatus cs' = cs_nextStatus cs \<and> pc_status (g_pc g') = None"

lemma mig_start_status:
  assumes "mig_start ord now (cs, g) = (cs', g')" "pc_status (g_pc g) = None"
  shows "(step_same cs cs' g' \<or> step_new cs cs' g') \<and> pc_wf (g_pc g')"
  using assms
  by (auto simp: mig_start_def new_status_def step_same_def step_new_def pc_wf_def st_view_def Let_def
      split: sum.splits option.splits if_splits)

lemma transfer_wf_cases:
  assumes "pc_wf (MgTransfer ps)"
  shows "ps \<in> {[10, 30, 60, 90], [30, 60, 90], [60, 90], [90], []}"
proof -
  from assms obtain k where "k \<le> 4" "ps = drop k transferSteps" by (auto simp: pc_wf_def)
  moreover from \<open>k \<le> 4\<close> have "k \<in> {0, 1, 2, 3, 4}" by auto
  ultimately show ?thesis by (auto simp: transferSteps_def)
qed

lemma transfer_wf_tl:
  assumes "pc_wf (MgTransfer (p # ps))"
  shows "pc_wf (MgTransfer ps)"
proof -
  from assms obtain k where k: "k \<le> 4" "p # ps = drop k transferSteps" by (auto simp: pc_wf_def)
  then have "k < 4" by (cases "k = 4") (auto simp: transferSteps_def)
  moreover have "ps = drop (Suc k) transferSteps" by (metis drop_Suc k(2) list.sel(3) tl_drop)
  ultimately show ?thesis by (auto simp: pc_wf_def intro!: exI [of _ "Suc k"])
qed

lemma mig_step_transfer:
  assumes st: "mig_step ord now (cs, g) = (cs', g')" and pc: "g_pc g = MgTransfer ps" and wf: "pc_wf (MgTransfer ps)"
  shows "step_upd cs g cs' g' \<and> pc_wf (g_pc g')"
proof (cases "cs_cancelled cs (g_ctx g)")
  case True
  then show ?thesis
    using st pc transfer_wf_cases [OF wf]
    by (auto simp: mig_step_def step_upd_def upd_status_def pc_wf_def st_view_def st_mono_def cancel_status_def transferSteps_def
        intro!: exI [of _ "cancel_status now"])
next
  case False
  show ?thesis
  proof (cases ps)
    case Nil
    let ?f = "\<lambda>st. st\<lparr>ms_Phase := ''switchover'', ms_Progress := 95\<rparr>"
    show ?thesis
      using False Nil st pc
      by (auto simp: mig_step_def step_upd_def upd_status_def pc_wf_def st_view_def st_mono_def transferSteps_def intro!: exI [of _ ?f])
  next
    case (Cons p ps')
    let ?f = "\<lambda>st. st\<lparr>ms_Progress := p\<rparr>"
    show ?thesis
      using False Cons st pc transfer_wf_cases [OF wf] transfer_wf_tl [OF wf [unfolded Cons]]
      by (auto simp: mig_step_def step_upd_def upd_status_def st_view_def st_mono_def transferSteps_def intro!: exI [of _ ?f])
  qed
qed

lemma mig_step_status:
  assumes st: "mig_step ord now (cs, g) = (cs', g')" and wf: "pc_wf (g_pc g)"
  shows "(step_same cs cs' g' \<or> step_new cs cs' g' \<or> step_upd cs g cs' g') \<and> pc_wf (g_pc g')"
proof (cases "g_pc g")
  case MgStart
  then show ?thesis using st mig_start_status [of ord now cs g cs' g'] by (auto simp: mig_step_def)
next
  case MgPhase
  have "step_upd cs g cs' g'"
    unfolding step_upd_def using st MgPhase
    by (intro exI [of _ "\<lambda>st. st\<lparr>ms_Phase := ''transfer''\<rparr>"])
      (auto simp: mig_step_def upd_status_def st_view_def st_mono_def transferSteps_def)
  moreover have "pc_wf (g_pc g')"
    using st MgPhase by (auto simp: mig_step_def pc_wf_def intro: exI [of _ 0])
  ultimately show ?thesis by blast
next
  case (MgTransfer ps)
  then show ?thesis using mig_step_transfer [OF st MgTransfer] wf by simp
next
  case MgUpdate
  have "step_upd cs g cs' g'"
    unfolding step_upd_def using st MgUpdate
    by (intro exI [of _ id]) (auto simp: mig_step_def st_view_def st_mono_def option.map_id)
  then show ?thesis using st MgUpdate by (auto simp: mig_step_def pc_wf_def)
next
  case MgComplete
  have "step_upd cs g cs' g'"
    unfolding step_upd_def using st MgComplete
    by (intro exI [of _ "\<lambda>st. st\<lparr>ms_Phase := ''completed'', ms_Progress := 100, ms_CompletedAt := now\<rparr>"])
      (auto simp: mig_step_def upd_status_def st_view_def st_mono_def)
  then show ?thesis using st MgComplete by (auto simp: mig_step_def pc_wf_def)
next
  case (MgDone r)
  then show ?thesis using st by (auto simp: mig_step_def step_same_def pc_wf_def)
qed

definition store_mono :: "ComputeService \<Rightarrow> ComputeService \<Rightarrow> bool" where
  "store_mono cs cs' \<longleftrightarrow> (\<forall>a st. cs_status cs a = Some st \<longrightarrow> (\<exists>st'. cs_status cs' a = Some st' \<and> st_mono st st'))"

lemma st_mono_refl [simp]: "st_mono st st"
  by (simp add: st_mono_def)

lemma store_mono_same: "cs_status cs' = cs_status cs \<Longrightarrow> store_mono cs cs'"
  by (simp add: store_mono_def)

lemma sys_ok_own:
  assumes "sys_ok (cs, gs)" "i < length gs" "busy (gs ! i)"
  obtains st where "cs_status cs (g_status (gs ! i)) = Some st" "pc_status (g_pc (gs ! i)) = Some (st_view st)"
    "g_status (gs ! i) < cs_nextStatus cs"
proof -
  have "map_option st_view (cs_status cs (g_status (gs ! i))) = pc_status (g_pc (gs ! i))"
    using assms by (simp add: sys_ok_def g_ok_def)
  moreover obtain v where "pc_status (g_pc (gs ! i)) = Some v" using assms(3) unfolding busy_def by blast
  ultimately obtain st where "cs_status cs (g_status (gs ! i)) = Some st" "pc_status (g_pc (gs ! i)) = Some (st_view st)"
    by (cases "cs_status cs (g_status (gs ! i))") simp_all
  then show thesis using that assms(1) by (simp add: sys_ok_def)
qed

lemma sys_ok_same:
  assumes "sys_ok (cs, gs)" "cs_status cs' = cs_status cs" "cs_nextStatus cs' = cs_nextStatus cs"
  shows "sys_ok (cs', gs)"
  using assms by (simp add: sys_ok_def g_ok_def)

lemma sys_ok_update:
  assumes ok: "sys_ok (cs, gs)" and i: "i < length gs" and g: "g_ok cs g'"
    and o: "\<And>j. j < length gs \<Longrightarrow> j \<noteq> i \<Longrightarrow> busy (gs ! j) \<Longrightarrow> busy g' \<Longrightarrow> g_status (gs ! j) \<noteq> g_status g'"
  shows "sys_ok (cs, gs[i := g'])"
proof -
  have "own_distinct (gs[i := g'])"
    using ok o unfolding sys_ok_def own_distinct_def
    by (auto simp: nth_list_update i) (metis)+
  then show ?thesis using ok g i by (simp add: sys_ok_def nth_list_update)
qed

lemma sys_ok_spawn:
  assumes "sys_ok (cs, gs)" "\<not> busy g'" "pc_wf (g_pc g')"
  shows "sys_ok (cs, gs @ [g'])"
proof -
  have "own_distinct (gs @ [g'])"
    using assms unfolding sys_ok_def own_distinct_def by (simp add: nth_append less_Suc_eq)
  then show ?thesis using assms by (simp add: sys_ok_def g_ok_def nth_append less_Suc_eq)
qed

lemma sys_ok_alloc:
  assumes ok: "sys_ok (cs, gs)"
    and c: "cs_status cs' = (cs_status cs)(cs_nextStatus cs \<mapsto> st)" "cs_nextStatus cs' = Suc (cs_nextStatus cs)"
      "st_view st \<in> status_table"
  shows "sys_ok (cs', gs)" "store_mono cs cs'"
proof -
  have b: "a < cs_nextStatus cs" if "cs_status cs a = Some x" for a x
    using ok that by (auto simp: sys_ok_def)
  then show "store_mono cs cs'" using c by (fastforce simp: store_mono_def)
  have "g_ok cs' (gs ! i)" if lt: "i < length gs" for i
  proof (cases "busy (gs ! i)")
    case True
    obtain st' where "cs_status cs (g_status (gs ! i)) = Some st'" by (rule sys_ok_own [OF ok lt True])
    then have "g_status (gs ! i) \<noteq> cs_nextStatus cs" using b by (metis less_irrefl)
    then show ?thesis using ok lt c(1) by (simp add: sys_ok_def g_ok_def)
  qed (use ok lt in \<open>simp add: sys_ok_def g_ok_def\<close>)
  moreover have "a < cs_nextStatus cs' \<and> st_view x \<in> status_table" if "cs_status cs' a = Some x" for a x
    using ok c that unfolding sys_ok_def by (auto simp: less_Suc_eq split: if_splits)
  ultimately show "sys_ok (cs', gs)" using ok by (simp add: sys_ok_def)
qed

lemma sys_ok_new:
  assumes ok: "sys_ok (cs, gs)" and i: "i < length gs" and n: "step_new cs cs' g'" and wf: "pc_wf (g_pc g')"
  shows "sys_ok (cs', gs[i := g']) \<and> store_mono cs cs'"
proof -
  obtain st where st: "cs_status cs' = (cs_status cs)(cs_nextStatus cs \<mapsto> st)" "cs_nextStatus cs' = Suc (cs_nextStatus cs)"
      "st_view st \<in> status_table"
    and g: "pc_status (g_pc g') = None \<or> g_status g' = cs_nextStatus cs \<and> pc_status (g_pc g') = Some (st_view st)"
    using n unfolding step_new_def by blast
  have "sys_ok (cs', gs[i := g'])"
  proof (rule sys_ok_update [OF sys_ok_alloc(1) [OF ok st] i])
    show "g_ok cs' g'" using g wf st(1) by (auto simp: g_ok_def busy_def)
    show "g_status (gs ! j) \<noteq> g_status g'" if "j < length gs" "j \<noteq> i" "busy (gs ! j)" "busy g'" for j
    proof -
      have "g_status (gs ! j) < cs_nextStatus cs" by (rule sys_ok_own [OF ok that(1,3)])
      then show ?thesis using g that(4) by (auto simp: busy_def)
    qed
  qed
  then show ?thesis using sys_ok_alloc(2) [OF ok st] by blast
qed

lemma sys_ok_upd:
  assumes ok: "sys_ok (cs, gs)" and i: "i < length gs" and u: "step_upd cs (gs ! i) cs' g'" and wf: "pc_wf (g_pc g')"
  shows "sys_ok (cs', gs[i := g']) \<and> store_mono cs cs'"
proof -
  let ?a = "g_status (gs ! i)"
  obtain f v where v: "pc_status (g_pc (gs ! i)) = Some v" and c: "cs_nextStatus cs' = cs_nextStatus cs" "g_status g' = ?a"
      "cs_status cs' = (cs_status cs)(?a := map_option f (cs_status cs ?a))"
    and f: "\<And>st. st_view st = v \<Longrightarrow> st_view (f st) \<in> status_table \<and> st_mono st (f st)
           \<and> (pc_status (g_pc g') = None \<or> pc_status (g_pc g') = Some (st_view (f st)))"
    using u unfolding step_upd_def by blast
  have bi: "busy (gs ! i)" using v by (simp add: busy_def)
  obtain st where st: "cs_status cs ?a = Some st" "v = st_view st" using sys_ok_own [OF ok i bi] v by auto
  note fst' = f [OF st(2) [symmetric]]
  have other: "g_status (gs ! j) \<noteq> ?a" if "j < length gs" "j \<noteq> i" "busy (gs ! j)" for j
    using ok i bi that by (auto simp: sys_ok_def own_distinct_def)
  have "store_mono cs cs'" using fst' st(1) c(3) by (auto simp: store_mono_def)
  moreover have "g_ok cs' ((gs[i := g']) ! j)" if "j < length gs" for j
  proof (cases "j = i")
    case True
    then show ?thesis using i wf c fst' st(1) by (auto simp: g_ok_def busy_def)
  next
    case False
    then show ?thesis using ok that other [of j] c(3) by (auto simp: sys_ok_def g_ok_def)
  qed
  moreover have "own_distinct (gs[i := g'])"
    using ok bi other c(2) i unfolding sys_ok_def own_distinct_def by (auto simp: nth_list_update)
  moreover have "a < cs_nextStatus cs' \<and> st_view x \<in> status_table" if "cs_status cs' a = Some x" for a x
    using ok that c(1,3) fst' st(1) unfolding sys_ok_def by (auto split: if_splits)
  ultimately show ?thesis by (simp add: sys_ok_def)
qed

lemma MigrateLive_cases:
  assumes "MigrateLive ord now h t cs = (Ok g, cs')"
  shows "g_pc g = MgStart \<and> (\<exists>st. cs_status cs' = (cs_status cs)(cs_nextStatus cs \<mapsto> st)
     \<and> cs_nextStatus cs' = Suc (cs_nextStatus cs) \<and> st_view st \<in> status_table)"
  using assms by (auto simp: MigrateLive_def Let_def new_status_def st_view_def split: sum.splits option.splits if_splits)

lemma mig_sys_preserves:
  assumes ok: "sys_ok (cs, gs)" and st: "mig_sys (cs, gs) (cs', gs')"
  shows "sys_ok (cs', gs') \<and> store_mono cs cs'"
  using st
proof cases
  case (sys_live ord now h t g)
  from MigrateLive_cases [OF sys_live(2)] show ?thesis
    using sys_ok_alloc [OF ok] sys_ok_spawn [of cs' gs g] unfolding sys_live(1) by (auto simp: pc_wf_def busy_def)
next
  case (sys_sync h t)
  then show ?thesis
    using sys_ok_spawn [OF sys_ok_same [OF ok]] by (auto simp: pc_wf_def busy_def store_mono_same)
next
  case (sys_step i ord now g')
  have "pc_wf (g_pc (gs ! i))" using ok sys_step(2) by (auto simp: sys_ok_def g_ok_def)
  note ms = mig_step_status [OF sys_step(3) this]
  from ms consider "step_same cs cs' g'" | "step_new cs cs' g'" | "step_upd cs (gs ! i) cs' g'" by blast
  then show ?thesis
  proof cases
    case 1
    then show ?thesis
      using ms sys_ok_update [OF sys_ok_same [OF ok, of cs'] sys_step(2), of g'] sys_step(1)
      by (auto simp: step_same_def store_mono_same g_ok_def busy_def)
  next
    case 2
    then show ?thesis using sys_ok_new [OF ok sys_step(2) 2] ms sys_step(1) by blast
  next
    case 3
    then show ?thesis using sys_ok_upd [OF ok sys_step(2) 3] ms sys_step(1) by blast
  qed
next
  case (sys_finish g r)
  then show ?thesis using sys_ok_same [OF ok] by (auto simp: mig_finish_def store_mono_same)
next
  case (sys_cancel h r)
  then show ?thesis
    using sys_ok_same [OF ok] by (auto simp: CancelMigration_def store_mono_same split: option.splits)
next
  case (sys_other s')
  then show ?thesis using sys_ok_same [OF ok] by (auto simp: store_mono_same)
qed

lemma sys_ok_initial: "sys_ok (NewComputeService s, [])"
  by (simp add: sys_ok_def own_distinct_def NewComputeService_def)

lemma mig_sys_reachable: "mig_sys\<^sup>*\<^sup>* x y \<Longrightarrow> sys_ok x \<Longrightarrow> sys_ok y"
  by (induction rule: rtranclp_induct) (metis mig_sys_preserves surj_pair)+

lemma st_mono_trans: "st_mono a b \<Longrightarrow> st_mono b c \<Longrightarrow> st_mono a c"
  by (auto simp: st_mono_def)

lemma mig_sys_mono:
  "mig_sys\<^sup>*\<^sup>* x y \<Longrightarrow> sys_ok x \<Longrightarrow> cs_status (fst x) a = Some st \<Longrightarrow>
     \<exists>st'. cs_status (fst y) a = Some st' \<and> st_mono st st'"
proof (induction rule: rtranclp_induct)
  case (step y z)
  then obtain st1 where st1: "cs_status (fst y) a = Some st1" "st_mono st st1" by blast
  have "store_mono (fst y) (fst z)"
    using mig_sys_preserves [of "fst y" "snd y" "fst z" "snd z"] mig_sys_reachable [OF step.hyps(1) step.prems(1)] step.hyps(2)
    by simp
  then obtain st2 where "cs_status (fst z) a = Some st2" "st_mono st1 st2"
    using st1(1) unfolding store_mono_def by blast
  then show ?case using st_mono_trans [OF st1(2)] by blast
qed auto



text \<open>Overlapping live migrations of one machine: the second request is accepted while the
  first is still running; when the first goroutine finishes, its deferred function removes the
  entry that belongs to the second, so that a cancel request is refused although the second
  migration has not even started, and its context stays as it was.\<close>

theorem overlapping_migration_uncancellable:
  assumes "MigrateLive ord now h t cs = (Ok g1, cs1)" "t' \<noteq> t"
    and "findBackendForVM ord h (cs_selector cs) = Ok key" "sel_backends (cs_selector cs) key = Some b"
    and "backend_table b h = Some vm" "vmNode vm \<noteq> t'"
  shows "\<exists>g2 cs2. MigrateLive ord now h t' cs1 = (Ok g2, cs2) \<and> fst (CancelMigration h cs2) = Ok ()
    \<and> g_pc g2 = MgStart
    \<and> CancelMigration h (mig_finish g1 cs2) = (Err (Errorf ''no active migration for VM %d'' [FInt (sint h)]), mig_finish g1 cs2)
    \<and> g_ctx g2 = Suc (cs_nextCtx cs) \<and> cs_cancelled (mig_finish g1 cs2) = cs_cancelled cs"
proof -
  have run: "vmState vm = ''running''" "vmNode vm \<noteq> t"
    using assms by (auto simp: MigrateLive_def Let_def backend_GetVM_eq split: if_splits)
  from assms run show ?thesis
    by (auto simp: MigrateLive_def Let_def backend_GetVM_eq new_status_def mig_finish_def CancelMigration_def)
qed

theorem overlapping_migration_uncancellable_witness:
  "\<exists>g1 cs1 g2 cs2. MigrateLive [''qemu'', ''rustvmm'', ''lxc''] 5 10000 ''n2'' (NewComputeService svc_running) = (Ok g1, cs1)
    \<and> MigrateLive [''qemu'', ''rustvmm'', ''lxc''] 5 10000 ''n3'' cs1 = (Ok g2, cs2)
    \<and> \<not> is_ok (fst (CancelMigration 10000 (mig_finish g1 cs2)))"
proof -
  let ?ord = "[''qemu'', ''rustvmm'', ''lxc'']"
  obtain g1 cs1 where l: "MigrateLive ?ord 5 10000 ''n2'' (NewComputeService svc_running) = (Ok g1, cs1)"
    using svc_running_owns
    by (auto simp: MigrateLive_def NewComputeService_def owns_def backend_GetVM_eq win_running_fields Let_def new_status_def)
  obtain b where b: "sel_backends svc_running ''qemu'' = Some b" "backend_table b 10000 = Some win_running"
    using svc_running_owns by (auto simp: owns_def)
  from overlapping_migration_uncancellable [OF l, of "''n3''" "''qemu''" b win_running] b l show ?thesis
    by (auto simp: NewComputeService_def backend_GetVM_eq win_running_fields)
qed

end
