(* ===== verification/Persistent.thy ===== *)
theory Persistent
  imports Store Migration
begin

text \<open>
  \<^verbatim>\<open>PersistentComputeService\<close> of \<^verbatim>\<open>internal/compute/persistent.go\<close>: every change of a
  machine is also written to a key-value store, and \<^verbatim>\<open>LoadFromStore\<close> recreates the machines
  at start-up.  The JSON form of a machine is a parameter: \<open>enc\<close> is the outcome of
  \<^verbatim>\<open>json.Marshal\<close> and \<open>dec\<close> the one of \<^verbatim>\<open>json.Unmarshal\<close>.  The store is used through its
  operations, as the code uses it through the interface \<^verbatim>\<open>store.Store\<close>.
\<close>

section \<open>Operations\<close>

definition vmStoreKey :: "int32 \<Rightarrow> string" where
  "vmStoreKey i = Sprintf ''vms/%d'' [FInt (sint i)]"

type_synonym 's put_op = "string \<Rightarrow> string result \<Rightarrow> 's \<Rightarrow> unit result \<times> 's"

definition Pers_CreateVM ::
  "'s put_op \<Rightarrow> (VMInfo \<Rightarrow> string result) \<Rightarrow> comp_env \<Rightarrow> string \<Rightarrow> uint32 \<Rightarrow> uint64 \<Rightarrow> string \<Rightarrow> gotime
     \<Rightarrow> BackendSelector \<times> 's \<Rightarrow> VMInfo result \<times> BackendSelector \<times> 's" where
  "Pers_CreateVM put enc env name vcpus memoryMB hint now = (\<lambda>(sel, st).
     case Svc_CreateVM env name vcpus memoryMB hint now sel of
       (Inl err, sel') \<Rightarrow> (Err err, sel', st)
     | (Inr vm, sel') \<Rightarrow> (Ok vm, sel', snd (put (vmStoreKey (vmID vm)) (enc vm) st)))"

definition Pers_DestroyVM ::
  "(string \<Rightarrow> 's \<Rightarrow> unit result \<times> 's) \<Rightarrow> comp_env \<Rightarrow> string list \<Rightarrow> int32 \<Rightarrow> BackendSelector \<times> 's
     \<Rightarrow> unit result \<times> BackendSelector \<times> 's" where
  "Pers_DestroyVM delete env ord handle = (\<lambda>(sel, st).
     case Svc_DestroyVM env ord handle sel of
       (Inl err, sel') \<Rightarrow> (Err err, sel', st)
     | (Inr u, sel') \<Rightarrow> (Ok (), sel', snd (delete (vmStoreKey handle) st)))"

definition Pers_ActionVM ::
  "'s put_op \<Rightarrow> (VMInfo \<Rightarrow> string result) \<Rightarrow> comp_env \<Rightarrow> string list \<Rightarrow> int32 \<Rightarrow> string \<Rightarrow> BackendSelector \<times> 's
     \<Rightarrow> VMInfo result \<times> BackendSelector \<times> 's" where
  "Pers_ActionVM put enc env ord handle action = (\<lambda>(sel, st).
     case Svc_ActionVM env ord handle action sel of
       (Inl err, sel') \<Rightarrow> (Err err, sel', st)
     | (Inr vm, sel') \<Rightarrow> (Ok vm, sel', snd (put (vmStoreKey (vmID vm)) (enc vm) st)))"

text \<open>\<open>MigrateVM\<close>: the migration itself, then the machine is read back and written.  A migration
  that has not finished after the given steps has no result yet.\<close>

definition Pers_MigrateVM ::
  "'s put_op \<Rightarrow> (VMInfo \<Rightarrow> string result) \<Rightarrow> (string list \<times> gotime) list \<Rightarrow> string list \<Rightarrow> int32 \<Rightarrow> string
     \<Rightarrow> ComputeService \<times> 's \<Rightarrow> unit result option \<times> ComputeService \<times> 's" where
  "Pers_MigrateVM put enc inputs ord handle targetNode = (\<lambda>(cs, st).
     case MigrateVM inputs handle targetNode cs of
       (MgDone (Inl err), cs') \<Rightarrow> (Some (Err err), cs', st)
     | (MgDone (Inr u), cs') \<Rightarrow>
         (case Svc_GetVM ord handle (cs_selector cs') of
            Inl err \<Rightarrow> (Some (Err err), cs', st)
          | Inr vm \<Rightarrow> (Some (Ok ()), cs', snd (put (vmStoreKey (vmID vm)) (enc vm) st)))
     | (_, cs') \<Rightarrow> (None, cs', st))"

fun load_vms ::
  "(string \<Rightarrow> VMInfo result) \<Rightarrow> comp_env \<Rightarrow> gotime \<Rightarrow> (string \<times> string) list \<Rightarrow> nat \<Rightarrow> BackendSelector \<Rightarrow> nat \<times> BackendSelector" where
  "load_vms dec env now [] loaded sel = (loaded, sel)"
| "load_vms dec env now ((key, data) # kvs) loaded sel =
     (case dec data of
        Inl err \<Rightarrow> load_vms dec env now kvs loaded sel
      | Inr vm \<Rightarrow>
          (case Svc_CreateVM env (vmName vm) (vmVCPUs vm) (vmMemoryMB vm) (vmBackend vm) now sel of
             (Inl err, sel') \<Rightarrow> load_vms dec env now kvs loaded sel'
           | (Inr vm', sel') \<Rightarrow> load_vms dec env now kvs (loaded + 1) sel'))"

definition LoadFromStore ::
  "(string list \<Rightarrow> string \<Rightarrow> 's \<Rightarrow> (string \<times> string) list result \<times> 's) \<Rightarrow> (string \<Rightarrow> VMInfo result) \<Rightarrow> comp_env
     \<Rightarrow> gotime \<Rightarrow> string list \<Rightarrow> BackendSelector \<times> 's \<Rightarrow> nat result \<times> BackendSelector \<times> 's" where
  "LoadFromStore list dec env now ord = (\<lambda>(sel, st).
     case list ord ''vms/'' st of
       (Inl err, st') \<Rightarrow> (Err (Errorf ''persistent: list stored VMs: %w'' [FErr err]), sel, st')
     | (Inr kvs, st') \<Rightarrow>
         (if kvs = [] then (Ok 0, sel, st')
          else case load_vms dec env now kvs 0 sel of (n, sel') \<Rightarrow> (Ok n, sel', st')))"

section \<open>The store mirrors the machines\<close>

lemma vmStoreKey_eq: "vmStoreKey i = ''vms/'' @ show_int (sint i)"
  by (simp add: vmStoreKey_def Sprintf_def)

lemma vmStoreKey_inj [simp]: "vmStoreKey i = vmStoreKey j \<longleftrightarrow> i = j"
  by (simp add: vmStoreKey_eq)

definition mirrors :: "(VMInfo \<Rightarrow> string) \<Rightarrow> BackendSelector \<Rightarrow> (string \<Rightarrow> string option) \<Rightarrow> bool" where
  "mirrors js sel m \<longleftrightarrow> (\<forall>h. m (vmStoreKey h) = map_option js (svc_view sel h))"

lemma mirrors_upd:
  assumes "mirrors js sel m" "svc_view sel' = (svc_view sel)(h := x)"
  shows "mirrors js sel' (m(vmStoreKey h := map_option js x))"
  using assms by (simp add: mirrors_def)

lemma mirrors_same: "mirrors js sel m \<Longrightarrow> svc_view sel' = svc_view sel \<Longrightarrow> mirrors js sel' m"
  by (simp add: mirrors_def)

lemma svc_view_id:
  assumes "svc_inv sel" "svc_view sel h = Some vm"
  shows "vmID vm = h"
proof -
  obtain k b where b: "sel_backends sel k = Some b" "backend_table b h = Some vm"
    using assms svc_view_iff [OF assms(1)] by (auto simp: owns_def)
  have "backend_ok b" using assms(1) b(1) by (auto simp: svc_inv_def svc_ok_def)
  then show ?thesis using backend_entry [OF _ b(2)] by blast
qed

context kv_store
begin

lemma pers_create_mirrors:
  assumes m: "mirrors js sel (kv st)" and inv: "svc_inv sel" and room: "has_room (if hint = [] then ''rustvmm'' else hint) sel"
    and c: "Pers_CreateVM put (\<lambda>vm. Ok (js vm)) env n c m' hint t (sel, st) = (r, sel', st')"
    and up: "\<And>k x. is_ok (fst (put k (Ok x) st))"
  shows "svc_inv sel' \<and> mirrors js sel' (kv st')"
proof -
  obtain r0 s0 where s: "Svc_CreateVM env n c m' hint t sel = (r0, s0)" by (metis prod.exhaust)
  note v = svc_create_view [OF inv s room]
  show ?thesis
  proof (cases r0)
    case (Inl e)
    have "svc_view s0 = svc_view sel" "svc_inv s0" using v Inl by simp_all
    then show ?thesis using c s Inl m mirrors_same by (auto simp: Pers_CreateVM_def)
  next
    case (Inr vm)
    have "kv st' = (kv st)(vmStoreKey (vmID vm) \<mapsto> js vm)"
      using c s Inr up [of "vmStoreKey (vmID vm)" "js vm"] put_kv [of "vmStoreKey (vmID vm)" "Ok (js vm)" st]
      by (auto simp: Pers_CreateVM_def is_ok_iff)
    then show ?thesis
      using mirrors_upd [OF m, of s0 "vmID vm" "Some vm"] v Inr c s by (simp add: Pers_CreateVM_def)
  qed
qed

lemma pers_action_mirrors:
  assumes m: "mirrors js sel (kv st)" and inv: "svc_inv sel" and ord: "range_order ord (sel_backends sel)"
    and c: "Pers_ActionVM put (\<lambda>vm. Ok (js vm)) env ord h a (sel, st) = (r, sel', st')"
    and up: "\<And>k x. is_ok (fst (put k (Ok x) st))"
  shows "svc_inv sel' \<and> mirrors js sel' (kv st')"
proof -
  obtain r0 s0 where s: "Svc_ActionVM env ord h a sel = (r0, s0)" by (metis prod.exhaust)
  note v = svc_action_view [OF inv ord s]
  show ?thesis
  proof (cases r0)
    case (Inl e)
    have "svc_view s0 = svc_view sel" "svc_inv s0" using v Inl by simp_all
    then show ?thesis using c s Inl m mirrors_same by (auto simp: Pers_ActionVM_def)
  next
    case (Inr vm)
    then obtain vm0 p where vm0: "svc_view sel h = Some vm0" "vm = vm0\<lparr>vmState := p\<rparr>" "svc_view s0 = (svc_view sel)(h \<mapsto> vm)"
      using v by auto
    have h: "vmID vm = h" using vm0 svc_view_id [OF inv] by simp
    have "kv st' = (kv st)(vmStoreKey h \<mapsto> js vm)"
      using c s Inr h up [of "vmStoreKey h" "js vm"] put_kv [of "vmStoreKey h" "Ok (js vm)" st]
      by (auto simp: Pers_ActionVM_def is_ok_iff)
    then show ?thesis
      using mirrors_upd [OF m, of s0 h "Some vm"] v vm0 Inr c s by (simp add: Pers_ActionVM_def)
  qed
qed

lemma pers_destroy_mirrors:
  assumes m: "mirrors js sel (kv st)" and inv: "svc_inv sel" and ord: "range_order ord (sel_backends sel)"
    and c: "Pers_DestroyVM delete env ord h (sel, st) = (r, sel', st')"
    and up: "\<And>k. is_ok (fst (delete k st))"
  shows "svc_inv sel' \<and> mirrors js sel' (kv st')"
proof -
  obtain r0 s0 where s: "Svc_DestroyVM env ord h sel = (r0, s0)" by (metis prod.exhaust)
  note v = svc_destroy_view [OF inv ord s]
  show ?thesis
  proof (cases r0)
    case (Inl e)
    have "svc_view s0 = svc_view sel" using v Inl by (auto simp: fun_upd_idem)
    then show ?thesis using c s v m mirrors_same Inl by (simp add: Pers_DestroyVM_def)
  next
    case (Inr u)
    obtain d where d: "delete (vmStoreKey h) st = (Ok d, st')"
      using c s Inr up [of "vmStoreKey h"] by (cases "delete (vmStoreKey h) st") (auto simp: Pers_DestroyVM_def is_ok_iff)
    then show ?thesis
      using mirrors_upd [OF m, of s0 h None] v Inr c s delete_ok [OF d] by (simp add: Pers_DestroyVM_def)
  qed
qed

end

section \<open>Sequences of requests\<close>

text \<open>Requests to the persistent service over the in-memory store, which never refuses a write;
  a creation needs a backend whose handle range is not used up.\<close>

inductive pers_step ::
  "(VMInfo \<Rightarrow> string) \<Rightarrow> BackendSelector \<times> MemoryStore \<Rightarrow> BackendSelector \<times> MemoryStore \<Rightarrow> bool" for js where
  pers_create: "has_room (if hint = [] then ''rustvmm'' else hint) (fst s) \<Longrightarrow>
     Pers_CreateVM MS_Put (\<lambda>vm. Ok (js vm)) env n c m hint t s = (r, s') \<Longrightarrow> pers_step js s s'"
| pers_action: "range_order ord (sel_backends (fst s)) \<Longrightarrow>
     Pers_ActionVM MS_Put (\<lambda>vm. Ok (js vm)) env ord h a s = (r, s') \<Longrightarrow> pers_step js s s'"
| pers_destroy: "range_order ord (sel_backends (fst s)) \<Longrightarrow>
     Pers_DestroyVM MS_Delete env ord h s = (r, s') \<Longrightarrow> pers_step js s s'"

lemma MS_always_ok: "is_ok (fst (MS_Put k (Ok x) s))" "is_ok (fst (MS_Delete k s))"
  by (simp_all add: MS_Put_def MS_Delete_def)

lemma pers_step_mirrors:
  "pers_step js s s' \<Longrightarrow> svc_inv (fst s) \<and> mirrors js (fst s) (snd s) \<Longrightarrow> svc_inv (fst s') \<and> mirrors js (fst s') (snd s')"
proof (induction rule: pers_step.induct)
  case (pers_create hint s env n c m t r s')
  then show ?case
    using mem_store.pers_create_mirrors [of js "fst s" "snd s" hint env n c m t r "fst s'" "snd s'"] MS_always_ok by simp
next
  case (pers_action ord s env h a r s')
  then show ?case
    using mem_store.pers_action_mirrors [of js "fst s" "snd s" ord env h a r "fst s'" "snd s'"] MS_always_ok by simp
next
  case (pers_destroy ord s env h r s')
  then show ?case
    using mem_store.pers_destroy_mirrors [of js "fst s" "snd s" ord env h r "fst s'" "snd s'"] MS_always_ok by simp
qed

lemma pers_steps_mirrors:
  "(pers_step js)\<^sup>*\<^sup>* s s' \<Longrightarrow> svc_inv (fst s) \<and> mirrors js (fst s) (snd s) \<Longrightarrow> svc_inv (fst s') \<and> mirrors js (fst s') (snd s')"
proof (induction rule: rtranclp_induct)
  case (step y z)
  then show ?case using pers_step_mirrors [of js y z] by blast
qed

lemma svc_fresh_view: "svc_view svc_fresh h = None"
proof -
  have "\<not> owns svc_fresh k h vm" for k vm
    by (auto simp: owns_def svc_fresh_backends NewRustVMMBackend_def NewQEMUBackend_def NewLXCBackend_def Let_def
        split: if_splits option.splits)
  then show ?thesis using svc_view_iff [OF svc_fresh_inv, of h] by (cases "svc_view svc_fresh h") auto
qed



section \<open>Restart\<close>

text \<open>A JSON decoder that reads back what was written for one machine.\<close>

definition restart_vm :: VMInfo where
  "restart_vm = (new_VMInfo 10007 ''win'' 4 4096 ''qemu'' ''vm'' 9)\<lparr>vmState := ''running'', vmNode := ''node-2''\<rparr>"

definition restart_dec :: "string \<Rightarrow> VMInfo result" where
  "restart_dec s = (if s = ''win.json'' then Ok restart_vm else Err (ExtError ''syntax''))"

text \<open>Machines do not survive a restart as themselves.  When the controller starts again
  over a store that holds one running machine with handle 10007 on another node, loading
  reports success, but the machine gets the first free handle, is only configured and on the
  local node; the old handle is unknown, while its stale entry stays in the store.\<close>

theorem restart_loses_identity:
  "case LoadFromStore MS_List restart_dec quiet_env 20 [''vms/10007''] (svc_fresh, [''vms/10007'' \<mapsto> ''win.json'']) of
     (r, sel, st) \<Rightarrow> r = Ok 1 \<and> st = [''vms/10007'' \<mapsto> ''win.json'']
       \<and> Svc_GetVM backend_names 10007 sel = Err (vm_not_found 10007)
       \<and> (\<exists>vm. Svc_GetVM backend_names 10000 sel = Ok vm \<and> vmName vm = ''win'' \<and> vmState vm = ''configured'' \<and> vmNode vm = ''local'')"
proof -
  have l: "MS_List [''vms/10007''] ''vms/'' [''vms/10007'' \<mapsto> ''win.json''] = (Ok [(''vms/10007'', ''win.json'')], [''vms/10007'' \<mapsto> ''win.json''])"
    by (simp add: MS_List_def)
  have c: "Svc_CreateVM quiet_env ''win'' 4 4096 ''qemu'' 20 svc_fresh =
      (Ok (new_VMInfo 10000 ''win'' 4 4096 ''qemu'' ''vm'' 20),
       set_backend ''qemu'' (BQemu ((NewQEMUBackend None)\<lparr>qb_nextID := 10001,
          qb_vms := [10000 \<mapsto> new_VMInfo 10000 ''win'' 4 4096 ''qemu'' ''vm'' 20]\<rparr>)) svc_fresh)"
    by (simp add: Svc_CreateVM_def Selector_Select_def svc_fresh_backends QEMU_CreateVM_def NewQEMUBackend_def Let_def)
  have d: "restart_dec ''win.json'' = Ok restart_vm" "vmName restart_vm = ''win''" "vmVCPUs restart_vm = 4"
    "vmMemoryMB restart_vm = 4096" "vmBackend restart_vm = ''qemu''"
    by (simp_all add: restart_dec_def restart_vm_def new_VMInfo_def)
  have r: "LoadFromStore MS_List restart_dec quiet_env 20 [''vms/10007''] (svc_fresh, [''vms/10007'' \<mapsto> ''win.json'']) =
      (Ok 1, snd (Svc_CreateVM quiet_env ''win'' 4 4096 ''qemu'' 20 svc_fresh), [''vms/10007'' \<mapsto> ''win.json''])"
    by (simp add: LoadFromStore_def l d c)
  show ?thesis
    unfolding r
    by (simp add: c Svc_GetVM_def backend_names_def set_backend_def svc_fresh_backends backend_GetVM_eq NewRustVMMBackend_def
        NewLXCBackend_def Let_def new_VMInfo_def vm_not_found_def split: option.splits)
qed

end
