(* ===== verification/Task.thy ===== *)
theory Task
  imports Prelude
begin

text \<open>
  The asynchronous task queue, \<^verbatim>\<open>internal/task/task.go\<close>.  A task is an object shared by the table
  of the service and the goroutine that works on it, so the model keeps a heap of task objects
  and the table maps an identifier to an index of the heap: deleting a task from the table leaves
  the object to its goroutine.  What a goroutine does to its task is a list of calls of the task's
  methods, each one a critical section.
\<close>

section \<open>Tasks\<close>

definition StatusPending :: string where "StatusPending = ''pending''"
definition StatusRunning :: string where "StatusRunning = ''running''"
definition StatusCompleted :: string where "StatusCompleted = ''completed''"
definition StatusFailed :: string where "StatusFailed = ''failed''"

lemmas status_defs = StatusPending_def StatusRunning_def StatusCompleted_def StatusFailed_def

record 'r Task =
  tk_ID :: string
  tk_Type :: string
  tk_Status :: string
  tk_Progress :: int
  tk_Result :: "'r option"
  tk_Error :: string
  tk_CreatedAt :: gotime
  tk_UpdatedAt :: gotime
  tk_CompletedAt :: gotime
  tk_VMID :: int32

definition SetProgress :: "gotime \<Rightarrow> int \<Rightarrow> 'r Task \<Rightarrow> 'r Task" where
  "SetProgress now progress t = t\<lparr>tk_Progress := progress, tk_UpdatedAt := now\<rparr>"

definition SetStatus :: "gotime \<Rightarrow> string \<Rightarrow> 'r Task \<Rightarrow> 'r Task" where
  "SetStatus now status t = t\<lparr>tk_Status := status, tk_UpdatedAt := now\<rparr>"

definition Complete :: "gotime \<Rightarrow> 'r Task \<Rightarrow> 'r Task" where
  "Complete now t =
     t\<lparr>tk_Status := StatusCompleted, tk_Progress := 100, tk_CompletedAt := now, tk_UpdatedAt := now\<rparr>"

definition Fail :: "gotime \<Rightarrow> string \<Rightarrow> 'r Task \<Rightarrow> 'r Task" where
  "Fail now errMsg t =
     t\<lparr>tk_Status := StatusFailed, tk_Error := errMsg, tk_CompletedAt := now, tk_UpdatedAt := now\<rparr>"

text \<open>\<open>Snapshot\<close> copies all fields; in the model an object and its copy are the same value.\<close>

definition Task_Snapshot :: "'r Task \<Rightarrow> 'r Task" where
  "Task_Snapshot t =
     \<lparr>tk_ID = tk_ID t, tk_Type = tk_Type t, tk_Status = tk_Status t, tk_Progress = tk_Progress t,
      tk_Result = tk_Result t, tk_Error = tk_Error t, tk_CreatedAt = tk_CreatedAt t,
      tk_UpdatedAt = tk_UpdatedAt t, tk_CompletedAt = tk_CompletedAt t, tk_VMID = tk_VMID t\<rparr>"

section \<open>The service\<close>

record 'r TaskService =
  ts_heap :: "'r Task list"
  ts_tasks :: "string \<Rightarrow> nat option"
  ts_nextID :: int64

definition NewTaskService :: "'r TaskService" where
  "NewTaskService = \<lparr>ts_heap = [], ts_tasks = Map.empty, ts_nextID = 0\<rparr>"

definition task_id :: "int64 \<Rightarrow> string" where
  "task_id n = ''task-'' @ show_int (sint n)"

definition CreateTask :: "gotime \<Rightarrow> string \<Rightarrow> int32 \<Rightarrow> 'r TaskService \<Rightarrow> nat \<times> 'r TaskService" where
  "CreateTask now taskType vmID s =
     (let n = ts_nextID s + 1; i = task_id n; r = length (ts_heap s);
          t = \<lparr>tk_ID = i, tk_Type = taskType, tk_Status = StatusPending, tk_Progress = 0, tk_Result = None,
               tk_Error = [], tk_CreatedAt = now, tk_UpdatedAt = now, tk_CompletedAt = zero_time, tk_VMID = vmID\<rparr>
      in (r, s\<lparr>ts_heap := ts_heap s @ [t], ts_tasks := (ts_tasks s)(i \<mapsto> r), ts_nextID := n\<rparr>))"

definition task_not_found :: "string \<Rightarrow> go_error" where
  "task_not_found i = Errorf ''task not found: %s'' [FStr i]"

definition UpdateTask ::
  "gotime \<Rightarrow> string \<Rightarrow> string \<Rightarrow> int \<Rightarrow> 'r option \<Rightarrow> 'r TaskService \<Rightarrow> unit result \<times> 'r TaskService" where
  "UpdateTask now i status progress result s =
     (case ts_tasks s i of
        None \<Rightarrow> (Err (task_not_found i), s)
      | Some r \<Rightarrow>
          let t = (ts_heap s ! r)\<lparr>tk_Status := status, tk_Progress := progress, tk_UpdatedAt := now\<rparr>;
              t1 = (if result \<noteq> None then t\<lparr>tk_Result := result\<rparr> else t);
              t2 = (if status = StatusCompleted \<or> status = StatusFailed then t1\<lparr>tk_CompletedAt := now\<rparr> else t1)
          in (Ok (), s\<lparr>ts_heap := (ts_heap s)[r := t2]\<rparr>))"

definition GetTask :: "string \<Rightarrow> 'r TaskService \<Rightarrow> 'r Task result" where
  "GetTask i s =
     (case ts_tasks s i of None \<Rightarrow> Err (task_not_found i) | Some r \<Rightarrow> Ok (ts_heap s ! r))"

definition ListTasks :: "string list \<Rightarrow> string \<Rightarrow> string \<Rightarrow> 'r TaskService \<Rightarrow> 'r Task list" where
  "ListTasks ord typeFilter statusFilter s =
     filter (\<lambda>t. (typeFilter = [] \<or> tk_Type t = typeFilter) \<and> (statusFilter = [] \<or> tk_Status t = statusFilter))
       (map (\<lambda>r. ts_heap s ! r) (map_values ord (ts_tasks s)))"

definition DeleteTask :: "string \<Rightarrow> 'r TaskService \<Rightarrow> unit result \<times> 'r TaskService" where
  "DeleteTask i s =
     (case ts_tasks s i of
        None \<Rightarrow> (Err (task_not_found i), s)
      | Some r \<Rightarrow>
          let status = tk_Status (ts_heap s ! r) in
          if status \<noteq> StatusCompleted \<and> status \<noteq> StatusFailed
          then (Err (Errorf ''cannot delete task %s in status %s'' [FStr i, FStr status]), s)
          else (Ok (), s\<lparr>ts_tasks := (ts_tasks s)(i := None)\<rparr>))"

section \<open>Goroutines\<close>

datatype task_call =
    CallProgress int
  | CallStatus string
  | CallComplete
  | CallFail string

fun do_call :: "gotime \<Rightarrow> task_call \<Rightarrow> 'r Task \<Rightarrow> 'r Task" where
  "do_call now (CallProgress p) = SetProgress now p"
| "do_call now (CallStatus st) = SetStatus now st"
| "do_call now CallComplete = Complete now"
| "do_call now (CallFail e) = Fail now e"

text \<open>The goroutine of \<open>RunAsync\<close>, for a function that makes the calls \<open>calls\<close> and returns
  \<open>ret\<close>: its last block is the body of \<open>Fail\<close> or of \<open>Complete\<close>.\<close>

definition RunAsync_body :: "task_call list \<Rightarrow> go_error option \<Rightarrow> task_call list" where
  "RunAsync_body calls ret =
     CallStatus StatusRunning # calls @ [case ret of Some err \<Rightarrow> CallFail (error_string err) | None \<Rightarrow> CallComplete]"

text \<open>A running system: the service, and for each object of the heap the calls its goroutine
  still has to make.\<close>

record 'r task_sys =
  sy_svc :: "'r TaskService"
  sy_todo :: "task_call list list"

definition sys_init :: "'r task_sys" where
  "sys_init = \<lparr>sy_svc = NewTaskService, sy_todo = []\<rparr>"

definition RunAsync ::
  "gotime \<Rightarrow> string \<Rightarrow> int32 \<Rightarrow> task_call list \<Rightarrow> go_error option \<Rightarrow> 'r task_sys \<Rightarrow> nat \<times> 'r task_sys" where
  "RunAsync now taskType vmID calls ret y =
     (case CreateTask now taskType vmID (sy_svc y) of
        (r, s) \<Rightarrow> (r, \<lparr>sy_svc = s, sy_todo = sy_todo y @ [RunAsync_body calls ret]\<rparr>))"

definition progress_call :: "task_call \<Rightarrow> bool" where
  "progress_call c \<longleftrightarrow> (\<exists>p. c = CallProgress p)"

definition run_call :: "gotime \<Rightarrow> nat \<Rightarrow> task_call \<Rightarrow> task_call list \<Rightarrow> 'r task_sys \<Rightarrow> 'r task_sys" where
  "run_call now r c cs y =
     \<lparr>sy_svc = (sy_svc y)\<lparr>ts_heap := (ts_heap (sy_svc y))[r := do_call now c (ts_heap (sy_svc y) ! r)]\<rparr>,
      sy_todo = (sy_todo y)[r := cs]\<rparr>"

inductive task_step :: "'r task_sys \<Rightarrow> 'r task_sys \<Rightarrow> bool" where
  run_async: "list_all progress_call calls \<Longrightarrow> task_step y (snd (RunAsync now taskType vmID calls ret y))"
| goroutine: "\<lbrakk>r < length (sy_todo y); sy_todo y ! r = c # cs\<rbrakk> \<Longrightarrow>
    task_step y (run_call now r c cs y)"
| delete: "task_step y (y\<lparr>sy_svc := snd (DeleteTask i (sy_svc y))\<rparr>)"

section \<open>The life cycle\<close>

definition final_status :: "string \<Rightarrow> bool" where
  "final_status st \<longleftrightarrow> st = ''completed'' \<or> st = ''failed''"

definition last_call :: "task_call \<Rightarrow> bool" where
  "last_call c \<longleftrightarrow> c = CallComplete \<or> (\<exists>e. c = CallFail e)"

definition task_phase_ok :: "'r Task \<Rightarrow> task_call list \<Rightarrow> bool" where
  "task_phase_ok t todo \<longleftrightarrow>
     (\<exists>ps c. todo = CallStatus ''running'' # ps @ [c] \<and> list_all progress_call ps \<and> last_call c \<and> tk_Status t = ''pending'' \<and> tk_Error t = [])
   \<or> (\<exists>ps c. todo = ps @ [c] \<and> list_all progress_call ps \<and> last_call c \<and> tk_Status t = ''running'' \<and> tk_Error t = [])
   \<or> (todo = [] \<and> (tk_Status t = ''completed'' \<and> tk_Progress t = 100 \<and> tk_Error t = [] \<or> tk_Status t = ''failed''))"

definition tasks_ok :: "'r task_sys \<Rightarrow> bool" where
  "tasks_ok y \<longleftrightarrow> length (sy_todo y) = length (ts_heap (sy_svc y))
     \<and> (\<forall>r < length (ts_heap (sy_svc y)). task_phase_ok (ts_heap (sy_svc y) ! r) (sy_todo y ! r))
     \<and> ts_nextID (sy_svc y) = of_nat (length (ts_heap (sy_svc y)))
     \<and> (\<forall>i r. ts_tasks (sy_svc y) i = Some r \<longrightarrow> r < length (ts_heap (sy_svc y)) \<and> i = task_id (of_nat (Suc r)))"

text \<open>What one step does to an object that exists: nothing, or its goroutine's next call.\<close>

definition status_move :: "string \<Rightarrow> string \<Rightarrow> bool" where
  "status_move a b \<longleftrightarrow> a = b \<or> a = ''pending'' \<and> b = ''running'' \<or> a = ''pending'' \<and> final_status b \<or> a = ''running'' \<and> final_status b"

lemma status_move_refl [simp]: "status_move a a"
  by (simp add: status_move_def)

lemma status_move_trans: "status_move a b \<Longrightarrow> status_move b c \<Longrightarrow> status_move a c"
  by (auto simp: status_move_def final_status_def)

lemma task_phase_call:
  assumes "task_phase_ok t (c # cs)"
  shows "task_phase_ok (do_call now c t) cs \<and> \<not> final_status (tk_Status t) \<and> status_move (tk_Status t) (tk_Status (do_call now c t))"
  using assms
  by (auto simp: task_phase_ok_def SetStatus_def SetProgress_def Complete_def Fail_def status_defs
      final_status_def status_move_def last_call_def progress_call_def Cons_eq_append_conv)

lemma RunAsync_body_phase:
  assumes "list_all progress_call calls" "tk_Status t = ''pending''" "tk_Error t = []"
  shows "task_phase_ok t (RunAsync_body calls ret)"
  using assms by (auto simp: task_phase_ok_def RunAsync_body_def status_defs last_call_def split: option.splits)

lemma tasks_ok_init: "tasks_ok sys_init"
  by (simp add: tasks_ok_def sys_init_def NewTaskService_def)

lemma task_id_inj: "task_id m = task_id n \<longleftrightarrow> m = n"
  by (auto simp: task_id_def) (metis signed_word_eqI)

lemma of_nat64_inj: "m < 2 ^ 64 \<Longrightarrow> n < 2 ^ 64 \<Longrightarrow> (of_nat m :: int64) = of_nat n \<longleftrightarrow> m = n"
  by (simp add: word_unat_eq_iff unat_of_nat take_bit_nat_eq_self)

definition obj :: "'r task_sys \<Rightarrow> nat \<Rightarrow> 'r Task" where
  "obj y r = ts_heap (sy_svc y) ! r"

definition objs :: "'r task_sys \<Rightarrow> nat" where
  "objs y = length (ts_heap (sy_svc y))"

definition listed :: "'r task_sys \<Rightarrow> nat \<Rightarrow> nat option" where
  "listed y r = ts_tasks (sy_svc y) (task_id (of_nat (Suc r)))"

text \<open>How a system may evolve: objects stay, their status moves forward and a final object does
  not change; an object leaves the table only in a final status and then for good.\<close>

definition task_evolves :: "'r task_sys \<Rightarrow> 'r task_sys \<Rightarrow> bool" where
  "task_evolves y y' \<longleftrightarrow> objs y \<le> objs y'
     \<and> (\<forall>r < objs y. status_move (tk_Status (obj y r)) (tk_Status (obj y' r))
          \<and> (final_status (tk_Status (obj y r)) \<longrightarrow> obj y' r = obj y r)
          \<and> (objs y' < 2 ^ 64 \<longrightarrow> listed y' r = listed y r \<or> listed y' r = None \<and> final_status (tk_Status (obj y' r))))"

lemmas task_views = obj_def objs_def listed_def

lemma task_evolves_refl: "task_evolves y y"
  by (simp add: task_evolves_def)

lemma task_evolves_trans:
  assumes a: "task_evolves y y1" and b: "task_evolves y1 y2"
  shows "task_evolves y y2"
  unfolding task_evolves_def
proof (intro conjI allI impI)
  show "objs y \<le> objs y2" using a b by (simp add: task_evolves_def)
next
  fix r assume r: "r < objs y"
  then have r1: "r < objs y1" using a by (simp add: task_evolves_def)
  have A: "status_move (tk_Status (obj y r)) (tk_Status (obj y1 r))" "final_status (tk_Status (obj y r)) \<longrightarrow> obj y1 r = obj y r"
    "objs y1 < 2 ^ 64 \<longrightarrow> listed y1 r = listed y r \<or> listed y1 r = None \<and> final_status (tk_Status (obj y1 r))"
    using a r by (simp_all add: task_evolves_def)
  have B: "status_move (tk_Status (obj y1 r)) (tk_Status (obj y2 r))" "final_status (tk_Status (obj y1 r)) \<longrightarrow> obj y2 r = obj y1 r"
    "objs y2 < 2 ^ 64 \<longrightarrow> listed y2 r = listed y1 r \<or> listed y2 r = None \<and> final_status (tk_Status (obj y2 r))" "objs y1 \<le> objs y2"
    using b r1 by (simp_all add: task_evolves_def)
  show "status_move (tk_Status (obj y r)) (tk_Status (obj y2 r))" by (rule status_move_trans [OF A(1) B(1)])
  show "obj y2 r = obj y r" if "final_status (tk_Status (obj y r))" using that A(2) B(2) by simp
  show "listed y2 r = listed y r \<or> listed y2 r = None \<and> final_status (tk_Status (obj y2 r))" if "objs y2 < 2 ^ 64"
    using that A(3) B by auto
qed

lemma listed_self:
  assumes "tasks_ok y" "r < objs y" "objs y < 2 ^ 64" "listed y r = Some x"
  shows "x = r"
proof -
  have "x < objs y" "task_id (of_nat (Suc r)) = task_id (of_nat (Suc x))" using assms(1,4) by (auto simp: tasks_ok_def task_views)
  then show ?thesis using assms(2,3) of_nat64_inj [of r x] by (simp add: task_id_inj)
qed

lemma RunAsync_step:
  assumes ok: "tasks_ok y" and pc: "list_all progress_call calls"
  shows "tasks_ok (snd (RunAsync now ty vm calls ret y)) \<and> task_evolves y (snd (RunAsync now ty vm calls ret y))"
proof -
  let ?n = "length (ts_heap (sy_svc y))"
  have other: False if "task_id (1 + of_nat r) = task_id (1 + of_nat ?n)" "r < ?n" "?n < 2 ^ 64 - 1" for r
    using that of_nat64_inj [of "Suc ?n" "Suc r"] by (simp add: task_id_inj)
  show ?thesis
    using ok
    by (auto intro!: RunAsync_body_phase [OF pc] dest: other simp: RunAsync_def CreateTask_def tasks_ok_def task_evolves_def task_views Let_def nth_append less_Suc_eq
        status_defs ac_simps split: if_splits)
qed

lemma goroutine_step:
  assumes ok: "tasks_ok y" and r: "r < length (sy_todo y)" "sy_todo y ! r = c # cs"
  shows "tasks_ok (run_call now r c cs y) \<and> task_evolves y (run_call now r c cs y)"
proof -
  have r': "r < length (ts_heap (sy_svc y))" using ok r by (simp add: tasks_ok_def)
  then have "task_phase_ok (ts_heap (sy_svc y) ! r) (c # cs)" using ok r by (metis tasks_ok_def)
  from task_phase_call [OF this, of now] show ?thesis
    using ok r r' by (auto simp: run_call_def tasks_ok_def task_evolves_def task_views nth_list_update)
qed

lemma delete_step:
  assumes ok: "tasks_ok y"
  shows "tasks_ok (y\<lparr>sy_svc := snd (DeleteTask i (sy_svc y))\<rparr>) \<and> task_evolves y (y\<lparr>sy_svc := snd (DeleteTask i (sy_svc y))\<rparr>)"
  using ok listed_self [OF ok]
  by (auto simp: tasks_ok_def task_evolves_def task_views DeleteTask_def Let_def status_defs final_status_def
      split: option.splits)

lemma task_step_ok: "task_step y y' \<Longrightarrow> tasks_ok y \<Longrightarrow> tasks_ok y' \<and> task_evolves y y'"
  by (induction rule: task_step.induct) (simp_all add: RunAsync_step goroutine_step delete_step)

lemma task_steps_ok: "task_step\<^sup>*\<^sup>* y y' \<Longrightarrow> tasks_ok y \<Longrightarrow> tasks_ok y' \<and> task_evolves y y'"
proof (induction rule: rtranclp_induct)
  case (step b c)
  then show ?case using task_step_ok [OF step.hyps(2)] task_evolves_trans by blast
qed (simp add: task_evolves_refl)

lemma task_phase_facts:
  assumes "task_phase_ok t todo"
  shows "todo = [] \<longleftrightarrow> final_status (tk_Status t)" "tk_Status t = ''completed'' \<Longrightarrow> tk_Progress t = 100 \<and> tk_Error t = []"
  using assms by (auto simp: task_phase_ok_def final_status_def)


definition demo_sys :: "unit task_sys" where
  "demo_sys = snd (RunAsync 1 ''vm.migrate'' 7 [CallProgress 10] None sys_init)"


end
