(* ===== verification/Storage_Memory.thy ===== *)
theory Storage_Memory
  imports Prelude
begin

text \<open>
  The data of \<^verbatim>\<open>internal/storage/storage.go\<close> (pools, volumes, snapshots) and the in-memory
  tables with their operations.  The code has these operations twice, with the same bodies: as
  methods of \<^verbatim>\<open>MemoryDriver\<close> (\<^verbatim>\<open>driver_memory.go\<close>) and as the memory branches of the
  methods of \<^verbatim>\<open>Service\<close>; both work on a \<open>mem_store\<close>.  A counter of type
  \<^verbatim>\<open>atomic.Int32\<close> is a 32-bit word; \<^verbatim>\<open>Add(1) - 1\<close> is its old value.
\<close>

section \<open>Data\<close>

record Pool =
  po_Name :: string
  po_PoolType :: string
  po_TotalBytes :: uint64
  po_UsedBytes :: uint64
  po_Health :: string

record Volume =
  vo_ID :: string
  vo_Pool :: string
  vo_Name :: string
  vo_SizeBytes :: uint64
  vo_Format :: string
  vo_Path :: string
  vo_CreatedAt :: int

record StSnapshot =
  sn_ID :: string
  sn_VolumeID :: string
  sn_Name :: string
  sn_CreatedAt :: int

record mem_store =
  st_pools :: "string \<Rightarrow> Pool option"
  st_volumes :: "string \<Rightarrow> Volume option"
  st_snapshots :: "string \<Rightarrow> StSnapshot option"
  st_nextVolID :: int32
  st_nextSnapID :: int32

definition default_pools :: "string \<Rightarrow> Pool option" where
  "default_pools =
     [''local-zfs'' \<mapsto> \<lparr>po_Name = ''local-zfs'', po_PoolType = ''zfs'', po_TotalBytes = 3435973836800,
                      po_UsedBytes = 2302160486400, po_Health = ''healthy''\<rparr>,
      ''ceph-pool'' \<mapsto> \<lparr>po_Name = ''ceph-pool'', po_PoolType = ''ceph'', po_TotalBytes = 10995116277760,
                      po_UsedBytes = 4398046511104, po_Health = ''healthy''\<rparr>]"

definition empty_store :: mem_store where
  "empty_store = \<lparr>st_pools = Map.empty, st_volumes = Map.empty, st_snapshots = Map.empty,
                  st_nextVolID = 1, st_nextSnapID = 1\<rparr>"

definition NewMemoryDriver :: mem_store where
  "NewMemoryDriver = empty_store\<lparr>st_pools := default_pools\<rparr>"

section \<open>Operations\<close>

definition vol_id :: "int \<Rightarrow> string" where
  "vol_id n = Sprintf ''vol-%d'' [FInt n]"

definition snap_id :: "int \<Rightarrow> string" where
  "snap_id n = Sprintf ''snap-%d'' [FInt n]"

definition pool_not_found :: "string \<Rightarrow> go_error" where
  "pool_not_found name = Errorf ''pool not found: %s'' [FStr name]"

definition volume_not_found :: "string \<Rightarrow> go_error" where
  "volume_not_found i = Errorf ''volume not found: %s'' [FStr i]"

definition snapshot_not_found :: "string \<Rightarrow> go_error" where
  "snapshot_not_found i = Errorf ''snapshot not found: %s'' [FStr i]"

definition upd_used :: "string \<Rightarrow> (uint64 \<Rightarrow> uint64) \<Rightarrow> mem_store \<Rightarrow> mem_store" where
  "upd_used pool f d =
     (case st_pools d pool of
        None \<Rightarrow> d
      | Some p \<Rightarrow> d\<lparr>st_pools := (st_pools d)(pool \<mapsto> p\<lparr>po_UsedBytes := f (po_UsedBytes p)\<rparr>)\<rparr>)"

definition put_volume :: "Volume \<Rightarrow> mem_store \<Rightarrow> mem_store" where
  "put_volume v d = d\<lparr>st_volumes := (st_volumes d)(vo_ID v \<mapsto> v), st_nextVolID := st_nextVolID d + 1\<rparr>"

definition Mem_CreateVolume ::
  "int \<Rightarrow> string \<Rightarrow> string \<Rightarrow> string \<Rightarrow> uint64 \<Rightarrow> mem_store \<Rightarrow> Volume result \<times> mem_store" where
  "Mem_CreateVolume now pool name format sizeBytes d =
     (case st_pools d pool of
        None \<Rightarrow> (Err (pool_not_found pool), d)
      | Some p \<Rightarrow>
          let vol = \<lparr>vo_ID = vol_id (sint (st_nextVolID d)), vo_Pool = pool, vo_Name = name, vo_SizeBytes = sizeBytes,
                     vo_Format = format, vo_Path = Sprintf ''/dev/%s/%s'' [FStr pool, FStr name], vo_CreatedAt = now\<rparr>
          in (Ok vol, upd_used pool (\<lambda>u. u + sizeBytes) (put_volume vol d)))"

definition Mem_DeleteVolume :: "string \<Rightarrow> mem_store \<Rightarrow> unit result \<times> mem_store" where
  "Mem_DeleteVolume i d =
     (case st_volumes d i of
        None \<Rightarrow> (Err (volume_not_found i), d)
      | Some vol \<Rightarrow>
          let d1 = upd_used (vo_Pool vol) (\<lambda>u. if vo_SizeBytes vol \<le> u then u - vo_SizeBytes vol else u) d
          in (Ok (), d1\<lparr>st_volumes := (st_volumes d1)(i := None)\<rparr>))"

definition Mem_CreateSnapshot :: "int \<Rightarrow> string \<Rightarrow> string \<Rightarrow> mem_store \<Rightarrow> StSnapshot result \<times> mem_store" where
  "Mem_CreateSnapshot now volumeID name d =
     (case st_volumes d volumeID of
        None \<Rightarrow> (Err (volume_not_found volumeID), d)
      | Some v \<Rightarrow>
          let snap = \<lparr>sn_ID = snap_id (sint (st_nextSnapID d)), sn_VolumeID = volumeID, sn_Name = name, sn_CreatedAt = now\<rparr>
          in (Ok snap, d\<lparr>st_snapshots := (st_snapshots d)(sn_ID snap \<mapsto> snap), st_nextSnapID := st_nextSnapID d + 1\<rparr>))"

definition Mem_RollbackSnapshot :: "string \<Rightarrow> mem_store \<Rightarrow> unit result" where
  "Mem_RollbackSnapshot i d =
     (case st_snapshots d i of None \<Rightarrow> Err (snapshot_not_found i) | Some s \<Rightarrow> Ok ())"

definition Mem_CloneSnapshot :: "int \<Rightarrow> string \<Rightarrow> string \<Rightarrow> mem_store \<Rightarrow> Volume result \<times> mem_store" where
  "Mem_CloneSnapshot now i newName d =
     (case st_snapshots d i of
        None \<Rightarrow> (Err (snapshot_not_found i), d)
      | Some snap \<Rightarrow>
          (case st_volumes d (sn_VolumeID snap) of
             None \<Rightarrow> (Err (Errorf ''source volume not found: %s'' [FStr (sn_VolumeID snap)]), d)
           | Some src \<Rightarrow>
               let vol = \<lparr>vo_ID = vol_id (sint (st_nextVolID d)), vo_Pool = vo_Pool src, vo_Name = newName,
                          vo_SizeBytes = vo_SizeBytes src, vo_Format = vo_Format src,
                          vo_Path = Sprintf ''/dev/%s/%s'' [FStr (vo_Pool src), FStr newName], vo_CreatedAt = now\<rparr>
               in (Ok vol, upd_used (vo_Pool src) (\<lambda>u. u + vo_SizeBytes vol) (put_volume vol d))))"

definition Mem_DeleteSnapshot :: "string \<Rightarrow> mem_store \<Rightarrow> unit result \<times> mem_store" where
  "Mem_DeleteSnapshot i d =
     (case st_snapshots d i of
        None \<Rightarrow> (Err (snapshot_not_found i), d)
      | Some s \<Rightarrow> (Ok (), d\<lparr>st_snapshots := (st_snapshots d)(i := None)\<rparr>))"

definition Mem_GetVolume :: "string \<Rightarrow> mem_store \<Rightarrow> Volume result" where
  "Mem_GetVolume i d = (case st_volumes d i of None \<Rightarrow> Err (volume_not_found i) | Some v \<Rightarrow> Ok v)"

definition Mem_ResizeVolume :: "string \<Rightarrow> uint64 \<Rightarrow> mem_store \<Rightarrow> unit result \<times> mem_store" where
  "Mem_ResizeVolume i newSize d =
     (case st_volumes d i of
        None \<Rightarrow> (Err (volume_not_found i), d)
      | Some vol \<Rightarrow>
          let f = (\<lambda>u. if newSize > vo_SizeBytes vol then u + (newSize - vo_SizeBytes vol)
                       else if vo_SizeBytes vol - newSize \<le> u then u - (vo_SizeBytes vol - newSize) else u);
              d1 = upd_used (vo_Pool vol) f d
          in (Ok (), d1\<lparr>st_volumes := (st_volumes d1)(i \<mapsto> vol\<lparr>vo_SizeBytes := newSize\<rparr>)\<rparr>))"

text \<open>The memory branch of \<open>Service.ImportVolume\<close>; the driver itself has no such method.\<close>

definition Mem_ImportVolume :: "int \<Rightarrow> string \<Rightarrow> string \<Rightarrow> mem_store \<Rightarrow> Volume result \<times> mem_store" where
  "Mem_ImportVolume now pool name d =
     (case st_pools d pool of
        None \<Rightarrow> (Err (pool_not_found pool), d)
      | Some p \<Rightarrow>
          let vol = \<lparr>vo_ID = vol_id (sint (st_nextVolID d)), vo_Pool = pool, vo_Name = name, vo_SizeBytes = 0,
                     vo_Format = ''imported'', vo_Path = Sprintf ''/dev/%s/%s'' [FStr pool, FStr name], vo_CreatedAt = now\<rparr>
          in (Ok vol, put_volume vol d))"

definition Mem_ListPools :: "string list \<Rightarrow> mem_store \<Rightarrow> Pool list" where
  "Mem_ListPools ord d = map_values ord (st_pools d)"

definition Mem_ListVolumes :: "string list \<Rightarrow> string \<Rightarrow> mem_store \<Rightarrow> Volume list" where
  "Mem_ListVolumes ord pool d = filter (\<lambda>v. pool = [] \<or> vo_Pool v = pool) (map_values ord (st_volumes d))"

definition Mem_ListSnapshots :: "string list \<Rightarrow> string \<Rightarrow> mem_store \<Rightarrow> StSnapshot list" where
  "Mem_ListSnapshots ord volumeID d = filter (\<lambda>s. volumeID = [] \<or> sn_VolumeID s = volumeID) (map_values ord (st_snapshots d))"

lemmas mem_op_defs = Mem_CreateVolume_def Mem_DeleteVolume_def Mem_CreateSnapshot_def Mem_CloneSnapshot_def
  Mem_DeleteSnapshot_def Mem_ResizeVolume_def Mem_ImportVolume_def put_volume_def upd_used_def Let_def

declare mem_op_defs [op_defs]

section \<open>Identifiers\<close>

lemma vol_id_eq [simp]: "vol_id n = ''vol-'' @ show_int n"
  by (simp add: vol_id_def Sprintf_def)

lemma snap_id_eq [simp]: "snap_id n = ''snap-'' @ show_int n"
  by (simp add: snap_id_def Sprintf_def)

definition vol_created :: "mem_store \<Rightarrow> string \<Rightarrow> Volume \<Rightarrow> mem_store \<Rightarrow> bool" where
  "vol_created d i v d' \<longleftrightarrow> sint (st_nextVolID d) < 2147483647 \<and> i = vo_ID v \<and>
     ((\<exists>now pool name format size. Mem_CreateVolume now pool name format size d = (Ok v, d'))
      \<or> (\<exists>now snap name. Mem_CloneSnapshot now snap name d = (Ok v, d'))
      \<or> (\<exists>now pool name. Mem_ImportVolume now pool name d = (Ok v, d')))"

definition vol_removed :: "mem_store \<Rightarrow> string \<Rightarrow> mem_store \<Rightarrow> bool" where
  "vol_removed d i d' \<longleftrightarrow> Mem_DeleteVolume i d = (Ok (), d')"

definition vol_touched :: "mem_store \<Rightarrow> mem_store \<Rightarrow> bool" where
  "vol_touched d d' \<longleftrightarrow> (\<exists>i sz. d' = snd (Mem_ResizeVolume i sz d))
     \<or> (\<exists>now i name. d' = snd (Mem_CreateSnapshot now i name d)) \<or> (\<exists>i. d' = snd (Mem_DeleteSnapshot i d))"

lemma upd_used_frame [simp]:
  "st_volumes (upd_used pool f d) = st_volumes d"
  "st_snapshots (upd_used pool f d) = st_snapshots d"
  "st_nextVolID (upd_used pool f d) = st_nextVolID d"
  "st_nextSnapID (upd_used pool f d) = st_nextSnapID d"
  by (simp_all add: upd_used_def split: option.splits)

lemma put_volume_frame [simp]:
  "st_pools (put_volume v d) = st_pools d"
  "st_volumes (put_volume v d) = (st_volumes d)(vo_ID v \<mapsto> v)"
  "st_snapshots (put_volume v d) = st_snapshots d"
  "st_nextVolID (put_volume v d) = st_nextVolID d + 1"
  "st_nextSnapID (put_volume v d) = st_nextSnapID d"
  by (simp_all add: put_volume_def)

text \<open>The three operations that make a volume all have the same effect on the tables.\<close>

lemma upd_used_zero: "upd_used pool (\<lambda>u. u + 0) d = d"
  by (cases d) (auto simp: upd_used_def fun_upd_idem split: option.splits)

lemma mem_create_ok:
  "Mem_CreateVolume now pool name format sz d = (Ok v, d') \<Longrightarrow>
     vo_ID v = vol_id (sint (st_nextVolID d)) \<and> d' = upd_used (vo_Pool v) (\<lambda>u. u + vo_SizeBytes v) (put_volume v d)"
  by (auto simp: Mem_CreateVolume_def Let_def split: option.split_asm)

lemma mem_clone_ok:
  "Mem_CloneSnapshot now snap name d = (Ok v, d') \<Longrightarrow>
     vo_ID v = vol_id (sint (st_nextVolID d)) \<and> d' = upd_used (vo_Pool v) (\<lambda>u. u + vo_SizeBytes v) (put_volume v d)"
  by (auto simp: Mem_CloneSnapshot_def Let_def split: option.split_asm)

lemma mem_import_ok:
  "Mem_ImportVolume now pool name d = (Ok v, d') \<Longrightarrow>
     vo_ID v = vol_id (sint (st_nextVolID d)) \<and> d' = upd_used (vo_Pool v) (\<lambda>u. u + vo_SizeBytes v) (put_volume v d)"
  using upd_used_zero [of pool "put_volume v d"]
  by (auto simp: Mem_ImportVolume_def Let_def split: option.split_asm)

lemma vol_created_effect:
  "vol_created d i v d' \<Longrightarrow>
     vo_ID v = vol_id (sint (st_nextVolID d)) \<and> d' = upd_used (vo_Pool v) (\<lambda>u. u + vo_SizeBytes v) (put_volume v d)"
  unfolding vol_created_def using mem_create_ok mem_clone_ok mem_import_ok by blast

lemma vol_created_store:
  assumes "vol_created d i v d'"
  shows "i = vol_id (sint (st_nextVolID d)) \<and> st_volumes d' = (st_volumes d)(i \<mapsto> v)
    \<and> st_snapshots d' = st_snapshots d \<and> st_nextSnapID d' = st_nextSnapID d
    \<and> sint (st_nextVolID d') = sint (st_nextVolID d) + 1"
  using vol_created_effect [OF assms] assms by (simp add: vol_created_def sint_add_one)

lemma mem_delete_ok:
  "Mem_DeleteVolume i d = (Ok (), d') \<Longrightarrow>
     \<exists>v. st_volumes d i = Some v \<and> st_volumes d' = (st_volumes d)(i := None) \<and> st_nextVolID d' = st_nextVolID d
       \<and> st_snapshots d' = st_snapshots d \<and> st_nextSnapID d' = st_nextSnapID d
       \<and> st_pools d' = st_pools (upd_used (vo_Pool v) (\<lambda>u. if vo_SizeBytes v \<le> u then u - vo_SizeBytes v else u) d)"
  by (auto simp: Mem_DeleteVolume_def Let_def split: option.split_asm)

lemma mem_resize_dom:
  "dom (st_volumes (snd (Mem_ResizeVolume i sz d))) = dom (st_volumes d)"
  "st_nextVolID (snd (Mem_ResizeVolume i sz d)) = st_nextVolID d"
  "st_snapshots (snd (Mem_ResizeVolume i sz d)) = st_snapshots d"
  "st_nextSnapID (snd (Mem_ResizeVolume i sz d)) = st_nextSnapID d"
  by (auto simp: Mem_ResizeVolume_def Let_def split: option.splits)

lemma mem_snapshot_frame:
  "st_volumes (snd (Mem_CreateSnapshot now i name d)) = st_volumes d"
  "st_nextVolID (snd (Mem_CreateSnapshot now i name d)) = st_nextVolID d"
  "st_pools (snd (Mem_CreateSnapshot now i name d)) = st_pools d"
  "st_volumes (snd (Mem_DeleteSnapshot i d)) = st_volumes d"
  "st_nextVolID (snd (Mem_DeleteSnapshot i d)) = st_nextVolID d"
  "st_pools (snd (Mem_DeleteSnapshot i d)) = st_pools d"
  by (auto simp: Mem_CreateSnapshot_def Mem_DeleteSnapshot_def Let_def split: option.splits)

interpretation volumes: id_registry st_volumes "\<lambda>d. sint (st_nextVolID d)" vol_id vol_created vol_removed vol_touched
proof unfold_locales
  show "inj vol_id" by (auto simp: inj_def)
  show "vol_touched s s' \<Longrightarrow> dom (st_volumes s') = dom (st_volumes s)" for s s'
    unfolding vol_touched_def using mem_resize_dom(1) mem_snapshot_frame(1,4) by metis
  show "vol_removed s i s' \<Longrightarrow> st_volumes s i \<noteq> None" for s i s'
    by (auto simp: vol_removed_def dest!: mem_delete_ok)
qed (auto simp: vol_removed_def vol_touched_def mem_resize_dom mem_snapshot_frame dest!: vol_created_store mem_delete_ok)

definition snap_created :: "mem_store \<Rightarrow> string \<Rightarrow> StSnapshot \<Rightarrow> mem_store \<Rightarrow> bool" where
  "snap_created d i s d' \<longleftrightarrow> sint (st_nextSnapID d) < 2147483647 \<and> i = sn_ID s \<and>
     (\<exists>now vol name. Mem_CreateSnapshot now vol name d = (Ok s, d'))"

definition snap_removed :: "mem_store \<Rightarrow> string \<Rightarrow> mem_store \<Rightarrow> bool" where
  "snap_removed d i d' \<longleftrightarrow> Mem_DeleteSnapshot i d = (Ok (), d')"

definition snap_touched :: "mem_store \<Rightarrow> mem_store \<Rightarrow> bool" where
  "snap_touched d d' \<longleftrightarrow> (\<exists>i v. vol_created d i v d') \<or> (\<exists>i. vol_removed d i d') \<or> (\<exists>i sz. d' = snd (Mem_ResizeVolume i sz d))"

interpretation snaps: id_registry st_snapshots "\<lambda>d. sint (st_nextSnapID d)" snap_id snap_created snap_removed snap_touched
proof unfold_locales
  show "inj snap_id" by (auto simp: inj_def)
  show "snap_touched s s' \<Longrightarrow> dom (st_snapshots s') = dom (st_snapshots s)"
    "snap_touched s s' \<Longrightarrow> sint (st_nextSnapID s) \<le> sint (st_nextSnapID s')" for s s'
    by (auto simp: snap_touched_def mem_resize_dom vol_removed_def dest!: mem_delete_ok vol_created_store)
qed (auto simp: snap_created_def snap_removed_def Mem_CreateSnapshot_def Mem_DeleteSnapshot_def Let_def sint_add_one
    split: option.split_asm)

section \<open>Space accounting\<close>

text \<open>\<open>acct base d\<close>: the used bytes of every pool are what was in use at the start plus the sizes
  of its volumes.\<close>

definition pool_vols :: "(string \<Rightarrow> Volume option) \<Rightarrow> string \<Rightarrow> string set" where
  "pool_vols vols p = {i. \<exists>v. vols i = Some v \<and> vo_Pool v = p}"

definition pool_sum :: "(string \<Rightarrow> Volume option) \<Rightarrow> string \<Rightarrow> int" where
  "pool_sum vols p = (\<Sum>i \<in> pool_vols vols p. uint (vo_SizeBytes (the (vols i))))"

definition acct :: "(string \<Rightarrow> int) \<Rightarrow> mem_store \<Rightarrow> bool" where
  "acct base d \<longleftrightarrow> finite (dom (st_volumes d)) \<and> (\<forall>p. 0 \<le> base p) \<and>
     (\<forall>p po. st_pools d p = Some po \<longrightarrow> uint (po_UsedBytes po) = base p + pool_sum (st_volumes d) p)"

lemma finite_pool_vols: "finite (dom vols) \<Longrightarrow> finite (pool_vols vols p)"
  by (rule finite_subset [of _ "dom vols"]) (auto simp: pool_vols_def)

lemma pool_sum_nonneg: "0 \<le> pool_sum vols p"
  by (simp add: pool_sum_def sum_nonneg)

lemma pool_sum_new:
  assumes "finite (dom vols)" "vols i = None"
  shows "pool_sum (vols(i \<mapsto> v)) p = pool_sum vols p + (if vo_Pool v = p then uint (vo_SizeBytes v) else 0)"
proof -
  have "pool_vols (vols(i \<mapsto> v)) p = (if vo_Pool v = p then insert i (pool_vols vols p) else pool_vols vols p)"
    using assms(2) by (auto simp: pool_vols_def)
  moreover have ni: "i \<notin> pool_vols vols p" using assms(2) by (simp add: pool_vols_def)
  moreover have "(\<Sum>j \<in> pool_vols vols p. uint (vo_SizeBytes (the ((vols(i \<mapsto> v)) j)))) = pool_sum vols p"
    unfolding pool_sum_def using ni by (intro sum.cong) auto
  ultimately show ?thesis
    using finite_pool_vols [OF assms(1)] by (simp add: pool_sum_def)
qed

lemma pool_sum_remove:
  assumes "finite (dom vols)" "vols i = Some v"
  shows "pool_sum (vols(i := None)) p = pool_sum vols p - (if vo_Pool v = p then uint (vo_SizeBytes v) else 0)"
proof -
  have "pool_sum ((vols(i := None))(i \<mapsto> v)) p
      = pool_sum (vols(i := None)) p + (if vo_Pool v = p then uint (vo_SizeBytes v) else 0)"
    using assms(1) by (intro pool_sum_new) auto
  moreover have "(vols(i := None))(i \<mapsto> v) = vols" using assms(2) by (auto simp: fun_upd_idem)
  ultimately show ?thesis by simp
qed

lemma pool_sum_resize:
  assumes "finite (dom vols)" "vols i = Some v" "vo_Pool v' = vo_Pool v"
  shows "pool_sum (vols(i \<mapsto> v')) p
    = pool_sum vols p + (if vo_Pool v = p then uint (vo_SizeBytes v') - uint (vo_SizeBytes v) else 0)"
proof -
  have "pool_sum ((vols(i := None))(i \<mapsto> v')) p
      = pool_sum (vols(i := None)) p + (if vo_Pool v' = p then uint (vo_SizeBytes v') else 0)"
    using assms(1) by (intro pool_sum_new) auto
  then show ?thesis using pool_sum_remove [OF assms(1,2), of p] assms(3) by simp
qed

lemma uint_le_sum:
  assumes "acct base d" "st_volumes d i = Some v" "st_pools d (vo_Pool v) = Some po"
  shows "uint (vo_SizeBytes v) \<le> uint (po_UsedBytes po)"
  using assms pool_sum_remove [of "st_volumes d" i v "vo_Pool v"] pool_sum_nonneg [of "(st_volumes d)(i := None)" "vo_Pool v"]
  by (simp add: acct_def) (smt (verit, best))

lemma st_pools_upd_used:
  "st_pools (upd_used pool f d) q = (if q = pool then map_option (\<lambda>p. p\<lparr>po_UsedBytes := f (po_UsedBytes p)\<rparr>) (st_pools d pool) else st_pools d q)"
  by (auto simp: upd_used_def split: option.splits)

lemma uint_add_64: "uint (a :: uint64) + uint b < 18446744073709551616 \<Longrightarrow> uint (a + b) = uint a + uint b"
  by (simp add: uint_word_arith_bintrs take_bit_int_eq_self)

lemma uint_sub_64: "uint (b :: uint64) \<le> uint a \<Longrightarrow> uint (a - b) = uint a - uint b"
  by (simp add: uint_sub_if')

lemma acct_upd:
  assumes ok: "acct base d" and d': "st_pools d' = st_pools (upd_used pool f d)" "finite (dom (st_volumes d'))"
    and f: "\<And>po. st_pools d pool = Some po \<Longrightarrow> uint (f (po_UsedBytes po)) = uint (po_UsedBytes po) + k"
    and sum: "\<And>p. pool_sum (st_volumes d') p = pool_sum (st_volumes d) p + (if pool = p then k else 0)"
  shows "acct base d'"
proof -
  have "uint (po_UsedBytes po) = base p + pool_sum (st_volumes d') p" if po: "st_pools d' p = Some po" for p po
  proof (cases "p = pool")
    case True
    then obtain po0 where po0: "st_pools d pool = Some po0" "po = po0\<lparr>po_UsedBytes := f (po_UsedBytes po0)\<rparr>"
      using po d'(1) by (auto simp: st_pools_upd_used)
    have "uint (po_UsedBytes po) = uint (f (po_UsedBytes po0))" by (simp add: po0(2))
    then show ?thesis using ok f [OF po0(1)] sum [of p] True po0(1) by (simp add: acct_def)
  next
    case False
    then show ?thesis using po ok d'(1) sum [of p] by (auto simp: st_pools_upd_used acct_def)
  qed
  then show ?thesis using ok d'(2) by (simp add: acct_def)
qed

lemma acct_created:
  assumes ok: "acct base d" and c: "vol_created d i v d'" and fresh: "ids_below vol_id (st_volumes d) (sint (st_nextVolID d))"
    and fits: "\<And>po. st_pools d (vo_Pool v) = Some po \<Longrightarrow> uint (po_UsedBytes po) + uint (vo_SizeBytes v) < 18446744073709551616"
  shows "acct base d'"
proof (rule acct_upd [OF ok])
  note e = vol_created_effect [OF c] vol_created_store [OF c]
  have new: "st_volumes d i = None" by (rule volumes.created_fresh [OF fresh c])
  show "st_pools d' = st_pools (upd_used (vo_Pool v) (\<lambda>u. u + vo_SizeBytes v) d)"
    unfolding conjunct2 [OF e(1)] by (rule ext) (simp add: st_pools_upd_used)
  show "finite (dom (st_volumes d'))" using e(2) ok by (simp add: acct_def)
  show "pool_sum (st_volumes d') p = pool_sum (st_volumes d) p + (if vo_Pool v = p then uint (vo_SizeBytes v) else 0)" for p
    using e(2) ok pool_sum_new [of "st_volumes d" i v p] new by (simp add: acct_def)
qed (simp add: uint_add_64 fits)

lemma acct_removed:
  assumes ok: "acct base d" and c: "vol_removed d i d'"
  shows "acct base d'"
proof -
  obtain v where v: "st_volumes d i = Some v" "st_volumes d' = (st_volumes d)(i := None)"
    "st_pools d' = st_pools (upd_used (vo_Pool v) (\<lambda>u. if vo_SizeBytes v \<le> u then u - vo_SizeBytes v else u) d)"
    using c mem_delete_ok by (fastforce simp: vol_removed_def)
  have "vo_SizeBytes v \<le> po_UsedBytes po" if "st_pools d (vo_Pool v) = Some po" for po
    using uint_le_sum [OF ok v(1) that] by (simp add: word_le_def)
  then show ?thesis
    using ok v pool_sum_remove [of "st_volumes d" i v]
    by (intro acct_upd [OF ok v(3), where k = "- uint (vo_SizeBytes v)"]) (auto simp: acct_def uint_sub_64 word_le_def)
qed

lemma acct_resized:
  assumes ok: "acct base d" and r: "d' = snd (Mem_ResizeVolume i n d)"
    and fits: "\<And>v po. st_volumes d i = Some v \<Longrightarrow> st_pools d (vo_Pool v) = Some po \<Longrightarrow>
      uint (po_UsedBytes po) - uint (vo_SizeBytes v) + uint n < 18446744073709551616"
  shows "acct base d'"
proof (cases "st_volumes d i")
  case None
  then show ?thesis using ok r by (simp add: Mem_ResizeVolume_def)
next
  case (Some v)
  let ?f = "\<lambda>u. if vo_SizeBytes v < n then u + (n - vo_SizeBytes v)
              else if vo_SizeBytes v - n \<le> u then u - (vo_SizeBytes v - n) else u"
  have d': "st_pools d' = st_pools (upd_used (vo_Pool v) ?f d)" "st_volumes d' = (st_volumes d)(i \<mapsto> v\<lparr>vo_SizeBytes := n\<rparr>)"
    using r Some by (simp_all add: Mem_ResizeVolume_def Let_def)
  have f: "uint (?f (po_UsedBytes po)) = uint (po_UsedBytes po) + (uint n - uint (vo_SizeBytes v))"
    if po: "st_pools d (vo_Pool v) = Some po" for po
  proof (cases "vo_SizeBytes v < n")
    case True
    then show ?thesis using fits [OF Some po] by (simp add: word_less_def uint_add_64 uint_sub_64)
  next
    case False
    have "uint (vo_SizeBytes v) - uint n \<le> uint (po_UsedBytes po)"
      using uint_le_sum [OF ok Some po] uint_ge_0 [of n] by linarith
    then show ?thesis using False by (simp add: word_less_def word_le_def uint_sub_64)
  qed
  show ?thesis
    using ok Some pool_sum_resize [of "st_volumes d" i v "v\<lparr>vo_SizeBytes := n\<rparr>"]
    by (intro acct_upd [OF ok d'(1), where k = "uint n - uint (vo_SizeBytes v)"]) (auto simp: acct_def d'(2) f)
qed

section \<open>Sequences of operations\<close>

text \<open>One operation on the tables that neither exhausts the identifier counter nor overflows the
  64-bit count of the used bytes.\<close>

inductive store_step :: "mem_store \<Rightarrow> mem_store \<Rightarrow> bool" where
  step_create: "vol_created d i v d' \<Longrightarrow>
     (\<forall>po. st_pools d (vo_Pool v) = Some po \<longrightarrow> uint (po_UsedBytes po) + uint (vo_SizeBytes v) < 18446744073709551616) \<Longrightarrow>
     store_step d d'"
| step_delete: "vol_removed d i d' \<Longrightarrow> store_step d d'"
| step_resize: "(\<forall>v po. st_volumes d i = Some v \<and> st_pools d (vo_Pool v) = Some po \<longrightarrow>
       uint (po_UsedBytes po) - uint (vo_SizeBytes v) + uint n < 18446744073709551616) \<Longrightarrow>
     store_step d (snd (Mem_ResizeVolume i n d))"
| step_snap: "store_step d (snd (Mem_CreateSnapshot now i name d))"
| step_unsnap: "store_step d (snd (Mem_DeleteSnapshot i d))"

lemma store_step_registry:
  "store_step d d' \<Longrightarrow> (\<exists>i v. vol_created d i v d') \<or> (\<exists>i. vol_removed d i d') \<or> vol_touched d d'"
  by (induction rule: store_step.induct) (auto simp: vol_touched_def)

lemma store_steps_registry:
  "store_step\<^sup>*\<^sup>* d d' \<Longrightarrow> (\<lambda>d d'. (\<exists>i v. vol_created d i v d') \<or> (\<exists>i. vol_removed d i d') \<or> vol_touched d d')\<^sup>*\<^sup>* d d'"
  by (erule rtranclp_mono [THEN predicate2D, rotated]) (blast dest: store_step_registry)

lemma acct_cong: "acct base d \<Longrightarrow> st_volumes d' = st_volumes d \<Longrightarrow> st_pools d' = st_pools d \<Longrightarrow> acct base d'"
  by (simp add: acct_def)

lemma store_step_acct:
  assumes "store_step d d'" "acct base d" "ids_below vol_id (st_volumes d) (sint (st_nextVolID d))"
  shows "acct base d'"
  using assms
proof (induction rule: store_step.induct)
  case (step_create d i v d')
  then show ?case using acct_created [of base d i v d'] by blast
next
  case (step_delete d i d')
  then show ?case using acct_removed by blast
next
  case (step_resize d i n)
  then show ?case using acct_resized [of base d _ i n] by blast
next
  case (step_snap d now i name)
  then show ?case by (metis acct_cong mem_snapshot_frame(1,3))
next
  case (step_unsnap d i)
  then show ?case by (metis acct_cong mem_snapshot_frame(4,6))
qed

lemma store_steps_acct:
  assumes "store_step\<^sup>*\<^sup>* d d'" "acct base d" "ids_below vol_id (st_volumes d) (sint (st_nextVolID d))"
  shows "acct base d' \<and> ids_below vol_id (st_volumes d') (sint (st_nextVolID d'))"
  using assms
proof (induction rule: rtranclp_induct)
  case (step y z)
  then show ?case
    using store_step_acct [of y z base] volumes.step_ids_below [OF store_step_registry [of y z]] by blast
qed blast

definition initial_used :: "string \<Rightarrow> int" where
  "initial_used p = (case default_pools p of None \<Rightarrow> 0 | Some po \<Rightarrow> uint (po_UsedBytes po))"

lemma acct_initial: "acct initial_used NewMemoryDriver"
  by (auto simp: acct_def NewMemoryDriver_def empty_store_def initial_used_def pool_sum_def pool_vols_def split: option.splits)

lemma ids_initial: "ids_below vol_id (st_volumes NewMemoryDriver) (sint (st_nextVolID NewMemoryDriver))"
  by (simp add: NewMemoryDriver_def empty_store_def)

definition store_one :: mem_store where
  "store_one = snd (Mem_CreateVolume 7 ''local-zfs'' ''d'' ''raw'' 4096 NewMemoryDriver)"

lemma store_one_step: "store_step NewMemoryDriver store_one"
proof -
  obtain v where c: "Mem_CreateVolume 7 ''local-zfs'' ''d'' ''raw'' 4096 NewMemoryDriver = (Ok v, store_one)"
    and v: "vo_Pool v = ''local-zfs''" "vo_SizeBytes v = 4096"
    by (simp add: store_one_def Mem_CreateVolume_def NewMemoryDriver_def default_pools_def Let_def)
  have "vol_created NewMemoryDriver (vo_ID v) v store_one"
    using c by (force simp: vol_created_def NewMemoryDriver_def empty_store_def)
  then show ?thesis
    by (rule step_create) (use v in \<open>simp add: NewMemoryDriver_def default_pools_def\<close>)
qed

lemma store_one_volumes: "st_volumes store_one ''vol-1'' \<noteq> None"
  by (simp add: store_one_def Mem_CreateVolume_def NewMemoryDriver_def empty_store_def default_pools_def Let_def
      show_int_def show_nat.simps)

text \<open>C21: However volumes are created, cloned from snapshots, imported, resized and deleted, and
  snapshots made and deleted, the used bytes of a pool are always its initial use plus the sum
  of the sizes of its present volumes: deleting and shrinking give back exactly what creating
  and growing took (as long as the total stays below \<open>2\<^sup>6\<^sup>4\<close> bytes).\<close>

theorem storage_accounting:
  assumes "store_step\<^sup>*\<^sup>* NewMemoryDriver d" "st_pools d p = Some po"
  shows "uint (po_UsedBytes po) = initial_used p + pool_sum (st_volumes d) p"
  using store_steps_acct [OF assms(1) acct_initial ids_initial] assms(2) by (simp add: acct_def)

theorem storage_accounting_witness:
  "uint (po_UsedBytes (the (st_pools store_one ''local-zfs''))) = initial_used ''local-zfs'' + pool_sum (st_volumes store_one) ''local-zfs''"
proof -
  obtain po where "st_pools store_one ''local-zfs'' = Some po"
    by (auto simp: store_one_def Mem_CreateVolume_def NewMemoryDriver_def default_pools_def Let_def upd_used_def)
  then show ?thesis using storage_accounting [OF r_into_rtranclp [of store_step, OF store_one_step]] by simp
qed

text \<open>Deleting a volume leaves its snapshots behind, and they are useless for good: in every
  later state, whatever was done in between, cloning such a snapshot fails because its volume
  identifier is never given out again.\<close>

theorem orphan_snapshot_never_clones:
  assumes "store_step\<^sup>*\<^sup>* NewMemoryDriver d" "Mem_DeleteVolume i d = (Ok (), d1)" "store_step\<^sup>*\<^sup>* d1 d2"
    and "st_snapshots d s = Some sn" "sn_VolumeID sn = i"
  shows "st_snapshots d1 s = Some sn \<and>
    (st_snapshots d2 s = Some sn \<longrightarrow>
       Mem_CloneSnapshot now s name d2 = (Err (Errorf ''source volume not found: %s'' [FStr i]), d2))"
proof -
  have "ids_below vol_id (st_volumes d) (sint (st_nextVolID d))"
    using store_steps_acct [OF assms(1) acct_initial ids_initial] by blast
  moreover have "vol_removed d i d1" using assms(2) by (simp add: vol_removed_def)
  ultimately have "st_volumes d2 i = None"
    by (rule volumes.removed_stays_gone) (rule store_steps_registry [OF assms(3)])
  moreover have "st_snapshots d1 = st_snapshots d" using mem_delete_ok [OF assms(2)] by blast
  ultimately show ?thesis using assms(4,5) by (simp add: Mem_CloneSnapshot_def)
qed

theorem orphan_snapshot_never_clones_witness:
  "\<exists>d1 d2 sn. Mem_CreateSnapshot 8 ''vol-1'' ''s'' store_one = (Ok sn, d1) \<and> Mem_DeleteVolume ''vol-1'' d1 = (Ok (), d2)
     \<and> Mem_CloneSnapshot 9 (sn_ID sn) ''c'' d2 = (Err (Errorf ''source volume not found: %s'' [FStr ''vol-1'']), d2)"
proof -
  obtain v where v: "st_volumes store_one ''vol-1'' = Some v" using store_one_volumes by blast
  obtain sn d1 where s: "Mem_CreateSnapshot 8 ''vol-1'' ''s'' store_one = (Ok sn, d1)"
    and d1: "st_snapshots d1 (sn_ID sn) = Some sn" "sn_VolumeID sn = ''vol-1''" "st_volumes d1 = st_volumes store_one"
    by (auto simp: Mem_CreateSnapshot_def v Let_def)
  obtain d2 where r: "Mem_DeleteVolume ''vol-1'' d1 = (Ok (), d2)"
    by (simp add: Mem_DeleteVolume_def d1(3) v Let_def)
  have "store_step store_one d1" using step_snap [of store_one 8 "''vol-1''" "''s''"] s by simp
  then have "store_step\<^sup>*\<^sup>* NewMemoryDriver d1" using store_one_step by (meson r_into_rtranclp rtranclp.rtrancl_into_rtrancl)
  from orphan_snapshot_never_clones [OF this r rtranclp.rtrancl_refl d1(1,2), of 9 "''c''"] s r show ?thesis
    by auto
qed

end
