(* ===== verification/Storage_Drivers.thy ===== *)
theory Storage_Drivers
  imports Storage_Memory
begin

text \<open>
  The command-line drivers of \<^verbatim>\<open>internal/storage\<close>: \<^verbatim>\<open>ZFSDriver\<close>
  (\<^verbatim>\<open>driver_zfs.go\<close>), which keeps no state of its own, and \<^verbatim>\<open>CephDriver\<close>
  (\<^verbatim>\<open>driver_ceph.go\<close>), which keeps a table of the images it made.  The programs \<^verbatim>\<open>zpool\<close>,
  \<^verbatim>\<open>zfs\<close>, \<^verbatim>\<open>ceph\<close> and \<^verbatim>\<open>rbd\<close> are parameters: \<open>se_run\<close> gives the output
  of a command line and the error of its exit.  The conversion of a decimal fraction by
  \<^verbatim>\<open>fmt.Sscanf\<close> into a 64-bit float, its product with the multiplier and the conversion back to
  an integer is \<open>se_scale\<close>; the JSON decoder of a list of names is \<open>se_names\<close>.
\<close>

section \<open>Environment\<close>

record stor_env =
  se_run :: "string list \<Rightarrow> string \<times> go_error option"
  se_scale :: "string \<Rightarrow> uint64 \<Rightarrow> uint64 option"
  se_names :: "string \<Rightarrow> string list result"

section \<open>ZFS\<close>

definition to_lower :: "char \<Rightarrow> char" where
  "to_lower c = (let n = of_char c :: nat in if 65 \<le> n \<and> n \<le> 90 then char_of (n + 32) else c)"

definition to_upper :: "char \<Rightarrow> char" where
  "to_upper c = (let n = of_char c :: nat in if 97 \<le> n \<and> n \<le> 122 then char_of (n - 32) else c)"

definition parseSize :: "stor_env \<Rightarrow> string \<Rightarrow> uint64" where
  "parseSize env s0 =
     (let s = TrimSpace s0;
          num = takeWhile (\<lambda>c. is_digit c \<or> c = CHR ''.'') s;
          suffix = map to_upper (TrimSpace (drop (length num) s));
          multiplier = (if suffix = ''K'' then 1024 else if suffix = ''M'' then 1048576
                        else if suffix = ''G'' then 1073741824 else if suffix = ''T'' then 1099511627776
                        else if suffix = ''P'' then 1125899906842624 else 1)
      in if s = [] \<or> s = ''-'' then 0
         else if num = [] then 0
         else (case se_scale env num multiplier of None \<Rightarrow> 0 | Some n \<Rightarrow> n))"

definition lines_of :: "string \<Rightarrow> string list" where
  "lines_of out = filter (\<lambda>l. l \<noteq> []) (split_char newline (TrimSpace out))"

definition ZFS_ListPools :: "stor_env \<Rightarrow> Pool list result" where
  "ZFS_ListPools env =
     (case se_run env [''zpool'', ''list'', ''-H'', ''-o'', ''name,size,alloc,health''] of
        (out, Some err) \<Rightarrow> Err (Errorf ''zpool list: %w'' [FErr err])
      | (out, None) \<Rightarrow>
          Ok (map (\<lambda>f. \<lparr>po_Name = f ! 0, po_PoolType = ''zfs'', po_TotalBytes = parseSize env (f ! 1),
                       po_UsedBytes = parseSize env (f ! 2), po_Health = map to_lower (f ! 3)\<rparr>)
                  (filter (\<lambda>f. 4 \<le> length f) (map Fields (lines_of out)))))"

definition ZFS_CreateVolume :: "stor_env \<Rightarrow> int \<Rightarrow> string \<Rightarrow> string \<Rightarrow> string \<Rightarrow> uint64 \<Rightarrow> Volume result" where
  "ZFS_CreateVolume env now pool name format sizeBytes =
     (let fullName = Sprintf ''%s/%s'' [FStr pool, FStr name] in
      case se_run env [''zfs'', ''create'', ''-V'', Sprintf ''%d'' [FInt (uint sizeBytes)], fullName] of
        (out, Some err) \<Rightarrow> Err (Errorf ''zfs create %s: %s: %w'' [FStr fullName, FStr (TrimSpace out), FErr err])
      | (out, None) \<Rightarrow>
          Ok \<lparr>vo_ID = fullName, vo_Pool = pool, vo_Name = name, vo_SizeBytes = sizeBytes, vo_Format = format,
              vo_Path = Sprintf ''/dev/zvol/%s'' [FStr fullName], vo_CreatedAt = now\<rparr>)"

definition ZFS_DeleteVolume :: "stor_env \<Rightarrow> string \<Rightarrow> unit result" where
  "ZFS_DeleteVolume env i =
     (case se_run env [''zfs'', ''destroy'', i] of
        (out, Some err) \<Rightarrow> Err (Errorf ''zfs destroy %s: %s: %w'' [FStr i, FStr (TrimSpace out), FErr err])
      | (out, None) \<Rightarrow> Ok ())"

definition ZFS_CreateSnapshot :: "stor_env \<Rightarrow> int \<Rightarrow> string \<Rightarrow> string \<Rightarrow> StSnapshot result" where
  "ZFS_CreateSnapshot env now volumeID name =
     (let snapName = Sprintf ''%s@%s'' [FStr volumeID, FStr name] in
      case se_run env [''zfs'', ''snapshot'', snapName] of
        (out, Some err) \<Rightarrow> Err (Errorf ''zfs snapshot %s: %s: %w'' [FStr snapName, FStr (TrimSpace out), FErr err])
      | (out, None) \<Rightarrow> Ok \<lparr>sn_ID = snapName, sn_VolumeID = volumeID, sn_Name = name, sn_CreatedAt = now\<rparr>)"

definition zfs_snapshot_line :: "int \<Rightarrow> string \<Rightarrow> StSnapshot option" where
  "zfs_snapshot_line now line =
     (let fullName = hd (splitn_char 2 (CHR 0x09) line); parts = splitn_char 2 (CHR ''@'') fullName in
      case parts of [vol, name] \<Rightarrow> Some \<lparr>sn_ID = fullName, sn_VolumeID = vol, sn_Name = name, sn_CreatedAt = now\<rparr>
                  | _ \<Rightarrow> None)"

definition ZFS_ListSnapshots :: "stor_env \<Rightarrow> int \<Rightarrow> string \<Rightarrow> StSnapshot list result" where
  "ZFS_ListSnapshots env now volumeID =
     (case se_run env ([''zfs'', ''list'', ''-t'', ''snapshot'', ''-H'', ''-o'', ''name,creation'']
                       @ (if volumeID \<noteq> [] then [''-r'', volumeID] else [])) of
        (out, Some err) \<Rightarrow> Err (Errorf ''zfs list snapshots: %w'' [FErr err])
      | (out, None) \<Rightarrow> Ok (List.map_filter (zfs_snapshot_line now) (lines_of out)))"

definition ZFS_RollbackSnapshot :: "stor_env \<Rightarrow> string \<Rightarrow> unit result" where
  "ZFS_RollbackSnapshot env i =
     (case se_run env [''zfs'', ''rollback'', i] of
        (out, Some err) \<Rightarrow> Err (Errorf ''zfs rollback %s: %s: %w'' [FStr i, FStr (TrimSpace out), FErr err])
      | (out, None) \<Rightarrow> Ok ())"

definition ZFS_CloneSnapshot :: "stor_env \<Rightarrow> int \<Rightarrow> string \<Rightarrow> string \<Rightarrow> Volume result" where
  "ZFS_CloneSnapshot env now snapshotID newVolName =
     (let pool = hd (splitn_char 2 (CHR ''/'') snapshotID);
          targetName = Sprintf ''%s/%s'' [FStr pool, FStr newVolName] in
      case se_run env [''zfs'', ''clone'', snapshotID, targetName] of
        (out, Some err) \<Rightarrow>
          Err (Errorf ''zfs clone %s %s: %s: %w'' [FStr snapshotID, FStr targetName, FStr (TrimSpace out), FErr err])
      | (out, None) \<Rightarrow>
          Ok \<lparr>vo_ID = targetName, vo_Pool = pool, vo_Name = newVolName, vo_SizeBytes = 0, vo_Format = ''zvol'',
              vo_Path = Sprintf ''/dev/zvol/%s'' [FStr targetName], vo_CreatedAt = now\<rparr>)"

definition ZFS_DeleteSnapshot :: "stor_env \<Rightarrow> string \<Rightarrow> unit result" where
  "ZFS_DeleteSnapshot env i =
     (case se_run env [''zfs'', ''destroy'', i] of
        (out, Some err) \<Rightarrow> Err (Errorf ''zfs destroy snapshot %s: %s: %w'' [FStr i, FStr (TrimSpace out), FErr err])
      | (out, None) \<Rightarrow> Ok ())"

definition zvol :: "int \<Rightarrow> string \<Rightarrow> string \<Rightarrow> uint64 \<Rightarrow> Volume" where
  "zvol now i fullName sizeBytes =
     (let parts = splitn_char 2 (CHR ''/'') fullName in
      \<lparr>vo_ID = i, vo_Pool = hd parts, vo_Name = (if length parts > 1 then parts ! 1 else []), vo_SizeBytes = sizeBytes,
       vo_Format = ''zvol'', vo_Path = Sprintf ''/dev/zvol/%s'' [FStr i], vo_CreatedAt = now\<rparr>)"

definition ZFS_ListVolumes :: "stor_env \<Rightarrow> int \<Rightarrow> string \<Rightarrow> Volume list result" where
  "ZFS_ListVolumes env now pool =
     (case se_run env ([''zfs'', ''list'', ''-H'', ''-o'', ''name,used,avail,refer'', ''-t'', ''volume'']
                       @ (if pool \<noteq> [] then [''-r'', pool] else [])) of
        (out, Some err) \<Rightarrow> Err (Errorf ''zfs list volumes: %w'' [FErr err])
      | (out, None) \<Rightarrow>
          Ok (map (\<lambda>f. zvol now (f ! 0) (f ! 0) (parseSize env (f ! 3)))
                  (filter (\<lambda>f. 4 \<le> length f) (map Fields (lines_of out)))))"

definition ZFS_GetVolume :: "stor_env \<Rightarrow> int \<Rightarrow> string \<Rightarrow> Volume result" where
  "ZFS_GetVolume env now i =
     (case se_run env [''zfs'', ''list'', ''-H'', ''-o'', ''name,used,refer'', ''-t'', ''volume'', i] of
        (out, Some err) \<Rightarrow> Err (volume_not_found i)
      | (out, None) \<Rightarrow>
          let f = Fields (TrimSpace out) in
          if length f < 3 then Err (volume_not_found i)
          else Ok (zvol now i (f ! 0) (parseSize env (f ! 2))))"

definition ZFS_ResizeVolume :: "stor_env \<Rightarrow> string \<Rightarrow> uint64 \<Rightarrow> unit result" where
  "ZFS_ResizeVolume env i newSize =
     (case se_run env [''zfs'', ''set'', Sprintf ''volsize=%d'' [FInt (uint newSize)], i] of
        (out, Some err) \<Rightarrow> Err (Errorf ''zfs resize %s: %s: %w'' [FStr i, FStr (TrimSpace out), FErr err])
      | (out, None) \<Rightarrow> Ok ())"

section \<open>Ceph\<close>

record CephDriver =
  cd_pool :: string
  cd_volumes :: "string \<Rightarrow> Volume option"
  cd_snapshots :: "string \<Rightarrow> StSnapshot option"
  cd_nextVolID :: int32
  cd_nextSnapID :: int32

definition NewCephDriver :: "string \<Rightarrow> CephDriver" where
  "NewCephDriver pool =
     \<lparr>cd_pool = (if pool = [] then ''rbd'' else pool), cd_volumes = Map.empty, cd_snapshots = Map.empty,
      cd_nextVolID = 1, cd_nextSnapID = 1\<rparr>"

definition ceph_vol_id :: "int \<Rightarrow> string" where
  "ceph_vol_id n = Sprintf ''ceph-vol-%d'' [FInt n]"

definition ceph_snap_id :: "int \<Rightarrow> string" where
  "ceph_snap_id n = Sprintf ''ceph-snap-%d'' [FInt n]"

definition Ceph_ListPools :: "stor_env \<Rightarrow> CephDriver \<Rightarrow> Pool list result" where
  "Ceph_ListPools env d =
     (let health = (case se_run env [''ceph'', ''osd'', ''pool'', ''stats'', ''--format'', ''json''] of
                      (out, Some err) \<Rightarrow> ''unknown'' | (out, None) \<Rightarrow> ''healthy'')
      in Ok [\<lparr>po_Name = cd_pool d, po_PoolType = ''ceph'', po_TotalBytes = 0, po_UsedBytes = 0, po_Health = health\<rparr>])"

definition Ceph_CreateVolume ::
  "stor_env \<Rightarrow> int \<Rightarrow> string \<Rightarrow> string \<Rightarrow> string \<Rightarrow> uint64 \<Rightarrow> CephDriver \<Rightarrow> Volume result \<times> CephDriver" where
  "Ceph_CreateVolume env now pool name format sizeBytes d =
     (case se_run env [''rbd'', ''create'', ''--size'', Sprintf ''%d'' [FInt (uint sizeBytes div 1048576)],
                       Sprintf ''%s/%s'' [FStr pool, FStr name]] of
        (out, Some err) \<Rightarrow> (Err (Errorf ''rbd create: %s: %w'' [FStr out, FErr err]), d)
      | (out, None) \<Rightarrow>
          let i = ceph_vol_id (sint (cd_nextVolID d));
              vol = \<lparr>vo_ID = i, vo_Pool = pool, vo_Name = name, vo_SizeBytes = sizeBytes, vo_Format = ''rbd'',
                     vo_Path = Sprintf ''rbd:%s/%s'' [FStr pool, FStr name], vo_CreatedAt = now\<rparr>
          in (Ok vol, d\<lparr>cd_nextVolID := cd_nextVolID d + 1, cd_volumes := (cd_volumes d)(i \<mapsto> vol)\<rparr>))"

definition Ceph_DeleteVolume :: "stor_env \<Rightarrow> string \<Rightarrow> CephDriver \<Rightarrow> unit result \<times> CephDriver" where
  "Ceph_DeleteVolume env i d =
     (case cd_volumes d i of
        None \<Rightarrow> (Err (volume_not_found i), d)
      | Some vol \<Rightarrow>
          let d' = d\<lparr>cd_volumes := (cd_volumes d)(i := None)\<rparr> in
          (case se_run env [''rbd'', ''rm'', Sprintf ''%s/%s'' [FStr (vo_Pool vol), FStr (vo_Name vol)]] of
             (out, Some err) \<Rightarrow> (Err (Errorf ''rbd rm: %s: %w'' [FStr out, FErr err]), d')
           | (out, None) \<Rightarrow> (Ok (), d')))"

definition ceph_put_snapshot :: "int \<Rightarrow> string \<Rightarrow> string \<Rightarrow> CephDriver \<Rightarrow> StSnapshot result \<times> CephDriver" where
  "ceph_put_snapshot now volumeID name d =
     (let i = ceph_snap_id (sint (cd_nextSnapID d));
          snap = \<lparr>sn_ID = i, sn_VolumeID = volumeID, sn_Name = name, sn_CreatedAt = now\<rparr>
      in (Ok snap, d\<lparr>cd_nextSnapID := cd_nextSnapID d + 1, cd_snapshots := (cd_snapshots d)(i \<mapsto> snap)\<rparr>))"

definition Ceph_CreateSnapshot :: "stor_env \<Rightarrow> int \<Rightarrow> string \<Rightarrow> string \<Rightarrow> CephDriver \<Rightarrow> StSnapshot result \<times> CephDriver" where
  "Ceph_CreateSnapshot env now volumeID name d =
     (case cd_volumes d volumeID of
        Some vol \<Rightarrow>
          (case se_run env [''rbd'', ''snap'', ''create'',
                            Sprintf ''%s/%s@%s'' [FStr (vo_Pool vol), FStr (vo_Name vol), FStr name]] of
             (out, Some err) \<Rightarrow> (Err (Errorf ''rbd snap create: %s: %w'' [FStr out, FErr err]), d)
           | (out, None) \<Rightarrow> ceph_put_snapshot now volumeID name d)
      | None \<Rightarrow> ceph_put_snapshot now volumeID name d)"

definition Ceph_ListSnapshots :: "string list \<Rightarrow> string \<Rightarrow> CephDriver \<Rightarrow> StSnapshot list result" where
  "Ceph_ListSnapshots ord volumeID d = Ok (filter (\<lambda>s. sn_VolumeID s = volumeID) (map_values ord (cd_snapshots d)))"

definition Ceph_RollbackSnapshot :: "stor_env \<Rightarrow> string \<Rightarrow> unit result" where
  "Ceph_RollbackSnapshot env i =
     (case se_run env [''rbd'', ''snap'', ''rollback'', i] of
        (out, Some err) \<Rightarrow> Err (Errorf ''rbd snap rollback: %s: %w'' [FStr out, FErr err])
      | (out, None) \<Rightarrow> Ok ())"

definition Ceph_CloneSnapshot :: "stor_env \<Rightarrow> string \<Rightarrow> string \<Rightarrow> CephDriver \<Rightarrow> Volume result \<times> CephDriver" where
  "Ceph_CloneSnapshot env snapshotID newVolumeName d =
     (let newImg = Sprintf ''%s/%s'' [FStr (cd_pool d), FStr newVolumeName] in
      case se_run env [''rbd'', ''clone'', snapshotID, newImg] of
        (out, Some err) \<Rightarrow> (Err (Errorf ''rbd clone: %s: %w'' [FStr out, FErr err]), d)
      | (out, None) \<Rightarrow>
          (Ok \<lparr>vo_ID = ceph_vol_id (sint (cd_nextVolID d)), vo_Pool = cd_pool d, vo_Name = newVolumeName, vo_SizeBytes = 0,
               vo_Format = [], vo_Path = Sprintf ''rbd:%s'' [FStr newImg], vo_CreatedAt = 0\<rparr>,
           d\<lparr>cd_nextVolID := cd_nextVolID d + 1\<rparr>))"

definition Ceph_DeleteSnapshot :: "stor_env \<Rightarrow> string \<Rightarrow> unit result" where
  "Ceph_DeleteSnapshot env i =
     (case se_run env [''rbd'', ''snap'', ''rm'', i] of
        (out, Some err) \<Rightarrow> Err (Errorf ''rbd snap rm: %s: %w'' [FStr out, FErr err])
      | (out, None) \<Rightarrow> Ok ())"

definition Ceph_GetVolume :: "string \<Rightarrow> CephDriver \<Rightarrow> Volume result" where
  "Ceph_GetVolume i d = (case cd_volumes d i of Some v \<Rightarrow> Ok v | None \<Rightarrow> Err (volume_not_found i))"

definition Ceph_ResizeVolume :: "stor_env \<Rightarrow> string \<Rightarrow> uint64 \<Rightarrow> unit result" where
  "Ceph_ResizeVolume env i newSize =
     (case se_run env [''rbd'', ''resize'', ''--size'', Sprintf ''%d'' [FInt (uint newSize div 1048576)], i] of
        (out, Some err) \<Rightarrow> Err (Errorf ''rbd resize: %s: %w'' [FStr out, FErr err])
      | (out, None) \<Rightarrow> Ok ())"

definition Ceph_ListVolumes :: "stor_env \<Rightarrow> string list \<Rightarrow> string \<Rightarrow> CephDriver \<Rightarrow> Volume list result" where
  "Ceph_ListVolumes env ord pool0 d =
     (let pool = (if pool0 = [] then cd_pool d else pool0) in
      case se_run env [''rbd'', ''ls'', ''-p'', pool, ''--format'', ''json''] of
        (out, Some err) \<Rightarrow> Ok (filter (\<lambda>v. vo_Pool v = pool \<or> pool = []) (map_values ord (cd_volumes d)))
      | (out, None) \<Rightarrow>
          (case se_names env out of
             Inl err \<Rightarrow> Err (Errorf ''rbd ls parse: %w'' [FErr err])
           | Inr names \<Rightarrow>
               Ok (map (\<lambda>name. \<lparr>vo_ID = Sprintf ''rbd-%s'' [FStr (map (\<lambda>c. if c = CHR ''/'' then CHR ''-'' else c) name)],
                               vo_Pool = pool, vo_Name = name, vo_SizeBytes = 0, vo_Format = [],
                               vo_Path = Sprintf ''rbd:%s/%s'' [FStr pool, FStr name], vo_CreatedAt = 0\<rparr>) names)))"

definition Ceph_ExportVolume :: "stor_env \<Rightarrow> string \<Rightarrow> string \<Rightarrow> unit result" where
  "Ceph_ExportVolume env i path =
     (case se_run env [''rbd'', ''export'', i, path] of
        (out, Some err) \<Rightarrow> Err (Errorf ''rbd export: %s: %w'' [FStr out, FErr err])
      | (out, None) \<Rightarrow> Ok ())"

definition Ceph_ImportVolume :: "stor_env \<Rightarrow> int \<Rightarrow> string \<Rightarrow> string \<Rightarrow> string \<Rightarrow> CephDriver \<Rightarrow> Volume result \<times> CephDriver" where
  "Ceph_ImportVolume env now path pool0 name d =
     (let pool = (if pool0 = [] then cd_pool d else pool0);
          imgName = Sprintf ''%s/%s'' [FStr pool, FStr name] in
      case se_run env [''rbd'', ''import'', path, imgName] of
        (out, Some err) \<Rightarrow> (Err (Errorf ''rbd import: %s: %w'' [FStr out, FErr err]), d)
      | (out, None) \<Rightarrow>
          (Ok \<lparr>vo_ID = ceph_vol_id (sint (cd_nextVolID d)), vo_Pool = pool, vo_Name = name, vo_SizeBytes = 0,
               vo_Format = ''rbd'', vo_Path = Sprintf ''rbd:%s'' [FStr imgName], vo_CreatedAt = now\<rparr>,
           d\<lparr>cd_nextVolID := cd_nextVolID d + 1\<rparr>))"

definition FlattenClone :: "stor_env \<Rightarrow> string \<Rightarrow> unit result" where
  "FlattenClone env i =
     (case se_run env [''rbd'', ''flatten'', i] of
        (out, Some err) \<Rightarrow> Err (Errorf ''rbd flatten: %s: %w'' [FStr out, FErr err])
      | (out, None) \<Rightarrow> Ok ())"

section \<open>Identifiers of Ceph volumes\<close>

lemma ceph_vol_id_eq [simp]: "ceph_vol_id n = ''ceph-vol-'' @ show_int n"
  by (simp add: ceph_vol_id_def Sprintf_def)

definition ceph_created :: "CephDriver \<Rightarrow> string \<Rightarrow> Volume \<Rightarrow> CephDriver \<Rightarrow> bool" where
  "ceph_created d i v d' \<longleftrightarrow> sint (cd_nextVolID d) < 2147483647 \<and> i = vo_ID v
     \<and> (\<exists>env now pool name format sz. Ceph_CreateVolume env now pool name format sz d = (Ok v, d'))"

definition ceph_removed :: "CephDriver \<Rightarrow> string \<Rightarrow> CephDriver \<Rightarrow> bool" where
  "ceph_removed d i d' \<longleftrightarrow> cd_volumes d i \<noteq> None \<and> (\<exists>env. d' = snd (Ceph_DeleteVolume env i d))"

definition ceph_touched :: "CephDriver \<Rightarrow> CephDriver \<Rightarrow> bool" where
  "ceph_touched d d' \<longleftrightarrow> sint (cd_nextVolID d) < 2147483647 \<and>
     ((\<exists>env s n. d' = snd (Ceph_CloneSnapshot env s n d)) \<or> (\<exists>env now path p n. d' = snd (Ceph_ImportVolume env now path p n d))
      \<or> (\<exists>env now v n. d' = snd (Ceph_CreateSnapshot env now v n d)))"

lemma ceph_touched_frame:
  assumes "ceph_touched d d'"
  shows "cd_volumes d' = cd_volumes d \<and> sint (cd_nextVolID d) \<le> sint (cd_nextVolID d')"
proof -
  have "cd_volumes (snd (Ceph_CloneSnapshot env s n d)) = cd_volumes d
      \<and> cd_nextVolID (snd (Ceph_CloneSnapshot env s n d)) \<in> {cd_nextVolID d, cd_nextVolID d + 1}" for env s n
    by (auto simp: Ceph_CloneSnapshot_def Let_def split: prod.splits option.splits)
  moreover have "cd_volumes (snd (Ceph_ImportVolume env now path p n d)) = cd_volumes d
      \<and> cd_nextVolID (snd (Ceph_ImportVolume env now path p n d)) \<in> {cd_nextVolID d, cd_nextVolID d + 1}" for env now path p n
    by (auto simp: Ceph_ImportVolume_def Let_def split: prod.splits option.splits)
  moreover have "cd_volumes (snd (Ceph_CreateSnapshot env now v n d)) = cd_volumes d
      \<and> cd_nextVolID (snd (Ceph_CreateSnapshot env now v n d)) = cd_nextVolID d" for env now v n
    by (auto simp: Ceph_CreateSnapshot_def ceph_put_snapshot_def Let_def split: prod.splits option.splits)
  ultimately have "cd_volumes d' = cd_volumes d \<and> cd_nextVolID d' \<in> {cd_nextVolID d, cd_nextVolID d + 1}"
    using assms unfolding ceph_touched_def by blast
  then show ?thesis using assms sint_add_one [of "cd_nextVolID d"] by (auto simp: ceph_touched_def)
qed

lemma ceph_create_ok:
  assumes "Ceph_CreateVolume env now pool name format sz d = (Ok v, d')"
  shows "vo_ID v = ceph_vol_id (sint (cd_nextVolID d)) \<and> cd_volumes d' = (cd_volumes d)(vo_ID v \<mapsto> v)
     \<and> cd_nextVolID d' = cd_nextVolID d + 1"
proof -
  obtain out e where "se_run env [''rbd'', ''create'', ''--size'', Sprintf ''%d'' [FInt (uint sz div 1048576)],
      Sprintf ''%s/%s'' [FStr pool, FStr name]] = (out, e)" by (metis surj_pair)
  then show ?thesis using assms by (cases e) (auto simp: Ceph_CreateVolume_def Let_def)
qed

lemma ceph_created_effect:
  "ceph_created d i v d' \<Longrightarrow> i = ceph_vol_id (sint (cd_nextVolID d)) \<and> cd_volumes d' = (cd_volumes d)(i \<mapsto> v)
     \<and> sint (cd_nextVolID d') = sint (cd_nextVolID d) + 1"
  unfolding ceph_created_def using ceph_create_ok sint_add_one by metis

interpretation ceph: id_registry cd_volumes "\<lambda>d. sint (cd_nextVolID d)" ceph_vol_id ceph_created ceph_removed ceph_touched
proof unfold_locales
  show "inj ceph_vol_id" by (auto simp: inj_def)
qed (auto simp: ceph_removed_def Ceph_DeleteVolume_def Let_def dest: ceph_created_effect ceph_touched_frame
    split: prod.splits option.splits)

abbreviation ceph_step :: "CephDriver \<Rightarrow> CephDriver \<Rightarrow> bool" where
  "ceph_step \<equiv> \<lambda>d d'. (\<exists>i v. ceph_created d i v d') \<or> (\<exists>i. ceph_removed d i d') \<or> ceph_touched d d'"

text \<open>The volume that the Ceph driver returns for a clone has an identifier under which it
  can never be found: the clone is not entered in the table and the identifier is not given out
  again, so that looking it up, deleting it and taking a snapshot of its image all miss it in
  every later state.\<close>

theorem ceph_clone_unreachable:
  assumes "ceph_step\<^sup>*\<^sup>* (NewCephDriver pool) d" "sint (cd_nextVolID d) < 2147483647"
    and "Ceph_CloneSnapshot env s n d = (Ok v, d1)" "ceph_step\<^sup>*\<^sup>* d1 d2"
  shows "Ceph_GetVolume (vo_ID v) d2 = Err (volume_not_found (vo_ID v))
    \<and> Ceph_DeleteVolume env' (vo_ID v) d2 = (Err (volume_not_found (vo_ID v)), d2)"
proof -
  have v: "vo_ID v = ceph_vol_id (sint (cd_nextVolID d))" "cd_volumes d1 = cd_volumes d" "cd_nextVolID d1 = cd_nextVolID d + 1"
    using assms(3) by (auto simp: Ceph_CloneSnapshot_def Let_def split: prod.splits option.splits)
  have "ids_below ceph_vol_id (cd_volumes d) (sint (cd_nextVolID d))"
    by (rule ceph.steps_ids_below [OF assms(1)]) (simp add: NewCephDriver_def)
  then have "cd_volumes d1 (vo_ID v) = None" using v by (auto dest: ids_belowD)
  moreover have "\<forall>k. vo_ID v = ceph_vol_id k \<longrightarrow> k < sint (cd_nextVolID d1)"
    using v assms(2) by (auto simp: sint_add_one)
  ultimately have "cd_volumes d2 (vo_ID v) = None"
    using ceph.steps_gone [OF assms(4), of "vo_ID v"] by blast
  then show ?thesis by (simp add: Ceph_GetVolume_def Ceph_DeleteVolume_def)
qed

definition quiet_stor :: stor_env where
  "quiet_stor = \<lparr>se_run = (\<lambda>_. ([], None)), se_scale = (\<lambda>_ _. None), se_names = (\<lambda>_. Ok [])\<rparr>"

theorem ceph_clone_unreachable_witness:
  "\<exists>v d1. Ceph_CloneSnapshot quiet_stor ''rbd/a@s'' ''b'' (NewCephDriver []) = (Ok v, d1)
     \<and> \<not> is_ok (Ceph_GetVolume (vo_ID v) d1)"
proof -
  obtain v d1 where c: "Ceph_CloneSnapshot quiet_stor ''rbd/a@s'' ''b'' (NewCephDriver []) = (Ok v, d1)"
    by (simp add: Ceph_CloneSnapshot_def quiet_stor_def Let_def)
  from ceph_clone_unreachable [OF rtranclp.rtrancl_refl _ c rtranclp.rtrancl_refl, of quiet_stor] c show ?thesis
    by (simp add: NewCephDriver_def)
qed

end
