(* ===== verification/Storage_Service.thy ===== *)
theory Storage_Service
  imports Storage_Drivers
begin

text \<open>
  \<^verbatim>\<open>Service\<close> of \<^verbatim>\<open>internal/storage/storage.go\<close>: with the memory driver it works on its
  own tables, with every other driver it delegates most calls, and reads its own tables for the
  rest.  \<^verbatim>\<open>driver.go\<close> is the interface behind \<open>StorageDriver\<close>.
\<close>

section \<open>Drivers\<close>

datatype StorageDriver =
    MemoryDriver mem_store
  | ZFSDriver
  | Ceph CephDriver

fun drv_Name :: "StorageDriver \<Rightarrow> string" where
  "drv_Name (MemoryDriver m) = ''memory''"
| "drv_Name ZFSDriver = ''zfs''"
| "drv_Name (Ceph c) = ''ceph''"

fun drv_ListPools :: "stor_env \<Rightarrow> string list \<Rightarrow> StorageDriver \<Rightarrow> Pool list result" where
  "drv_ListPools env ord (MemoryDriver m) = Ok (Mem_ListPools ord m)"
| "drv_ListPools env ord ZFSDriver = ZFS_ListPools env"
| "drv_ListPools env ord (Ceph c) = Ceph_ListPools env c"

fun drv_CreateVolume ::
  "stor_env \<Rightarrow> int \<Rightarrow> string \<Rightarrow> string \<Rightarrow> string \<Rightarrow> uint64 \<Rightarrow> StorageDriver \<Rightarrow> Volume result \<times> StorageDriver" where
  "drv_CreateVolume env now pool name format sz (MemoryDriver m) =
     map_prod id MemoryDriver (Mem_CreateVolume now pool name format sz m)"
| "drv_CreateVolume env now pool name format sz ZFSDriver = (ZFS_CreateVolume env now pool name format sz, ZFSDriver)"
| "drv_CreateVolume env now pool name format sz (Ceph c) =
     map_prod id Ceph (Ceph_CreateVolume env now pool name format sz c)"

fun drv_DeleteVolume :: "stor_env \<Rightarrow> string \<Rightarrow> StorageDriver \<Rightarrow> unit result \<times> StorageDriver" where
  "drv_DeleteVolume env i (MemoryDriver m) = map_prod id MemoryDriver (Mem_DeleteVolume i m)"
| "drv_DeleteVolume env i ZFSDriver = (ZFS_DeleteVolume env i, ZFSDriver)"
| "drv_DeleteVolume env i (Ceph c) = map_prod id Ceph (Ceph_DeleteVolume env i c)"

fun drv_CreateSnapshot :: "stor_env \<Rightarrow> int \<Rightarrow> string \<Rightarrow> string \<Rightarrow> StorageDriver \<Rightarrow> StSnapshot result \<times> StorageDriver" where
  "drv_CreateSnapshot env now v n (MemoryDriver m) = map_prod id MemoryDriver (Mem_CreateSnapshot now v n m)"
| "drv_CreateSnapshot env now v n ZFSDriver = (ZFS_CreateSnapshot env now v n, ZFSDriver)"
| "drv_CreateSnapshot env now v n (Ceph c) = map_prod id Ceph (Ceph_CreateSnapshot env now v n c)"

fun drv_ListSnapshots :: "stor_env \<Rightarrow> string list \<Rightarrow> int \<Rightarrow> string \<Rightarrow> StorageDriver \<Rightarrow> StSnapshot list result" where
  "drv_ListSnapshots env ord now v (MemoryDriver m) = Ok (Mem_ListSnapshots ord v m)"
| "drv_ListSnapshots env ord now v ZFSDriver = ZFS_ListSnapshots env now v"
| "drv_ListSnapshots env ord now v (Ceph c) = Ceph_ListSnapshots ord v c"

fun drv_RollbackSnapshot :: "stor_env \<Rightarrow> string \<Rightarrow> StorageDriver \<Rightarrow> unit result" where
  "drv_RollbackSnapshot env i (MemoryDriver m) = Mem_RollbackSnapshot i m"
| "drv_RollbackSnapshot env i ZFSDriver = ZFS_RollbackSnapshot env i"
| "drv_RollbackSnapshot env i (Ceph c) = Ceph_RollbackSnapshot env i"

fun drv_CloneSnapshot :: "stor_env \<Rightarrow> int \<Rightarrow> string \<Rightarrow> string \<Rightarrow> StorageDriver \<Rightarrow> Volume result \<times> StorageDriver" where
  "drv_CloneSnapshot env now i n (MemoryDriver m) = map_prod id MemoryDriver (Mem_CloneSnapshot now i n m)"
| "drv_CloneSnapshot env now i n ZFSDriver = (ZFS_CloneSnapshot env now i n, ZFSDriver)"
| "drv_CloneSnapshot env now i n (Ceph c) = map_prod id Ceph (Ceph_CloneSnapshot env i n c)"

fun drv_DeleteSnapshot :: "stor_env \<Rightarrow> string \<Rightarrow> StorageDriver \<Rightarrow> unit result \<times> StorageDriver" where
  "drv_DeleteSnapshot env i (MemoryDriver m) = map_prod id MemoryDriver (Mem_DeleteSnapshot i m)"
| "drv_DeleteSnapshot env i ZFSDriver = (ZFS_DeleteSnapshot env i, ZFSDriver)"
| "drv_DeleteSnapshot env i (Ceph c) = (Ceph_DeleteSnapshot env i, Ceph c)"

fun drv_GetVolume :: "stor_env \<Rightarrow> int \<Rightarrow> string \<Rightarrow> StorageDriver \<Rightarrow> Volume result" where
  "drv_GetVolume env now i (MemoryDriver m) = Mem_GetVolume i m"
| "drv_GetVolume env now i ZFSDriver = ZFS_GetVolume env now i"
| "drv_GetVolume env now i (Ceph c) = Ceph_GetVolume i c"

fun drv_ResizeVolume :: "stor_env \<Rightarrow> string \<Rightarrow> uint64 \<Rightarrow> StorageDriver \<Rightarrow> unit result \<times> StorageDriver" where
  "drv_ResizeVolume env i n (MemoryDriver m) = map_prod id MemoryDriver (Mem_ResizeVolume i n m)"
| "drv_ResizeVolume env i n ZFSDriver = (ZFS_ResizeVolume env i n, ZFSDriver)"
| "drv_ResizeVolume env i n (Ceph c) = (Ceph_ResizeVolume env i n, Ceph c)"

section \<open>The service\<close>

record StorageService =
  ss_driver :: StorageDriver
  ss_local :: mem_store

fun is_memory :: "StorageDriver \<Rightarrow> bool" where
  "is_memory (MemoryDriver m) = True"
| "is_memory ZFSDriver = False"
| "is_memory (Ceph c) = False"

definition NewServiceWithDriver :: "StorageDriver \<Rightarrow> StorageService" where
  "NewServiceWithDriver d =
     \<lparr>ss_driver = d, ss_local = (if is_memory d then empty_store\<lparr>st_pools := default_pools\<rparr> else empty_store)\<rparr>"

definition NewStorageService :: StorageService where
  "NewStorageService = NewServiceWithDriver (MemoryDriver NewMemoryDriver)"

definition DriverName :: "StorageService \<Rightarrow> string" where
  "DriverName s = drv_Name (ss_driver s)"

text \<open>The two ways a method runs: on the service's own tables or on the driver.\<close>

definition on_local :: "(mem_store \<Rightarrow> 'a \<times> mem_store) \<Rightarrow> StorageService \<Rightarrow> 'a \<times> StorageService" where
  "on_local f s = (case f (ss_local s) of (r, l) \<Rightarrow> (r, s\<lparr>ss_local := l\<rparr>))"

definition on_driver :: "(StorageDriver \<Rightarrow> 'a \<times> StorageDriver) \<Rightarrow> StorageService \<Rightarrow> 'a \<times> StorageService" where
  "on_driver f s = (case f (ss_driver s) of (r, d) \<Rightarrow> (r, s\<lparr>ss_driver := d\<rparr>))"

definition Stor_ListPools :: "stor_env \<Rightarrow> string list \<Rightarrow> StorageService \<Rightarrow> Pool list" where
  "Stor_ListPools env ord s =
     (if is_memory (ss_driver s) then Mem_ListPools ord (ss_local s)
      else case drv_ListPools env ord (ss_driver s) of Inl e \<Rightarrow> [] | Inr ps \<Rightarrow> ps)"

definition Stor_GetPool :: "string \<Rightarrow> StorageService \<Rightarrow> Pool result" where
  "Stor_GetPool name s = (case st_pools (ss_local s) name of None \<Rightarrow> Err (pool_not_found name) | Some p \<Rightarrow> Ok p)"

definition Stor_CreateVolume ::
  "stor_env \<Rightarrow> int \<Rightarrow> string \<Rightarrow> string \<Rightarrow> string \<Rightarrow> uint64 \<Rightarrow> StorageService \<Rightarrow> Volume result \<times> StorageService" where
  "Stor_CreateVolume env now pool name format sz s =
     (if \<not> is_memory (ss_driver s) then on_driver (drv_CreateVolume env now pool name format sz) s
      else on_local (Mem_CreateVolume now pool name format sz) s)"

definition Stor_ListVolumes :: "string list \<Rightarrow> string \<Rightarrow> StorageService \<Rightarrow> Volume list" where
  "Stor_ListVolumes ord pool s = Mem_ListVolumes ord pool (ss_local s)"

definition Stor_DeleteVolume :: "stor_env \<Rightarrow> string \<Rightarrow> StorageService \<Rightarrow> unit result \<times> StorageService" where
  "Stor_DeleteVolume env i s =
     (if \<not> is_memory (ss_driver s) then on_driver (drv_DeleteVolume env i) s else on_local (Mem_DeleteVolume i) s)"

definition Stor_CreateSnapshot ::
  "stor_env \<Rightarrow> int \<Rightarrow> string \<Rightarrow> string \<Rightarrow> StorageService \<Rightarrow> StSnapshot result \<times> StorageService" where
  "Stor_CreateSnapshot env now v n s =
     (if \<not> is_memory (ss_driver s) then on_driver (drv_CreateSnapshot env now v n) s else on_local (Mem_CreateSnapshot now v n) s)"

definition Stor_RollbackSnapshot :: "stor_env \<Rightarrow> string \<Rightarrow> StorageService \<Rightarrow> unit result" where
  "Stor_RollbackSnapshot env i s =
     (if \<not> is_memory (ss_driver s) then drv_RollbackSnapshot env i (ss_driver s) else Mem_RollbackSnapshot i (ss_local s))"

definition Stor_CloneSnapshot ::
  "stor_env \<Rightarrow> int \<Rightarrow> string \<Rightarrow> string \<Rightarrow> StorageService \<Rightarrow> Volume result \<times> StorageService" where
  "Stor_CloneSnapshot env now i n s =
     (if \<not> is_memory (ss_driver s) then on_driver (drv_CloneSnapshot env now i n) s else on_local (Mem_CloneSnapshot now i n) s)"

definition Stor_DeleteSnapshot :: "stor_env \<Rightarrow> string \<Rightarrow> StorageService \<Rightarrow> unit result \<times> StorageService" where
  "Stor_DeleteSnapshot env i s =
     (if \<not> is_memory (ss_driver s) then on_driver (drv_DeleteSnapshot env i) s else on_local (Mem_DeleteSnapshot i) s)"

definition Stor_GetVolume :: "stor_env \<Rightarrow> int \<Rightarrow> string \<Rightarrow> StorageService \<Rightarrow> Volume result" where
  "Stor_GetVolume env now i s =
     (if is_memory (ss_driver s) then Mem_GetVolume i (ss_local s) else drv_GetVolume env now i (ss_driver s))"

definition Stor_ResizeVolume :: "stor_env \<Rightarrow> string \<Rightarrow> uint64 \<Rightarrow> StorageService \<Rightarrow> unit result \<times> StorageService" where
  "Stor_ResizeVolume env i n s =
     (if is_memory (ss_driver s) then on_local (Mem_ResizeVolume i n) s else on_driver (drv_ResizeVolume env i n) s)"

definition Stor_ExportVolume :: "stor_env \<Rightarrow> string \<Rightarrow> string \<Rightarrow> StorageService \<Rightarrow> unit result" where
  "Stor_ExportVolume env i path s =
     (case ss_driver s of
        MemoryDriver m \<Rightarrow> (case st_volumes (ss_local s) i of None \<Rightarrow> Err (volume_not_found i) | Some v \<Rightarrow> Ok ())
      | Ceph c \<Rightarrow> Ceph_ExportVolume env i path
      | ZFSDriver \<Rightarrow> Err (Errorf ''export not supported by driver: %s'' [FStr (drv_Name (ss_driver s))]))"

definition Stor_ImportVolume ::
  "stor_env \<Rightarrow> int \<Rightarrow> string \<Rightarrow> string \<Rightarrow> string \<Rightarrow> StorageService \<Rightarrow> Volume result \<times> StorageService" where
  "Stor_ImportVolume env now path pool name s =
     (case ss_driver s of
        MemoryDriver m \<Rightarrow> on_local (Mem_ImportVolume now pool name) s
      | Ceph c \<Rightarrow> (case Ceph_ImportVolume env now path pool name c of (r, c') \<Rightarrow> (r, s\<lparr>ss_driver := Ceph c'\<rparr>))
      | ZFSDriver \<Rightarrow> (Err (Errorf ''import not supported by driver: %s'' [FStr (drv_Name (ss_driver s))]), s))"

definition Stor_ListSnapshots :: "stor_env \<Rightarrow> string list \<Rightarrow> int \<Rightarrow> string \<Rightarrow> StorageService \<Rightarrow> StSnapshot list" where
  "Stor_ListSnapshots env ord now v s =
     (if \<not> is_memory (ss_driver s)
      then (case drv_ListSnapshots env ord now v (ss_driver s) of Inl e \<Rightarrow> [] | Inr xs \<Rightarrow> xs)
      else Mem_ListSnapshots ord v (ss_local s))"

section \<open>Sequences of requests\<close>

datatype stor_op =
    SoCreate int string string string uint64
  | SoDelete string
  | SoSnap int string string
  | SoClone int string string
  | SoUnsnap string
  | SoResize string uint64
  | SoImport int string string string

fun stor_exec :: "stor_env \<Rightarrow> stor_op \<Rightarrow> StorageService \<Rightarrow> StorageService" where
  "stor_exec env (SoCreate now pool name format sz) s = snd (Stor_CreateVolume env now pool name format sz s)"
| "stor_exec env (SoDelete i) s = snd (Stor_DeleteVolume env i s)"
| "stor_exec env (SoSnap now v n) s = snd (Stor_CreateSnapshot env now v n s)"
| "stor_exec env (SoClone now i n) s = snd (Stor_CloneSnapshot env now i n s)"
| "stor_exec env (SoUnsnap i) s = snd (Stor_DeleteSnapshot env i s)"
| "stor_exec env (SoResize i n) s = snd (Stor_ResizeVolume env i n s)"
| "stor_exec env (SoImport now path pool name) s = snd (Stor_ImportVolume env now path pool name s)"

definition stor_run :: "(stor_env \<times> stor_op) list \<Rightarrow> StorageService \<Rightarrow> StorageService" where
  "stor_run ops s = fold (\<lambda>(env, op). stor_exec env op) ops s"

lemma drv_kind:
  "is_memory (snd (drv_CreateVolume env now pool name format sz d)) = is_memory d"
  "is_memory (snd (drv_DeleteVolume env i d)) = is_memory d"
  "is_memory (snd (drv_CreateSnapshot env now v n d)) = is_memory d"
  "is_memory (snd (drv_CloneSnapshot env now i n d)) = is_memory d"
  "is_memory (snd (drv_DeleteSnapshot env i d)) = is_memory d"
  "is_memory (snd (drv_ResizeVolume env i sz d)) = is_memory d"
  by (cases d; simp)+

lemma stor_exec_delegates:
  assumes "\<not> is_memory (ss_driver s)"
  shows "\<not> is_memory (ss_driver (stor_exec env op s)) \<and> ss_local (stor_exec env op s) = ss_local s"
  using assms
  by (cases op)
    (auto simp: Stor_CreateVolume_def Stor_DeleteVolume_def Stor_CreateSnapshot_def Stor_CloneSnapshot_def
      Stor_DeleteSnapshot_def Stor_ResizeVolume_def Stor_ImportVolume_def on_driver_def prod.case_eq_if drv_kind
      split: StorageDriver.splits)

lemma stor_run_delegates:
  "\<not> is_memory (ss_driver s) \<Longrightarrow> \<not> is_memory (ss_driver (stor_run ops s)) \<and> ss_local (stor_run ops s) = ss_local s"
  unfolding stor_run_def
proof (induction ops arbitrary: s)
  case (Cons x ops)
  obtain env op where x: "x = (env, op)" by (metis prod.exhaust)
  from Cons.IH [of "stor_exec env op s"] stor_exec_delegates [OF Cons.prems, of env op] show ?case
    by (simp add: x)
qed simp

text \<open>With the ZFS or the Ceph driver the service never lists a volume and never finds a
  pool by name, whatever was created before: these two methods read the service's own tables,
  which no request fills.\<close>

theorem delegating_service_lists_nothing:
  assumes "\<not> is_memory d"
  shows "Stor_ListVolumes ord pool (stor_run ops (NewServiceWithDriver d)) = []
    \<and> Stor_GetPool name (stor_run ops (NewServiceWithDriver d)) = Err (pool_not_found name)"
proof -
  have "ss_local (stor_run ops (NewServiceWithDriver d)) = empty_store"
    using stor_run_delegates [of "NewServiceWithDriver d" ops] assms by (simp add: NewServiceWithDriver_def)
  moreover have "map_values ks (Map.empty :: string \<Rightarrow> Volume option) = []" for ks
    by (induction ks) simp_all
  ultimately show ?thesis by (simp add: Stor_ListVolumes_def Stor_GetPool_def Mem_ListVolumes_def empty_store_def)
qed

theorem delegating_service_lists_nothing_witness:
  "is_ok (fst (Stor_CreateVolume quiet_stor 5 ''rbd'' ''v'' ''raw'' 4096 (NewServiceWithDriver (Ceph (NewCephDriver [])))))
   \<and> Stor_ListVolumes [''ceph-vol-1''] [] (stor_run [(quiet_stor, SoCreate 5 ''rbd'' ''v'' ''raw'' 4096)]
        (NewServiceWithDriver (Ceph (NewCephDriver [])))) = []"
  using delegating_service_lists_nothing [of "Ceph (NewCephDriver [])" "[''ceph-vol-1'']" "[]"]
  by (simp add: Stor_CreateVolume_def NewServiceWithDriver_def on_driver_def Ceph_CreateVolume_def quiet_stor_def Let_def)

end
