(* ===== verification/Registries.thy ===== *)
theory Registries
  imports Storage_Service
begin

text \<open>
  The registries of virtual machine templates (\<^verbatim>\<open>internal/template/template.go\<close>), of disk images
  (\<^verbatim>\<open>internal/image/image.go\<close>) and of backups (\<^verbatim>\<open>internal/backup/backup.go\<close>).  Each is a table
  filled under identifiers taken from a counter; a backup also creates a volume and a snapshot in
  the storage service.
\<close>

section \<open>Package path/filepath\<close>

fun clean_elems :: "bool \<Rightarrow> string list \<Rightarrow> string list \<Rightarrow> string list" where
  "clean_elems rooted st [] = rev st"
| "clean_elems rooted st (c # cs) =
     (if c = [] \<or> c = ''.'' then clean_elems rooted st cs
      else if c = ''..'' then
        (case st of
           [] \<Rightarrow> clean_elems rooted (if rooted then [] else [''..'']) cs
         | e # rest \<Rightarrow> clean_elems rooted (if e = ''..'' then c # st else rest) cs)
      else clean_elems rooted (c # st) cs)"

definition path_Clean :: "string \<Rightarrow> string" where
  "path_Clean s =
     (let rooted = (s \<noteq> [] \<and> hd s = CHR ''/'');
          body = str_join ''/'' (clean_elems rooted [] (split_char (CHR ''/'') s));
          p = (if rooted then CHR ''/'' # body else body)
      in if p = [] then ''.'' else p)"

definition path_Join :: "string list \<Rightarrow> string" where
  "path_Join es =
     (let ne = filter (\<lambda>e. e \<noteq> []) es in if ne = [] then [] else path_Clean (str_join ''/'' ne))"

section \<open>Templates\<close>

record Template =
  tp_ID :: string
  tp_Name :: string
  tp_Description :: string
  tp_VCPUs :: uint32
  tp_MemoryMB :: uint64
  tp_DiskSizeGB :: uint64
  tp_Backend :: string
  tp_OSType :: string
  tp_CreatedAt :: gotime

record TemplateService =
  tps_templates :: "string \<Rightarrow> Template option"
  tps_nextID :: int32

definition tpl_id :: "int \<Rightarrow> string" where
  "tpl_id n = Sprintf ''tpl-%d'' [FInt n]"

definition NewTemplateService :: "gotime \<Rightarrow> TemplateService" where
  "NewTemplateService now =
     \<lparr>tps_templates =
        [''tpl-1'' \<mapsto> \<lparr>tp_ID = ''tpl-1'', tp_Name = ''linux-small'',
             tp_Description = ''Small Linux VM (1 vCPU, 1GB RAM, 10GB disk)'', tp_VCPUs = 1, tp_MemoryMB = 1024,
             tp_DiskSizeGB = 10, tp_Backend = ''rustvmm'', tp_OSType = ''linux'', tp_CreatedAt = now\<rparr>,
         ''tpl-2'' \<mapsto> \<lparr>tp_ID = ''tpl-2'', tp_Name = ''linux-medium'',
             tp_Description = ''Medium Linux VM (2 vCPU, 4GB RAM, 50GB disk)'', tp_VCPUs = 2, tp_MemoryMB = 4096,
             tp_DiskSizeGB = 50, tp_Backend = ''rustvmm'', tp_OSType = ''linux'', tp_CreatedAt = now\<rparr>,
         ''tpl-3'' \<mapsto> \<lparr>tp_ID = ''tpl-3'', tp_Name = ''windows-standard'',
             tp_Description = ''Standard Windows VM (4 vCPU, 8GB RAM, 100GB disk)'', tp_VCPUs = 4, tp_MemoryMB = 8192,
             tp_DiskSizeGB = 100, tp_Backend = ''qemu'', tp_OSType = ''windows'', tp_CreatedAt = now\<rparr>],
      tps_nextID = 4\<rparr>"

definition Tpl_List :: "string list \<Rightarrow> TemplateService \<Rightarrow> Template list" where
  "Tpl_List ord s = map_values ord (tps_templates s)"

definition template_not_found :: "string \<Rightarrow> go_error" where
  "template_not_found i = Errorf ''template not found: %s'' [FStr i]"

definition Tpl_Get :: "string \<Rightarrow> TemplateService \<Rightarrow> Template result" where
  "Tpl_Get i s = (case tps_templates s i of None \<Rightarrow> Err (template_not_found i) | Some t \<Rightarrow> Ok t)"

definition name_required :: go_error where
  "name_required = Errorf ''name is required'' []"

definition Tpl_Create ::
  "gotime \<Rightarrow> string \<Rightarrow> string \<Rightarrow> uint32 \<Rightarrow> uint64 \<Rightarrow> uint64 \<Rightarrow> string \<Rightarrow> string \<Rightarrow> TemplateService \<Rightarrow> Template result \<times> TemplateService" where
  "Tpl_Create now name description vcpus memoryMB diskGB backend osType s =
     (if name = [] then (Err name_required, s)
      else
        let i = tpl_id (sint (tps_nextID s));
            t = \<lparr>tp_ID = i, tp_Name = name, tp_Description = description, tp_VCPUs = vcpus, tp_MemoryMB = memoryMB,
                 tp_DiskSizeGB = diskGB, tp_Backend = backend, tp_OSType = osType, tp_CreatedAt = now\<rparr>
        in (Ok t, s\<lparr>tps_templates := (tps_templates s)(i \<mapsto> t), tps_nextID := tps_nextID s + 1\<rparr>))"

definition Tpl_Delete :: "string \<Rightarrow> TemplateService \<Rightarrow> unit result \<times> TemplateService" where
  "Tpl_Delete i s =
     (case tps_templates s i of
        None \<Rightarrow> (Err (template_not_found i), s)
      | Some t \<Rightarrow> (Ok (), s\<lparr>tps_templates := (tps_templates s)(i := None)\<rparr>))"

section \<open>Images\<close>

record Image =
  im_ID :: string
  im_Name :: string
  im_Format :: string
  im_SizeBytes :: uint64
  im_Path :: string
  im_OSType :: string
  im_CreatedAt :: int

record ImageService =
  ims_images :: "string \<Rightarrow> Image option"
  ims_nextID :: int32
  ims_storeDir :: string

definition img_id :: "int \<Rightarrow> string" where
  "img_id n = Sprintf ''img-%d'' [FInt n]"

definition NewImageService :: "int \<Rightarrow> string \<Rightarrow> ImageService" where
  "NewImageService now storeDir =
     \<lparr>ims_images =
        [''img-1'' \<mapsto> \<lparr>im_ID = ''img-1'', im_Name = ''ubuntu-24.04'', im_Format = ''qcow2'', im_SizeBytes = 2147483648,
             im_Path = path_Join [storeDir, ''ubuntu-24.04.qcow2''], im_OSType = ''linux'', im_CreatedAt = now\<rparr>,
         ''img-2'' \<mapsto> \<lparr>im_ID = ''img-2'', im_Name = ''debian-12'', im_Format = ''qcow2'', im_SizeBytes = 1073741824,
             im_Path = path_Join [storeDir, ''debian-12.qcow2''], im_OSType = ''linux'', im_CreatedAt = now\<rparr>,
         ''img-3'' \<mapsto> \<lparr>im_ID = ''img-3'', im_Name = ''windows-server-2025'', im_Format = ''iso'', im_SizeBytes = 5368709120,
             im_Path = path_Join [storeDir, ''win2025.iso''], im_OSType = ''windows'', im_CreatedAt = now\<rparr>],
      ims_nextID = 4, ims_storeDir = storeDir\<rparr>"

definition Img_List :: "string list \<Rightarrow> ImageService \<Rightarrow> Image list" where
  "Img_List ord s = map_values ord (ims_images s)"

definition image_not_found :: "string \<Rightarrow> go_error" where
  "image_not_found i = Errorf ''image not found: %s'' [FStr i]"

definition Img_Get :: "string \<Rightarrow> ImageService \<Rightarrow> Image result" where
  "Img_Get i s = (case ims_images s i of None \<Rightarrow> Err (image_not_found i) | Some img \<Rightarrow> Ok img)"

text \<open>\<open>stat path\<close> is the size \<open>os.Stat\<close> reports, \<^const>\<open>None\<close> when it fails.\<close>

definition Img_Register ::
  "(string \<Rightarrow> int64 option) \<Rightarrow> int \<Rightarrow> string \<Rightarrow> string \<Rightarrow> string \<Rightarrow> string \<Rightarrow> ImageService \<Rightarrow> Image result \<times> ImageService" where
  "Img_Register stat now name format path osType s =
     (if name = [] then (Err name_required, s)
      else if format = [] then (Err (Errorf ''format is required'' []), s)
      else
        let size = (case stat path of Some n \<Rightarrow> n | None \<Rightarrow> 0);
            i = img_id (sint (ims_nextID s));
            img = \<lparr>im_ID = i, im_Name = name, im_Format = format, im_SizeBytes = size, im_Path = path,
                   im_OSType = osType, im_CreatedAt = now\<rparr>
        in (Ok img, s\<lparr>ims_images := (ims_images s)(i \<mapsto> img), ims_nextID := ims_nextID s + 1\<rparr>))"

definition Img_Delete :: "string \<Rightarrow> ImageService \<Rightarrow> unit result \<times> ImageService" where
  "Img_Delete i s =
     (case ims_images s i of
        None \<Rightarrow> (Err (image_not_found i), s)
      | Some img \<Rightarrow> (Ok (), s\<lparr>ims_images := (ims_images s)(i := None)\<rparr>))"

section \<open>Backups\<close>

record BackupInfo =
  bk_ID :: string
  bk_VMID :: int32
  bk_VMName :: string
  bk_SnapshotID :: string
  bk_Status :: string
  bk_CreatedAt :: int
  bk_SizeBytes :: uint64
  bk_StoragePool :: string

record BackupService =
  bks_backups :: "string \<Rightarrow> BackupInfo option"
  bks_nextID :: int32
  bks_storage :: StorageService

definition NewBackupService :: "StorageService \<Rightarrow> BackupService" where
  "NewBackupService st = \<lparr>bks_backups = Map.empty, bks_nextID = 1, bks_storage = st\<rparr>"

definition backup_id :: "int \<Rightarrow> string" where
  "backup_id n = Sprintf ''backup-%d'' [FInt n]"

definition CreateBackup ::
  "stor_env \<Rightarrow> int \<Rightarrow> int32 \<Rightarrow> string \<Rightarrow> string \<Rightarrow> BackupService \<Rightarrow> BackupInfo result \<times> BackupService" where
  "CreateBackup env now vmID vmName pool s =
     (let i = backup_id (sint (bks_nextID s));
          s1 = s\<lparr>bks_nextID := bks_nextID s + 1\<rparr>;
          volName = Sprintf ''backup-%s-%d'' [FStr vmName, FInt now]
      in case Stor_CreateVolume env now pool volName ''raw'' 1073741824 (bks_storage s1) of
           (Inl err, st) \<Rightarrow> (Err (Errorf ''failed to create backup volume: %w'' [FErr err]), s1\<lparr>bks_storage := st\<rparr>)
         | (Inr vol, st) \<Rightarrow>
             (case Stor_CreateSnapshot env now (vo_ID vol) (Sprintf ''snap-%s'' [FStr i]) st of
                (Inl err, st1) \<Rightarrow> (Err (Errorf ''failed to create backup snapshot: %w'' [FErr err]), s1\<lparr>bks_storage := st1\<rparr>)
              | (Inr snap, st1) \<Rightarrow>
                  let backup = \<lparr>bk_ID = i, bk_VMID = vmID, bk_VMName = vmName, bk_SnapshotID = sn_ID snap,
                                bk_Status = ''completed'', bk_CreatedAt = now, bk_SizeBytes = vo_SizeBytes vol, bk_StoragePool = pool\<rparr>
                  in (Ok backup, s1\<lparr>bks_storage := st1, bks_backups := (bks_backups s1)(i \<mapsto> backup)\<rparr>)))"

definition ListBackups :: "string list \<Rightarrow> BackupService \<Rightarrow> BackupInfo list" where
  "ListBackups ord s = map_values ord (bks_backups s)"

definition backup_not_found :: "string \<Rightarrow> go_error" where
  "backup_not_found i = Errorf ''backup not found: %s'' [FStr i]"

definition GetBackup :: "string \<Rightarrow> BackupService \<Rightarrow> BackupInfo result" where
  "GetBackup i s = (case bks_backups s i of None \<Rightarrow> Err (backup_not_found i) | Some b \<Rightarrow> Ok b)"

definition DeleteBackup :: "string \<Rightarrow> BackupService \<Rightarrow> unit result \<times> BackupService" where
  "DeleteBackup i s =
     (case bks_backups s i of
        None \<Rightarrow> (Err (backup_not_found i), s)
      | Some b \<Rightarrow> (Ok (), s\<lparr>bks_backups := (bks_backups s)(i := None)\<rparr>))"

section \<open>The registries as registries\<close>

lemma registry_ids [simp]:
  "tpl_id n = ''tpl-'' @ show_int n" "img_id n = ''img-'' @ show_int n" "backup_id n = ''backup-'' @ show_int n"
  by (simp_all add: tpl_id_def img_id_def backup_id_def Sprintf_def)

definition tpl_created :: "TemplateService \<Rightarrow> string \<Rightarrow> Template \<Rightarrow> TemplateService \<Rightarrow> bool" where
  "tpl_created s i t s' \<longleftrightarrow> sint (tps_nextID s) < 2147483647 \<and> i = tp_ID t \<and>
     (\<exists>now name d v m g b os. Tpl_Create now name d v m g b os s = (Ok t, s'))"

definition tpl_removed :: "TemplateService \<Rightarrow> string \<Rightarrow> TemplateService \<Rightarrow> bool" where
  "tpl_removed s i s' \<longleftrightarrow> Tpl_Delete i s = (Ok (), s')"

interpretation templates: id_registry tps_templates "\<lambda>s. sint (tps_nextID s)" tpl_id tpl_created tpl_removed "\<lambda>s s'. s' = s"
proof unfold_locales
  show "inj tpl_id" by (auto simp: inj_def)
qed (auto simp: tpl_created_def tpl_removed_def Tpl_Create_def Tpl_Delete_def Let_def sint_add_one
    split: if_split_asm option.split_asm)

definition img_created :: "ImageService \<Rightarrow> string \<Rightarrow> Image \<Rightarrow> ImageService \<Rightarrow> bool" where
  "img_created s i t s' \<longleftrightarrow> sint (ims_nextID s) < 2147483647 \<and> i = im_ID t \<and>
     (\<exists>stat now name f p os. Img_Register stat now name f p os s = (Ok t, s'))"

definition img_removed :: "ImageService \<Rightarrow> string \<Rightarrow> ImageService \<Rightarrow> bool" where
  "img_removed s i s' \<longleftrightarrow> Img_Delete i s = (Ok (), s')"

interpretation images: id_registry ims_images "\<lambda>s. sint (ims_nextID s)" img_id img_created img_removed "\<lambda>s s'. s' = s"
proof unfold_locales
  show "inj img_id" by (auto simp: inj_def)
qed (auto simp: img_created_def img_removed_def Img_Register_def Img_Delete_def Let_def sint_add_one
    split: if_split_asm option.split_asm)

definition bk_created :: "BackupService \<Rightarrow> string \<Rightarrow> BackupInfo \<Rightarrow> BackupService \<Rightarrow> bool" where
  "bk_created s i b s' \<longleftrightarrow> sint (bks_nextID s) < 2147483647 \<and> i = bk_ID b \<and>
     (\<exists>env now vm name pool. CreateBackup env now vm name pool s = (Ok b, s'))"

definition bk_removed :: "BackupService \<Rightarrow> string \<Rightarrow> BackupService \<Rightarrow> bool" where
  "bk_removed s i s' \<longleftrightarrow> DeleteBackup i s = (Ok (), s')"

text \<open>A creation that fails uses up an identifier.\<close>

definition bk_touched :: "BackupService \<Rightarrow> BackupService \<Rightarrow> bool" where
  "bk_touched s s' \<longleftrightarrow> sint (bks_nextID s) < 2147483647 \<and>
     (\<exists>env now vm name pool e. CreateBackup env now vm name pool s = (Err e, s'))"

lemma CreateBackup_ok:
  assumes "CreateBackup env now vm name pool s = (Ok b, s')"
  shows "bk_ID b = backup_id (sint (bks_nextID s))" "bks_backups s' = (bks_backups s)(bk_ID b \<mapsto> b)" "bks_nextID s' = bks_nextID s + 1"
  using assms by (auto simp: CreateBackup_def Let_def split: prod.splits sum.splits)

lemma CreateBackup_err:
  assumes "CreateBackup env now vm name pool s = (Err e, s')"
  shows "bks_backups s' = bks_backups s" "bks_nextID s' = bks_nextID s + 1"
  using assms by (auto simp: CreateBackup_def Let_def split: prod.splits sum.splits)

interpretation backups: id_registry bks_backups "\<lambda>s. sint (bks_nextID s)" backup_id bk_created bk_removed bk_touched
proof unfold_locales
  show "inj backup_id" by (auto simp: inj_def)
qed (auto simp: bk_created_def bk_removed_def bk_touched_def DeleteBackup_def sint_add_one CreateBackup_ok CreateBackup_err
    split: option.split_asm)

text \<open>So what was deleted is never found again under its identifier.\<close>

lemma deleted_template_gone:
  assumes "ids_below tpl_id (tps_templates s) (sint (tps_nextID s))" "Tpl_Delete i s = (Ok (), s1)" "templates.step\<^sup>*\<^sup>* s1 s2"
  shows "Tpl_Get i s2 = Err (template_not_found i)"
  using templates.removed_stays_gone [OF assms(1) _ assms(3)] assms(2) by (simp add: tpl_removed_def Tpl_Get_def)

lemma deleted_image_gone:
  assumes "ids_below img_id (ims_images s) (sint (ims_nextID s))" "Img_Delete i s = (Ok (), s1)" "images.step\<^sup>*\<^sup>* s1 s2"
  shows "Img_Get i s2 = Err (image_not_found i)"
  using images.removed_stays_gone [OF assms(1) _ assms(3)] assms(2) by (simp add: img_removed_def Img_Get_def)

lemma deleted_backup_gone:
  assumes "ids_below backup_id (bks_backups s) (sint (bks_nextID s))" "DeleteBackup i s = (Ok (), s1)" "backups.step\<^sup>*\<^sup>* s1 s2"
  shows "GetBackup i s2 = Err (backup_not_found i)"
  using backups.removed_stays_gone [OF assms(1) _ assms(3)] assms(2) by (simp add: bk_removed_def GetBackup_def)

text \<open>The default entries lie below the first identifier the counter gives.\<close>

lemma default_ids_below:
  "ids_below tpl_id (tps_templates (NewTemplateService now)) (sint (tps_nextID (NewTemplateService now)))"
  "ids_below img_id (ims_images (NewImageService tm dir)) (sint (ims_nextID (NewImageService tm dir)))"
proof -
  have "''1'' = show_int 1" "''2'' = show_int 2" "''3'' = show_int 3" by (simp_all add: show_int_def show_nat.simps)
  then have eqs: "show_int k = ''1'' \<longleftrightarrow> k = 1" "show_int k = ''2'' \<longleftrightarrow> k = 2" "show_int k = ''3'' \<longleftrightarrow> k = 3" for k
    by (simp_all only: show_int_inj)
  show "ids_below tpl_id (tps_templates (NewTemplateService now)) (sint (tps_nextID (NewTemplateService now)))"
    by (auto simp: ids_below_def NewTemplateService_def eqs)
  show "ids_below img_id (ims_images (NewImageService tm dir)) (sint (ims_nextID (NewImageService tm dir)))"
    by (auto simp: ids_below_def NewImageService_def eqs)
qed

section \<open>Space used by backups\<close>

datatype bk_op =
    BkCreate int int32 string string
  | BkDelete string

fun bk_exec :: "stor_env \<Rightarrow> bk_op \<Rightarrow> BackupService \<Rightarrow> BackupInfo option \<times> BackupService" where
  "bk_exec env (BkCreate now vm name pool) s = map_prod result_value id (CreateBackup env now vm name pool s)"
| "bk_exec env (BkDelete i) s = (None, snd (DeleteBackup i s))"

fun bk_run :: "stor_env \<Rightarrow> bk_op list \<Rightarrow> BackupService \<Rightarrow> BackupInfo list \<times> BackupService" where
  "bk_run env [] s = ([], s)"
| "bk_run env (op # ops) s =
     (case bk_exec env op s of
        (b, s1) \<Rightarrow> (case bk_run env ops s1 of (bs, s2) \<Rightarrow> (case b of None \<Rightarrow> bs | Some x \<Rightarrow> x # bs, s2)))"

definition pool_used :: "string \<Rightarrow> BackupService \<Rightarrow> uint64 option" where
  "pool_used pool s = map_option po_UsedBytes (st_pools (ss_local (bks_storage s)) pool)"

definition memory_backed :: "BackupService \<Rightarrow> bool" where
  "memory_backed s \<longleftrightarrow> is_memory (ss_driver (bks_storage s))"

lemma CreateBackup_memory:
  assumes "memory_backed s"
  shows "memory_backed (snd (CreateBackup env now vm name pool s))
    \<and> (is_ok (fst (CreateBackup env now vm name pool s)) \<longleftrightarrow> pool_used pool s \<noteq> None)
    \<and> (\<forall>b. fst (CreateBackup env now vm name pool s) = Ok b \<longrightarrow> bk_StoragePool b = pool)
    \<and> pool_used q (snd (CreateBackup env now vm name pool s)) =
        map_option (\<lambda>u. if q = pool then u + 1073741824 else u) (pool_used q s)"
  using assms
  by (cases "q = pool") (auto simp: memory_backed_def CreateBackup_def Stor_CreateVolume_def Stor_CreateSnapshot_def on_local_def Mem_CreateVolume_def
      Mem_CreateSnapshot_def Let_def pool_used_def upd_used_def put_volume_def option.map_comp comp_def
      cong: option.map_cong split: option.splits)

lemma DeleteBackup_storage: "bks_storage (snd (DeleteBackup i s)) = bks_storage s"
  by (simp add: DeleteBackup_def split: option.split)

lemma bk_run_used:
  assumes "memory_backed s" "pool_used q s = Some u"
  shows "pool_used q (snd (bk_run env ops s)) = Some (u + of_nat (length (filter (\<lambda>b. bk_StoragePool b = q) (fst (bk_run env ops s)))) * 1073741824)"
  using assms
proof (induction ops arbitrary: s u)
  case (Cons op ops)
  show ?case
  proof (cases op)
    case (BkCreate now vm name pool)
    note c = CreateBackup_memory [OF Cons.prems(1), of env now vm name pool]
    obtain r s1 where e: "CreateBackup env now vm name pool s = (r, s1)" by (metis prod.exhaust)
    show ?thesis
    proof (cases r)
      case (Inl err)
      then have "q \<noteq> pool" using c Cons.prems(2) e by auto
      then have "pool_used q s1 = Some u" using c [of q] Cons.prems(2) e by simp
      then show ?thesis using Cons.IH [of s1 u] c e Inl by (simp add: BkCreate case_prod_unfold)
    next
      case (Inr b)
      then have "pool_used q s1 = Some (if q = pool then u + 1073741824 else u)" using c [of q] Cons.prems(2) e by simp
      then show ?thesis using Cons.IH [of s1 "if q = pool then u + 1073741824 else u"] c e Inr
        by (auto simp: BkCreate case_prod_unfold algebra_simps)
    qed
  next
    case (BkDelete i)
    have "memory_backed (snd (DeleteBackup i s))" "pool_used q (snd (DeleteBackup i s)) = Some u"
      using Cons.prems by (simp_all add: memory_backed_def pool_used_def DeleteBackup_storage)
    from Cons.IH [OF this] show ?thesis by (simp add: BkDelete case_prod_unfold)
  qed
qed simp

text \<open>With the memory driver, along every sequence of backup creations and deletions the used
  bytes of a pool grow by one gibibyte, modulo the 64-bit width, for every backup created in it;
  deleting backups gives nothing back.\<close>

theorem backups_consume_space:
  assumes "is_memory (ss_driver (bks_storage s))" "st_pools (ss_local (bks_storage s)) q = Some p"
  shows "\<exists>p'. st_pools (ss_local (bks_storage (snd (bk_run env ops s)))) q = Some p'
    \<and> po_UsedBytes p' = po_UsedBytes p + of_nat (length (filter (\<lambda>b. bk_StoragePool b = q) (fst (bk_run env ops s)))) * 1073741824"
  using bk_run_used [of s q "po_UsedBytes p" env ops] assms by (auto simp: memory_backed_def pool_used_def)

theorem backups_consume_space_witness:
  "\<exists>p'. st_pools (ss_local (bks_storage (snd (bk_run quiet_stor [BkCreate 5 1 ''vm'' ''local-zfs'', BkDelete ''backup-1'', BkCreate 6 1 ''vm'' ''nope''] (NewBackupService NewStorageService))))) ''local-zfs'' = Some p'
    \<and> po_UsedBytes p' = po_UsedBytes (the (st_pools (ss_local NewStorageService) ''local-zfs'')) + 1073741824"
proof -
  obtain p where p: "st_pools (ss_local NewStorageService) ''local-zfs'' = Some p"
    by (simp add: NewStorageService_def NewServiceWithDriver_def empty_store_def default_pools_def)
  have "map bk_StoragePool (fst (bk_run quiet_stor [BkCreate 5 1 ''vm'' ''local-zfs'', BkDelete ''backup-1'', BkCreate 6 1 ''vm'' ''nope''] (NewBackupService NewStorageService))) = [''local-zfs'']"
    by (simp add: NewBackupService_def NewStorageService_def NewServiceWithDriver_def empty_store_def default_pools_def CreateBackup_def Stor_CreateVolume_def
        Stor_CreateSnapshot_def on_local_def Mem_CreateVolume_def Mem_CreateSnapshot_def upd_used_def put_volume_def Let_def DeleteBackup_def show_int_def show_nat.simps)
  then have "length (filter (\<lambda>x. x = ''local-zfs'') (map bk_StoragePool (fst (bk_run quiet_stor [BkCreate 5 1 ''vm'' ''local-zfs'', BkDelete ''backup-1'', BkCreate 6 1 ''vm'' ''nope''] (NewBackupService NewStorageService))))) = 1"
    by (simp only: filter.simps if_True list.size One_nat_def refl)
  then have "length (filter (\<lambda>b. bk_StoragePool b = ''local-zfs'') (fst (bk_run quiet_stor [BkCreate 5 1 ''vm'' ''local-zfs'', BkDelete ''backup-1'', BkCreate 6 1 ''vm'' ''nope''] (NewBackupService NewStorageService)))) = 1"
    by (simp only: filter_map length_map comp_def)
  with backups_consume_space [of "NewBackupService NewStorageService" "''local-zfs''" p quiet_stor
      "[BkCreate 5 1 ''vm'' ''local-zfs'', BkDelete ''backup-1'', BkCreate 6 1 ''vm'' ''nope'']"] p
  show ?thesis by (simp add: NewBackupService_def NewStorageService_def NewServiceWithDriver_def)
qed

end
