(* ===== verification/Vm_Snapshot.thy ===== *)
theory Vm_Snapshot
  imports Store
begin

text \<open>
  Snapshots of virtual machines: \<^verbatim>\<open>Service\<close> of \<^verbatim>\<open>internal/snapshot/snapshot.go\<close> and
  \<^verbatim>\<open>PersistentSnapshotService\<close> of \<^verbatim>\<open>internal/snapshot/persistent.go\<close>, which writes every
  change to a key-value store.  The storage provider behind the service is an optional parameter
  (the repository has no implementation of that interface); the store is used through its operations and
  the JSON codec is a parameter.
\<close>

section \<open>The service\<close>

record VMSnapshot =
  sp_ID :: string
  sp_VMID :: int32
  sp_VMName :: string
  sp_State :: string
  sp_CreatedAt :: int
  sp_SizeBytes :: uint64
  sp_StorageSnapshotID :: string
  sp_VolumeID :: string

record 'p snap_provider =
  pv_Create :: "string \<Rightarrow> string \<Rightarrow> 'p \<Rightarrow> string result \<times> 'p"
  pv_Rollback :: "string \<Rightarrow> 'p \<Rightarrow> unit result \<times> 'p"

record SnapshotService =
  sps_snapshots :: "string \<Rightarrow> VMSnapshot option"
  sps_nextID :: int32

definition NewSnapshotService :: SnapshotService where
  "NewSnapshotService = \<lparr>sps_snapshots = Map.empty, sps_nextID = 1\<rparr>"

definition vmsnap_id :: "int \<Rightarrow> string" where
  "vmsnap_id n = Sprintf ''snap-%d'' [FInt n]"

definition vm_name_required :: go_error where
  "vm_name_required = Errorf ''vm_name is required'' []"

definition Snap_Create ::
  "'p snap_provider option \<Rightarrow> int \<Rightarrow> int32 \<Rightarrow> string \<Rightarrow> SnapshotService \<times> 'p \<Rightarrow> VMSnapshot result \<times> SnapshotService \<times> 'p" where
  "Snap_Create prov now vmID vmName = (\<lambda>(s, p).
     if vmName = [] then (Err vm_name_required, s, p)
     else
       let i = vmsnap_id (sint (sps_nextID s));
           snap = \<lparr>sp_ID = i, sp_VMID = vmID, sp_VMName = vmName, sp_State = ''created'', sp_CreatedAt = now,
                   sp_SizeBytes = 1073741824, sp_StorageSnapshotID = [], sp_VolumeID = []\<rparr>;
           (snap1, p1) =
             (case prov of
                None \<Rightarrow> (snap, p)
              | Some v \<Rightarrow>
                  (case pv_Create v [] (Sprintf ''vm-%d-%s'' [FInt (sint vmID), FStr i]) p of
                     (Inl err, p') \<Rightarrow> (snap, p')
                   | (Inr storageSnapID, p') \<Rightarrow> (snap\<lparr>sp_StorageSnapshotID := storageSnapID\<rparr>, p')))
       in (Ok snap1, s\<lparr>sps_snapshots := (sps_snapshots s)(i \<mapsto> snap1), sps_nextID := sps_nextID s + 1\<rparr>, p1))"

definition Snap_CreateWithVolume ::
  "'p snap_provider option \<Rightarrow> int \<Rightarrow> int32 \<Rightarrow> string \<Rightarrow> string \<Rightarrow> SnapshotService \<times> 'p \<Rightarrow> VMSnapshot result \<times> SnapshotService \<times> 'p" where
  "Snap_CreateWithVolume prov now vmID vmName volumeID = (\<lambda>(s, p).
     if vmName = [] then (Err vm_name_required, s, p)
     else
       let i = vmsnap_id (sint (sps_nextID s));
           snap = \<lparr>sp_ID = i, sp_VMID = vmID, sp_VMName = vmName, sp_State = ''created'', sp_CreatedAt = now,
                   sp_SizeBytes = 1073741824, sp_StorageSnapshotID = [], sp_VolumeID = volumeID\<rparr>;
           (snap1, p1) =
             (case prov of
                None \<Rightarrow> (snap, p)
              | Some v \<Rightarrow>
                  (if volumeID = [] then (snap, p)
                   else case pv_Create v volumeID (Sprintf ''vm-%d-%s'' [FInt (sint vmID), FStr i]) p of
                          (Inl err, p') \<Rightarrow> (snap, p')
                        | (Inr storageSnapID, p') \<Rightarrow> (snap\<lparr>sp_StorageSnapshotID := storageSnapID\<rparr>, p')))
       in (Ok snap1, s\<lparr>sps_snapshots := (sps_snapshots s)(i \<mapsto> snap1), sps_nextID := sps_nextID s + 1\<rparr>, p1))"

definition Snap_List :: "string list \<Rightarrow> int32 \<Rightarrow> SnapshotService \<Rightarrow> VMSnapshot list" where
  "Snap_List ord vmID s = filter (\<lambda>sn. vmID = 0 \<or> sp_VMID sn = vmID) (map_values ord (sps_snapshots s))"

definition vmsnap_not_found :: "string \<Rightarrow> go_error" where
  "vmsnap_not_found i = Errorf ''snapshot not found: %s'' [FStr i]"

definition Snap_Get :: "string \<Rightarrow> SnapshotService \<Rightarrow> VMSnapshot result" where
  "Snap_Get i s = (case sps_snapshots s i of None \<Rightarrow> Err (vmsnap_not_found i) | Some sn \<Rightarrow> Ok sn)"

definition Snap_Delete :: "string \<Rightarrow> SnapshotService \<Rightarrow> unit result \<times> SnapshotService" where
  "Snap_Delete i s =
     (case sps_snapshots s i of
        None \<Rightarrow> (Err (vmsnap_not_found i), s)
      | Some sn \<Rightarrow> (Ok (), s\<lparr>sps_snapshots := (sps_snapshots s)(i := None)\<rparr>))"

definition Snap_Restore ::
  "'p snap_provider option \<Rightarrow> string \<Rightarrow> SnapshotService \<times> 'p \<Rightarrow> VMSnapshot result \<times> SnapshotService \<times> 'p" where
  "Snap_Restore prov i = (\<lambda>(s, p).
     case sps_snapshots s i of
       None \<Rightarrow> (Err (vmsnap_not_found i), s, p)
     | Some sn \<Rightarrow>
         let p1 = (case prov of
                     None \<Rightarrow> p
                   | Some v \<Rightarrow> if sp_StorageSnapshotID sn \<noteq> [] then snd (pv_Rollback v (sp_StorageSnapshotID sn) p) else p);
             sn1 = sn\<lparr>sp_State := ''restoring''\<rparr>
         in (Ok sn1, s\<lparr>sps_snapshots := (sps_snapshots s)(i \<mapsto> sn1)\<rparr>, p1))"

section \<open>The persistent service\<close>

definition snapshotStoreKey :: "string \<Rightarrow> string" where
  "snapshotStoreKey i = Sprintf ''snapshots/%s'' [FStr i]"

type_synonym 'p snap_state = "SnapshotService \<times> 'p"

definition PSnap_Create where
  "PSnap_Create put enc prov now vmID vmName = (\<lambda>(sp, st).
     case Snap_Create prov now vmID vmName sp of
       (Inl err, sp') \<Rightarrow> (Err err, sp', st)
     | (Inr snap, sp') \<Rightarrow> (Ok snap, sp', snd (put (snapshotStoreKey (sp_ID snap)) (enc snap) st)))"

definition PSnap_List :: "string list \<Rightarrow> int32 \<Rightarrow> 'p snap_state \<times> 's \<Rightarrow> VMSnapshot list" where
  "PSnap_List ord vmID = (\<lambda>((s, p), st). Snap_List ord vmID s)"

definition PSnap_Get :: "string \<Rightarrow> 'p snap_state \<times> 's \<Rightarrow> VMSnapshot result" where
  "PSnap_Get i = (\<lambda>((s, p), st). Snap_Get i s)"

definition PSnap_Delete where
  "PSnap_Delete delete i = (\<lambda>((s, p), st).
     case Snap_Delete i s of
       (Inl err, s') \<Rightarrow> (Err err, (s', p), st)
     | (Inr u, s') \<Rightarrow> (Ok (), (s', p), snd (delete (snapshotStoreKey i) st)))"

definition PSnap_Restore where
  "PSnap_Restore put enc prov i = (\<lambda>(sp, st).
     case Snap_Restore prov i sp of
       (Inl err, sp') \<Rightarrow> (Err err, sp', st)
     | (Inr snap, sp') \<Rightarrow> (Ok snap, sp', snd (put (snapshotStoreKey (sp_ID snap)) (enc snap) st)))"

fun load_snaps ::
  "(string \<Rightarrow> VMSnapshot result) \<Rightarrow> (string \<times> string) list \<Rightarrow> (string \<Rightarrow> VMSnapshot option) \<Rightarrow> (string \<Rightarrow> VMSnapshot option)" where
  "load_snaps dec [] m = m"
| "load_snaps dec ((key, data) # kvs) m =
     (case dec data of Inl err \<Rightarrow> load_snaps dec kvs m | Inr sn \<Rightarrow> load_snaps dec kvs (m(sp_ID sn \<mapsto> sn)))"

definition PSnap_LoadFromStore where
  "PSnap_LoadFromStore list dec ord = (\<lambda>((s, p), st).
     case list ord ''snapshots/'' st of
       (Inl err, st') \<Rightarrow> (Err (Errorf ''persistent snapshot: list stored snapshots: %w'' [FErr err]), (s, p), st')
     | (Inr kvs, st') \<Rightarrow>
         (if kvs = [] then (Ok (), (s, p), st')
          else (Ok (), (s\<lparr>sps_snapshots := load_snaps dec kvs (sps_snapshots s)\<rparr>, p), st')))"

section \<open>Identifiers\<close>

lemma vmsnap_id_eq [simp]: "vmsnap_id n = ''snap-'' @ show_int n"
  by (simp add: vmsnap_id_def Sprintf_def)

lemma snapshotStoreKey_eq: "snapshotStoreKey i = ''snapshots/'' @ i"
  by (simp add: snapshotStoreKey_def Sprintf_def)

lemma snapshotStoreKey_inj [simp]: "snapshotStoreKey i = snapshotStoreKey j \<longleftrightarrow> i = j"
  by (simp add: snapshotStoreKey_eq)

lemma snapshotStoreKey_prefix: "HasPrefix k ''snapshots/'' \<longleftrightarrow> (\<exists>i. k = snapshotStoreKey i)"
  unfolding HasPrefix_iff snapshotStoreKey_eq by (rule refl)

lemma Snap_Create_ok:
  assumes "Snap_Create prov now vm name (s, p) = (Ok sn, s', p')"
  shows "sp_ID sn = vmsnap_id (sint (sps_nextID s))" "sps_snapshots s' = (sps_snapshots s)(sp_ID sn \<mapsto> sn)" "sps_nextID s' = sps_nextID s + 1"
  using assms by (auto simp: Snap_Create_def Let_def split: if_splits option.splits prod.splits sum.splits)

lemma Snap_CreateWithVolume_ok:
  assumes "Snap_CreateWithVolume prov now vm name vol (s, p) = (Ok sn, s', p')"
  shows "sp_ID sn = vmsnap_id (sint (sps_nextID s))" "sps_snapshots s' = (sps_snapshots s)(sp_ID sn \<mapsto> sn)" "sps_nextID s' = sps_nextID s + 1"
  using assms by (auto simp: Snap_CreateWithVolume_def Let_def split: if_splits option.splits prod.splits sum.splits)

lemma Snap_Create_err: "Snap_Create prov now vm name (s, p) = (Err e, s', p') \<Longrightarrow> s' = s"
  by (auto simp: Snap_Create_def Let_def split: if_splits option.splits prod.splits sum.splits)

definition vmsnap_created :: "SnapshotService \<Rightarrow> string \<Rightarrow> VMSnapshot \<Rightarrow> SnapshotService \<Rightarrow> bool" where
  "vmsnap_created s i sn s' \<longleftrightarrow> sint (sps_nextID s) < 2147483647 \<and> i = sp_ID sn \<and>
     (\<exists>(prov :: unit snap_provider option) now vm name vol p p'. Snap_Create prov now vm name (s, p) = (Ok sn, s', p')
        \<or> Snap_CreateWithVolume prov now vm name vol (s, p) = (Ok sn, s', p'))"

definition vmsnap_removed :: "SnapshotService \<Rightarrow> string \<Rightarrow> SnapshotService \<Rightarrow> bool" where
  "vmsnap_removed s i s' \<longleftrightarrow> Snap_Delete i s = (Ok (), s')"

definition vmsnap_touched :: "SnapshotService \<Rightarrow> SnapshotService \<Rightarrow> bool" where
  "vmsnap_touched s s' \<longleftrightarrow> (\<exists>(prov :: unit snap_provider option) i p r p'. Snap_Restore prov i (s, p) = (r, s', p'))"

interpretation vmsnaps: id_registry sps_snapshots "\<lambda>s. sint (sps_nextID s)" vmsnap_id vmsnap_created vmsnap_removed vmsnap_touched
proof unfold_locales
  show "inj vmsnap_id" by (auto simp: inj_def)
qed (auto simp: vmsnap_created_def vmsnap_removed_def vmsnap_touched_def Snap_Delete_def Snap_Restore_def Let_def sint_add_one
    Snap_Create_ok Snap_CreateWithVolume_ok split: option.split_asm if_split_asm)

section \<open>The store mirrors the snapshots\<close>

definition snap_stored :: "(VMSnapshot \<Rightarrow> string) \<Rightarrow> SnapshotService \<Rightarrow> (string \<Rightarrow> string option) \<Rightarrow> bool" where
  "snap_stored js s m \<longleftrightarrow> (\<forall>i. m (snapshotStoreKey i) = map_option js (sps_snapshots s i))
     \<and> (\<forall>i sn. sps_snapshots s i = Some sn \<longrightarrow> sp_ID sn = i)"

lemma snap_stored_put:
  assumes "snap_stored js s m" "sps_snapshots s' = (sps_snapshots s)(sp_ID sn \<mapsto> sn)"
  shows "snap_stored js s' (m(snapshotStoreKey (sp_ID sn) \<mapsto> js sn))"
  using assms by (auto simp: snap_stored_def split: if_splits)

context kv_store
begin

lemma psnap_create_stored:
  assumes "snap_stored js s (kv st)" "PSnap_Create put (\<lambda>sn. Ok (js sn)) prov now vm name ((s, p), st) = (r, (s', p'), st')"
    and up: "\<And>k x. is_ok (fst (put k (Ok x) st))"
  shows "snap_stored js s' (kv st')"
proof -
  obtain r0 s0 p0 where c: "Snap_Create prov now vm name (s, p) = (r0, s0, p0)" by (metis prod.exhaust)
  show ?thesis
  proof (cases r0)
    case (Inl e)
    then show ?thesis using assms(1,2) c Snap_Create_err [of prov now vm name s p e s0 p0] by (simp add: PSnap_Create_def)
  next
    case (Inr sn)
    note u = up [of "snapshotStoreKey (sp_ID sn)" "js sn"]
    show ?thesis
      using Inr assms(2) c u snap_stored_put [OF assms(1) Snap_Create_ok(2) [of prov now vm name s p sn s0 p0]]
        put_kv [of "snapshotStoreKey (sp_ID sn)" "Ok (js sn)" st]
      by (auto simp: PSnap_Create_def is_ok_iff)
  qed
qed

lemma psnap_restore_stored:
  assumes "snap_stored js s (kv st)" "PSnap_Restore put (\<lambda>sn. Ok (js sn)) prov i ((s, p), st) = (r, (s', p'), st')"
    and up: "\<And>k x. is_ok (fst (put k (Ok x) st))"
  shows "snap_stored js s' (kv st')"
proof (cases "sps_snapshots s i")
  case (Some sn)
  then have i: "sp_ID sn = i" using assms(1) by (simp add: snap_stored_def)
  note u = up [of "snapshotStoreKey i" "js (sn\<lparr>sp_State := ''restoring''\<rparr>)"]
  show ?thesis
    using Some assms(2) u i snap_stored_put [OF assms(1), of s' "sn\<lparr>sp_State := ''restoring''\<rparr>"]
      put_kv [of "snapshotStoreKey i" "Ok (js (sn\<lparr>sp_State := ''restoring''\<rparr>))" st]
    by (auto simp: PSnap_Restore_def Snap_Restore_def is_ok_iff Let_def)
qed (use assms in \<open>auto simp: PSnap_Restore_def Snap_Restore_def\<close>)

lemma psnap_delete_stored:
  assumes "snap_stored js s (kv st)" "PSnap_Delete delete i ((s, p), st) = (r, (s', p'), st')"
    and up: "\<And>k. is_ok (fst (delete k st))"
  shows "snap_stored js s' (kv st')"
proof (cases "sps_snapshots s i")
  case (Some sn)
  obtain u st1 where d: "delete (snapshotStoreKey i) st = (Ok u, st1)" using up [of "snapshotStoreKey i"] by (metis is_ok_iff prod.collapse)
  show ?thesis
    using Some assms(1,2) d delete_ok [OF d]
    by (auto simp: PSnap_Delete_def Snap_Delete_def snap_stored_def split: if_splits)
qed (use assms in \<open>auto simp: PSnap_Delete_def Snap_Delete_def\<close>)

lemma load_snaps_table:
  assumes "\<forall>(k, v) \<in> set kvs. \<exists>sn. k = snapshotStoreKey (sp_ID sn) \<and> dec v = Ok sn" "distinct (map fst kvs)"
  shows "load_snaps dec kvs m i = (case map_of kvs (snapshotStoreKey i) of None \<Rightarrow> m i | Some v \<Rightarrow> result_value (dec v))"
  using assms
proof (induction kvs arbitrary: m)
  case (Cons kd kvs)
  obtain sn v where kv: "kd = (snapshotStoreKey (sp_ID sn), v)" "dec v = Ok sn" using Cons.prems(1) by (cases kd) auto
  have IH: "load_snaps dec kvs m' i = (case map_of kvs (snapshotStoreKey i) of None \<Rightarrow> m' i | Some v \<Rightarrow> result_value (dec v))" for m'
    using Cons by simp
  have "map_of kvs (snapshotStoreKey (sp_ID sn)) = None" using Cons.prems(2) kv by (simp add: map_of_eq_None_iff image_image)
  then show ?case using kv IH by (auto split: option.splits)
qed simp

lemma psnap_load:
  assumes st: "snap_stored js s (kv st)" and good: "good_order ord st" and codec: "\<And>sn. dec (js sn) = Ok sn"
    and l: "list ord ''snapshots/'' st = (Ok kvs, st')" and s0: "sps_snapshots s0 = Map.empty"
  shows "\<exists>s'. PSnap_LoadFromStore list dec ord ((s0, p), st) = (Ok (), (s', p), st') \<and> sps_snapshots s' = sps_snapshots s \<and> sps_nextID s' = sps_nextID s0"
proof -
  note L = list_ok [OF good l]
  have ent: "(snapshotStoreKey i, v) \<in> set kvs \<longleftrightarrow> (\<exists>sn. sps_snapshots s i = Some sn \<and> v = js sn)" for i v
    using L st by (auto simp: snap_stored_def snapshotStoreKey_prefix)
  have "\<forall>(k, v) \<in> set kvs. \<exists>sn. k = snapshotStoreKey (sp_ID sn) \<and> dec v = Ok sn"
  proof (clarify)
    fix k v assume kv: "(k, v) \<in> set kvs"
    then obtain i where i: "k = snapshotStoreKey i" using L by (auto simp: snapshotStoreKey_prefix)
    then obtain sn where "sps_snapshots s i = Some sn" "v = js sn" using ent kv by auto
    then show "\<exists>sn. k = snapshotStoreKey (sp_ID sn) \<and> dec v = Ok sn" using i st codec by (auto simp: snap_stored_def)
  qed
  note T = load_snaps_table [OF this, of Map.empty]
  have "load_snaps dec kvs Map.empty i = sps_snapshots s i" for i
  proof (cases "map_of kvs (snapshotStoreKey i)")
    case None
    then have "(snapshotStoreKey i, v) \<notin> set kvs" for v by (metis map_of_eq_None_iff fst_conv image_eqI)
    then have "sps_snapshots s i = None" using ent [of i] by (cases "sps_snapshots s i") auto
    then show ?thesis using T None L by simp
  next
    case (Some v)
    then obtain sn where "sps_snapshots s i = Some sn" "v = js sn" using ent [of i v] by (auto dest: map_of_SomeD)
    then show ?thesis using T Some L codec by simp
  qed
  then have "load_snaps dec kvs Map.empty = sps_snapshots s" by (rule ext)
  then show ?thesis using l s0 by (auto simp: PSnap_LoadFromStore_def)
qed

end

section \<open>Restart\<close>

text \<open>The changes of a persistent service over the in-memory store.\<close>

inductive psnap_step ::
  "(VMSnapshot \<Rightarrow> string) \<Rightarrow> 'p snap_provider option \<Rightarrow> 'p snap_state \<times> MemoryStore \<Rightarrow> 'p snap_state \<times> MemoryStore \<Rightarrow> bool"
  for js :: "VMSnapshot \<Rightarrow> string" and prov :: "'p snap_provider option" where
  psnap_create: "PSnap_Create MS_Put (\<lambda>sn. Ok (js sn)) prov now vm name x = (r, x') \<Longrightarrow> psnap_step js prov x x'"
| psnap_delete: "PSnap_Delete MS_Delete i x = (r, x') \<Longrightarrow> psnap_step js prov x x'"
| psnap_restore: "PSnap_Restore MS_Put (\<lambda>sn. Ok (js sn)) prov i x = (r, x') \<Longrightarrow> psnap_step js prov x x'"

lemma MS_up: "is_ok (fst (MS_Put k (Ok x) st))" "is_ok (fst (MS_Delete k st))"
  by (simp_all add: MS_Put_def MS_Delete_def)

lemma psnap_step_stored:
  assumes "psnap_step js prov x x'" "snap_stored js (fst (fst x)) (snd x)"
  shows "snap_stored js (fst (fst x')) (snd x')"
  using assms
proof (cases rule: psnap_step.cases)
  case (psnap_create now vm name r)
  then show ?thesis
    using mem_store.psnap_create_stored [OF assms(2), of prov now vm name "snd (fst x)" r "fst (fst x')" "snd (fst x')" "snd x'"] MS_up by simp
next
  case (psnap_delete i r)
  then show ?thesis
    using mem_store.psnap_delete_stored [OF assms(2), of i "snd (fst x)" r "fst (fst x')" "snd (fst x')" "snd x'"] MS_up by simp
next
  case (psnap_restore i r)
  then show ?thesis
    using mem_store.psnap_restore_stored [OF assms(2), of prov i "snd (fst x)" r "fst (fst x')" "snd (fst x')" "snd x'"] MS_up by simp
qed

lemma psnap_steps_stored:
  assumes "(psnap_step js prov)\<^sup>*\<^sup>* ((NewSnapshotService, p0), NewMemoryStore) x"
  shows "snap_stored js (fst (fst x)) (snd x)"
  using assms
  by (induction rule: rtranclp_induct)
    (simp_all add: psnap_step_stored, simp add: snap_stored_def NewSnapshotService_def NewMemoryStore_def)

text \<open>C29: However snapshots were created, restored and deleted through the persistent service, a
  service that starts on the same store loads exactly the snapshots that existed before; but its
  counter starts at 1 again, so the first snapshot it creates is snap-1 and replaces a
  loaded snapshot of that name in the table.\<close>

theorem snapshot_reload:
  assumes "(psnap_step js prov)\<^sup>*\<^sup>* ((NewSnapshotService, p0), NewMemoryStore) ((s, p), st)"
    and "range_order ord st" "\<And>sn. dec (js sn) = Ok sn" "name \<noteq> []"
  shows "\<exists>s'. PSnap_LoadFromStore MS_List dec ord ((NewSnapshotService, q), st) = (Ok (), (s', q), st)
    \<and> sps_snapshots s' = sps_snapshots s
    \<and> (\<exists>sn s'' q'. Snap_Create prov now vm name (s', q) = (Ok sn, s'', q') \<and> sp_ID sn = ''snap-1''
        \<and> sps_snapshots s'' = (sps_snapshots s)(''snap-1'' \<mapsto> sn))"
proof -
  have stored: "snap_stored js s st" using psnap_steps_stored [OF assms(1)] by simp
  obtain kvs where l: "MS_List ord ''snapshots/'' st = (Ok kvs, st)" by (simp add: MS_List_def)
  obtain s' where s': "PSnap_LoadFromStore MS_List dec ord ((NewSnapshotService, q), st) = (Ok (), (s', q), st)"
    "sps_snapshots s' = sps_snapshots s" "sps_nextID s' = 1"
    using mem_store.psnap_load [OF stored assms(2) assms(3) l, of NewSnapshotService q] by (auto simp: NewSnapshotService_def)
  obtain r s'' q' where c: "Snap_Create prov now vm name (s', q) = (r, s'', q')" by (metis prod.exhaust)
  then obtain sn where sn: "r = Ok sn" using assms(4) by (auto simp: Snap_Create_def Let_def split: option.splits prod.splits sum.splits)
  have "sp_ID sn = ''snap-1''" using Snap_Create_ok(1) [OF c [unfolded sn]] s'(3) by (simp add: show_int_def show_nat.simps)
  then show ?thesis using s' c sn Snap_Create_ok(2) [OF c [unfolded sn]] by auto
qed

definition demo_snap :: VMSnapshot where
  "demo_snap = \<lparr>sp_ID = ''snap-1'', sp_VMID = 3, sp_VMName = ''db'', sp_State = ''created'', sp_CreatedAt = 5,
     sp_SizeBytes = 1073741824, sp_StorageSnapshotID = [], sp_VolumeID = []\<rparr>"

text \<open>A codec of the kind \<^verbatim>\<open>encoding/json\<close> provides: fields in a row, each ended by a mark that a
  doubled mark inside a field cannot be confused with.\<close>

fun esc :: "string \<Rightarrow> string" where
  "esc [] = ''!.''"
| "esc (c # cs) = (if c = CHR ''!'' then ''!!'' @ esc cs else c # esc cs)"

fun unesc :: "string \<Rightarrow> string \<times> string" where
  "unesc (c # d # cs) =
     (if c \<noteq> CHR ''!'' then map_prod (Cons c) id (unesc (d # cs))
      else if d = CHR ''!'' then map_prod (Cons c) id (unesc cs)
      else ([], cs))"
| "unesc s = ([], [])"

lemma esc_ne: "\<exists>c d cs. esc s @ r = c # d # cs"
  by (cases s) (auto simp: neq_Nil_conv, (metis append_is_Nil_conv esc.elims list.exhaust list.distinct(1))+)

lemma unesc_esc: "unesc (esc s @ r) = (s, r)"
proof (induction s)
  case (Cons c cs)
  then show ?case using esc_ne [of cs r] by auto
qed simp

definition dec_int :: "string \<Rightarrow> int" where
  "dec_int s = (if s \<noteq> [] \<and> hd s = CHR ''-'' then - int (digits_val (tl s)) else int (digits_val s))"

lemma dec_int_show [simp]: "dec_int (show_int i) = i"
  by (simp add: dec_int_def show_int_def)

definition snap_enc :: "VMSnapshot \<Rightarrow> string" where
  "snap_enc sn = esc (sp_ID sn) @ esc (show_int (sint (sp_VMID sn))) @ esc (sp_VMName sn) @ esc (sp_State sn) @
     esc (show_int (sp_CreatedAt sn)) @ esc (show_int (sint (sp_SizeBytes sn))) @ esc (sp_StorageSnapshotID sn) @ esc (sp_VolumeID sn)"

definition snap_dec :: "string \<Rightarrow> VMSnapshot result" where
  "snap_dec d =
     (let (i, d1) = unesc d; (vm, d2) = unesc d1; (name, d3) = unesc d2; (state, d4) = unesc d3;
          (c, d5) = unesc d4; (sz, d6) = unesc d5; (ss, d7) = unesc d6; (vol, d8) = unesc d7
      in Ok \<lparr>sp_ID = i, sp_VMID = word_of_int (dec_int vm), sp_VMName = name, sp_State = state, sp_CreatedAt = dec_int c,
             sp_SizeBytes = word_of_int (dec_int sz), sp_StorageSnapshotID = ss, sp_VolumeID = vol\<rparr>)"

lemma snap_dec_enc: "snap_dec (snap_enc sn) = Ok sn"
  using unesc_esc [of "sp_VolumeID sn" "[]"] by (simp add: snap_dec_def snap_enc_def unesc_esc)

theorem snapshot_reload_witness:
  "\<exists>s'. PSnap_LoadFromStore MS_List snap_dec [snapshotStoreKey ''snap-1''] ((NewSnapshotService, ()), [snapshotStoreKey ''snap-1'' \<mapsto> snap_enc demo_snap])
      = (Ok (), (s', ()), [snapshotStoreKey ''snap-1'' \<mapsto> snap_enc demo_snap])
    \<and> sps_snapshots s' = [''snap-1'' \<mapsto> demo_snap]
    \<and> (\<exists>sn s'' q'. Snap_Create None 9 4 ''web'' (s', ()) = (Ok sn, s'', q') \<and> sp_ID sn = ''snap-1''
        \<and> sps_snapshots s'' = [''snap-1'' \<mapsto> sn])"
proof -
  let ?st = "[snapshotStoreKey ''snap-1'' \<mapsto> snap_enc demo_snap]"
  let ?s = "\<lparr>sps_snapshots = [''snap-1'' \<mapsto> demo_snap], sps_nextID = 2\<rparr>"
  have "PSnap_Create MS_Put (\<lambda>sn. Ok (snap_enc sn)) None 5 3 ''db'' ((NewSnapshotService, ()), NewMemoryStore) = (Ok demo_snap, (?s, ()), ?st)"
    by (simp add: PSnap_Create_def Snap_Create_def NewSnapshotService_def NewMemoryStore_def MS_Put_def demo_snap_def Let_def show_int_def show_nat.simps)
  then have "(psnap_step snap_enc None)\<^sup>*\<^sup>* ((NewSnapshotService, ()), NewMemoryStore) ((?s, ()), ?st)"
    using psnap_create r_into_rtranclp by metis
  moreover have "range_order [snapshotStoreKey ''snap-1''] ?st" by (simp add: range_order_def)
  ultimately show ?thesis
    using snapshot_reload [of snap_enc None "()" ?s "()" ?st "[snapshotStoreKey ''snap-1'']" snap_dec "''web''" "()" 9 4] snap_dec_enc by simp
qed

end
