(* ===== verification/Peripheral.thy ===== *)
theory Peripheral
  imports Registries Store
begin

text \<open>
  Device pass-through, \<^verbatim>\<open>internal/peripheral\<close>: the in-memory driver (\<^verbatim>\<open>driver_memory.go\<close>), the
  driver that scans \<^verbatim>\<open>/sys/bus/pci/devices\<close> (\<^verbatim>\<open>driver_sysfs.go\<close>) and the service
  (\<^verbatim>\<open>peripheral.go\<close>).  The file system is a parameter; an operation that writes to it also
  returns the writes it makes, in order.
\<close>

section \<open>Devices\<close>

record Device =
  dv_ID :: string
  dv_DeviceType :: string
  dv_Description :: string
  dv_PCIAddress :: string
  dv_AttachedVM :: int32
  dv_IOMMU :: string
  dv_Driver :: string

type_synonym devices = "string \<Rightarrow> Device option"

definition DeviceGPU :: string where "DeviceGPU = ''gpu''"
definition DeviceNIC :: string where "DeviceNIC = ''nic''"
definition DeviceUSB :: string where "DeviceUSB = ''usb''"
definition DeviceDisk :: string where "DeviceDisk = ''disk''"

lemmas device_types = DeviceGPU_def DeviceNIC_def DeviceUSB_def DeviceDisk_def

definition Per_NewMemoryDriver :: devices where
  "Per_NewMemoryDriver =
     [''gpu-0'' \<mapsto> \<lparr>dv_ID = ''gpu-0'', dv_DeviceType = DeviceGPU, dv_Description = ''NVIDIA A100 80GB'',
         dv_PCIAddress = ''0000:41:00.0'', dv_AttachedVM = 0, dv_IOMMU = ''group-12'', dv_Driver = ''vfio-pci''\<rparr>,
      ''gpu-1'' \<mapsto> \<lparr>dv_ID = ''gpu-1'', dv_DeviceType = DeviceGPU, dv_Description = ''NVIDIA A100 80GB'',
         dv_PCIAddress = ''0000:42:00.0'', dv_AttachedVM = 0, dv_IOMMU = ''group-13'', dv_Driver = ''vfio-pci''\<rparr>,
      ''nic-0'' \<mapsto> \<lparr>dv_ID = ''nic-0'', dv_DeviceType = DeviceNIC, dv_Description = ''Mellanox ConnectX-6 100GbE'',
         dv_PCIAddress = ''0000:18:00.0'', dv_AttachedVM = 0, dv_IOMMU = ''group-5'', dv_Driver = ''mlx5_core''\<rparr>,
      ''usb-0'' \<mapsto> \<lparr>dv_ID = ''usb-0'', dv_DeviceType = DeviceUSB, dv_Description = ''YubiKey 5 NFC'',
         dv_PCIAddress = ''usb-1-2'', dv_AttachedVM = 0, dv_IOMMU = [], dv_Driver = []\<rparr>]"

definition PMem_ListDevices :: "string list \<Rightarrow> string \<Rightarrow> devices \<Rightarrow> Device list result" where
  "PMem_ListDevices ord typeFilter d =
     Ok (filter (\<lambda>dev. typeFilter = [] \<or> dv_DeviceType dev = typeFilter) (map_values ord d))"

definition device_not_found :: "string \<Rightarrow> go_error" where
  "device_not_found i = Errorf ''device not found: %s'' [FStr i]"

definition already_attached :: "string \<Rightarrow> Device \<Rightarrow> go_error" where
  "already_attached i dev = Errorf ''device %s already attached to VM %d'' [FStr i, FInt (sint (dv_AttachedVM dev))]"

definition PMem_GetDevice :: "string \<Rightarrow> devices \<Rightarrow> Device result" where
  "PMem_GetDevice i d = (case d i of None \<Rightarrow> Err (device_not_found i) | Some dev \<Rightarrow> Ok dev)"

definition PMem_AttachDevice :: "string \<Rightarrow> int32 \<Rightarrow> devices \<Rightarrow> unit result \<times> devices" where
  "PMem_AttachDevice i vmHandle d =
     (case d i of
        None \<Rightarrow> (Err (device_not_found i), d)
      | Some dev \<Rightarrow>
          if dv_AttachedVM dev \<noteq> 0 then (Err (already_attached i dev), d)
          else (Ok (), d(i \<mapsto> dev\<lparr>dv_AttachedVM := vmHandle\<rparr>)))"

definition PMem_DetachDevice :: "string \<Rightarrow> devices \<Rightarrow> unit result \<times> devices" where
  "PMem_DetachDevice i d =
     (case d i of
        None \<Rightarrow> (Err (device_not_found i), d)
      | Some dev \<Rightarrow>
          if dv_AttachedVM dev = 0 then (Err (Errorf ''device %s is not attached'' [FStr i]), d)
          else (Ok (), d(i \<mapsto> dev\<lparr>dv_AttachedVM := 0\<rparr>)))"

section \<open>The sysfs driver\<close>

record sysfs =
  fs_ReadDir :: "string \<Rightarrow> string list option"
  fs_Readlink :: "string \<Rightarrow> string option"
  fs_ReadFile :: "string \<Rightarrow> string option"
  fs_WriteFile :: "string \<Rightarrow> string \<Rightarrow> go_error option"

definition path_Base :: "string \<Rightarrow> string" where
  "path_Base p =
     (if p = [] then ''.''
      else let q = rev (dropWhile (\<lambda>c. c = CHR ''/'') (rev p)) in
           if q = [] then ''/'' else rev (takeWhile (\<lambda>c. c \<noteq> CHR ''/'') (rev q)))"

definition sysbusPCIDevices :: string where
  "sysbusPCIDevices = ''/sys/bus/pci/devices''"

definition readSysfsFile :: "sysfs \<Rightarrow> string \<Rightarrow> string" where
  "readSysfsFile fs path = (case fs_ReadFile fs path of None \<Rightarrow> [] | Some data \<Rightarrow> TrimSpace data)"

text \<open>The type of a device, empty when the class is not one of the three, and its description.\<close>

definition classifyPCIDevice :: "string \<Rightarrow> string \<Rightarrow> string \<Rightarrow> string \<times> string" where
  "classifyPCIDevice cls vendor deviceID =
     (let c = TrimSpace cls in
      if length c < 4 then ([], [])
      else let c1 = TrimPrefix c ''0x'' in
        if length c1 < 2 then ([], [])
        else
          let major = take 2 c1;
              desc = Sprintf ''PCI %s:%s'' [FStr (TrimSpace vendor), FStr (TrimSpace deviceID)]
          in if major = ''03'' then (DeviceGPU, desc)
             else if major = ''02'' then (DeviceNIC, desc)
             else if major = ''01'' then (DeviceDisk, desc)
             else ([], []))"

record pci_counts =
  gpuIdx :: int
  nicIdx :: int
  diskIdx :: int

definition scan_entry :: "sysfs \<Rightarrow> string \<Rightarrow> pci_counts \<times> devices \<Rightarrow> pci_counts \<times> devices" where
  "scan_entry fs addr = (\<lambda>(n, d).
     let devPath = path_Join [sysbusPCIDevices, addr] in
     case fs_Readlink fs (path_Join [devPath, ''iommu_group'']) of
       None \<Rightarrow> (n, d)
     | Some iommuLink \<Rightarrow>
         let iommuGroup = path_Base iommuLink;
             classStr = readSysfsFile fs (path_Join [devPath, ''class'']) in
         if classStr = [] then (n, d)
         else
           let vendor = readSysfsFile fs (path_Join [devPath, ''vendor'']);
               deviceID = readSysfsFile fs (path_Join [devPath, ''device'']);
               (devType, description) = classifyPCIDevice classStr vendor deviceID;
               driverName = path_Base (case fs_Readlink fs (path_Join [devPath, ''driver'']) of None \<Rightarrow> [] | Some l \<Rightarrow> l);
               entry = (\<lambda>i. \<lparr>dv_ID = i, dv_DeviceType = devType, dv_Description = description, dv_PCIAddress = addr,
                             dv_AttachedVM = 0, dv_IOMMU = Sprintf ''group-%s'' [FStr iommuGroup], dv_Driver = driverName\<rparr>)
           in if devType = [] then (n, d)
              else if devType = DeviceGPU then
                let i = Sprintf ''gpu-%d'' [FInt (gpuIdx n)] in (n\<lparr>gpuIdx := gpuIdx n + 1\<rparr>, d(i \<mapsto> entry i))
              else if devType = DeviceNIC then
                let i = Sprintf ''nic-%d'' [FInt (nicIdx n)] in (n\<lparr>nicIdx := nicIdx n + 1\<rparr>, d(i \<mapsto> entry i))
              else if devType = DeviceDisk then
                let i = Sprintf ''disk-%d'' [FInt (diskIdx n)] in (n\<lparr>diskIdx := diskIdx n + 1\<rparr>, d(i \<mapsto> entry i))
              else (n, d))"

definition scan :: "sysfs \<Rightarrow> devices \<Rightarrow> devices" where
  "scan fs d =
     (case fs_ReadDir fs sysbusPCIDevices of
        None \<Rightarrow> d
      | Some entries \<Rightarrow> snd (fold (scan_entry fs) entries (\<lparr>gpuIdx = 0, nicIdx = 0, diskIdx = 0\<rparr>, d)))"

definition NewSysfsDriver :: "sysfs \<Rightarrow> devices" where
  "NewSysfsDriver fs = scan fs Map.empty"

definition Sysfs_ListDevices :: "string list \<Rightarrow> string list \<Rightarrow> string \<Rightarrow> devices \<Rightarrow> Device list result" where
  "Sysfs_ListDevices ord ord0 typeFilter d =
     (if map_len d = 0 then PMem_ListDevices ord0 typeFilter Per_NewMemoryDriver else PMem_ListDevices ord typeFilter d)"

definition Sysfs_GetDevice :: "string \<Rightarrow> devices \<Rightarrow> Device result" where
  "Sysfs_GetDevice i d = (if map_len d = 0 then PMem_GetDevice i Per_NewMemoryDriver else PMem_GetDevice i d)"

type_synonym writes = "(string \<times> string) list"

definition BindVFIO :: "sysfs \<Rightarrow> string \<Rightarrow> unit result \<times> writes" where
  "BindVFIO fs pciAddr =
     (let overridePath = Sprintf ''/sys/bus/pci/devices/%s/driver_override'' [FStr pciAddr];
          driverLink = Sprintf ''/sys/bus/pci/devices/%s/driver'' [FStr pciAddr];
          w1 = [(overridePath, ''vfio-pci'')] in
      case fs_WriteFile fs overridePath ''vfio-pci'' of
        Some err \<Rightarrow> (Err (Errorf ''driver_override: %w'' [FErr err]), w1)
      | None \<Rightarrow>
          let w2 = (if fs_Readlink fs driverLink \<noteq> None then w1 @ [(driverLink @ ''/unbind'', pciAddr)] else w1);
              w3 = w2 @ [(''/sys/bus/pci/drivers_probe'', pciAddr)]
          in case fs_WriteFile fs ''/sys/bus/pci/drivers_probe'' pciAddr of
               Some err \<Rightarrow> (Err (Errorf ''drivers_probe: %w'' [FErr err]), w3)
             | None \<Rightarrow> (Ok (), w3))"

definition UnbindVFIO :: "sysfs \<Rightarrow> string \<Rightarrow> unit result \<times> writes" where
  "UnbindVFIO fs pciAddr =
     (let overridePath = Sprintf ''/sys/bus/pci/devices/%s/driver_override'' [FStr pciAddr] in
      case fs_WriteFile fs overridePath [] of
        Some err \<Rightarrow> (Err (Errorf ''clear driver_override: %w'' [FErr err]), [(overridePath, [])])
      | None \<Rightarrow>
          (case fs_WriteFile fs ''/sys/bus/pci/drivers_probe'' pciAddr of Some err \<Rightarrow> Err err | None \<Rightarrow> Ok (),
           [(overridePath, []), (''/sys/bus/pci/drivers/vfio-pci/unbind'', pciAddr), (''/sys/bus/pci/drivers_probe'', pciAddr)]))"

definition Sysfs_AttachDevice :: "sysfs \<Rightarrow> string \<Rightarrow> int32 \<Rightarrow> devices \<Rightarrow> unit result \<times> devices \<times> writes" where
  "Sysfs_AttachDevice fs i vmHandle d =
     (case d i of
        None \<Rightarrow> (Err (device_not_found i), d, [])
      | Some dev \<Rightarrow>
          if dv_AttachedVM dev \<noteq> 0 then (Err (already_attached i dev), d, [])
          else
            let ws = (if dv_PCIAddress dev \<noteq> [] \<and> \<not> HasPrefix (dv_PCIAddress dev) ''usb''
                      then snd (BindVFIO fs (dv_PCIAddress dev)) else [])
            in (Ok (), d(i \<mapsto> dev\<lparr>dv_AttachedVM := vmHandle, dv_Driver := ''vfio-pci''\<rparr>), ws))"

section \<open>The service\<close>

datatype PeripheralDriver =
    PerMemory devices
  | PerSysfs devices

fun Per_DriverName :: "PeripheralDriver \<Rightarrow> string" where
  "Per_DriverName (PerMemory d) = ''memory''"
| "Per_DriverName (PerSysfs d) = ''sysfs''"

definition Per_NewService :: PeripheralDriver where
  "Per_NewService = PerMemory Per_NewMemoryDriver"

fun Per_ListDevices :: "string list \<Rightarrow> string list \<Rightarrow> string \<Rightarrow> PeripheralDriver \<Rightarrow> Device list" where
  "Per_ListDevices ord ord0 f (PerMemory d) = (case PMem_ListDevices ord f d of Inl e \<Rightarrow> [] | Inr ds \<Rightarrow> ds)"
| "Per_ListDevices ord ord0 f (PerSysfs d) = (case Sysfs_ListDevices ord ord0 f d of Inl e \<Rightarrow> [] | Inr ds \<Rightarrow> ds)"

fun Per_GetDevice :: "string \<Rightarrow> PeripheralDriver \<Rightarrow> Device result" where
  "Per_GetDevice i (PerMemory d) = PMem_GetDevice i d"
| "Per_GetDevice i (PerSysfs d) = Sysfs_GetDevice i d"

fun Per_AttachDevice :: "sysfs \<Rightarrow> string \<Rightarrow> int32 \<Rightarrow> PeripheralDriver \<Rightarrow> unit result \<times> PeripheralDriver \<times> writes" where
  "Per_AttachDevice fs i h (PerMemory d) = (case PMem_AttachDevice i h d of (r, d') \<Rightarrow> (r, PerMemory d', []))"
| "Per_AttachDevice fs i h (PerSysfs d) = (case Sysfs_AttachDevice fs i h d of (r, d', ws) \<Rightarrow> (r, PerSysfs d', ws))"

text \<open>The sysfs driver inherits \<open>DetachDevice\<close> of the memory driver.\<close>

fun Per_DetachDevice :: "string \<Rightarrow> PeripheralDriver \<Rightarrow> unit result \<times> PeripheralDriver" where
  "Per_DetachDevice i (PerMemory d) = (case PMem_DetachDevice i d of (r, d') \<Rightarrow> (r, PerMemory d'))"
| "Per_DetachDevice i (PerSysfs d) = (case PMem_DetachDevice i d of (r, d') \<Rightarrow> (r, PerSysfs d'))"

section \<open>Attachment\<close>

text \<open>What a client can see of attachments: for every device the machine it is attached to, or 0.
  The specification is the same for all drivers.\<close>

datatype per_op =
    PAttach string int32
  | PDetach string

type_synonym attachments = "string \<Rightarrow> int32 option"

fun spec_exec :: "per_op \<Rightarrow> attachments \<Rightarrow> bool \<times> attachments" where
  "spec_exec (PAttach i h) a = (if a i = Some 0 then (True, a(i \<mapsto> h)) else (False, a))"
| "spec_exec (PDetach i) a = (if a i \<noteq> None \<and> a i \<noteq> Some 0 then (True, a(i \<mapsto> 0)) else (False, a))"

fun per_exec :: "sysfs \<Rightarrow> per_op \<Rightarrow> PeripheralDriver \<Rightarrow> bool \<times> PeripheralDriver" where
  "per_exec fs (PAttach i h) s = (case Per_AttachDevice fs i h s of (r, s', ws) \<Rightarrow> (is_ok r, s'))"
| "per_exec fs (PDetach i) s = map_prod is_ok id (Per_DetachDevice i s)"

fun per_table :: "PeripheralDriver \<Rightarrow> devices" where
  "per_table (PerMemory d) = d"
| "per_table (PerSysfs d) = d"

definition attached :: "PeripheralDriver \<Rightarrow> attachments" where
  "attached s i = map_option dv_AttachedVM (per_table s i)"

lemma per_exec_refines: "map_prod id attached (per_exec fs op s) = spec_exec op (attached s)"
  by (cases op; cases s)
    (auto simp: attached_def fun_eq_iff PMem_AttachDevice_def PMem_DetachDevice_def Sysfs_AttachDevice_def Let_def split: option.splits)


text \<open>When the PCI devices cannot be read, the sysfs driver lists the four default devices and
  finds each of them, but every attempt to attach one fails with not found.\<close>

theorem sysfs_fallback_unattachable:
  assumes "fs_ReadDir fs ''/sys/bus/pci/devices'' = None" "range_order ord0 Per_NewMemoryDriver"
  shows "dv_ID ` set (Per_ListDevices ord ord0 [] (PerSysfs (NewSysfsDriver fs))) = {''gpu-0'', ''gpu-1'', ''nic-0'', ''usb-0''}
    \<and> (i \<in> {''gpu-0'', ''gpu-1'', ''nic-0'', ''usb-0''} \<longrightarrow> is_ok (Per_GetDevice i (PerSysfs (NewSysfsDriver fs))))
    \<and> fst (Per_AttachDevice fs i h (PerSysfs (NewSysfsDriver fs))) = Err (Errorf ''device not found: %s'' [FStr i])"
proof -
  have n: "NewSysfsDriver fs = Map.empty" using assms(1) by (simp add: NewSysfsDriver_def scan_def sysbusPCIDevices_def)
  have "set (map_values ord0 Per_NewMemoryDriver) = ran Per_NewMemoryDriver" using assms(2) by simp
  moreover have "dv_ID ` ran Per_NewMemoryDriver = {''gpu-0'', ''gpu-1'', ''nic-0'', ''usb-0''}"
    by (simp add: Per_NewMemoryDriver_def insert_commute)
  ultimately have "dv_ID ` set (Per_ListDevices ord ord0 [] (PerSysfs (NewSysfsDriver fs))) = {''gpu-0'', ''gpu-1'', ''nic-0'', ''usb-0''}"
    by (simp add: n Sysfs_ListDevices_def map_len_def PMem_ListDevices_def)
  moreover have "is_ok (Per_GetDevice i (PerSysfs (NewSysfsDriver fs)))" if "i \<in> {''gpu-0'', ''gpu-1'', ''nic-0'', ''usb-0''}"
    using that by (auto simp: n Sysfs_GetDevice_def map_len_def PMem_GetDevice_def Per_NewMemoryDriver_def)
  ultimately show ?thesis by (simp add: n Sysfs_AttachDevice_def device_not_found_def)
qed

theorem sysfs_fallback_unattachable_witness:
  "is_ok (Per_GetDevice ''gpu-0'' (PerSysfs (NewSysfsDriver \<lparr>fs_ReadDir = (\<lambda>_. None), fs_Readlink = (\<lambda>_. None), fs_ReadFile = (\<lambda>_. None), fs_WriteFile = (\<lambda>_ _. None)\<rparr>)))
   \<and> fst (Per_AttachDevice \<lparr>fs_ReadDir = (\<lambda>_. None), fs_Readlink = (\<lambda>_. None), fs_ReadFile = (\<lambda>_. None), fs_WriteFile = (\<lambda>_ _. None)\<rparr> ''gpu-0'' 7
        (PerSysfs (NewSysfsDriver \<lparr>fs_ReadDir = (\<lambda>_. None), fs_Readlink = (\<lambda>_. None), fs_ReadFile = (\<lambda>_. None), fs_WriteFile = (\<lambda>_ _. None)\<rparr>)))
      = Err (Errorf ''device not found: %s'' [FStr ''gpu-0''])"
proof -
  have "range_order [''gpu-0'', ''gpu-1'', ''nic-0'', ''usb-0''] Per_NewMemoryDriver"
    by (auto simp: range_order_def Per_NewMemoryDriver_def)
  from sysfs_fallback_unattachable [OF _ this, of "\<lparr>fs_ReadDir = (\<lambda>_. None), fs_Readlink = (\<lambda>_. None), fs_ReadFile = (\<lambda>_. None), fs_WriteFile = (\<lambda>_ _. None)\<rparr>" _ "''gpu-0''" 7]
  show ?thesis by simp
qed

end
