(* ===== verification/Auth.thy ===== *)
theory Auth
  imports Prelude
begin

text \<open>
  Accounts and tokens, \<^verbatim>\<open>internal/auth\<close>: JSON web tokens (\<^verbatim>\<open>jwt.go\<close>), the user database
  (\<^verbatim>\<open>userdb.go\<close>), the list of users of the environment variable \<^verbatim>\<open>HCV_RBAC_USERS\<close>
  (\<^verbatim>\<open>ParseUsers\<close> of \<^verbatim>\<open>rbac.go\<close>) and the simulated OAuth2 provider (\<^verbatim>\<open>oauth2.go\<close>).  The token
  library, the password hash and the SQL database are parameters; what the code relies on is
  stated as the predicates \<open>jwt_laws\<close>, \<open>bcrypt_laws\<close> and \<open>sql_laws\<close>.  Random bytes are arguments.
\<close>

section \<open>Package encoding/hex\<close>

definition hex_encode :: "8 word list \<Rightarrow> string" where
  "hex_encode bs = concat (map (\<lambda>b. [hex_char (unat b div 16), hex_char (unat b mod 16)]) bs)"

section \<open>Tokens\<close>

record Claims =
  ct_Username :: string
  ct_Role :: string
  ct_JTI :: string
  ct_Subject :: string
  ct_IssuedAt :: gotime
  ct_ExpiresAt :: gotime
  ct_ID :: string

text \<open>The token library: signing with HS256, parsing with a function that gives the key for the
  algorithm in the header of the token (and is told whether it is an HMAC method), and the rounding of
  times.  Parsing also says whether the token is valid.\<close>

record jwt_lib =
  jl_Sign :: "string \<Rightarrow> Claims \<Rightarrow> string result"
  jl_Parse :: "(string \<Rightarrow> bool \<Rightarrow> string result) \<Rightarrow> gotime \<Rightarrow> string \<Rightarrow> (Claims \<times> bool) result"
  jl_NumericDate :: "gotime \<Rightarrow> gotime"

record JWTService =
  jw_signingKey :: string
  jw_tokenTTL :: duration
  jw_blacklist :: "string \<Rightarrow> gotime option"

text \<open>\<open>rnd\<close> is the 32 random bytes used when there is no secret, as text.\<close>

definition NewJWTService :: "string \<Rightarrow> string \<Rightarrow> duration \<Rightarrow> JWTService" where
  "NewJWTService rnd secret ttl =
     \<lparr>jw_signingKey = (if secret = [] then rnd else secret), jw_tokenTTL = ttl, jw_blacklist = Map.empty\<rparr>"

definition generateJTI :: "8 word list \<Rightarrow> string" where
  "generateJTI b = hex_encode b"

definition token_claims :: "jwt_lib \<Rightarrow> 8 word list \<Rightarrow> gotime \<Rightarrow> string \<Rightarrow> string \<Rightarrow> JWTService \<Rightarrow> Claims" where
  "token_claims lib rnd now username role j =
     \<lparr>ct_Username = username, ct_Role = role, ct_JTI = generateJTI rnd, ct_Subject = username,
      ct_IssuedAt = jl_NumericDate lib now, ct_ExpiresAt = jl_NumericDate lib (now + jw_tokenTTL j), ct_ID = generateJTI rnd\<rparr>"

definition GenerateToken :: "jwt_lib \<Rightarrow> 8 word list \<Rightarrow> gotime \<Rightarrow> string \<Rightarrow> string \<Rightarrow> JWTService \<Rightarrow> string result" where
  "GenerateToken lib rnd now username role j =
     (case jl_Sign lib (jw_signingKey j) (token_claims lib rnd now username role j) of
        Inl err \<Rightarrow> Err (Errorf ''sign token: %w'' [FErr err])
      | Inr tok \<Rightarrow> Ok tok)"

definition RevokeToken :: "gotime \<Rightarrow> string \<Rightarrow> JWTService \<Rightarrow> JWTService" where
  "RevokeToken now jti j = j\<lparr>jw_blacklist := (jw_blacklist j)(jti \<mapsto> now)\<rparr>"

definition IsRevoked :: "string \<Rightarrow> JWTService \<Rightarrow> bool" where
  "IsRevoked jti j \<longleftrightarrow> jw_blacklist j jti \<noteq> None"

definition token_revoked :: go_error where
  "token_revoked = Errorf ''token has been revoked'' []"

definition signing_key :: "JWTService \<Rightarrow> string \<Rightarrow> bool \<Rightarrow> string result" where
  "signing_key j alg is_hmac =
     (if \<not> is_hmac then Err (Errorf ''unexpected signing method: %v'' [FStr alg]) else Ok (jw_signingKey j))"

definition ValidateToken :: "jwt_lib \<Rightarrow> gotime \<Rightarrow> string \<Rightarrow> JWTService \<Rightarrow> Claims result" where
  "ValidateToken lib now tokenStr j =
     (case jl_Parse lib (signing_key j) now tokenStr of
        Inl err \<Rightarrow> Err (Errorf ''parse token: %w'' [FErr err])
      | Inr (claims, valid) \<Rightarrow>
          if \<not> valid then Err (Errorf ''invalid token claims'' [])
          else if IsRevoked (ct_JTI claims) j then Err token_revoked
          else Ok claims)"

definition TokenTTL :: "JWTService \<Rightarrow> duration" where
  "TokenTTL j = jw_tokenTTL j"

section \<open>The user database\<close>

record User =
  us_ID :: int
  us_Username :: string
  us_PasswordHash :: string
  us_Role :: string
  us_CreatedAt :: gotime

text \<open>The statements the database executes; a row is a user whose time is still to be read from its
  text form, which is a parameter as well.\<close>

record 'd user_sql =
  sql_Migrate :: "'d \<Rightarrow> go_error option \<times> 'd"
  sql_Insert :: "string \<Rightarrow> string \<Rightarrow> string \<Rightarrow> 'd \<Rightarrow> go_error option \<times> 'd"
  sql_Select :: "string \<Rightarrow> 'd \<Rightarrow> (int \<times> string \<times> string \<times> string \<times> string) result"
  sql_SelectAll :: "'d \<Rightarrow> (int \<times> string \<times> string \<times> string \<times> string) list result"
  sql_Delete :: "string \<Rightarrow> 'd \<Rightarrow> int result \<times> 'd"
  sql_Count :: "'d \<Rightarrow> int result"
  sql_time :: "string \<Rightarrow> gotime"

record bcrypt =
  bc_Generate :: "string \<Rightarrow> string result"
  bc_Compare :: "string \<Rightarrow> string \<Rightarrow> go_error option"

definition row_user :: "'d user_sql \<Rightarrow> int \<times> string \<times> string \<times> string \<times> string \<Rightarrow> User" where
  "row_user db = (\<lambda>(i, u, h, r, c). \<lparr>us_ID = i, us_Username = u, us_PasswordHash = h, us_Role = r, us_CreatedAt = sql_time db c\<rparr>)"

text \<open>\<open>opened\<close> is what opening the file gives, \<open>wal\<close> the outcome of the pragma.\<close>

definition NewUserDB :: "'d user_sql \<Rightarrow> 'd result \<Rightarrow> ('d \<Rightarrow> go_error option) \<Rightarrow> 'd result" where
  "NewUserDB db opened wal =
     (case opened of
        Inl err \<Rightarrow> Err (Errorf ''open userdb: %w'' [FErr err])
      | Inr d \<Rightarrow>
          (case wal d of
             Some err \<Rightarrow> Err (Errorf ''set WAL mode: %w'' [FErr err])
           | None \<Rightarrow>
               (case sql_Migrate db d of
                  (Some err, d') \<Rightarrow> Err (Errorf ''migrate userdb: %w'' [FErr err])
                | (None, d') \<Rightarrow> Ok d')))"

definition CreateUser :: "'d user_sql \<Rightarrow> bcrypt \<Rightarrow> string \<Rightarrow> string \<Rightarrow> string \<Rightarrow> 'd \<Rightarrow> unit result \<times> 'd" where
  "CreateUser db bc username password role d =
     (case bc_Generate bc password of
        Inl err \<Rightarrow> (Err (Errorf ''hash password: %w'' [FErr err]), d)
      | Inr hash \<Rightarrow>
          (case sql_Insert db username hash role d of
             (Some err, d') \<Rightarrow> (Err (Errorf ''create user: %w'' [FErr err]), d')
           | (None, d') \<Rightarrow> (Ok (), d')))"

definition GetUser :: "'d user_sql \<Rightarrow> string \<Rightarrow> 'd \<Rightarrow> User result" where
  "GetUser db username d = (case sql_Select db username d of Inl err \<Rightarrow> Err err | Inr row \<Rightarrow> Ok (row_user db row))"

definition ListUsers :: "'d user_sql \<Rightarrow> 'd \<Rightarrow> User list result" where
  "ListUsers db d =
     (case sql_SelectAll db d of
        Inl err \<Rightarrow> Err (Errorf ''list users: %w'' [FErr err])
      | Inr rows \<Rightarrow> Ok (map (row_user db) rows))"

definition DeleteUser :: "'d user_sql \<Rightarrow> string \<Rightarrow> 'd \<Rightarrow> unit result \<times> 'd" where
  "DeleteUser db username d =
     (case sql_Delete db username d of
        (Inl err, d') \<Rightarrow> (Err (Errorf ''delete user: %w'' [FErr err]), d')
      | (Inr n, d') \<Rightarrow>
          (if n = 0 then Err (Errorf ''delete user: user %q not found'' [FStr username]) else Ok (), d'))"

definition VerifyPassword :: "'d user_sql \<Rightarrow> bcrypt \<Rightarrow> string \<Rightarrow> string \<Rightarrow> 'd \<Rightarrow> User result" where
  "VerifyPassword db bc username password d =
     (case GetUser db username d of
        Inl err \<Rightarrow> Err (Errorf ''verify password: %w'' [FErr err])
      | Inr user \<Rightarrow>
          (case bc_Compare bc (us_PasswordHash user) password of
             Some err \<Rightarrow> Err (Errorf ''verify password: invalid credentials'' [])
           | None \<Rightarrow> Ok user))"

definition SeedDefaultAdmin :: "'d user_sql \<Rightarrow> bcrypt \<Rightarrow> 'd \<Rightarrow> 'd" where
  "SeedDefaultAdmin db bc d =
     (case sql_Count db d of
        Inl err \<Rightarrow> d
      | Inr count \<Rightarrow> if count > 0 then d else snd (CreateUser db bc ''admin'' ''admin'' ''admin'' d))"

section \<open>The users of the environment\<close>

record RBACUser =
  ru_Username :: string
  ru_Password :: string
  ru_Role :: string

definition RoleAdmin :: string where "RoleAdmin = ''admin''"
definition RoleOperator :: string where "RoleOperator = ''operator''"
definition RoleViewer :: string where "RoleViewer = ''viewer''"

lemmas role_defs = RoleAdmin_def RoleOperator_def RoleViewer_def

definition parse_entry :: "string \<Rightarrow> RBACUser option" where
  "parse_entry entry =
     (case splitn_char 3 (CHR '':'') (TrimSpace entry) of
        [u, p, r] \<Rightarrow>
          let role = TrimSpace r in
          if role \<noteq> RoleAdmin \<and> role \<noteq> RoleOperator \<and> role \<noteq> RoleViewer then None
          else Some \<lparr>ru_Username = TrimSpace u, ru_Password = TrimSpace p, ru_Role = role\<rparr>
      | _ \<Rightarrow> None)"

fun parse_entries :: "string list \<Rightarrow> (string \<Rightarrow> RBACUser option) \<Rightarrow> (string \<Rightarrow> RBACUser option)" where
  "parse_entries [] m = m"
| "parse_entries (e # es) m =
     (case parse_entry e of None \<Rightarrow> parse_entries es m | Some u \<Rightarrow> parse_entries es (m(ru_Username u \<mapsto> u)))"

text \<open>The nil map is \<^const>\<open>None\<close>.\<close>

definition ParseUsers :: "string \<Rightarrow> (string \<Rightarrow> RBACUser option) option" where
  "ParseUsers raw =
     (if raw = [] then None
      else let users = parse_entries (split_char (CHR '','') raw) Map.empty in
           if map_len users = 0 then None else Some users)"

section \<open>OAuth2\<close>

record OAuth2Config =
  oc_ProviderURL :: string
  oc_ClientID :: string
  oc_RedirectURL :: string
  oc_Scopes :: "string list"

record UserInfo =
  ui_Email :: string
  ui_Name :: string
  ui_Groups :: "string list"
  ui_Provider :: string

record OAuth2Token =
  ot_AccessToken :: string
  ot_RefreshToken :: string
  ot_ExpiresAt :: gotime
  ot_UserInfo :: UserInfo

record OAuth2Provider =
  op_config :: OAuth2Config
  op_codes :: "string \<Rightarrow> UserInfo option"

text \<open>\<open>url_ok\<close> is the error of \<open>url.ParseRequestURI\<close>.\<close>

definition NewOAuth2Provider :: "(string \<Rightarrow> go_error option) \<Rightarrow> OAuth2Config \<Rightarrow> OAuth2Provider result" where
  "NewOAuth2Provider url_ok cfg =
     (if oc_ClientID cfg = [] then Err (Errorf ''oauth2: client_id is required'' [])
      else if oc_RedirectURL cfg = [] then Err (Errorf ''oauth2: redirect_url is required'' [])
      else
        case (if oc_ProviderURL cfg \<noteq> [] then url_ok (oc_ProviderURL cfg) else None) of
          Some err \<Rightarrow> Err (Errorf ''oauth2: invalid provider_url: %w'' [FErr err])
        | None \<Rightarrow>
            Ok \<lparr>op_config = (if oc_Scopes cfg = [] then cfg\<lparr>oc_Scopes := [''openid'', ''profile'', ''email'']\<rparr> else cfg),
                op_codes = Map.empty\<rparr>)"

text \<open>The random bytes, or the time when no random bytes can be read.\<close>

definition generateRandomToken :: "8 word list + int \<Rightarrow> string" where
  "generateRandomToken r =
     (case r of Inl bs \<Rightarrow> hex_encode bs | Inr nanos \<Rightarrow> Sprintf ''fallback-%d'' [FInt nanos])"

definition generateSimulatedCode :: "8 word list + int \<Rightarrow> OAuth2Provider \<Rightarrow> string \<times> OAuth2Provider" where
  "generateSimulatedCode r p =
     (let code = take 16 (generateRandomToken r) in
      (code, p\<lparr>op_codes := (op_codes p)(code \<mapsto>
          \<lparr>ui_Email = ''user@example.com'', ui_Name = ''Simulated User'', ui_Groups = [''admin''], ui_Provider = ''simulated''\<rparr>)\<rparr>))"

definition TrimRight_char :: "char \<Rightarrow> string \<Rightarrow> string" where
  "TrimRight_char c s = rev (dropWhile (\<lambda>x. x = c) (rev s))"

text \<open>\<open>encode\<close> is \<open>url.Values.Encode\<close>.\<close>

definition GetAuthorizationURL ::
  "((string \<times> string) list \<Rightarrow> string) \<Rightarrow> 8 word list + int \<Rightarrow> string \<Rightarrow> OAuth2Provider \<Rightarrow> string \<times> OAuth2Provider" where
  "GetAuthorizationURL encode r state p =
     (let cfg = op_config p in
      if oc_ProviderURL cfg = [] then
        (case generateSimulatedCode r p of
           (simCode, p') \<Rightarrow> (Sprintf ''%s?code=%s&state=%s'' [FStr (oc_RedirectURL cfg), FStr simCode, FStr state], p'))
      else
        (TrimRight_char (CHR ''/'') (oc_ProviderURL cfg) @ ''/protocol/openid-connect/auth'' @ ''?'' @
           encode [(''response_type'', ''code''), (''client_id'', oc_ClientID cfg), (''redirect_uri'', oc_RedirectURL cfg),
                   (''scope'', str_join '' '' (oc_Scopes cfg)), (''state'', state)], p))"

definition ExchangeCode ::
  "8 word list + int \<Rightarrow> 8 word list + int \<Rightarrow> gotime \<Rightarrow> string \<Rightarrow> OAuth2Provider \<Rightarrow> OAuth2Token result \<times> OAuth2Provider" where
  "ExchangeCode r1 r2 now code p =
     (case op_codes p code of
        None \<Rightarrow> (Err (Errorf ''oauth2: invalid or expired authorization code'' []), p)
      | Some info \<Rightarrow>
          (Ok \<lparr>ot_AccessToken = generateRandomToken r1, ot_RefreshToken = generateRandomToken r2,
               ot_ExpiresAt = now + 3600 * second, ot_UserInfo = info\<rparr>,
           p\<lparr>op_codes := (op_codes p)(code := None)\<rparr>))"

text \<open>\<open>host\<close> is what \<open>url.Parse\<close> finds as the host, or its error.\<close>

definition ProviderName :: "(string \<Rightarrow> string result) \<Rightarrow> OAuth2Provider \<Rightarrow> string" where
  "ProviderName host p =
     (if oc_ProviderURL (op_config p) = [] then ''simulated''
      else case host (oc_ProviderURL (op_config p)) of Inl err \<Rightarrow> ''unknown'' | Inr h \<Rightarrow> h)"

definition ValidateIDToken :: "(string \<Rightarrow> string result) \<Rightarrow> string \<Rightarrow> OAuth2Provider \<Rightarrow> UserInfo result" where
  "ValidateIDToken host tokenStr p =
     (case splitn_char 3 (CHR '':'') tokenStr of
        email # name # rest \<Rightarrow>
          Ok \<lparr>ui_Email = email, ui_Name = name,
              ui_Groups = (case rest of [g] \<Rightarrow> if g \<noteq> [] then split_char (CHR '','') g else [] | _ \<Rightarrow> []),
              ui_Provider = ProviderName host p\<rparr>
      | _ \<Rightarrow> Err (Errorf ''oauth2: invalid token format (expected email:name[:groups])'' []))"

section \<open>The life of a token\<close>

text \<open>What the code relies on: a token signed with HS256 under the key that the key function gives is
  parsed back to its claims, as a valid token, until it expires.\<close>

definition jwt_laws :: "jwt_lib \<Rightarrow> bool" where
  "jwt_laws lib \<longleftrightarrow> (\<forall>key c t kf now. jl_Sign lib key c = Ok t \<and> kf ''HS256'' True = Ok key \<and> now < ct_ExpiresAt c
     \<longrightarrow> jl_Parse lib kf now t = Ok (c, True))"

fun revoke_all :: "(gotime \<times> string) list \<Rightarrow> JWTService \<Rightarrow> JWTService" where
  "revoke_all [] j = j"
| "revoke_all ((t, jti) # rs) j = revoke_all rs (RevokeToken t jti j)"

lemma revoke_all_key [simp]: "jw_signingKey (revoke_all rs j) = jw_signingKey j"
  by (induction rs j rule: revoke_all.induct) (simp_all add: RevokeToken_def)

lemma revoke_all_revoked: "IsRevoked x (revoke_all rs j) \<longleftrightarrow> x \<in> snd ` set rs \<or> IsRevoked x j"
  by (induction rs j rule: revoke_all.induct) (auto simp: RevokeToken_def IsRevoked_def)


text \<open>A token library that keeps the laws: a token is its key and its claims, each part quoted.\<close>

definition enc_list :: "string list \<Rightarrow> string" where
  "enc_list ss = concat (map (\<lambda>s. concat (map (\<lambda>c. [CHR ''x'', c]) s) @ ''.'') ss)"

fun dec_list :: "string \<Rightarrow> string \<Rightarrow> string list" where
  "dec_list acc (c # d # cs) = (if c = CHR ''x'' then dec_list (acc @ [d]) cs else acc # dec_list [] (d # cs))"
| "dec_list acc [c] = [acc]"
| "dec_list acc [] = []"

lemma dec_list_part: "dec_list acc (concat (map (\<lambda>c. [CHR ''x'', c]) s) @ ''.'' @ r) = (acc @ s) # dec_list [] r"
  by (induction s arbitrary: acc) (auto, cases r, auto)

lemma dec_enc_list [simp]: "dec_list [] (enc_list ss) = ss"
proof (induction ss)
  case (Cons s ss)
  then show ?case using dec_list_part [of "[]" s "enc_list ss"] by (simp add: enc_list_def)
qed (simp add: enc_list_def)

definition demo_int :: "string \<Rightarrow> int" where
  "demo_int s = (if s \<noteq> [] \<and> hd s = CHR ''-'' then - int (digits_val (tl s)) else int (digits_val s))"

lemma demo_int_show [simp]: "demo_int (show_int i) = i"
  by (simp add: demo_int_def show_int_def)

definition demo_jwt :: jwt_lib where
  "demo_jwt =
     \<lparr>jl_Sign = (\<lambda>key c. Ok (enc_list [key, ct_Username c, ct_Role c, ct_JTI c, ct_Subject c, show_int (ct_IssuedAt c), show_int (ct_ExpiresAt c), ct_ID c])),
      jl_Parse = (\<lambda>kf now t. case dec_list [] t of
         [key, u, r, jti, sub, iat, ex, i] \<Rightarrow>
           (case kf ''HS256'' True of
              Inl e \<Rightarrow> Err e
            | Inr k \<Rightarrow> if k = key \<and> now < demo_int ex
                then Ok (\<lparr>ct_Username = u, ct_Role = r, ct_JTI = jti, ct_Subject = sub, ct_IssuedAt = demo_int iat, ct_ExpiresAt = demo_int ex, ct_ID = i\<rparr>, True)
                else Err (ExtError ''invalid''))
       | _ \<Rightarrow> Err (ExtError ''malformed'')),
      jl_NumericDate = (\<lambda>t. t)\<rparr>"

lemma demo_jwt_laws: "jwt_laws demo_jwt"
  by (auto simp: jwt_laws_def demo_jwt_def)


section \<open>Passwords\<close>

text \<open>What the code relies on: the table has at most one row per user name, which a successful insert
  adds and a successful delete removes, and a select reads; statements that fail change nothing.  A
  hash is accepted with the password it was made from and with no other.\<close>

definition sql_laws :: "'d user_sql \<Rightarrow> ('d \<Rightarrow> string \<Rightarrow> (int \<times> string \<times> string \<times> string \<times> string) option) \<Rightarrow> bool" where
  "sql_laws db rows \<longleftrightarrow>
     (\<forall>u h r d d'. sql_Insert db u h r d = (None, d') \<longrightarrow> rows d u = None \<and> (\<exists>i t. rows d' = (rows d)(u \<mapsto> (i, u, h, r, t))))
   \<and> (\<forall>u h r d e d'. sql_Insert db u h r d = (Some e, d') \<longrightarrow> rows d' = rows d)
   \<and> (\<forall>u d n d'. sql_Delete db u d = (Ok n, d') \<longrightarrow> rows d' = (rows d)(u := None) \<and> (n = 0 \<longleftrightarrow> rows d u = None))
   \<and> (\<forall>u d e d'. sql_Delete db u d = (Err e, d') \<longrightarrow> rows d' = rows d)
   \<and> (\<forall>u d row. sql_Select db u d = Ok row \<longrightarrow> rows d u = Some row)"

definition bcrypt_laws :: "bcrypt \<Rightarrow> bool" where
  "bcrypt_laws bc \<longleftrightarrow> (\<forall>p h q. bc_Generate bc p = Ok h \<longrightarrow> (bc_Compare bc h q = None \<longleftrightarrow> q = p))"

datatype user_op =
    UCreate string string string
  | UDelete string

type_synonym accounts = "string \<Rightarrow> (string \<times> string) option"

text \<open>The accounts a sequence of operations leaves: the password and the role of the last
  successful creation that no successful deletion followed.\<close>

fun user_exec :: "'d user_sql \<Rightarrow> bcrypt \<Rightarrow> user_op \<Rightarrow> 'd \<times> accounts \<Rightarrow> 'd \<times> accounts" where
  "user_exec db bc (UCreate u p r) (d, a) =
     (case CreateUser db bc u p r d of (res, d') \<Rightarrow> (d', if is_ok res then a(u \<mapsto> (p, r)) else a))"
| "user_exec db bc (UDelete u) (d, a) =
     (case DeleteUser db u d of (res, d') \<Rightarrow> (d', if is_ok res then a(u := None) else a))"

definition row_ok :: "bcrypt \<Rightarrow> string \<Rightarrow> (int \<times> string \<times> string \<times> string \<times> string) option \<Rightarrow> (string \<times> string) option \<Rightarrow> bool" where
  "row_ok bc u row acc \<longleftrightarrow> (case row of
       None \<Rightarrow> acc = None
     | Some (i, v, h, r, t) \<Rightarrow> v = u \<and> (\<exists>p. acc = Some (p, r) \<and> bc_Generate bc p = Ok h))"

lemma row_ok_simps [simp]:
  "row_ok bc u None acc \<longleftrightarrow> acc = None"
  "row_ok bc u (Some (i, v, h, r, t)) acc \<longleftrightarrow> v = u \<and> (\<exists>p. acc = Some (p, r) \<and> bc_Generate bc p = Ok h)"
  by (simp_all add: row_ok_def)

definition accounts_ok ::
  "('d \<Rightarrow> string \<Rightarrow> (int \<times> string \<times> string \<times> string \<times> string) option) \<Rightarrow> bcrypt \<Rightarrow> 'd \<times> accounts \<Rightarrow> bool" where
  "accounts_ok rows bc x \<longleftrightarrow> (\<forall>u. row_ok bc u (rows (fst x) u) (snd x u))"

lemma sql_lawsD:
  assumes "sql_laws db rows"
  shows "sql_Insert db u h r d = (None, d') \<Longrightarrow> \<exists>i t. rows d' = (rows d)(u \<mapsto> (i, u, h, r, t))"
    and "sql_Insert db u h r d = (Some e, d') \<Longrightarrow> rows d' = rows d"
    and "sql_Delete db u d = (Ok n, d') \<Longrightarrow> rows d' = (rows d)(u := None) \<and> (n = 0 \<longleftrightarrow> rows d u = None)"
    and "sql_Delete db u d = (Err e, d') \<Longrightarrow> rows d' = rows d"
    and "sql_Select db u d = Ok row \<Longrightarrow> rows d u = Some row"
  using assms by (simp_all add: sql_laws_def, cases row) simp

lemma accounts_okD:
  assumes "accounts_ok rows bc (d, a)"
  shows "rows d u = None \<Longrightarrow> a u = None"
    and "rows d u = Some (i, v, h, r, t) \<Longrightarrow> v = u \<and> (\<exists>p. a u = Some (p, r) \<and> bc_Generate bc p = Ok h)"
  using spec [OF assms [unfolded accounts_ok_def], of u] by simp_all

lemma user_exec_ok:
  assumes laws: "sql_laws db rows" and ok: "accounts_ok rows bc (d, a)"
  shows "accounts_ok rows bc (user_exec db bc op (d, a))"
proof (cases op)
  case (UCreate u p r)
  show ?thesis
  proof (cases "bc_Generate bc p")
    case (Inl e)
    then show ?thesis using ok by (simp add: UCreate CreateUser_def)
  next
    case (Inr h)
    obtain e d' where i: "sql_Insert db u h r d = (e, d')" by (metis prod.exhaust)
    show ?thesis
    proof (cases e)
      case None
      then obtain n t where "rows d' = (rows d)(u \<mapsto> (n, u, h, r, t))" using sql_lawsD(1) [OF laws] i by blast
      then show ?thesis using ok Inr i None by (auto simp: UCreate CreateUser_def accounts_ok_def)
    next
      case (Some er)
      then have "rows d' = rows d" using sql_lawsD(2) [OF laws] i by blast
      then show ?thesis using ok Inr i Some by (simp add: UCreate CreateUser_def accounts_ok_def)
    qed
  qed
next
  case (UDelete u)
  obtain res d' where i: "sql_Delete db u d = (res, d')" by (metis prod.exhaust)
  show ?thesis
  proof (cases res)
    case (Inl e)
    then have "rows d' = rows d" using sql_lawsD(4) [OF laws] i by blast
    then show ?thesis using ok i Inl by (simp add: UDelete DeleteUser_def accounts_ok_def)
  next
    case (Inr n)
    then have e: "rows d' = (rows d)(u := None)" "n = 0 \<longleftrightarrow> rows d u = None" using sql_lawsD(3) [OF laws] i by blast+
    have "rows d u = None \<Longrightarrow> a u = None" by (rule accounts_okD(1) [OF ok])
    then show ?thesis using ok i Inr e by (auto simp: UDelete DeleteUser_def accounts_ok_def fun_upd_idem)
  qed
qed

lemma user_execs_ok:
  assumes "sql_laws db rows" "accounts_ok rows bc x"
  shows "accounts_ok rows bc (fold (user_exec db bc) ops x)"
  using assms(2)
proof (induction ops arbitrary: x)
  case (Cons op ops)
  then show ?case using user_exec_ok [OF assms(1), of bc "fst x" "snd x" op] by simp
qed simp


text \<open>A table as a list of rows, and a hash that is the quoted password.\<close>

definition demo_sql :: "(int \<times> string \<times> string \<times> string \<times> string) list user_sql" where
  "demo_sql =
     \<lparr>sql_Migrate = (\<lambda>d. (None, d)),
      sql_Insert = (\<lambda>u h r d. if u \<in> (\<lambda>(i, v, _). v) ` set d then (Some (ExtError ''UNIQUE constraint failed''), d)
                              else (None, d @ [(int (length d) + 1, u, h, r, ''now'')])),
      sql_Select = (\<lambda>u d. case filter (\<lambda>(i, v, _). v = u) d of [] \<Rightarrow> Err (ExtError ''sql: no rows in result set'') | x # _ \<Rightarrow> Ok x),
      sql_SelectAll = Ok,
      sql_Delete = (\<lambda>u d. (Ok (int (length (filter (\<lambda>(i, v, _). v = u) d))), filter (\<lambda>(i, v, _). v \<noteq> u) d)),
      sql_Count = (\<lambda>d. Ok (int (length d))),
      sql_time = (\<lambda>_. 0)\<rparr>"

definition demo_rows :: "(int \<times> string \<times> string \<times> string \<times> string) list \<Rightarrow> string \<Rightarrow> (int \<times> string \<times> string \<times> string \<times> string) option" where
  "demo_rows d u = List.find (\<lambda>(i, v, _). v = u) d"

definition demo_bcrypt :: bcrypt where
  "demo_bcrypt = \<lparr>bc_Generate = (\<lambda>p. Ok (''$'' @ p)), bc_Compare = (\<lambda>h p. if h = ''$'' @ p then None else Some (ExtError ''mismatch''))\<rparr>"

lemma demo_rows_filter: "demo_rows d u = (case filter (\<lambda>(i, v, _). v = u) d of [] \<Rightarrow> None | x # _ \<Rightarrow> Some x)"
  by (induction d) (auto simp: demo_rows_def)

lemma demo_rows_append: "demo_rows (d @ [x]) u = (case demo_rows d u of None \<Rightarrow> if fst (snd x) = u then Some x else None | Some y \<Rightarrow> Some y)"
  by (induction d) (auto simp: demo_rows_def split: prod.splits)

lemma demo_rows_none: "demo_rows d u = None \<longleftrightarrow> u \<notin> (\<lambda>(i, v, _). v) ` set d"
  by (induction d) (auto simp: demo_rows_def)

lemma demo_rows_delete: "demo_rows (filter (\<lambda>(i, v, _). v \<noteq> u) d) = (demo_rows d)(u := None)"
  by (induction d) (auto simp: demo_rows_def fun_eq_iff)

lemma demo_sql_laws: "sql_laws demo_sql demo_rows"
  unfolding sql_laws_def
proof (intro conjI allI impI)
  fix u h r d d' assume i: "sql_Insert demo_sql u h r d = (None, d')"
  then have n: "demo_rows d u = None" by (simp add: demo_sql_def demo_rows_none split: if_splits)
  then show "demo_rows d u = None" .
  have "demo_rows d' = (demo_rows d)(u \<mapsto> (int (length d) + 1, u, h, r, ''now''))"
    using i n by (auto simp: demo_sql_def demo_rows_append fun_eq_iff split: if_splits option.splits)
  then show "\<exists>i t. demo_rows d' = (demo_rows d)(u \<mapsto> (i, u, h, r, t))" by blast
next
  fix u d n d' assume "sql_Delete demo_sql u d = (Ok n, d')"
  then show "demo_rows d' = (demo_rows d)(u := None)" "(n = 0) = (demo_rows d u = None)"
    by (auto simp: demo_sql_def demo_rows_delete demo_rows_filter split: list.splits)
qed (auto simp: demo_sql_def demo_rows_filter split: if_splits list.splits)


section \<open>Reading the users of the environment\<close>

lemma split_on_append: "(\<And>c. c \<in> set s \<Longrightarrow> \<not> P c) \<Longrightarrow> P d \<Longrightarrow> split_on P (s @ d # t) = s # split_on P t"
  by (induction s) auto

lemma split_on_single: "(\<And>c. c \<in> set s \<Longrightarrow> \<not> P c) \<Longrightarrow> split_on P s = [s]"
  by (induction s) auto

lemma split_char_join:
  "xs \<noteq> [] \<Longrightarrow> (\<And>x. x \<in> set xs \<Longrightarrow> d \<notin> set x) \<Longrightarrow> split_char d (str_join [d] xs) = xs"
proof (induction "[d]" xs rule: str_join.induct)
  case (2 x)
  then have "c \<in> set x \<Longrightarrow> c \<noteq> d" for c by auto
  then show ?case by (simp add: split_char_def split_on_single)
next
  case (3 x y ys)
  then have "c \<in> set x \<Longrightarrow> c \<noteq> d" for c by auto
  then have "split_char d (x @ [d] @ str_join [d] (y # ys)) = x # split_char d (str_join [d] (y # ys))"
    by (simp add: split_char_def split_on_append)
  then show ?case using 3 by simp
qed simp

lemma splitn_char_3:
  assumes "d \<notin> set u" "d \<notin> set p"
  shows "splitn_char 3 d (u @ d # p @ d # r) = [u, p, r]"
proof -
  have *: "takeWhile (\<lambda>c. c \<noteq> d) (s @ d # t) = s" "dropWhile (\<lambda>c. c \<noteq> d) (s @ d # t) = d # t" if "d \<notin> set s" for s t
    using that by (induction s) auto
  show ?thesis using assms by (simp add: numeral_3_eq_3 *)
qed

definition no_space :: "string \<Rightarrow> bool" where
  "no_space s \<longleftrightarrow> list_all (\<lambda>c. \<not> is_space c) s"

lemma dropWhile_no_space: "list_all (\<lambda>c. \<not> is_space c) s \<Longrightarrow> dropWhile is_space s = s"
  by (cases s) simp_all

lemma TrimSpace_no_space: "no_space s \<Longrightarrow> TrimSpace s = s"
  by (simp add: no_space_def TrimSpace_def dropWhile_no_space)

definition print_user :: "RBACUser \<Rightarrow> string" where
  "print_user u = ru_Username u @ '':'' @ ru_Password u @ '':'' @ ru_Role u"

text \<open>A user whose name and password have no colon, comma or space, with one of the three roles.\<close>

definition plain_user :: "RBACUser \<Rightarrow> bool" where
  "plain_user u \<longleftrightarrow> no_space (ru_Username u) \<and> no_space (ru_Password u)
     \<and> CHR '':'' \<notin> set (ru_Username u @ ru_Password u) \<and> CHR '','' \<notin> set (ru_Username u @ ru_Password u)
     \<and> (ru_Role u = ''admin'' \<or> ru_Role u = ''operator'' \<or> ru_Role u = ''viewer'')"

lemma role_plain: "r = ''admin'' \<or> r = ''operator'' \<or> r = ''viewer'' \<Longrightarrow> no_space r \<and> CHR '','' \<notin> set r"
  by (auto simp: no_space_def is_space_def)

lemma parse_print_entry:
  assumes "plain_user u"
  shows "parse_entry (print_user u) = Some u"
proof -
  have ns: "no_space (print_user u)"
    using assms role_plain [of "ru_Role u"] by (auto simp: plain_user_def print_user_def no_space_def is_space_def)
  have "splitn_char 3 (CHR '':'') (print_user u) = [ru_Username u, ru_Password u, ru_Role u]"
    using splitn_char_3 [of "CHR '':''" "ru_Username u" "ru_Password u" "ru_Role u"] assms by (simp add: plain_user_def print_user_def)
  then show ?thesis
    using assms role_plain [of "ru_Role u"] ns
    by (auto simp: parse_entry_def TrimSpace_no_space plain_user_def role_defs Let_def)
qed

lemma parse_entries_plain:
  assumes "list_all plain_user us" "distinct (map ru_Username us)"
  shows "parse_entries (map print_user us) m = m ++ map_of (map (\<lambda>u. (ru_Username u, u)) us)"
  using assms
proof (induction us arbitrary: m)
  case (Cons u us)
  then have "ru_Username u \<notin> dom (map_of (map (\<lambda>u. (ru_Username u, u)) us))"
    by (auto simp: dom_map_of_conv_image_fst image_image)
  then have "m(ru_Username u \<mapsto> u) ++ map_of (map (\<lambda>u. (ru_Username u, u)) us) = m ++ map_of (map (\<lambda>u. (ru_Username u, u)) (u # us))"
    by (auto simp: map_add_def fun_eq_iff split: option.splits)
  then show ?case using Cons by (simp add: parse_print_entry del: fun_upd_apply map_add_upd)
qed simp

text \<open>Printing a non-empty list of plain users with distinct names, separated by commas, and
  parsing the text gives exactly these users under their names.\<close>

theorem parse_users_roundtrip:
  assumes "us \<noteq> []" "list_all plain_user us" "distinct (map ru_Username us)"
  shows "ParseUsers (str_join '','' (map print_user us)) = Some (map_of (map (\<lambda>u. (ru_Username u, u)) us))"
proof -
  have "CHR '','' \<notin> set x" if "x \<in> set (map print_user us)" for x
    using that assms(2) role_plain by (fastforce simp: list_all_iff plain_user_def print_user_def)
  then have s: "split_char (CHR '','') (str_join '','' (map print_user us)) = map print_user us"
    using split_char_join [of "map print_user us" "CHR '',''"] assms(1) by simp
  have "finite (dom (map_of (map (\<lambda>u. (ru_Username u, u)) us)))" by (rule finite_dom_map_of)
  moreover have "dom (map_of (map (\<lambda>u. (ru_Username u, u)) us)) \<noteq> {}" using assms(1) by (simp add: dom_map_of_conv_image_fst)
  ultimately have "map_len (map_of (map (\<lambda>u. (ru_Username u, u)) us)) \<noteq> 0" by (simp add: map_len_def)
  moreover have "str_join '','' (map print_user us) \<noteq> []"
    using assms(1) by (cases us; cases "tl us") (auto simp: print_user_def)
  ultimately show ?thesis by (simp add: ParseUsers_def s parse_entries_plain [OF assms(2,3)])
qed

theorem parse_users_roundtrip_witness:
  "ParseUsers ''ann:pw:admin,bob:x:viewer'' =
     Some [''ann'' \<mapsto> \<lparr>ru_Username = ''ann'', ru_Password = ''pw'', ru_Role = ''admin''\<rparr>,
           ''bob'' \<mapsto> \<lparr>ru_Username = ''bob'', ru_Password = ''x'', ru_Role = ''viewer''\<rparr>]"
proof -
  let ?us = "[\<lparr>ru_Username = ''ann'', ru_Password = ''pw'', ru_Role = ''admin''\<rparr>, \<lparr>ru_Username = ''bob'', ru_Password = ''x'', ru_Role = ''viewer''\<rparr>]"
  have "list_all plain_user ?us" by (simp add: plain_user_def no_space_def is_space_def)
  from parse_users_roundtrip [OF _ this] show ?thesis
    by (simp add: print_user_def fun_upd_twist)
qed

section \<open>Authorization codes\<close>

fun exchange_all :: "((8 word list + int) \<times> (8 word list + int) \<times> gotime \<times> string) list \<Rightarrow> OAuth2Provider \<Rightarrow> OAuth2Token result list \<times> OAuth2Provider" where
  "exchange_all [] p = ([], p)"
| "exchange_all ((r1, r2, now, code) # xs) p =
     (case ExchangeCode r1 r2 now code p of
        (res, p1) \<Rightarrow> (case exchange_all xs p1 of (rs, p2) \<Rightarrow> (res # rs, p2)))"

lemma exchange_codes: "dom (op_codes (snd (exchange_all xs p))) \<subseteq> dom (op_codes p)"
proof (induction xs arbitrary: p)
  case (Cons x xs)
  obtain r1 r2 now code where x: "x = (r1, r2, now, code)" by (cases x)
  have "dom (op_codes (snd (ExchangeCode r1 r2 now code p))) \<subseteq> dom (op_codes p)"
    by (auto simp: ExchangeCode_def split: option.splits if_splits)
  then show ?case using Cons [of "snd (ExchangeCode r1 r2 now code p)"] by (auto simp: x case_prod_unfold)
qed simp

text \<open>A code is worth one token: whatever codes are exchanged in between, a second exchange of the
  same code fails.\<close>

lemma code_used_once:
  assumes "ExchangeCode r1 r2 now code p = (Ok t, p1)"
  shows "\<not> is_ok (fst (ExchangeCode r3 r4 now' code (snd (exchange_all xs p1))))"
proof -
  have "op_codes p1 code = None" using assms by (auto simp: ExchangeCode_def split: option.splits)
  then have "op_codes (snd (exchange_all xs p1)) code = None" using exchange_codes [of xs p1] by (auto simp: domIff subset_iff)
  then show ?thesis by (simp add: ExchangeCode_def)
qed

end
