(* ===== verification/Rbac.thy ===== *)
theory Rbac
  imports Auth Store
begin

text \<open>
  Access control of the REST interface: the permissions of roles and the middleware
  \<^verbatim>\<open>RBACMiddleware\<close> (\<^verbatim>\<open>internal/auth/rbac.go\<close>), the administrator check and the account
  handlers (\<^verbatim>\<open>internal/api/auth_handlers.go\<close>) and the audit record (\<^verbatim>\<open>internal/auth/audit.go\<close>).  The
  part of \<^verbatim>\<open>net/http\<close> they use, HTTP basic authentication with its base64 encoding, is
  modelled here.
\<close>

section \<open>Basic authentication\<close>

definition b64_val :: "char \<Rightarrow> nat option" where
  "b64_val c = (let n = of_char c :: nat in
     if 65 \<le> n \<and> n \<le> 90 then Some (n - 65)
     else if 97 \<le> n \<and> n \<le> 122 then Some (n - 71)
     else if 48 \<le> n \<and> n \<le> 57 then Some (n + 4)
     else if n = 43 then Some 62
     else if n = 47 then Some 63
     else None)"

text \<open>\<open>base64.StdEncoding.DecodeString\<close>: line ends are skipped, the padding is required, unused
  bits of the last character are ignored.\<close>

fun b64_groups :: "string \<Rightarrow> string option" where
  "b64_groups [] = Some []"
| "b64_groups [a, b, c, d] =
     (case (b64_val a, b64_val b) of
        (Some x, Some y) \<Rightarrow>
          (if c = CHR ''='' then (if d = CHR ''='' then Some [char_of (x * 4 + y div 16)] else None)
           else case b64_val c of
                  None \<Rightarrow> None
                | Some z \<Rightarrow>
                    if d = CHR ''='' then Some [char_of (x * 4 + y div 16), char_of (y mod 16 * 16 + z div 4)]
                    else case b64_val d of
                           None \<Rightarrow> None
                         | Some w \<Rightarrow> Some [char_of (x * 4 + y div 16), char_of (y mod 16 * 16 + z div 4), char_of (z mod 4 * 64 + w)])
      | _ \<Rightarrow> None)"
| "b64_groups (a # b # c # d # e # s) =
     (case (b64_val a, b64_val b, b64_val c, b64_val d) of
        (Some x, Some y, Some z, Some w) \<Rightarrow>
          map_option (\<lambda>r. [char_of (x * 4 + y div 16), char_of (y mod 16 * 16 + z div 4), char_of (z mod 4 * 64 + w)] @ r)
            (b64_groups (e # s))
      | _ \<Rightarrow> None)"
| "b64_groups s = None"

definition b64_decode :: "string \<Rightarrow> string option" where
  "b64_decode s = b64_groups (filter (\<lambda>c. c \<noteq> CHR 0x0A \<and> c \<noteq> CHR 0x0D) s)"

definition lower_char :: "char \<Rightarrow> char" where
  "lower_char c = (let n = of_char c :: nat in if 65 \<le> n \<and> n \<le> 90 then char_of (n + 32) else c)"

text \<open>\<open>Request.BasicAuth\<close> on the value of the header.\<close>

definition BasicAuth :: "string \<Rightarrow> (string \<times> string) option" where
  "BasicAuth auth =
     (if length auth < 6 \<or> map lower_char (take 6 auth) \<noteq> ''basic '' then None
      else case b64_decode (drop 6 auth) of
             None \<Rightarrow> None
           | Some cs \<Rightarrow>
               if CHR '':'' \<in> set cs
               then Some (takeWhile (\<lambda>c. c \<noteq> CHR '':'') cs, tl (dropWhile (\<lambda>c. c \<noteq> CHR '':'') cs))
               else None)"

section \<open>Permissions\<close>

definition HasPermission :: "string \<Rightarrow> string \<Rightarrow> string \<Rightarrow> bool" where
  "HasPermission role method path =
     (if role = RoleAdmin then True
      else if role = RoleOperator then
        (if method = ''GET'' then True
         else if method = ''POST'' \<or> method = ''PUT'' \<or> method = ''DELETE'' then True else False)
      else if role = RoleViewer then method = ''GET''
      else False)"

record http_req =
  rq_Method :: string
  rq_Path :: string
  rq_Authorization :: string
  rq_RemoteAddr :: string

record 'd RBACConfig =
  rc_JWTService :: "JWTService option"
  rc_UserDB :: "'d option"

datatype rbac_result =
    RbacNext
  | RbacError int string

definition rbac_exempt :: "string \<Rightarrow> bool" where
  "rbac_exempt path \<longleftrightarrow> path = ''/healthz'' \<or> path = ''/metrics'' \<or> path = ''/api/v1/auth/login''
     \<or> HasPrefix path ''/api/v1/docs'' \<or> HasPrefix path ''/api/v1/auth/oauth2/''"

text \<open>The libraries the middleware uses: tokens, the user table and the hash.\<close>

record 'd auth_libs =
  al_jwt :: jwt_lib
  al_sql :: "'d user_sql"
  al_bcrypt :: bcrypt

definition rbac_role ::
  "'d auth_libs \<Rightarrow> gotime \<Rightarrow> (string \<Rightarrow> RBACUser option) option \<Rightarrow> 'd RBACConfig option \<Rightarrow> http_req \<Rightarrow> string option" where
  "rbac_role libs now users cfg r =
     (let header = rq_Authorization r;
          bearer =
            (case cfg of
               None \<Rightarrow> None
             | Some c \<Rightarrow>
                 (case rc_JWTService c of
                    None \<Rightarrow> None
                  | Some j \<Rightarrow>
                      if HasPrefix header ''Bearer '' then
                        (case ValidateToken (al_jwt libs) now (TrimPrefix header ''Bearer '') j of
                           Inl err \<Rightarrow> None
                         | Inr claims \<Rightarrow> Some (ct_Role claims))
                      else None))
      in case bearer of
           Some role \<Rightarrow> Some role
         | None \<Rightarrow>
             (case BasicAuth header of
                None \<Rightarrow> None
              | Some (username, password) \<Rightarrow>
                  (case (case cfg of
                           None \<Rightarrow> None
                         | Some c \<Rightarrow>
                             (case rc_UserDB c of
                                None \<Rightarrow> None
                              | Some d \<Rightarrow>
                                  (case VerifyPassword (al_sql libs) (al_bcrypt libs) username password d of
                                     Inl err \<Rightarrow> None
                                   | Inr user \<Rightarrow> Some (us_Role user)))) of
                     Some role \<Rightarrow> Some role
                   | None \<Rightarrow>
                       (case users of
                          None \<Rightarrow> None
                        | Some us \<Rightarrow>
                            (case us username of
                               None \<Rightarrow> None
                             | Some user \<Rightarrow> if ru_Password user = password then Some (ru_Role user) else None)))))"

definition RBACMiddleware ::
  "'d auth_libs \<Rightarrow> gotime \<Rightarrow> (string \<Rightarrow> RBACUser option) option \<Rightarrow> 'd RBACConfig option \<Rightarrow> http_req \<Rightarrow> rbac_result" where
  "RBACMiddleware libs now users cfg r =
     (if rbac_exempt (rq_Path r) then RbacNext
      else case rbac_role libs now users cfg r of
             None \<Rightarrow> RbacError 401 ''authentication required''
           | Some role \<Rightarrow>
               if \<not> HasPermission role (rq_Method r) (rq_Path r) then RbacError 403 ''forbidden'' else RbacNext)"

section \<open>Account handlers\<close>

definition extractBearerToken :: "http_req \<Rightarrow> string" where
  "extractBearerToken r =
     (if HasPrefix (rq_Authorization r) ''Bearer '' then TrimPrefix (rq_Authorization r) ''Bearer '' else [])"

text \<open>\<^const>\<open>None\<close> when the request may go on, otherwise the status and the error.\<close>

definition requireAdminFromRequest :: "'d auth_libs \<Rightarrow> gotime \<Rightarrow> JWTService \<Rightarrow> 'd \<Rightarrow> http_req \<Rightarrow> (int \<times> string) option" where
  "requireAdminFromRequest libs now j d r =
     (let tokenStr = extractBearerToken r in
      if tokenStr \<noteq> [] then
        (case ValidateToken (al_jwt libs) now tokenStr j of
           Inl err \<Rightarrow> Some (401, ''invalid token'')
         | Inr claims \<Rightarrow> if ct_Role claims \<noteq> ''admin'' then Some (403, ''admin access required'') else None)
      else
        (case BasicAuth (rq_Authorization r) of
           None \<Rightarrow> Some (401, ''authentication required'')
         | Some (username, password) \<Rightarrow>
             (case VerifyPassword (al_sql libs) (al_bcrypt libs) username password d of
                Inl err \<Rightarrow> Some (401, ''invalid credentials'')
              | Inr user \<Rightarrow> if us_Role user \<noteq> ''admin'' then Some (403, ''admin access required'') else None)))"

datatype auth_body =
    AuthError string
  | AuthToken string gotime
  | AuthStatus string
  | AuthUsers "User list"
  | AuthCreated string string
  | AuthNoContent

text \<open>\<open>allow\<close> is the answer of the login rate limiter and \<open>body\<close> the decoded request, \<^const>\<open>None\<close>
  when it cannot be decoded.\<close>

definition handleAuthLogin ::
  "'d auth_libs \<Rightarrow> bool \<Rightarrow> 8 word list \<Rightarrow> gotime \<Rightarrow> (string \<times> string) option \<Rightarrow> JWTService \<Rightarrow> 'd \<Rightarrow> int \<times> auth_body" where
  "handleAuthLogin libs allow rnd now body j d =
     (if \<not> allow then (429, AuthError ''login rate limit exceeded, try again in 60 seconds'')
      else case body of
             None \<Rightarrow> (400, AuthError ''invalid request body'')
           | Some (username, password) \<Rightarrow>
               if username = [] \<or> password = [] then (400, AuthError ''username and password required'')
               else
                 (case VerifyPassword (al_sql libs) (al_bcrypt libs) username password d of
                    Inl err \<Rightarrow> (401, AuthError ''invalid credentials'')
                  | Inr user \<Rightarrow>
                      (case GenerateToken (al_jwt libs) rnd now (us_Username user) (us_Role user) j of
                         Inl err \<Rightarrow> (500, AuthError ''failed to generate token'')
                       | Inr token \<Rightarrow> (200, AuthToken token (now + TokenTTL j)))))"

definition handleAuthRefresh :: "'d auth_libs \<Rightarrow> 8 word list \<Rightarrow> gotime \<Rightarrow> http_req \<Rightarrow> JWTService \<Rightarrow> int \<times> auth_body" where
  "handleAuthRefresh libs rnd now r j =
     (let tokenStr = extractBearerToken r in
      if tokenStr = [] then (401, AuthError ''bearer token required'')
      else case ValidateToken (al_jwt libs) now tokenStr j of
             Inl err \<Rightarrow> (401, AuthError ''invalid or expired token'')
           | Inr claims \<Rightarrow>
               (case GenerateToken (al_jwt libs) rnd now (ct_Username claims) (ct_Role claims) j of
                  Inl err \<Rightarrow> (500, AuthError ''failed to generate token'')
                | Inr newToken \<Rightarrow> (200, AuthToken newToken (now + TokenTTL j))))"

definition handleAuthLogout :: "'d auth_libs \<Rightarrow> gotime \<Rightarrow> http_req \<Rightarrow> JWTService \<Rightarrow> (int \<times> auth_body) \<times> JWTService" where
  "handleAuthLogout libs now r j =
     (let tokenStr = extractBearerToken r in
      if tokenStr = [] then ((401, AuthError ''bearer token required''), j)
      else case ValidateToken (al_jwt libs) now tokenStr j of
             Inl err \<Rightarrow> ((401, AuthError ''invalid or expired token''), j)
           | Inr claims \<Rightarrow> ((200, AuthStatus ''logged out''), RevokeToken now (ct_JTI claims) j))"

definition handleAuthListUsers :: "'d auth_libs \<Rightarrow> gotime \<Rightarrow> http_req \<Rightarrow> JWTService \<Rightarrow> 'd \<Rightarrow> int \<times> auth_body" where
  "handleAuthListUsers libs now r j d =
     (case requireAdminFromRequest libs now j d r of
        Some (code, e) \<Rightarrow> (code, AuthError e)
      | None \<Rightarrow>
          (case ListUsers (al_sql libs) d of
             Inl err \<Rightarrow> (500, AuthError ''failed to list users'')
           | Inr users \<Rightarrow> (200, AuthUsers users)))"

definition handleAuthCreateUser ::
  "'d auth_libs \<Rightarrow> gotime \<Rightarrow> http_req \<Rightarrow> (string \<times> string \<times> string) option \<Rightarrow> JWTService \<Rightarrow> 'd \<Rightarrow> (int \<times> auth_body) \<times> 'd" where
  "handleAuthCreateUser libs now r body j d =
     (case requireAdminFromRequest libs now j d r of
        Some (code, e) \<Rightarrow> ((code, AuthError e), d)
      | None \<Rightarrow>
          (case body of
             None \<Rightarrow> ((400, AuthError ''invalid request body''), d)
           | Some (username, password, role0) \<Rightarrow>
               if username = [] \<or> password = [] then ((400, AuthError ''username and password required''), d)
               else
                 let role = (if role0 = [] then ''viewer'' else role0) in
                 (case CreateUser (al_sql libs) (al_bcrypt libs) username password role d of
                    (Inl err, d') \<Rightarrow> ((409, AuthError (''failed to create user: '' @ error_string err)), d')
                  | (Inr u, d') \<Rightarrow> ((201, AuthCreated username role), d'))))"

definition handleAuthDeleteUser ::
  "'d auth_libs \<Rightarrow> gotime \<Rightarrow> http_req \<Rightarrow> string \<Rightarrow> JWTService \<Rightarrow> 'd \<Rightarrow> (int \<times> auth_body) \<times> 'd" where
  "handleAuthDeleteUser libs now r username j d =
     (case requireAdminFromRequest libs now j d r of
        Some (code, e) \<Rightarrow> ((code, AuthError e), d)
      | None \<Rightarrow>
          if username = [] then ((400, AuthError ''username required''), d)
          else
            (case DeleteUser (al_sql libs) username d of
               (Inl err, d') \<Rightarrow> ((404, AuthError ''user not found''), d')
             | (Inr u, d') \<Rightarrow> ((204, AuthNoContent), d')))"

section \<open>The audit record\<close>

record AuditEntry =
  ae_Timestamp :: gotime
  ae_User :: string
  ae_Role :: string
  ae_Method :: string
  ae_Path :: string
  ae_StatusCode :: int
  ae_DurationUs :: int
  ae_RemoteAddr :: string

text \<open>\<open>code\<close> is the status the handler wrote, \<^const>\<open>None\<close> if it wrote none.\<close>

definition AuditMiddleware :: "gotime \<Rightarrow> duration \<Rightarrow> int option \<Rightarrow> http_req \<Rightarrow> AuditEntry" where
  "AuditMiddleware start elapsed code r =
     \<lparr>ae_Timestamp = start, ae_User = (case BasicAuth (rq_Authorization r) of None \<Rightarrow> [] | Some (u, p) \<Rightarrow> u), ae_Role = [],
      ae_Method = rq_Method r, ae_Path = rq_Path r, ae_StatusCode = (case code of None \<Rightarrow> 200 | Some c \<Rightarrow> c),
      ae_DurationUs = elapsed div 1000, ae_RemoteAddr = rq_RemoteAddr r\<rparr>"

section \<open>Who gets in\<close>

definition permitted :: "string \<Rightarrow> string \<Rightarrow> bool" where
  "permitted role method \<longleftrightarrow> role = ''admin'' \<or> role = ''operator'' \<and> method \<in> {''GET'', ''POST'', ''PUT'', ''DELETE''}
     \<or> role = ''viewer'' \<and> method = ''GET''"

lemma HasPermission_permitted: "HasPermission role method path \<longleftrightarrow> permitted role method"
  by (auto simp: HasPermission_def permitted_def role_defs)

text \<open>The three ways a request can show a role.\<close>

definition by_token :: "'d auth_libs \<Rightarrow> gotime \<Rightarrow> 'd RBACConfig option \<Rightarrow> string \<Rightarrow> string \<Rightarrow> bool" where
  "by_token libs now cfg header role \<longleftrightarrow> (\<exists>c j tok claims. cfg = Some c \<and> rc_JWTService c = Some j
     \<and> header = ''Bearer '' @ tok \<and> ValidateToken (al_jwt libs) now tok j = Ok claims \<and> ct_Role claims = role)"

definition by_database :: "'d auth_libs \<Rightarrow> 'd RBACConfig option \<Rightarrow> string \<Rightarrow> string \<Rightarrow> bool" where
  "by_database libs cfg header role \<longleftrightarrow> (\<exists>c d u p user. cfg = Some c \<and> rc_UserDB c = Some d
     \<and> BasicAuth header = Some (u, p) \<and> VerifyPassword (al_sql libs) (al_bcrypt libs) u p d = Ok user \<and> us_Role user = role)"

definition by_environment :: "(string \<Rightarrow> RBACUser option) option \<Rightarrow> string \<Rightarrow> string \<Rightarrow> bool" where
  "by_environment users header role \<longleftrightarrow> (\<exists>us u p user. users = Some us \<and> BasicAuth header = Some (u, p)
     \<and> us u = Some user \<and> ru_Password user = p \<and> ru_Role user = role)"

lemma bearer_not_basic: "BasicAuth (''Bearer '' @ tok) = None"
  by (simp add: BasicAuth_def lower_char_def Let_def)

lemma TrimPrefix_append [simp]: "TrimPrefix (p @ s) p = s"
  by (simp add: TrimPrefix_def)

lemma rbac_role_token:
  assumes "HasPrefix (rq_Authorization r) ''Bearer ''"
  shows "rbac_role libs now users cfg r = Some role \<longleftrightarrow> by_token libs now cfg (rq_Authorization r) role"
proof -
  obtain tok where h: "rq_Authorization r = ''Bearer '' @ tok" using assms by (auto simp: HasPrefix_iff)
  have hp: "HasPrefix (''Bearer '' @ tok) ''Bearer ''" "TrimPrefix (''Bearer '' @ tok) ''Bearer '' = tok"
    by (rule HasPrefix_append, rule TrimPrefix_append)
  have inj: "''Bearer '' @ tok = ''Bearer '' @ t \<longleftrightarrow> tok = t" for t by simp
  show ?thesis
    unfolding rbac_role_def by_token_def h Let_def hp inj bearer_not_basic
    by (auto split: option.splits sum.splits)
qed

lemma rbac_role_basic:
  assumes "\<not> HasPrefix (rq_Authorization r) ''Bearer ''"
  shows "rbac_role libs now users cfg r = Some role \<longleftrightarrow> by_database libs cfg (rq_Authorization r) role
    \<or> (\<forall>x. \<not> by_database libs cfg (rq_Authorization r) x) \<and> by_environment users (rq_Authorization r) role"
  unfolding rbac_role_def by_database_def by_environment_def Let_def using assms
  by (auto split: option.splits sum.splits)

lemma rbac_role_iff:
  "rbac_role libs now users cfg r = Some role \<longleftrightarrow> by_token libs now cfg (rq_Authorization r) role
    \<or> by_database libs cfg (rq_Authorization r) role
    \<or> (\<forall>x. \<not> by_database libs cfg (rq_Authorization r) x) \<and> by_environment users (rq_Authorization r) role"
proof (cases "HasPrefix (rq_Authorization r) ''Bearer ''")
  case True
  then have "BasicAuth (rq_Authorization r) = None" using bearer_not_basic by (auto simp: HasPrefix_iff)
  then show ?thesis using rbac_role_token [OF True] by (simp add: by_database_def by_environment_def)
next
  case False
  then have "\<not> by_token libs now cfg (rq_Authorization r) role" by (auto simp: by_token_def)
  then show ?thesis using rbac_role_basic [OF False] by simp
qed

text \<open>C7: A request passes the access control exactly when its path is one of the exempt ones or it
  shows a role that permits its method: by a valid token, by a password the user database accepts, or,
  when the database accepts none, by a password of the environment's list; an operator
  may use GET, POST, PUT and DELETE, a viewer only GET, and an unknown role nothing.\<close>

theorem rbac_access:
  "RBACMiddleware libs now users cfg r = RbacNext \<longleftrightarrow>
     rbac_exempt (rq_Path r)
   \<or> (\<exists>role. permitted role (rq_Method r)
        \<and> (by_token libs now cfg (rq_Authorization r) role \<or> by_database libs cfg (rq_Authorization r) role
           \<or> \<not> (\<exists>x. by_database libs cfg (rq_Authorization r) x) \<and> by_environment users (rq_Authorization r) role))"
proof -
  have "RBACMiddleware libs now users cfg r = RbacNext \<longleftrightarrow>
      rbac_exempt (rq_Path r) \<or> (\<exists>role. permitted role (rq_Method r) \<and> rbac_role libs now users cfg r = Some role)"
    by (cases "rbac_role libs now users cfg r") (auto simp: RBACMiddleware_def HasPermission_permitted)
  then show ?thesis unfolding rbac_role_iff by simp
qed

text \<open>The list of users of the environment stays in force beside the user database: a
  request with a name and password of that list passes with the role given there although the
  database, say after the password was changed or the user deleted, rejects it.\<close>

theorem environment_password_survives:
  assumes "BasicAuth (rq_Authorization r) = Some (u, p)" "us u = Some user" "ru_Password user = p" "permitted (ru_Role user) (rq_Method r)"
    and "VerifyPassword (al_sql libs) (al_bcrypt libs) u p d = Err e"
  shows "RBACMiddleware libs now (Some us) (Some \<lparr>rc_JWTService = j, rc_UserDB = Some d\<rparr>) r = RbacNext"
proof -
  have "\<not> by_database libs (Some \<lparr>rc_JWTService = j, rc_UserDB = Some d\<rparr>) (rq_Authorization r) x" for x
    using assms(1,5) by (auto simp: by_database_def)
  moreover have "by_environment (Some us) (rq_Authorization r) (ru_Role user)" using assms(1-3) by (auto simp: by_environment_def)
  ultimately have "rbac_role libs now (Some us) (Some \<lparr>rc_JWTService = j, rc_UserDB = Some d\<rparr>) r = Some (ru_Role user)"
    using rbac_role_iff [of libs now "Some us" "Some \<lparr>rc_JWTService = j, rc_UserDB = Some d\<rparr>" r "ru_Role user"] by blast
  then show ?thesis using assms(4) by (simp add: RBACMiddleware_def HasPermission_permitted)
qed

definition demo_libs :: "(int \<times> string \<times> string \<times> string \<times> string) list auth_libs" where
  "demo_libs = \<lparr>al_jwt = demo_jwt, al_sql = demo_sql, al_bcrypt = demo_bcrypt\<rparr>"

theorem environment_password_survives_witness:
  "RBACMiddleware demo_libs 9 (Some [''ann'' \<mapsto> \<lparr>ru_Username = ''ann'', ru_Password = ''pw'', ru_Role = ''admin''\<rparr>])
     (Some \<lparr>rc_JWTService = None, rc_UserDB = Some []\<rparr>)
     \<lparr>rq_Method = ''DELETE'', rq_Path = ''/api/v1/vms/1'', rq_Authorization = ''Basic YW5uOnB3'', rq_RemoteAddr = []\<rparr> = RbacNext"
proof -
  have "BasicAuth ''Basic YW5uOnB3'' = Some (''ann'', ''pw'')"
    by (simp add: BasicAuth_def lower_char_def b64_decode_def b64_val_def Let_def char_of_def bit_0)
  moreover have "VerifyPassword (al_sql demo_libs) (al_bcrypt demo_libs) ''ann'' ''pw'' [] = Err (Errorf ''verify password: %w'' [FErr (ExtError ''sql: no rows in result set'')])"
    by (simp add: VerifyPassword_def GetUser_def demo_libs_def demo_sql_def)
  ultimately show ?thesis
    using environment_password_survives [of "\<lparr>rq_Method = ''DELETE'', rq_Path = ''/api/v1/vms/1'', rq_Authorization = ''Basic YW5uOnB3'', rq_RemoteAddr = []\<rparr>"
        "''ann''" "''pw''" "[''ann'' \<mapsto> \<lparr>ru_Username = ''ann'', ru_Password = ''pw'', ru_Role = ''admin''\<rparr>]"
        "\<lparr>ru_Username = ''ann'', ru_Password = ''pw'', ru_Role = ''admin''\<rparr>" demo_libs "[]" _ 9 None]
    by (simp add: permitted_def)
qed

section \<open>Logging out\<close>

text \<open>What the code relies on: a token always carries the same claims.\<close>

definition jwt_stable :: "jwt_lib \<Rightarrow> bool" where
  "jwt_stable lib \<longleftrightarrow> (\<forall>kf now now' t c v c' v'. jl_Parse lib kf now t = Ok (c, v) \<and> jl_Parse lib kf now' t = Ok (c', v') \<longrightarrow> c = c')"

lemma ValidateToken_revoked:
  assumes "jwt_stable lib" "ValidateToken lib now t j = Ok c" "jw_signingKey j' = jw_signingKey j" "IsRevoked (ct_JTI c) j'"
  shows "\<not> is_ok (ValidateToken lib now' t j')"
proof -
  obtain v where v: "jl_Parse lib (signing_key j) now t = Ok (c, v)"
    using assms(2) by (auto simp: ValidateToken_def split: sum.splits prod.splits if_splits)
  have "signing_key j' = signing_key j" using assms(3) by (simp add: signing_key_def fun_eq_iff)
  then have "c' = c" if "jl_Parse lib (signing_key j') now' t = Ok (c', v')" for c' v'
    using that v assms(1) unfolding jwt_stable_def by metis
  then show ?thesis using assms(4) by (auto simp: ValidateToken_def split: sum.splits prod.splits)
qed

text \<open>C33: After a successful logout no request that carries the same authorization header passes
  the access control, at any later time and whatever else is revoked: it is answered with status 401.\<close>

theorem logout_final:
  assumes "jwt_stable (al_jwt libs)" "handleAuthLogout libs now r j = ((200, body), j')"
    and "rq_Authorization r' = rq_Authorization r" "\<not> rbac_exempt (rq_Path r')"
  shows "RBACMiddleware libs now' users (Some \<lparr>rc_JWTService = Some (revoke_all rs j'), rc_UserDB = db\<rparr>) r' =
    RbacError 401 ''authentication required''"
proof -
  have b: "HasPrefix (rq_Authorization r) ''Bearer ''"
    using assms(2) by (auto simp: handleAuthLogout_def extractBearerToken_def Let_def split: if_splits)
  then obtain tok where h: "rq_Authorization r = ''Bearer '' @ tok" by (auto simp: HasPrefix_iff)
  have "extractBearerToken r = tok" using b TrimPrefix_append [of "''Bearer ''" tok] by (simp only: extractBearerToken_def h if_True)
  then obtain c where c: "ValidateToken (al_jwt libs) now tok j = Ok c" "j' = RevokeToken now (ct_JTI c) j"
    using assms(2) by (auto simp: handleAuthLogout_def Let_def split: if_splits sum.splits)
  have "IsRevoked (ct_JTI c) (revoke_all rs j')" by (simp add: revoke_all_revoked) (simp add: c(2) RevokeToken_def IsRevoked_def)
  from ValidateToken_revoked [OF assms(1) c(1) _ this, of now'] have "\<not> is_ok (ValidateToken (al_jwt libs) now' tok (revoke_all rs j'))"
    by (simp add: c(2) RevokeToken_def)
  then have "\<not> by_token libs now' (Some \<lparr>rc_JWTService = Some (revoke_all rs j'), rc_UserDB = db\<rparr>) (rq_Authorization r') role" for role
    using h assms(3) by (auto simp: by_token_def is_ok_iff)
  then have "rbac_role libs now' users (Some \<lparr>rc_JWTService = Some (revoke_all rs j'), rc_UserDB = db\<rparr>) r' \<noteq> Some role" for role
    using rbac_role_token [of r' libs now' users "Some \<lparr>rc_JWTService = Some (revoke_all rs j'), rc_UserDB = db\<rparr>"] b assms(3) by simp
  then have "rbac_role libs now' users (Some \<lparr>rc_JWTService = Some (revoke_all rs j'), rc_UserDB = db\<rparr>) r' = None"
    by (metis option.exhaust)
  then show ?thesis using assms(4) by (simp add: RBACMiddleware_def)
qed

lemma demo_jwt_stable: "jwt_stable demo_jwt"
  by (auto simp: jwt_stable_def demo_jwt_def split: list.splits sum.splits if_splits)

theorem logout_final_witness:
  "\<exists>tok j'. handleAuthLogout demo_libs 110 \<lparr>rq_Method = ''POST'', rq_Path = ''/api/v1/auth/logout'', rq_Authorization = ''Bearer '' @ tok, rq_RemoteAddr = []\<rparr>
        (NewJWTService ''r'' ''key'' 50) = ((200, AuthStatus ''logged out''), j')
    \<and> RBACMiddleware demo_libs 120 None (Some \<lparr>rc_JWTService = Some j', rc_UserDB = None\<rparr>)
        \<lparr>rq_Method = ''GET'', rq_Path = ''/api/v1/vms'', rq_Authorization = ''Bearer '' @ tok, rq_RemoteAddr = []\<rparr> = RbacError 401 ''authentication required''"
proof -
  obtain tok where g: "GenerateToken demo_jwt [1, 2] 100 ''ann'' ''viewer'' (NewJWTService ''r'' ''key'' 50) = Ok tok"
    by (simp add: GenerateToken_def demo_jwt_def)
  let ?r = "\<lparr>rq_Method = ''POST'', rq_Path = ''/api/v1/auth/logout'', rq_Authorization = ''Bearer '' @ tok, rq_RemoteAddr = []\<rparr>"
  have v: "is_ok (ValidateToken demo_jwt 110 tok (NewJWTService ''r'' ''key'' 50))"
    using g by (auto simp: GenerateToken_def ValidateToken_def demo_jwt_def token_claims_def NewJWTService_def IsRevoked_def signing_key_def
        simp del: show_int_numeral)
  have "tok \<noteq> []" using g by (auto simp: GenerateToken_def demo_jwt_def enc_list_def)
  with v obtain j' where l: "handleAuthLogout demo_libs 110 ?r (NewJWTService ''r'' ''key'' 50) = ((200, AuthStatus ''logged out''), j')"
    by (auto simp: is_ok_iff handleAuthLogout_def extractBearerToken_def demo_libs_def TrimPrefix_def)
  from logout_final [OF _ l, of "\<lparr>rq_Method = ''GET'', rq_Path = ''/api/v1/vms'', rq_Authorization = ''Bearer '' @ tok, rq_RemoteAddr = []\<rparr>" 120 None "[]" None] l
  show ?thesis using demo_jwt_stable by (auto simp: demo_libs_def rbac_exempt_def)
qed

end
