(* ===== verification/Ha_Driver.thy ===== *)
theory Ha_Driver
  imports Store
begin

text \<open>
  Cluster state of \<^verbatim>\<open>internal/ha\<close>: the nodes and the fencing of \<^verbatim>\<open>driver_memory.go\<close>,
  \<^verbatim>\<open>EtcdDriver\<close> of \<^verbatim>\<open>driver_etcd.go\<close>, which keeps the nodes in a key-value store, the leader
  election of \<^verbatim>\<open>leader.go\<close>, the service of \<^verbatim>\<open>ha.go\<close> and the registration of
  \<^verbatim>\<open>heartbeat.go\<close>.  The etcd client and its election are parameters; the JSON forms of a node
  and of an event are \<open>enc_node\<close>, \<open>enc_event\<close> and \<open>dec_node\<close>.
\<close>

section \<open>Nodes\<close>

record ClusterNode =
  cn_Name :: string
  cn_Status :: string
  cn_LastSeen :: gotime
  cn_IsLeader :: bool
  cn_VMCount :: int
  cn_FenceAgent :: string

record ClusterStatus =
  cl_Quorum :: bool
  cl_NodeCount :: nat
  cl_OnlineCount :: nat
  cl_Leader :: string
  cl_Status :: string

record FenceEvent =
  fe_ID :: string
  fe_NodeName :: string
  fe_Reason :: string
  fe_Action :: string
  fe_Success :: bool
  fe_Timestamp :: gotime

definition NodeOnline :: string where "NodeOnline = ''online''"
definition NodeOffline :: string where "NodeOffline = ''offline''"
definition NodeFenced :: string where "NodeFenced = ''fenced''"

text \<open>The loop over the nodes that both drivers have: it counts the online nodes and takes the
  last leader it meets.\<close>

definition cluster_status :: "ClusterNode list \<Rightarrow> ClusterStatus" where
  "cluster_status nodes =
     (let online = length (filter (\<lambda>n. cn_Status n = NodeOnline) nodes);
          leader = fold (\<lambda>n l. if cn_IsLeader n then cn_Name n else l) nodes [];
          quorum = (online > length nodes div 2);
          status = (if online = length nodes then ''healthy'' else if quorum then ''degraded'' else ''critical'')
      in \<lparr>cl_Quorum = quorum, cl_NodeCount = length nodes, cl_OnlineCount = online, cl_Leader = leader, cl_Status = status\<rparr>)"

section \<open>The in-memory driver\<close>

record ha_mem =
  hm_nodes :: "string \<Rightarrow> ClusterNode option"
  hm_events :: "FenceEvent list"
  hm_nextID :: int

definition ha_newMemoryDriver :: "gotime \<Rightarrow> ha_mem" where
  "ha_newMemoryDriver now =
     \<lparr>hm_nodes = [''node-01'' \<mapsto> \<lparr>cn_Name = ''node-01'', cn_Status = NodeOnline, cn_LastSeen = now, cn_IsLeader = True,
                                cn_VMCount = 2, cn_FenceAgent = ''ipmi''\<rparr>,
                  ''node-02'' \<mapsto> \<lparr>cn_Name = ''node-02'', cn_Status = NodeOnline, cn_LastSeen = now, cn_IsLeader = False,
                                cn_VMCount = 1, cn_FenceAgent = ''ipmi''\<rparr>,
                  ''node-03'' \<mapsto> \<lparr>cn_Name = ''node-03'', cn_Status = NodeOnline, cn_LastSeen = now, cn_IsLeader = False,
                                cn_VMCount = 0, cn_FenceAgent = ''ipmi''\<rparr>],
      hm_events = [], hm_nextID = 1\<rparr>"

definition HaMem_GetClusterStatus :: "string list \<Rightarrow> ha_mem \<Rightarrow> ClusterStatus" where
  "HaMem_GetClusterStatus ord d = cluster_status (map_values ord (hm_nodes d))"

definition HaMem_ListNodes :: "string list \<Rightarrow> ha_mem \<Rightarrow> ClusterNode list" where
  "HaMem_ListNodes ord d = map_values ord (hm_nodes d)"

definition HaMem_GetNode :: "string \<Rightarrow> ha_mem \<Rightarrow> ClusterNode result" where
  "HaMem_GetNode name d =
     (case hm_nodes d name of None \<Rightarrow> Err (Errorf ''node not found: %s'' [FStr name]) | Some n \<Rightarrow> Ok n)"

definition HaMem_FenceNode :: "gotime \<Rightarrow> string \<Rightarrow> string \<Rightarrow> string \<Rightarrow> ha_mem \<Rightarrow> FenceEvent result \<times> ha_mem" where
  "HaMem_FenceNode now nodeName reason action d =
     (case hm_nodes d nodeName of
        None \<Rightarrow> (Err (Errorf ''node not found: %s'' [FStr nodeName]), d)
      | Some node \<Rightarrow>
          let event = \<lparr>fe_ID = Sprintf ''fence-%d'' [FInt (hm_nextID d)], fe_NodeName = nodeName, fe_Reason = reason,
                       fe_Action = action, fe_Success = True, fe_Timestamp = now\<rparr>
          in (Ok event, d\<lparr>hm_nextID := hm_nextID d + 1, hm_events := hm_events d @ [event],
                         hm_nodes := (hm_nodes d)(nodeName \<mapsto> node\<lparr>cn_Status := NodeFenced\<rparr>)\<rparr>))"

definition HaMem_ListFenceEvents :: "ha_mem \<Rightarrow> FenceEvent list" where
  "HaMem_ListFenceEvents d = hm_events d"

definition HaMem_IsLeader :: "ha_mem \<Rightarrow> bool" where
  "HaMem_IsLeader d = True"

definition HaMem_GetLeader :: "ha_mem \<Rightarrow> string result" where
  "HaMem_GetLeader d = Ok ''self''"

section \<open>Leader election\<close>

record LeaderElection =
  le_nodeName :: string
  le_sessionTTL :: int
  le_isLeader :: bool
  le_singleNode :: bool
  le_election :: bool

definition NewLeaderElection ::
  "(string list \<Rightarrow> go_error option) \<Rightarrow> (string \<Rightarrow> go_error option) \<Rightarrow> string list \<Rightarrow> string \<Rightarrow> int \<Rightarrow> LeaderElection" where
  "NewLeaderElection connect status endpoints nodeName ttl =
     (let le = \<lparr>le_nodeName = nodeName, le_sessionTTL = ttl, le_isLeader = False, le_singleNode = False, le_election = False\<rparr>;
          single = le\<lparr>le_singleNode := True, le_isLeader := True\<rparr>
      in if endpoints = [] then single
         else if connect endpoints \<noteq> None then single
         else if status (hd endpoints) \<noteq> None then single
         else le)"

text \<open>\<open>Campaign\<close> up to the start of its goroutine; \<open>session\<close> is what creating the etcd session
  gives.  The goroutine ends with \<open>campaign_done\<close>.\<close>

definition Campaign :: "go_error option \<Rightarrow> LeaderElection \<Rightarrow> LeaderElection" where
  "Campaign session le =
     (if le_singleNode le then le\<lparr>le_isLeader := True\<rparr>
      else if session \<noteq> None then le\<lparr>le_singleNode := True, le_isLeader := True\<rparr>
      else le\<lparr>le_election := True\<rparr>)"

definition campaign_done :: "go_error option \<Rightarrow> LeaderElection \<Rightarrow> LeaderElection" where
  "campaign_done err le = (if err \<noteq> None then le else le\<lparr>le_isLeader := True\<rparr>)"

definition Resign :: "go_error option \<Rightarrow> LeaderElection \<Rightarrow> unit result \<times> LeaderElection" where
  "Resign err le =
     (let le' = le\<lparr>le_isLeader := False\<rparr> in
      if le_singleNode le then (Ok (), le')
      else if le_election le
      then (case err of Some e \<Rightarrow> (Err (Errorf ''resign leadership: %w'' [FErr e]), le') | None \<Rightarrow> (Ok (), le'))
      else (Ok (), le'))"

definition LE_IsLeader :: "LeaderElection \<Rightarrow> bool" where
  "LE_IsLeader le = le_isLeader le"

text \<open>\<open>query\<close> is the answer of the election: the values of the leader key.\<close>

definition LE_GetLeader :: "string list result \<Rightarrow> LeaderElection \<Rightarrow> string result" where
  "LE_GetLeader query le =
     (if le_singleNode le \<or> \<not> le_election le then Ok (le_nodeName le)
      else case query of
             Inl err \<Rightarrow> if le_isLeader le then Ok (le_nodeName le) else Err (Errorf ''get leader: %w'' [FErr err])
           | Inr [] \<Rightarrow> Ok (le_nodeName le)
           | Inr (v # vs) \<Rightarrow> Ok v)"

section \<open>The etcd driver\<close>

record ha_codec =
  enc_node :: "ClusterNode \<Rightarrow> string result"
  enc_event :: "FenceEvent \<Rightarrow> string result"
  dec_node :: "string \<Rightarrow> ClusterNode result"

record EtcdDriver =
  ed_mem :: ha_mem
  ed_nodeName :: string
  ed_leaderElection :: "LeaderElection option"

type_synonym 's ha_put = "string \<Rightarrow> string result \<Rightarrow> 's \<Rightarrow> unit result \<times> 's"
type_synonym 's ha_list = "string list \<Rightarrow> string \<Rightarrow> 's \<Rightarrow> (string \<times> string) list result \<times> 's"

definition node_key :: "string \<Rightarrow> string" where
  "node_key name = ''ha/nodes/'' @ name"

definition NewEtcdDriver :: "'s ha_put \<Rightarrow> ha_codec \<Rightarrow> gotime \<Rightarrow> string \<Rightarrow> 's \<Rightarrow> EtcdDriver \<times> 's" where
  "NewEtcdDriver put js now nodeName st =
     (\<lparr>ed_mem = ha_newMemoryDriver now, ed_nodeName = nodeName, ed_leaderElection = None\<rparr>,
      snd (put (node_key nodeName)
             (enc_node js \<lparr>cn_Name = nodeName, cn_Status = NodeOnline, cn_LastSeen = now, cn_IsLeader = False,
                           cn_VMCount = 0, cn_FenceAgent = ''ipmi''\<rparr>) st))"

definition Etcd_ListNodes ::
  "'s ha_list \<Rightarrow> ha_codec \<Rightarrow> string list \<Rightarrow> string list \<Rightarrow> EtcdDriver \<Rightarrow> 's \<Rightarrow> ClusterNode list \<times> 's" where
  "Etcd_ListNodes list js kord ord d st =
     (case list kord ''ha/nodes/'' st of
        (Inl err, st') \<Rightarrow> (HaMem_ListNodes ord (ed_mem d), st')
      | (Inr kvs, st') \<Rightarrow>
          let nodes = List.map_filter (\<lambda>(k, v). result_value (dec_node js v)) kvs in
          if nodes = [] then (HaMem_ListNodes ord (ed_mem d), st') else (nodes, st'))"

definition Etcd_GetClusterStatus ::
  "'s ha_list \<Rightarrow> ha_codec \<Rightarrow> string list \<Rightarrow> string list \<Rightarrow> EtcdDriver \<Rightarrow> 's \<Rightarrow> ClusterStatus \<times> 's" where
  "Etcd_GetClusterStatus list js kord ord d st =
     (case Etcd_ListNodes list js kord ord d st of (nodes, st') \<Rightarrow> (cluster_status nodes, st'))"

definition Etcd_FenceNode ::
  "'s ha_put \<Rightarrow> ha_codec \<Rightarrow> gotime \<Rightarrow> string \<Rightarrow> string \<Rightarrow> string \<Rightarrow> EtcdDriver \<Rightarrow> 's \<Rightarrow> FenceEvent result \<times> EtcdDriver \<times> 's" where
  "Etcd_FenceNode put js now nodeName reason action d st =
     (case HaMem_FenceNode now nodeName reason action (ed_mem d) of
        (Inl err, m) \<Rightarrow> (Err err, d\<lparr>ed_mem := m\<rparr>, st)
      | (Inr event, m) \<Rightarrow>
          let st1 = snd (put (''ha/fence-events/'' @ fe_ID event) (enc_event js event) st);
              st2 = snd (put (node_key nodeName)
                     (enc_node js \<lparr>cn_Name = nodeName, cn_Status = NodeFenced, cn_LastSeen = now, cn_IsLeader = False,
                                   cn_VMCount = 0, cn_FenceAgent = ''ipmi''\<rparr>) st1)
          in (Ok event, d\<lparr>ed_mem := m\<rparr>, st2))"

definition Etcd_IsLeader :: "EtcdDriver \<Rightarrow> bool" where
  "Etcd_IsLeader d = (case ed_leaderElection d of Some le \<Rightarrow> LE_IsLeader le | None \<Rightarrow> True)"

definition Etcd_GetLeader :: "string list result \<Rightarrow> EtcdDriver \<Rightarrow> string result" where
  "Etcd_GetLeader query d = (case ed_leaderElection d of Some le \<Rightarrow> LE_GetLeader query le | None \<Rightarrow> Ok (ed_nodeName d))"

definition SetLeaderElection :: "LeaderElection \<Rightarrow> EtcdDriver \<Rightarrow> EtcdDriver" where
  "SetLeaderElection le d = d\<lparr>ed_leaderElection := Some le\<rparr>"

section \<open>Heartbeat\<close>

definition heartbeat_register :: "'s ha_put \<Rightarrow> ha_codec \<Rightarrow> gotime \<Rightarrow> string \<Rightarrow> 's \<Rightarrow> 's" where
  "heartbeat_register put js now nodeName st =
     snd (put (node_key nodeName)
            (enc_node js \<lparr>cn_Name = nodeName, cn_Status = NodeOnline, cn_LastSeen = now, cn_IsLeader = False,
                          cn_VMCount = 0, cn_FenceAgent = []\<rparr>) st)"

definition Deregister :: "(string \<Rightarrow> 's \<Rightarrow> unit result \<times> 's) \<Rightarrow> string \<Rightarrow> 's \<Rightarrow> 's" where
  "Deregister delete nodeName st = snd (delete (node_key nodeName) st)"

text \<open>\<open>GetNodeName\<close>, with the environment variable and the host name.\<close>

definition GetNodeName :: "string \<Rightarrow> string result \<Rightarrow> string" where
  "GetNodeName env hostname =
     (if env \<noteq> [] then env else case hostname of Inl e \<Rightarrow> ''unknown'' | Inr h \<Rightarrow> h)"

section \<open>Quorum\<close>

lemma count_all: "length (filter P xs) = length xs \<longleftrightarrow> (\<forall>x \<in> set xs. P x)"
  by (metis filter_True length_filter_less less_irrefl)

text \<open>The cluster has a quorum exactly when a strict majority of its nodes is online; it is
  healthy exactly when all nodes are online (an empty cluster included), degraded exactly when a
  majority but not all of them is online, and critical exactly when the majority is lost.\<close>

theorem cluster_status_spec:
  "(cl_Quorum (cluster_status ns) \<longleftrightarrow> 2 * length (filter (\<lambda>n. cn_Status n = ''online'') ns) > length ns)
   \<and> (cl_Status (cluster_status ns) = ''healthy'' \<longleftrightarrow> list_all (\<lambda>n. cn_Status n = ''online'') ns)
   \<and> (cl_Status (cluster_status ns) = ''degraded'' \<longleftrightarrow>
        cl_Quorum (cluster_status ns) \<and> list_ex (\<lambda>n. cn_Status n \<noteq> ''online'') ns)
   \<and> (cl_Status (cluster_status ns) = ''critical'' \<longleftrightarrow>
        \<not> cl_Quorum (cluster_status ns) \<and> list_ex (\<lambda>n. cn_Status n \<noteq> ''online'') ns)"
proof -
  let ?k = "length (filter (\<lambda>n. cn_Status n = ''online'') ns)"
  have q: "length ns div 2 < ?k \<longleftrightarrow> length ns < 2 * ?k" by linarith
  show ?thesis
    using count_all [of "\<lambda>n. cn_Status n = ''online''" ns] q
    by (auto simp: cluster_status_def NodeOnline_def Let_def list_all_iff list_ex_iff)
qed

section \<open>Fencing\<close>

lemma map_filter_in: "x \<in> set xs \<Longrightarrow> f x = Some y \<Longrightarrow> y \<in> set (List.map_filter f xs)"
  by (force simp: List.map_filter_def)

lemma Etcd_ListNodes_in:
  assumes "range_order kord st" "st (node_key name) = Some t" "dec_node js t = Ok n"
  shows "n \<in> set (fst (Etcd_ListNodes MS_List js kord ord d st))"
proof -
  obtain xs where l: "MS_List kord ''ha/nodes/'' st = (Ok xs, st)" by (simp add: MS_List_def)
  have "(node_key name, t) \<in> set xs"
    using mem_store.list_ok [OF assms(1) l] assms(2) by (simp add: node_key_def)
  then have "n \<in> set (List.map_filter (\<lambda>(k, v). result_value (dec_node js v)) xs)"
    by (rule map_filter_in) (simp add: assms(3))
  then show ?thesis by (auto simp: Etcd_ListNodes_def l Let_def)
qed

text \<open>Fencing does not outlast the next heartbeat: a node that was fenced and whose own
  heartbeat registers it again is listed as online, whatever the other nodes are.\<close>

theorem heartbeat_unfences:
  assumes "Etcd_FenceNode MS_Put js now name reason action d st = (Ok ev, d1, st1)"
    and "enc_node js \<lparr>cn_Name = name, cn_Status = NodeOnline, cn_LastSeen = now2, cn_IsLeader = False, cn_VMCount = 0,
           cn_FenceAgent = []\<rparr> = Ok t"
    and "dec_node js t = Ok \<lparr>cn_Name = name, cn_Status = NodeOnline, cn_LastSeen = now2, cn_IsLeader = False, cn_VMCount = 0,
           cn_FenceAgent = []\<rparr>"
    and "range_order kord (heartbeat_register MS_Put js now2 name st1)"
  shows "\<exists>n \<in> set (fst (Etcd_ListNodes MS_List js kord ord d1 (heartbeat_register MS_Put js now2 name st1))).
    cn_Name n = name \<and> cn_Status n = ''online''"
proof -
  have "heartbeat_register MS_Put js now2 name st1 (node_key name) = Some t"
    using assms(2) by (simp add: heartbeat_register_def MS_Put_def)
  note in_list = Etcd_ListNodes_in [OF assms(4) this assms(3), of ord d1]
  show ?thesis by (rule bexI [OF _ in_list]) (simp add: NodeOnline_def)
qed

definition demo_codec :: ha_codec where
  "demo_codec = \<lparr>enc_node = (\<lambda>n. Ok (cn_Status n)), enc_event = (\<lambda>e. Ok (fe_ID e)),
     dec_node = (\<lambda>s. Ok \<lparr>cn_Name = ''node-02'', cn_Status = s, cn_LastSeen = 9, cn_IsLeader = False, cn_VMCount = 0,
                         cn_FenceAgent = []\<rparr>)\<rparr>"

theorem heartbeat_unfences_witness:
  "\<exists>ev d1 st1. Etcd_FenceNode MS_Put demo_codec 5 ''node-02'' ''lost'' ''reboot''
       (fst (NewEtcdDriver MS_Put demo_codec 1 ''node-01'' NewMemoryStore)) NewMemoryStore = (Ok ev, d1, st1)
     \<and> (\<exists>n \<in> set (fst (Etcd_ListNodes MS_List demo_codec [''ha/fence-events/fence-1'', ''ha/nodes/node-02''] [] d1
            (heartbeat_register MS_Put demo_codec 9 ''node-02'' st1))). cn_Name n = ''node-02'' \<and> cn_Status n = ''online'')"
proof -
  obtain ev d1 st1 where f: "Etcd_FenceNode MS_Put demo_codec 5 ''node-02'' ''lost'' ''reboot''
       (fst (NewEtcdDriver MS_Put demo_codec 1 ''node-01'' NewMemoryStore)) NewMemoryStore = (Ok ev, d1, st1)"
    and st1: "dom st1 = {''ha/fence-events/fence-1'', ''ha/nodes/node-02''}"
    by (simp add: Etcd_FenceNode_def HaMem_FenceNode_def NewEtcdDriver_def ha_newMemoryDriver_def MS_Put_def demo_codec_def
        NewMemoryStore_def node_key_def Let_def Sprintf_def show_int_def show_nat.simps)
      (auto simp: dom_def)
  have "range_order [''ha/fence-events/fence-1'', ''ha/nodes/node-02''] (heartbeat_register MS_Put demo_codec 9 ''node-02'' st1)"
    using st1 by (auto simp: range_order_def heartbeat_register_def MS_Put_def demo_codec_def node_key_def)
  from heartbeat_unfences [OF f _ _ this, of "''online''"] f show ?thesis
    by (simp add: demo_codec_def NodeOnline_def)
qed

end
