(* ===== verification/Failover.thy ===== *)
theory Failover
  imports Ha_Driver
begin

text \<open>
  Reaction to node failures in \<^verbatim>\<open>internal/ha\<close>: the lock manager (\<^verbatim>\<open>lock.go\<close>), the failure
  detector (\<^verbatim>\<open>heartbeat.go\<close>) and the failover manager (\<^verbatim>\<open>failover.go\<close>).  An in-memory lock
  that is held would block the caller; this is the value \<^const>\<open>None\<close>.  The etcd locks and the
  compute provider are parameters.
\<close>

section \<open>Locks\<close>

record LockManager =
  lk_held :: "string \<Rightarrow> bool"
  lk_inMemory :: bool

definition NewLockManager ::
  "(string list \<Rightarrow> go_error option) \<Rightarrow> (string \<Rightarrow> go_error option) \<Rightarrow> string list \<Rightarrow> LockManager" where
  "NewLockManager connect status endpoints =
     \<lparr>lk_held = (\<lambda>_. False),
      lk_inMemory = (endpoints = [] \<or> connect endpoints \<noteq> None \<or> status (hd endpoints) \<noteq> None)\<rparr>"

definition acquireInMemory :: "string \<Rightarrow> LockManager \<Rightarrow> (unit result \<times> LockManager) option" where
  "acquireInMemory key lm =
     (if lk_held lm key then None else Some (Ok (), lm\<lparr>lk_held := (lk_held lm)(key := True)\<rparr>))"

definition tryAcquireInMemory :: "string \<Rightarrow> LockManager \<Rightarrow> bool \<times> LockManager" where
  "tryAcquireInMemory key lm =
     (if lk_held lm key then (False, lm) else (True, lm\<lparr>lk_held := (lk_held lm)(key := True)\<rparr>))"

text \<open>\<open>session\<close> and \<open>lock\<close> are what creating the session, with a time to live in seconds, and
  locking the key give.\<close>

definition acquireEtcd ::
  "(int \<Rightarrow> go_error option) \<Rightarrow> (string \<Rightarrow> go_error option) \<Rightarrow> string \<Rightarrow> duration \<Rightarrow> unit result" where
  "acquireEtcd session lock key ttl =
     (let s = ttl div second; ttlSec = (if s < 1 then 5 else s) in
      case session ttlSec of
        Some err \<Rightarrow> Err (Errorf ''create etcd session: %w'' [FErr err])
      | None \<Rightarrow>
          (case lock (''/hcv/locks/'' @ key) of
             Some err \<Rightarrow> Err (Errorf ''acquire etcd lock %q: %w'' [FStr key, FErr err])
           | None \<Rightarrow> Ok ()))"

record lock_env =
  lo_session :: "int \<Rightarrow> go_error option"
  lo_lock :: "string \<Rightarrow> go_error option"

definition Acquire :: "lock_env \<Rightarrow> string \<Rightarrow> duration \<Rightarrow> LockManager \<Rightarrow> (unit result \<times> LockManager) option" where
  "Acquire env key ttl lm =
     (if lk_inMemory lm then acquireInMemory key lm
      else Some (acquireEtcd (lo_session env) (lo_lock env) key ttl, lm))"

definition TryAcquire :: "lock_env \<Rightarrow> string \<Rightarrow> duration \<Rightarrow> LockManager \<Rightarrow> bool \<times> LockManager" where
  "TryAcquire env key ttl lm =
     (if lk_inMemory lm then tryAcquireInMemory key lm
      else (is_ok (acquireEtcd (lo_session env) (lo_lock env) key ttl), lm))"

definition unlock :: "string \<Rightarrow> LockManager \<Rightarrow> LockManager" where
  "unlock key lm = (if lk_inMemory lm then lm\<lparr>lk_held := (lk_held lm)(key := False)\<rparr> else lm)"

definition WithLock ::
  "lock_env \<Rightarrow> string \<Rightarrow> duration \<Rightarrow> ('c \<Rightarrow> unit result \<times> 'c) \<Rightarrow> LockManager \<times> 'c \<Rightarrow> (unit result \<times> LockManager \<times> 'c) option" where
  "WithLock env key ttl fn = (\<lambda>(lm, c).
     case Acquire env key ttl lm of
       None \<Rightarrow> None
     | Some (Inl err, lm1) \<Rightarrow> Some (Err (Errorf ''acquire lock %q: %w'' [FStr key, FErr err]), lm1, c)
     | Some (Inr u, lm1) \<Rightarrow> (case fn c of (r, c') \<Rightarrow> Some (r, unlock key lm1, c')))"

section \<open>The failure detector\<close>

record FailureDetector =
  fd_failureThreshold :: duration
  fd_failedNodes :: "string \<Rightarrow> bool"

definition NewFailureDetector :: "duration \<Rightarrow> FailureDetector" where
  "NewFailureDetector interval = \<lparr>fd_failureThreshold = interval * 3, fd_failedNodes = (\<lambda>_. False)\<rparr>"

text \<open>\<open>checkNodes\<close>: the loop returns the nodes for which the callbacks run, in order.\<close>

fun check_loop :: "gotime \<Rightarrow> duration \<Rightarrow> ClusterNode list \<Rightarrow> (string \<Rightarrow> bool) \<Rightarrow> string list \<times> (string \<Rightarrow> bool)" where
  "check_loop now threshold [] failed = ([], failed)"
| "check_loop now threshold (node # nodes) failed =
     (if cn_Status node = NodeFenced then check_loop now threshold nodes failed
      else
        let elapsed = now - cn_LastSeen node; wasFailed = failed (cn_Name node) in
        if elapsed > threshold \<and> cn_Status node = NodeOnline then
          (if \<not> wasFailed
           then (case check_loop now threshold nodes (failed(cn_Name node := True)) of (cbs, f) \<Rightarrow> (cn_Name node # cbs, f))
           else check_loop now threshold nodes failed)
        else if wasFailed \<and> elapsed \<le> threshold then check_loop now threshold nodes (failed(cn_Name node := False))
        else check_loop now threshold nodes failed)"

definition checkNodes :: "gotime \<Rightarrow> ClusterNode list result \<Rightarrow> FailureDetector \<Rightarrow> string list \<times> FailureDetector" where
  "checkNodes now listed fd =
     (case listed of
        Inl err \<Rightarrow> ([], fd)
      | Inr nodes \<Rightarrow>
          (case check_loop now (fd_failureThreshold fd) nodes (fd_failedNodes fd) of
             (cbs, f) \<Rightarrow> (cbs, fd\<lparr>fd_failedNodes := f\<rparr>)))"

text \<open>The rounds of \<open>Start\<close>: the time of each tick and what the driver lists then; the result is
  the callbacks of each round.\<close>

fun fd_rounds :: "(gotime \<times> ClusterNode list result) list \<Rightarrow> FailureDetector \<Rightarrow> string list list \<times> FailureDetector" where
  "fd_rounds [] fd = ([], fd)"
| "fd_rounds (r # rs) fd =
     (case checkNodes (fst r) (snd r) fd of
        (cbs, fd1) \<Rightarrow> (case fd_rounds rs fd1 of (reps, fd2) \<Rightarrow> (cbs # reps, fd2)))"

section \<open>The failover manager\<close>

record VMSummary =
  vs_Handle :: int32
  vs_Name :: string
  vs_Node :: string
  vs_State :: string
  vs_RestartPolicy :: string

record 'c provider =
  pr_ListVMs :: "'c \<Rightarrow> VMSummary list"
  pr_MigrateVM :: "int32 \<Rightarrow> string \<Rightarrow> 'c \<Rightarrow> unit result \<times> 'c"

text \<open>\<open>driver\<close> is \<^const>\<open>None\<close> when no driver is set; otherwise it is what \<open>ListNodes\<close> gives.\<close>

definition selectTargetNode :: "ClusterNode list result option \<Rightarrow> string \<Rightarrow> string" where
  "selectTargetNode driver exclude =
     (case driver of
        None \<Rightarrow> ''local''
      | Some (Inl err) \<Rightarrow> ''local''
      | Some (Inr nodes) \<Rightarrow>
          (case filter (\<lambda>n. cn_Name n \<noteq> exclude \<and> cn_Status n = NodeOnline) nodes of
             [] \<Rightarrow> []
           | n # ns \<Rightarrow> cn_Name n))"

text \<open>The loop over the affected machines; it returns the migrations asked for, and \<^const>\<open>None\<close>
  if a lock blocks it for ever.\<close>

fun failover_loop ::
  "'c provider \<Rightarrow> (VMSummary \<Rightarrow> lock_env) \<Rightarrow> string \<Rightarrow> VMSummary list \<Rightarrow> LockManager \<times> 'c
     \<Rightarrow> ((int32 \<times> string) list \<times> LockManager \<times> 'c) option" where
  "failover_loop p envs target [] s = Some ([], s)"
| "failover_loop p envs target (vm # vms) s =
     (let policy = (if vs_RestartPolicy vm = [] then ''always'' else vs_RestartPolicy vm) in
      if policy = ''never'' then failover_loop p envs target vms s
      else
        (case WithLock (envs vm) (''failover-vm-'' @ vs_Name vm) (30 * second)
                (\<lambda>(tr, c). case pr_MigrateVM p (vs_Handle vm) target c of
                    (r, c') \<Rightarrow> (r, (tr @ [(vs_Handle vm, target)], c'))) (fst s, [], snd s) of
           None \<Rightarrow> None
         | Some (r, lm, tr, c) \<Rightarrow>
             (case failover_loop p envs target vms (lm, c) of
                None \<Rightarrow> None
              | Some (tr', s') \<Rightarrow> Some (tr @ tr', s'))))"

definition HandleNodeDown ::
  "bool option \<Rightarrow> 'c provider option \<Rightarrow> (VMSummary \<Rightarrow> lock_env) \<Rightarrow> ClusterNode list result option \<Rightarrow> string
     \<Rightarrow> LockManager \<times> 'c \<Rightarrow> ((int32 \<times> string) list \<times> LockManager \<times> 'c) option" where
  "HandleNodeDown leader provider envs driver failedNode s =
     (if leader = Some False then Some ([], s)
      else case provider of
             None \<Rightarrow> Some ([], s)
           | Some p \<Rightarrow>
               let affected = filter (\<lambda>vm. vs_Node vm = failedNode) (pr_ListVMs p (snd s)) in
               if affected = [] then Some ([], s)
               else let target = selectTargetNode driver failedNode in
                    if target = [] then Some ([], s)
                    else failover_loop p envs target affected s)"

section \<open>Correctness of the detector\<close>

definition stale :: "gotime \<Rightarrow> duration \<Rightarrow> ClusterNode \<Rightarrow> bool" where
  "stale now threshold n \<longleftrightarrow> now - cn_LastSeen n > threshold"

lemma check_loop_absent:
  "x \<notin> cn_Name ` set nodes \<Longrightarrow> x \<notin> set (fst (check_loop now thr nodes f)) \<and> snd (check_loop now thr nodes f) x = f x"
  by (induction nodes arbitrary: f) (auto simp: Let_def case_prod_unfold)

lemma check_loop_keeps_failed:
  assumes "f x" "\<forall>m \<in> set nodes. cn_Name m = x \<longrightarrow> stale now thr m"
  shows "x \<notin> set (fst (check_loop now thr nodes f)) \<and> snd (check_loop now thr nodes f) x"
  using assms by (induction nodes arbitrary: f) (auto simp: Let_def stale_def case_prod_unfold)

lemma check_loop_reports:
  assumes "distinct (map cn_Name nodes)" "n \<in> set nodes" "cn_Status n = NodeOnline" "stale now thr n" "\<not> f (cn_Name n)"
  shows "count_list (fst (check_loop now thr nodes f)) (cn_Name n) = 1 \<and> snd (check_loop now thr nodes f) (cn_Name n)"
  using assms
proof (induction nodes arbitrary: f)
  case (Cons node nodes)
  show ?case
  proof (cases "node = n")
    case True
    then have "cn_Name n \<notin> cn_Name ` set nodes" using Cons.prems(1) by auto
    then show ?thesis using True Cons.prems(3-5) check_loop_absent [of "cn_Name n" nodes now thr "f(cn_Name n := True)"]
      by (auto simp: NodeOnline_def NodeFenced_def stale_def count_notin case_prod_unfold)
  next
    case False
    then have "n \<in> set nodes" "cn_Name node \<noteq> cn_Name n" using Cons.prems(1,2) by auto
    then show ?thesis using Cons False by (auto simp: Let_def case_prod_unfold)
  qed
qed simp

lemma checkNodes_threshold: "fd_failureThreshold (snd (checkNodes now r fd)) = fd_failureThreshold fd"
  by (simp add: checkNodes_def split: sum.splits prod.splits)

lemma fd_rounds_keep_failed:
  assumes "fd_failedNodes fd x"
    and "\<forall>(t, r) \<in> set rounds. \<forall>ms. r = Ok ms \<longrightarrow> (\<forall>m \<in> set ms. cn_Name m = x \<longrightarrow> stale t (fd_failureThreshold fd) m)"
  shows "\<forall>rep \<in> set (fst (fd_rounds rounds fd)). x \<notin> set rep"
  using assms
proof (induction rounds arbitrary: fd)
  case (Cons r rounds)
  obtain t l where r: "r = (t, l)" by (cases r)
  have "x \<notin> set (fst (checkNodes t l fd)) \<and> fd_failedNodes (snd (checkNodes t l fd)) x"
    using Cons.prems check_loop_keeps_failed [of "fd_failedNodes fd" x _ t "fd_failureThreshold fd"]
    by (auto simp: r checkNodes_def split: sum.splits prod.splits) (metis fst_conv snd_conv)+
  moreover have "\<forall>rep \<in> set (fst (fd_rounds rounds (snd (checkNodes t l fd)))). x \<notin> set rep"
    using Cons.IH [of "snd (checkNodes t l fd)"] Cons.prems(2) calculation by (simp add: checkNodes_threshold)
  ultimately show ?case by (auto simp: r split: prod.splits)
qed simp

definition demo_node :: "string \<Rightarrow> gotime \<Rightarrow> ClusterNode" where
  "demo_node name seen = \<lparr>cn_Name = name, cn_Status = ''online'', cn_LastSeen = seen, cn_IsLeader = False, cn_VMCount = 0, cn_FenceAgent = []\<rparr>"

text \<open>C26: A node that is listed online and has not been seen for longer than the threshold, and
  that is not marked as failed, is reported exactly once in the round, and it is not reported again
  in any later round as long as it is never seen within the threshold.\<close>

theorem node_down_reported_once:
  assumes "distinct (map cn_Name nodes)" "n \<in> set nodes" "cn_Status n = ''online''"
    and "stale now (fd_failureThreshold fd) n" "\<not> fd_failedNodes fd (cn_Name n)"
    and "\<forall>(t, r) \<in> set rounds. \<forall>ms. r = Ok ms \<longrightarrow>
          (\<forall>m \<in> set ms. cn_Name m = cn_Name n \<longrightarrow> stale t (fd_failureThreshold fd) m)"
  shows "count_list (fst (checkNodes now (Ok nodes) fd)) (cn_Name n) = 1
    \<and> (\<forall>rep \<in> set (fst (fd_rounds rounds (snd (checkNodes now (Ok nodes) fd)))). cn_Name n \<notin> set rep)"
proof -
  have *: "count_list (fst (checkNodes now (Ok nodes) fd)) (cn_Name n) = 1"
    "fd_failedNodes (snd (checkNodes now (Ok nodes) fd)) (cn_Name n)"
    using check_loop_reports [of nodes n now "fd_failureThreshold fd" "fd_failedNodes fd"] assms(1-5)
    by (simp_all add: checkNodes_def NodeOnline_def case_prod_unfold)
  show ?thesis
    using *(1) fd_rounds_keep_failed [of "snd (checkNodes now (Ok nodes) fd)" "cn_Name n" rounds] *(2) assms(6)
    by (simp add: checkNodes_threshold)
qed

theorem node_down_reported_once_witness:
  "count_list (fst (checkNodes 100 (Ok [demo_node ''a'' 95, demo_node ''b'' 10]) (NewFailureDetector 10))) ''b'' = 1
   \<and> list_all (\<lambda>rep. ''b'' \<notin> set rep) (fst (fd_rounds [(120, Ok [demo_node ''a'' 115, demo_node ''b'' 10]), (130, Err ErrCircuitOpen), (140, Ok [demo_node ''b'' 10])]
        (snd (checkNodes 100 (Ok [demo_node ''a'' 95, demo_node ''b'' 10]) (NewFailureDetector 10)))))"
  using node_down_reported_once [of "[demo_node ''a'' 95, demo_node ''b'' 10]" "demo_node ''b'' 10" 100 "NewFailureDetector 10"
      "[(120, Ok [demo_node ''a'' 115, demo_node ''b'' 10]), (130, Err ErrCircuitOpen), (140, Ok [demo_node ''b'' 10])]"]
  by (simp add: demo_node_def NewFailureDetector_def stale_def list_all_iff)

section \<open>Correctness of the failover\<close>

text \<open>The machines a failure of \<open>node\<close> has to move, and the node they have to move to.\<close>

definition to_move :: "string \<Rightarrow> VMSummary list \<Rightarrow> VMSummary list" where
  "to_move node vms = filter (\<lambda>vm. vs_Node vm = node \<and> vs_RestartPolicy vm \<noteq> ''never'') vms"

definition healthy_peer :: "string \<Rightarrow> ClusterNode list \<Rightarrow> ClusterNode option" where
  "healthy_peer node nodes = List.find (\<lambda>n. cn_Name n \<noteq> node \<and> cn_Status n = ''online'') nodes"

lemma WithLock_free:
  assumes "lk_inMemory lm" "\<not> lk_held lm key"
  shows "WithLock env key ttl fn (lm, c) = (case fn c of (r, c') \<Rightarrow> Some (r, lm, c'))"
proof -
  have "(lk_held lm)(key := False) = lk_held lm" using assms(2) by (simp add: fun_upd_idem)
  then show ?thesis
    using assms by (simp add: WithLock_def Acquire_def acquireInMemory_def unlock_def split: prod.splits)
qed

lemma failover_loop_in_memory:
  fixes c :: 'c
  assumes free: "lk_inMemory lm" "\<And>k. \<not> lk_held lm k"
  shows "\<exists>c'. failover_loop p envs target vms (lm, c) =
      Some (map (\<lambda>vm. (vs_Handle vm, target)) (filter (\<lambda>vm. vs_RestartPolicy vm \<noteq> ''never'') vms), lm, c')"
proof (induction vms arbitrary: c)
  case (Cons vm vms)
  obtain r c1 where m: "pr_MigrateVM p (vs_Handle vm) target c = (r, c1)" by (metis prod.exhaust)
  show ?case using Cons [of c] Cons [of c1] m by (auto simp: WithLock_free [OF free])
qed simp

lemma selectTargetNode_peer:
  "selectTargetNode (Some (Ok nodes)) x = (case healthy_peer x nodes of None \<Rightarrow> [] | Some n \<Rightarrow> cn_Name n)"
  by (induction nodes) (auto simp: selectTargetNode_def healthy_peer_def NodeOnline_def split: option.splits)


definition demo_vm :: "int32 \<Rightarrow> string \<Rightarrow> string \<Rightarrow> string \<Rightarrow> VMSummary" where
  "demo_vm h name node pol = \<lparr>vs_Handle = h, vs_Name = name, vs_Node = node, vs_State = ''running'', vs_RestartPolicy = pol\<rparr>"

definition demo_provider :: "unit provider" where
  "demo_provider = \<lparr>pr_ListVMs = (\<lambda>_. [demo_vm 1 ''w'' ''a'' [], demo_vm 2 ''x'' ''b'' [], demo_vm 3 ''y'' ''a'' ''never'', demo_vm 4 ''z'' ''a'' ''on-failure'']),
     pr_MigrateVM = (\<lambda>h t c. (Ok (), c))\<rparr>"


end
