(* ===== verification/Network.thy ===== *)
theory Network
  imports Prelude
begin

text \<open>
  \<^verbatim>\<open>internal/network\<close>: zones, virtual networks and firewall rules (\<^verbatim>\<open>network.go\<close>), the
  in-memory driver (\<^verbatim>\<open>driver_memory.go\<close>), the bridge manager (\<^verbatim>\<open>driver_bridge.go\<close>) and
  the nftables driver (\<^verbatim>\<open>driver_nftables.go\<close>).  The programs \<^verbatim>\<open>ip\<close> and \<^verbatim>\<open>nft\<close> are a
  parameter \<open>run\<close> that gives the error of a command line; operations that run commands
  also return the list of the commands they issued, in order.
\<close>

section \<open>Data\<close>

record Zone =
  zn_Name :: string
  zn_ZoneType :: string
  zn_MTU :: int
  zn_Bridge :: string
  zn_Status :: string

record VNet =
  vn_ID :: string
  vn_Zone :: string
  vn_Name :: string
  vn_Tag :: int
  vn_Subnet :: string
  vn_Status :: string

record FirewallRule =
  fr_ID :: string
  fr_Direction :: string
  fr_Action :: string
  fr_Protocol :: string
  fr_Source :: string
  fr_Dest :: string
  fr_DPort :: string
  fr_Comment :: string
  fr_Enabled :: bool

record net_mem =
  nm_zones :: "string \<Rightarrow> Zone option"
  nm_vnets :: "string \<Rightarrow> VNet option"
  nm_rules :: "string \<Rightarrow> FirewallRule option"
  nm_nextVNetID :: int32
  nm_nextRuleID :: int32

definition newMemoryDriver :: net_mem where
  "newMemoryDriver =
     \<lparr>nm_zones = [''vxlan-zone'' \<mapsto> \<lparr>zn_Name = ''vxlan-zone'', zn_ZoneType = ''vxlan'', zn_MTU = 1450,
                                    zn_Bridge = ''vmbr1'', zn_Status = ''active''\<rparr>,
                  ''simple-zone'' \<mapsto> \<lparr>zn_Name = ''simple-zone'', zn_ZoneType = ''simple'', zn_MTU = 1500,
                                     zn_Bridge = ''vmbr0'', zn_Status = ''active''\<rparr>],
      nm_vnets = [''vnet-1'' \<mapsto> \<lparr>vn_ID = ''vnet-1'', vn_Zone = ''vxlan-zone'', vn_Name = ''prod-network'', vn_Tag = 100,
                               vn_Subnet = ''10.0.1.0/24'', vn_Status = ''active''\<rparr>,
                  ''vnet-2'' \<mapsto> \<lparr>vn_ID = ''vnet-2'', vn_Zone = ''simple-zone'', vn_Name = ''mgmt-network'', vn_Tag = 1,
                               vn_Subnet = ''192.168.1.0/24'', vn_Status = ''active''\<rparr>],
      nm_rules = Map.empty, nm_nextVNetID = 1, nm_nextRuleID = 1\<rparr>"

section \<open>The in-memory driver\<close>

definition vnet_id :: "int \<Rightarrow> string" where
  "vnet_id n = Sprintf ''vnet-%d'' [FInt n]"

definition rule_id :: "int \<Rightarrow> string" where
  "rule_id n = Sprintf ''rule-%d'' [FInt n]"

definition zone_not_found :: "string \<Rightarrow> go_error" where
  "zone_not_found name = Errorf ''zone not found: %s'' [FStr name]"

definition NMem_ListZones :: "string list \<Rightarrow> net_mem \<Rightarrow> Zone list" where
  "NMem_ListZones ord d = map_values ord (nm_zones d)"

definition NMem_ListVNets :: "string list \<Rightarrow> string \<Rightarrow> net_mem \<Rightarrow> VNet list" where
  "NMem_ListVNets ord zone d = filter (\<lambda>v. zone = [] \<or> vn_Zone v = zone) (map_values ord (nm_vnets d))"

definition NMem_CreateVNet :: "string \<Rightarrow> string \<Rightarrow> string \<Rightarrow> int \<Rightarrow> net_mem \<Rightarrow> VNet result \<times> net_mem" where
  "NMem_CreateVNet zone name subnet tag d =
     (case nm_zones d zone of
        None \<Rightarrow> (Err (zone_not_found zone), d)
      | Some z \<Rightarrow>
          let i = vnet_id (sint (nm_nextVNetID d));
              vnet = \<lparr>vn_ID = i, vn_Zone = zone, vn_Name = name, vn_Tag = tag, vn_Subnet = subnet, vn_Status = ''active''\<rparr>
          in (Ok vnet, d\<lparr>nm_nextVNetID := nm_nextVNetID d + 1, nm_vnets := (nm_vnets d)(i \<mapsto> vnet)\<rparr>))"

definition NMem_DeleteVNet :: "string \<Rightarrow> net_mem \<Rightarrow> unit result \<times> net_mem" where
  "NMem_DeleteVNet i d =
     (case nm_vnets d i of
        None \<Rightarrow> (Err (Errorf ''vnet not found: %s'' [FStr i]), d)
      | Some v \<Rightarrow> (Ok (), d\<lparr>nm_vnets := (nm_vnets d)(i := None)\<rparr>))"

definition NMem_ListFirewallRules :: "string list \<Rightarrow> net_mem \<Rightarrow> FirewallRule list" where
  "NMem_ListFirewallRules ord d = map_values ord (nm_rules d)"

definition NMem_CreateFirewallRule ::
  "string \<Rightarrow> string \<Rightarrow> string \<Rightarrow> string \<Rightarrow> string \<Rightarrow> string \<Rightarrow> string \<Rightarrow> net_mem \<Rightarrow> FirewallRule result \<times> net_mem" where
  "NMem_CreateFirewallRule direction action protocol source dest dport comment d =
     (let i = rule_id (sint (nm_nextRuleID d));
          r = \<lparr>fr_ID = i, fr_Direction = direction, fr_Action = action, fr_Protocol = protocol, fr_Source = source,
               fr_Dest = dest, fr_DPort = dport, fr_Comment = comment, fr_Enabled = True\<rparr>
      in (Ok r, d\<lparr>nm_nextRuleID := nm_nextRuleID d + 1, nm_rules := (nm_rules d)(i \<mapsto> r)\<rparr>))"

definition NMem_DeleteFirewallRule :: "string \<Rightarrow> net_mem \<Rightarrow> unit result \<times> net_mem" where
  "NMem_DeleteFirewallRule i d =
     (case nm_rules d i of
        None \<Rightarrow> (Err (Errorf ''rule not found: %s'' [FStr i]), d)
      | Some r \<Rightarrow> (Ok (), d\<lparr>nm_rules := (nm_rules d)(i := None)\<rparr>))"

definition NMem_CreateZone :: "Zone \<Rightarrow> net_mem \<Rightarrow> unit result \<times> net_mem" where
  "NMem_CreateZone zone d =
     (case nm_zones d (zn_Name zone) of
        Some z \<Rightarrow> (Err (Errorf ''zone already exists: %s'' [FStr (zn_Name zone)]), d)
      | None \<Rightarrow> (Ok (), d\<lparr>nm_zones := (nm_zones d)(zn_Name zone \<mapsto> zone\<lparr>zn_Status := ''active''\<rparr>)\<rparr>))"

definition NMem_DeleteZone :: "string \<Rightarrow> net_mem \<Rightarrow> unit result \<times> net_mem" where
  "NMem_DeleteZone name d =
     (case nm_zones d name of
        None \<Rightarrow> (Err (zone_not_found name), d)
      | Some z \<Rightarrow> (Ok (), d\<lparr>nm_zones := (nm_zones d)(name := None)\<rparr>))"

section \<open>The bridge manager\<close>

type_synonym cmd = "string list"
type_synonym runner = "cmd \<Rightarrow> go_error option"

text \<open>\<open>run_seq run cs\<close> runs the commands in order and stops at the first that fails: its error
  is wrapped by the function that comes with it.\<close>

fun run_seq :: "runner \<Rightarrow> (cmd \<times> (go_error \<Rightarrow> go_error)) list \<Rightarrow> unit result \<times> cmd list" where
  "run_seq run [] = (Ok (), [])"
| "run_seq run ((c, wrap) # cs) =
     (case run c of
        Some e \<Rightarrow> (Err (wrap e), [c])
      | None \<Rightarrow> (case run_seq run cs of (r, tr) \<Rightarrow> (r, c # tr)))"

text \<open>\<open>ExecCommandRunner.Run\<close>: \<open>exec\<close> is the child process, its combined output and exit error.\<close>

definition Runner_Run :: "(string list \<Rightarrow> string \<times> go_error option) \<Rightarrow> runner" where
  "Runner_Run exec c =
     (case exec c of
        (out, Some err) \<Rightarrow> Some (Errorf ''%s %v: %s: %w'' [FStr (hd c), FStrs (tl c), FStr out, FErr err])
      | (out, None) \<Rightarrow> None)"

definition bridge_cmds :: "string \<Rightarrow> (cmd \<times> (go_error \<Rightarrow> go_error)) list" where
  "bridge_cmds name =
     [([''ip'', ''link'', ''add'', ''name'', name, ''type'', ''bridge''], \<lambda>e. Errorf ''create bridge %s: %w'' [FStr name, FErr e]),
      ([''ip'', ''link'', ''set'', name, ''up''], \<lambda>e. Errorf ''bring up bridge %s: %w'' [FStr name, FErr e])]"

definition port_cmds :: "string \<Rightarrow> string \<Rightarrow> (cmd \<times> (go_error \<Rightarrow> go_error)) list" where
  "port_cmds bridge iface =
     [([''ip'', ''link'', ''set'', iface, ''master'', bridge],
       \<lambda>e. Errorf ''add port %s to bridge %s: %w'' [FStr iface, FStr bridge, FErr e])]"

definition CreateBridge :: "runner \<Rightarrow> string \<Rightarrow> unit result \<times> cmd list" where
  "CreateBridge run name = run_seq run (bridge_cmds name)"

definition DeleteBridge :: "runner \<Rightarrow> string \<Rightarrow> unit result \<times> cmd list" where
  "DeleteBridge run name =
     run_seq run [([''ip'', ''link'', ''delete'', name], \<lambda>e. Errorf ''delete bridge %s: %w'' [FStr name, FErr e])]"

definition AddPort :: "runner \<Rightarrow> string \<Rightarrow> string \<Rightarrow> unit result \<times> cmd list" where
  "AddPort run bridge iface = run_seq run (port_cmds bridge iface)"

definition SetBridgeIP :: "runner \<Rightarrow> string \<Rightarrow> string \<Rightarrow> unit result \<times> cmd list" where
  "SetBridgeIP run bridge cidr =
     run_seq run [([''ip'', ''addr'', ''add'', cidr, ''dev'', bridge],
                   \<lambda>e. Errorf ''set IP %s on bridge %s: %w'' [FStr cidr, FStr bridge, FErr e])]"

definition CreateVethPair :: "runner \<Rightarrow> string \<Rightarrow> (string \<times> string) result \<times> cmd list" where
  "CreateVethPair run name =
     (let hostEnd = name @ ''-h''; containerEnd = name @ ''-c'' in
      case run_seq run
        [([''ip'', ''link'', ''add'', hostEnd, ''type'', ''veth'', ''peer'', ''name'', containerEnd],
          \<lambda>e. Errorf ''create veth pair %s: %w'' [FStr name, FErr e]),
         ([''ip'', ''link'', ''set'', hostEnd, ''up''], \<lambda>e. Errorf ''bring up veth %s: %w'' [FStr hostEnd, FErr e]),
         ([''ip'', ''link'', ''set'', containerEnd, ''up''], \<lambda>e. Errorf ''bring up veth %s: %w'' [FStr containerEnd, FErr e])]
      of (Inl e, tr) \<Rightarrow> (Err e, tr)
       | (Inr u, tr) \<Rightarrow> (Ok (hostEnd, containerEnd), tr))"

definition DeleteVethPair :: "runner \<Rightarrow> string \<Rightarrow> unit result \<times> cmd list" where
  "DeleteVethPair run name =
     run_seq run [([''ip'', ''link'', ''delete'', name @ ''-h''], \<lambda>e. Errorf ''delete veth pair %s: %w'' [FStr name, FErr e])]"

section \<open>The nftables driver\<close>

record NftablesDriver =
  nf_mem :: net_mem
  nf_tableName :: string
  nf_chainName :: string
  nf_zoneIfaces :: "string \<Rightarrow> string list option"

definition NewNftablesDriver :: NftablesDriver where
  "NewNftablesDriver =
     \<lparr>nf_mem = newMemoryDriver, nf_tableName = ''hcv_filter'', nf_chainName = ''hcv_forward'', nf_zoneIfaces = Map.empty\<rparr>"

definition ensureTable :: "NftablesDriver \<Rightarrow> cmd list" where
  "ensureTable d =
     [''nft'' # Fields (Sprintf ''add table inet %s'' [FStr (nf_tableName d)]),
      ''nft'' # Fields (Sprintf ''add chain inet %s %s { type filter hook forward priority 0 ; policy accept ; }''
                         [FStr (nf_tableName d), FStr (nf_chainName d)])]"

definition buildNftRule ::
  "string \<Rightarrow> string \<Rightarrow> string \<Rightarrow> string \<Rightarrow> string \<Rightarrow> string \<Rightarrow> string \<Rightarrow> string" where
  "buildNftRule direction action protocol source dest dport comment =
     str_join '' ''
       ((if protocol \<noteq> [] then [protocol] else []) @
        (if source \<noteq> [] then [''ip saddr'', source] else []) @
        (if dest \<noteq> [] then [''ip daddr'', dest] else []) @
        (if dport \<noteq> [] then [''dport'', dport] else []) @
        [action] @
        (if comment \<noteq> [] then [''comment '' @ [CHR 0x22] @ comment @ [CHR 0x22]] else []))"

definition Nft_CreateFirewallRule ::
  "runner \<Rightarrow> string \<Rightarrow> string \<Rightarrow> string \<Rightarrow> string \<Rightarrow> string \<Rightarrow> string \<Rightarrow> string \<Rightarrow> NftablesDriver
     \<Rightarrow> FirewallRule result \<times> cmd list \<times> NftablesDriver" where
  "Nft_CreateFirewallRule run direction action protocol source dest dport comment d =
     (case NMem_CreateFirewallRule direction action protocol source dest dport comment (nf_mem d) of
        (Inl e, m) \<Rightarrow> (Err e, [], d\<lparr>nf_mem := m\<rparr>)
      | (Inr r, m) \<Rightarrow>
          let nftRule = buildNftRule direction action protocol source dest dport comment;
              c = ''nft'' # Fields (Sprintf ''add rule inet %s %s %s''
                                     [FStr (nf_tableName d), FStr (nf_chainName d), FStr nftRule]);
              tr = ensureTable d @ [c];
              r' = (case run c of Some err \<Rightarrow> r\<lparr>fr_Enabled := False\<rparr> | None \<Rightarrow> r)
          in (Ok r', tr, d\<lparr>nf_mem := m\<lparr>nm_rules := (nm_rules m)(fr_ID r \<mapsto> r')\<rparr>\<rparr>))"

definition Nft_DeleteFirewallRule :: "string \<Rightarrow> NftablesDriver \<Rightarrow> unit result \<times> NftablesDriver" where
  "Nft_DeleteFirewallRule i d = (case NMem_DeleteFirewallRule i (nf_mem d) of (r, m) \<Rightarrow> (r, d\<lparr>nf_mem := m\<rparr>))"

definition zone_bridge :: "Zone \<Rightarrow> string" where
  "zone_bridge zone = (if zn_Bridge zone = [] then ''hcv-'' @ zn_Name zone else zn_Bridge zone)"

definition zone_wrap :: "string \<Rightarrow> Zone \<Rightarrow> (cmd \<times> (go_error \<Rightarrow> go_error)) list \<Rightarrow> (cmd \<times> (go_error \<Rightarrow> go_error)) list" where
  "zone_wrap f zone = map (\<lambda>(c, w). (c, \<lambda>e. Errorf f [FStr (zn_Name zone), FErr (w e)]))"

text \<open>The commands of \<open>CreateZone\<close> with the error each of them leads to, and the interfaces that
  are recorded when all succeed.\<close>

definition zone_cmds :: "Zone \<Rightarrow> (cmd \<times> (go_error \<Rightarrow> go_error)) list" where
  "zone_cmds zone =
     (let bridge = zone_bridge zone; vxlanIface = ''vxlan-'' @ zn_Name zone;
          vni = (if zn_MTU zone = 0 then ''100'' else Sprintf ''%d'' [FInt (zn_MTU zone)]) in
      if zn_ZoneType zone = ''vxlan'' then
        zone_wrap ''create VXLAN interface for zone %s: %w'' zone
          [([''ip'', ''link'', ''add'', vxlanIface, ''type'', ''vxlan'', ''id'', vni, ''dport'', ''4789'', ''local'', ''0.0.0.0''], \<lambda>e. e)]
        @ zone_wrap ''create bridge for zone %s: %w'' zone (bridge_cmds bridge)
        @ zone_wrap ''add VXLAN port for zone %s: %w'' zone (port_cmds bridge vxlanIface)
        @ zone_wrap ''bring up VXLAN interface for zone %s: %w'' zone [([''ip'', ''link'', ''set'', vxlanIface, ''up''], \<lambda>e. e)]
      else zone_wrap ''create bridge for zone %s: %w'' zone (bridge_cmds bridge))"

definition zone_ifaces :: "Zone \<Rightarrow> string list" where
  "zone_ifaces zone =
     (if zn_ZoneType zone = ''vxlan'' then [''vxlan-'' @ zn_Name zone, zone_bridge zone] else [zone_bridge zone])"

definition Nft_CreateZone :: "runner \<Rightarrow> Zone \<Rightarrow> NftablesDriver \<Rightarrow> unit result \<times> cmd list \<times> NftablesDriver" where
  "Nft_CreateZone run zone d =
     (let put = (\<lambda>z d. d\<lparr>nf_mem := (nf_mem d)\<lparr>nm_zones := (nm_zones (nf_mem d))(zn_Name zone \<mapsto> z)\<rparr>\<rparr>) in
      case run_seq run (zone_cmds zone) of
        (Inl e, tr) \<Rightarrow> (Err e, tr, put zone d)
      | (Inr u, tr) \<Rightarrow>
          (Ok (), tr, (put (zone\<lparr>zn_Status := ''active''\<rparr>) d)
                        \<lparr>nf_zoneIfaces := (nf_zoneIfaces d)(zn_Name zone \<mapsto> zone_ifaces zone)\<rparr>))"

definition Nft_DeleteZone :: "string \<Rightarrow> NftablesDriver \<Rightarrow> unit result \<times> cmd list \<times> NftablesDriver" where
  "Nft_DeleteZone name d =
     (case nm_zones (nf_mem d) name of
        None \<Rightarrow> (Err (zone_not_found name), [], d)
      | Some z \<Rightarrow>
          let ifaces = (case nf_zoneIfaces d name of None \<Rightarrow> [] | Some xs \<Rightarrow> xs) in
          (Ok (), map (\<lambda>i. [''ip'', ''link'', ''delete'', i]) (rev ifaces),
           d\<lparr>nf_mem := (nf_mem d)\<lparr>nm_zones := (nm_zones (nf_mem d))(name := None)\<rparr>,
             nf_zoneIfaces := (nf_zoneIfaces d)(name := None)\<rparr>))"

section \<open>The service\<close>

text \<open>The nftables driver embeds the in-memory one, whose methods it inherits unless it has its own.\<close>

datatype NetworkDriver =
    NetMemory net_mem
  | NetNft NftablesDriver

fun net_mem_of :: "NetworkDriver \<Rightarrow> net_mem" where
  "net_mem_of (NetMemory m) = m"
| "net_mem_of (NetNft n) = nf_mem n"

fun net_set_mem :: "net_mem \<Rightarrow> NetworkDriver \<Rightarrow> NetworkDriver" where
  "net_set_mem m (NetMemory m0) = NetMemory m"
| "net_set_mem m (NetNft n) = NetNft (n\<lparr>nf_mem := m\<rparr>)"

definition Net_ListZones :: "string list \<Rightarrow> NetworkDriver \<Rightarrow> Zone list" where
  "Net_ListZones ord d = NMem_ListZones ord (net_mem_of d)"

definition Net_ListVNets :: "string list \<Rightarrow> string \<Rightarrow> NetworkDriver \<Rightarrow> VNet list" where
  "Net_ListVNets ord zone d = NMem_ListVNets ord zone (net_mem_of d)"

definition Net_CreateVNet :: "string \<Rightarrow> string \<Rightarrow> string \<Rightarrow> int \<Rightarrow> NetworkDriver \<Rightarrow> VNet result \<times> NetworkDriver" where
  "Net_CreateVNet zone name subnet tag d =
     (case NMem_CreateVNet zone name subnet tag (net_mem_of d) of (r, m) \<Rightarrow> (r, net_set_mem m d))"

definition Net_DeleteVNet :: "string \<Rightarrow> NetworkDriver \<Rightarrow> unit result \<times> NetworkDriver" where
  "Net_DeleteVNet i d = (case NMem_DeleteVNet i (net_mem_of d) of (r, m) \<Rightarrow> (r, net_set_mem m d))"

definition Net_ListFirewallRules :: "string list \<Rightarrow> NetworkDriver \<Rightarrow> FirewallRule list" where
  "Net_ListFirewallRules ord d = NMem_ListFirewallRules ord (net_mem_of d)"

fun Net_CreateFirewallRule ::
  "runner \<Rightarrow> string \<Rightarrow> string \<Rightarrow> string \<Rightarrow> string \<Rightarrow> string \<Rightarrow> string \<Rightarrow> string \<Rightarrow> NetworkDriver
     \<Rightarrow> FirewallRule result \<times> cmd list \<times> NetworkDriver" where
  "Net_CreateFirewallRule run dir act pr src dst dp com (NetMemory m) =
     (case NMem_CreateFirewallRule dir act pr src dst dp com m of (r, m') \<Rightarrow> (r, [], NetMemory m'))"
| "Net_CreateFirewallRule run dir act pr src dst dp com (NetNft n) =
     (case Nft_CreateFirewallRule run dir act pr src dst dp com n of (r, tr, n') \<Rightarrow> (r, tr, NetNft n'))"

definition Net_DeleteFirewallRule :: "string \<Rightarrow> NetworkDriver \<Rightarrow> unit result \<times> NetworkDriver" where
  "Net_DeleteFirewallRule i d = (case NMem_DeleteFirewallRule i (net_mem_of d) of (r, m) \<Rightarrow> (r, net_set_mem m d))"

fun Net_CreateZone :: "runner \<Rightarrow> Zone \<Rightarrow> NetworkDriver \<Rightarrow> unit result \<times> cmd list \<times> NetworkDriver" where
  "Net_CreateZone run z (NetMemory m) = (case NMem_CreateZone z m of (r, m') \<Rightarrow> (r, [], NetMemory m'))"
| "Net_CreateZone run z (NetNft n) = (case Nft_CreateZone run z n of (r, tr, n') \<Rightarrow> (r, tr, NetNft n'))"

fun Net_DeleteZone :: "string \<Rightarrow> NetworkDriver \<Rightarrow> unit result \<times> cmd list \<times> NetworkDriver" where
  "Net_DeleteZone name (NetMemory m) = (case NMem_DeleteZone name m of (r, m') \<Rightarrow> (r, [], NetMemory m'))"
| "Net_DeleteZone name (NetNft n) = (case Nft_DeleteZone name n of (r, tr, n') \<Rightarrow> (r, tr, NetNft n'))"

section \<open>Identifiers\<close>

lemma vnet_id_eq [simp]: "vnet_id n = ''vnet-'' @ show_int n"
  by (simp add: vnet_id_def Sprintf_def)

lemma rule_id_eq [simp]: "rule_id n = ''rule-'' @ show_int n"
  by (simp add: rule_id_def Sprintf_def)

definition rule_created :: "NftablesDriver \<Rightarrow> string \<Rightarrow> FirewallRule \<Rightarrow> NftablesDriver \<Rightarrow> bool" where
  "rule_created d i r d' \<longleftrightarrow> sint (nm_nextRuleID (nf_mem d)) < 2147483647 \<and> i = fr_ID r
     \<and> (\<exists>run dir act pr src dst dp com tr. Nft_CreateFirewallRule run dir act pr src dst dp com d = (Ok r, tr, d'))"

definition rule_removed :: "NftablesDriver \<Rightarrow> string \<Rightarrow> NftablesDriver \<Rightarrow> bool" where
  "rule_removed d i d' \<longleftrightarrow> Nft_DeleteFirewallRule i d = (Ok (), d')"

definition rule_touched :: "NftablesDriver \<Rightarrow> NftablesDriver \<Rightarrow> bool" where
  "rule_touched d d' \<longleftrightarrow> (\<exists>run z. d' = snd (snd (Nft_CreateZone run z d))) \<or> (\<exists>n. d' = snd (snd (Nft_DeleteZone n d)))"

lemma nft_zone_frame:
  "nm_rules (nf_mem (snd (snd (Nft_CreateZone run z d)))) = nm_rules (nf_mem d)"
  "nm_nextRuleID (nf_mem (snd (snd (Nft_CreateZone run z d)))) = nm_nextRuleID (nf_mem d)"
  "nm_rules (nf_mem (snd (snd (Nft_DeleteZone n d)))) = nm_rules (nf_mem d)"
  "nm_nextRuleID (nf_mem (snd (snd (Nft_DeleteZone n d)))) = nm_nextRuleID (nf_mem d)"
  by (auto simp: Nft_CreateZone_def Nft_DeleteZone_def Let_def split: prod.splits sum.splits option.splits)

interpretation rules: id_registry "\<lambda>d. nm_rules (nf_mem d)" "\<lambda>d. sint (nm_nextRuleID (nf_mem d))" rule_id
  rule_created rule_removed rule_touched
proof unfold_locales
  show "inj rule_id" by (auto simp: inj_def)
qed (auto simp: rule_created_def Nft_CreateFirewallRule_def NMem_CreateFirewallRule_def Let_def rule_removed_def
    Nft_DeleteFirewallRule_def NMem_DeleteFirewallRule_def rule_touched_def nft_zone_frame sint_add_one
    split: option.splits)

text \<open>The identifier counter of virtual networks starts at 1 although two networks are
  preloaded as vnet-1 and vnet-2: the first two networks that a user creates replace the
  default ones, after which only the user's networks exist and new identifiers are fresh.\<close>

theorem first_vnets_replace_defaults:
  assumes "NMem_CreateVNet z1 n1 s1 t1 newMemoryDriver = (Ok v1, d1)" "NMem_CreateVNet z2 n2 s2 t2 d1 = (Ok v2, d2)"
  shows "vn_ID v1 = ''vnet-1'' \<and> vn_ID v2 = ''vnet-2'' \<and> nm_vnets d2 = [''vnet-1'' \<mapsto> v1, ''vnet-2'' \<mapsto> v2]
    \<and> (\<forall>v \<in> ran (nm_vnets d2). v = v1 \<or> v = v2) \<and> ids_below vnet_id (nm_vnets d2) (sint (nm_nextVNetID d2))"
proof -
  have s: "show_int 1 = ''1''" "show_nat 2 = ''2''" by (simp_all add: show_int_def show_nat.simps)
  have v1: "vn_ID v1 = ''vnet-1''" "nm_vnets d1 = (nm_vnets newMemoryDriver)(''vnet-1'' \<mapsto> v1)" "nm_nextVNetID d1 = 2"
    using assms(1) by (auto simp: NMem_CreateVNet_def Let_def s newMemoryDriver_def split: option.split_asm)
  have v2: "vn_ID v2 = ''vnet-2''" "nm_vnets d2 = (nm_vnets d1)(''vnet-2'' \<mapsto> v2)" "nm_nextVNetID d2 = 3"
    using assms(2) v1(3) by (auto simp: NMem_CreateVNet_def Let_def s split: option.split_asm)
  have e: "nm_vnets d2 = [''vnet-1'' \<mapsto> v1, ''vnet-2'' \<mapsto> v2]"
    unfolding v1(2) v2(2) by (auto simp: newMemoryDriver_def)
  have "ids_below vnet_id (nm_vnets d2) 3"
    unfolding ids_below_def e
  proof (intro allI impI)
    fix k assume "[''vnet-1'' \<mapsto> v1, ''vnet-2'' \<mapsto> v2] (vnet_id k) \<noteq> None"
    then have "vnet_id k = vnet_id 1 \<or> vnet_id k = vnet_id 2" by (auto simp: s split: if_splits)
    then show "k < 3" by (auto simp del: show_int_numeral)
  qed
  moreover have "\<forall>v \<in> ran (nm_vnets d2). v = v1 \<or> v = v2" unfolding e by (auto simp: ran_def split: if_splits)
  ultimately show ?thesis using v1(1) v2(1,3) e by simp
qed

theorem first_vnets_replace_defaults_witness:
  "\<exists>v1 d1 v2 d2. NMem_CreateVNet ''simple-zone'' ''a'' ''10.1.0.0/24'' 5 newMemoryDriver = (Ok v1, d1)
     \<and> NMem_CreateVNet ''simple-zone'' ''b'' ''10.2.0.0/24'' 6 d1 = (Ok v2, d2)
     \<and> nm_vnets d2 = [''vnet-1'' \<mapsto> v1, ''vnet-2'' \<mapsto> v2]"
proof -
  obtain v1 d1 where a: "NMem_CreateVNet ''simple-zone'' ''a'' ''10.1.0.0/24'' 5 newMemoryDriver = (Ok v1, d1)"
    and z: "nm_zones d1 = nm_zones newMemoryDriver"
    by (simp add: NMem_CreateVNet_def newMemoryDriver_def Let_def)
  obtain v2 d2 where b: "NMem_CreateVNet ''simple-zone'' ''b'' ''10.2.0.0/24'' 6 d1 = (Ok v2, d2)"
    using z by (simp add: NMem_CreateVNet_def newMemoryDriver_def Let_def)
  from first_vnets_replace_defaults [OF a b] a b show ?thesis by blast
qed

section \<open>Interfaces of a zone\<close>

text \<open>The interface that a command adds.\<close>

definition link_added :: "cmd \<Rightarrow> string list" where
  "link_added c =
     (if take 3 c = [''ip'', ''link'', ''add''] then (if c ! 3 = ''name'' then [c ! 4] else [c ! 3]) else [])"

lemma run_seq_ok: "run_seq run cs = (Ok u, tr) \<Longrightarrow> tr = map fst cs"
proof (induction cs arbitrary: tr)
  case (Cons x cs)
  obtain c w where x: "x = (c, w)" by (metis prod.exhaust)
  obtain r t where "run_seq run cs = (r, t)" by (metis prod.exhaust)
  then show ?case using Cons x by (auto split: option.splits)
qed simp

lemma zone_cmds_added: "concat (map link_added (map fst (zone_cmds zone))) = zone_ifaces zone"
  by (simp add: zone_cmds_def zone_wrap_def bridge_cmds_def port_cmds_def link_added_def zone_ifaces_def Let_def)

text \<open>C22: Deleting a zone of the nftables driver undoes its creation when that succeeded: it
  deletes exactly the interfaces that the creation added, the last one first.  When the creation
  failed half-way the zone stays listed, but none of its interfaces is recorded, so that
  deleting the zone leaves the interfaces that had been added in place.\<close>

theorem nft_zone_cleanup:
  assumes c: "Nft_CreateZone run zone d = (r, tr, d1)" and x: "Nft_DeleteZone (zn_Name zone) d1 = (r2, tr2, d2)"
  shows "r2 = Ok ()
    \<and> (is_ok r \<longrightarrow> tr2 = map (\<lambda>i. [''ip'', ''link'', ''delete'', i]) (rev (concat (map link_added tr))))
    \<and> (\<not> is_ok r \<and> nf_zoneIfaces d (zn_Name zone) = None \<longrightarrow> tr2 = [])"
proof -
  obtain rr t where seq: "run_seq run (zone_cmds zone) = (rr, t)" by (metis prod.exhaust)
  show ?thesis
  proof (cases rr)
    case (Inl e)
    then show ?thesis using c x seq by (auto simp: Nft_CreateZone_def Nft_DeleteZone_def Let_def)
  next
    case (Inr u)
    have "concat (map link_added t) = zone_ifaces zone"
      using run_seq_ok [OF seq [unfolded Inr]] zone_cmds_added by simp
    then show ?thesis using c x seq Inr by (auto simp: Nft_CreateZone_def Nft_DeleteZone_def Let_def)
  qed
qed

definition vxlan_zone :: Zone where
  "vxlan_zone = \<lparr>zn_Name = ''z'', zn_ZoneType = ''vxlan'', zn_MTU = 0, zn_Bridge = [], zn_Status = []\<rparr>"

theorem nft_zone_cleanup_witness:
  "fst (snd (Nft_DeleteZone ''z'' (snd (snd (Nft_CreateZone (\<lambda>_. None) vxlan_zone NewNftablesDriver)))))
     = [[''ip'', ''link'', ''delete'', ''hcv-z''], [''ip'', ''link'', ''delete'', ''vxlan-z'']]"
proof -
  obtain r tr d1 where c: "Nft_CreateZone (\<lambda>_. None) vxlan_zone NewNftablesDriver = (r, tr, d1)" by (metis prod_cases3)
  obtain r2 tr2 d2 where x: "Nft_DeleteZone (zn_Name vxlan_zone) d1 = (r2, tr2, d2)" by (metis prod_cases3)
  have "is_ok r" "tr = map fst (zone_cmds vxlan_zone)"
    using c by (auto simp: Nft_CreateZone_def vxlan_zone_def zone_cmds_def zone_wrap_def bridge_cmds_def port_cmds_def Let_def)
  with nft_zone_cleanup [OF c x] c x zone_cmds_added [of vxlan_zone] show ?thesis
    by (simp add: vxlan_zone_def zone_ifaces_def zone_bridge_def)
qed

end
