(* ===== verification/Api_Base.thy ===== *)
theory Api_Base
  imports Migration Task Registries Vm_Snapshot Peripheral Rbac Failover Network
begin

text \<open>
  The common part of the REST interface, \<^verbatim>\<open>internal/api\<close>: responses and error documents
  (\<^verbatim>\<open>errors.go\<close>), pagination (\<^verbatim>\<open>pagination.go\<close>), the version headers (\<^verbatim>\<open>versioning.go\<close>) and
  the helper functions and middlewares of \<^verbatim>\<open>router.go\<close>.  A response is a status and a body; a panic
  of a handler is the value \<^const>\<open>None\<close>.
\<close>

section \<open>Responses\<close>

record ProblemDetail =
  pd_Type :: string
  pd_Title :: string
  pd_Status :: int
  pd_Detail :: string
  pd_Code :: string

text \<open>The percentages of a node are decimal constants of the source, kept as their texts.\<close>

record NodeInfo =
  ni_Name :: string
  ni_Status :: string
  ni_CPUPercent :: string
  ni_MemoryPercent :: string
  ni_VMCount :: int

record StubVMInfo =
  sv_ID :: int
  sv_Name :: string
  sv_State :: string
  sv_VCPUs :: int
  sv_MemoryMB :: int
  sv_Node :: string

record APIInfo =
  ai_CurrentVersion :: string
  ai_SupportedVersions :: "string list"
  ai_DeprecatedVersions :: "string list"
  ai_DocsURL :: string

text \<open>The numbers of the statistics page, without the version and the running time.\<close>

record SystemStats =
  sst_VMs :: int
  sst_ByState :: "string \<Rightarrow> int option"
  sst_Pools :: int
  sst_Volumes :: int
  sst_Zones :: int
  sst_VNets :: int
  sst_Rules :: int
  sst_Cluster :: ClusterStatus
  sst_Devices :: int
  sst_Backups :: int

text \<open>The bodies the handlers write.  \<open>BFields\<close> is a map from names to texts.\<close>

datatype api_body =
    BProblem ProblemDetail
  | BFields "(string \<times> string) list"
  | BVM VMInfo
  | BVMPage "VMInfo list" int int int
  | BBackends "BackendInfo list"
  | BMigration MigrationStatus
  | BStats ContainerStats
  | BStrings string "string list"
  | BTask "unit Task"
  | BTasks "unit Task list"
  | BNode ClusterNode
  | BNodes "ClusterNode list"
  | BCluster ClusterStatus
  | BFence FenceEvent
  | BPools "Pool list"
  | BVolume Volume
  | BVolumes "Volume list"
  | BZones "Zone list"
  | BZone Zone
  | BVNets "VNet list"
  | BRules "FirewallRule list"
  | BDevices "Device list"
  | BBackup BackupInfo
  | BBackupPage "BackupInfo list" int int int
  | BTemplate Template
  | BTemplatePage "Template list" int int int
  | BSnapshot VMSnapshot
  | BSnapshots "VMSnapshot list"
  | BImage Image
  | BImages "Image list"
  | BOAuth2Token OAuth2Token
  | BProviders "(string \<times> OAuth2Config) list"
  | BLeader string bool
  | BClusterDefault string int bool
  | BDisk string string int string
  | BEmptyList
  | BStubVM StubVMInfo
  | BStubVMs "StubVMInfo list"
  | BNodeInfos "NodeInfo list"
  | BAPIInfo APIInfo
  | BSystemStats SystemStats
  | BAuth auth_body
  | BText string
  | BRedirect string
  | BNone

type_synonym response = "int \<times> api_body"

definition writeJSON :: "int \<Rightarrow> api_body \<Rightarrow> response" where
  "writeJSON status data = (status, data)"

definition ErrCodeBadRequest :: string where "ErrCodeBadRequest = ''BAD_REQUEST''"
definition ErrCodeNotFound :: string where "ErrCodeNotFound = ''NOT_FOUND''"
definition ErrCodeConflict :: string where "ErrCodeConflict = ''CONFLICT''"
definition ErrCodeInternal :: string where "ErrCodeInternal = ''INTERNAL_ERROR''"
definition ErrCodeUnauthorized :: string where "ErrCodeUnauthorized = ''UNAUTHORIZED''"
definition ErrCodeForbidden :: string where "ErrCodeForbidden = ''FORBIDDEN''"
definition ErrCodeTooManyRequests :: string where "ErrCodeTooManyRequests = ''TOO_MANY_REQUESTS''"

definition errCodeToType :: "string \<Rightarrow> string option" where
  "errCodeToType = [ErrCodeBadRequest \<mapsto> ''/errors/bad-request'', ErrCodeNotFound \<mapsto> ''/errors/not-found'',
     ErrCodeConflict \<mapsto> ''/errors/conflict'', ErrCodeInternal \<mapsto> ''/errors/internal'',
     ErrCodeUnauthorized \<mapsto> ''/errors/unauthorized'', ErrCodeForbidden \<mapsto> ''/errors/forbidden'',
     ErrCodeTooManyRequests \<mapsto> ''/errors/too-many-requests'']"

definition errCodeToTitle :: "string \<Rightarrow> string option" where
  "errCodeToTitle = [ErrCodeBadRequest \<mapsto> ''Bad Request'', ErrCodeNotFound \<mapsto> ''Not Found'',
     ErrCodeConflict \<mapsto> ''Conflict'', ErrCodeInternal \<mapsto> ''Internal Server Error'',
     ErrCodeUnauthorized \<mapsto> ''Unauthorized'', ErrCodeForbidden \<mapsto> ''Forbidden'',
     ErrCodeTooManyRequests \<mapsto> ''Too Many Requests'']"

text \<open>\<open>details\<close> are the optional arguments; \<open>status_text\<close> is \<open>http.StatusText\<close>, which is only read for a
  code that is not in the table.\<close>

definition writeError_text :: "(int \<Rightarrow> string) \<Rightarrow> int \<Rightarrow> string \<Rightarrow> string \<Rightarrow> string list \<Rightarrow> response" where
  "writeError_text status_text status code message details =
     (let typeURI = (case errCodeToType code of None \<Rightarrow> ''/errors/unknown'' | Some t \<Rightarrow> t);
          title = (case errCodeToTitle code of None \<Rightarrow> status_text status | Some t \<Rightarrow> t);
          detail = (case details of d # ds \<Rightarrow> if d \<noteq> [] then message @ '': '' @ d else message | [] \<Rightarrow> message)
      in (status, BProblem \<lparr>pd_Type = typeURI, pd_Title = title, pd_Status = status, pd_Detail = detail, pd_Code = code\<rparr>))"

definition writeError :: "int \<Rightarrow> string \<Rightarrow> string \<Rightarrow> response" where
  "writeError status code message = writeError_text (\<lambda>_. []) status code message []"

definition bad_body :: "go_error \<Rightarrow> response" where
  "bad_body err = writeError_text (\<lambda>_. []) 400 ErrCodeBadRequest ''invalid request body'' [error_string err]"

definition bad_request :: "string \<Rightarrow> response" where
  "bad_request message = writeError 400 ErrCodeBadRequest message"

definition not_found :: "go_error \<Rightarrow> response" where
  "not_found err = writeError 404 ErrCodeNotFound (error_string err)"

definition conflict :: "go_error \<Rightarrow> response" where
  "conflict err = writeError 409 ErrCodeConflict (error_string err)"

definition internal_error :: "string \<Rightarrow> response" where
  "internal_error message = writeError 500 ErrCodeInternal message"

text \<open>Older handlers write their errors as a map with one field.\<close>

definition error_field :: "int \<Rightarrow> string \<Rightarrow> response" where
  "error_field status message = writeJSON status (BFields [(''error'', message)])"

text \<open>The order in which the fields are visited is Go's map order.\<close>

fun validateRequired :: "string list \<Rightarrow> (string \<Rightarrow> string option) \<Rightarrow> string" where
  "validateRequired [] m = []"
| "validateRequired (f # ord) m =
     (case m f of None \<Rightarrow> validateRequired ord m
      | Some v \<Rightarrow> if v = [] then f @ '' is required'' else validateRequired ord m)"

lemmas response_defs = writeJSON_def writeError_def writeError_text_def bad_body_def bad_request_def not_found_def conflict_def
  internal_error_def error_field_def Let_def

section \<open>Helpers\<close>

record api_req =
  ar_path :: "string \<Rightarrow> string"
  ar_query :: "string \<Rightarrow> string"

text \<open>The value \<open>strconv.Atoi\<close> returns beside its error: 0 for a malformed number, the nearest
  64-bit number when it is out of range.\<close>

definition Atoi_value :: "string \<Rightarrow> int" where
  "Atoi_value s =
     (let neg = (s \<noteq> [] \<and> hd s = CHR ''-'');
          ds = (if s \<noteq> [] \<and> (hd s = CHR ''-'' \<or> hd s = CHR ''+'') then tl s else s);
          v = (if neg then - int (digits_val ds) else int (digits_val ds))
      in if ds = [] \<or> \<not> list_all is_digit ds then 0
         else if v > 9223372036854775807 then 9223372036854775807
         else if v < - 9223372036854775808 then - 9223372036854775808
         else v)"

definition DefaultLimit :: int where "DefaultLimit = 100"
definition MaxLimit :: int where "MaxLimit = 1000"

definition parsePagination :: "api_req \<Rightarrow> int \<times> int" where
  "parsePagination r =
     (let offset0 = Atoi_value (ar_query r ''offset'');
          limit0 = Atoi_value (ar_query r ''limit'');
          offset = (if offset0 < 0 then 0 else offset0);
          limit1 = (if limit0 \<le> 0 then DefaultLimit else limit0);
          limit = (if limit1 > MaxLimit then MaxLimit else limit1)
      in (offset, limit))"

text \<open>A slice expression panics unless its bounds are in order and in range.\<close>

definition go_slice :: "'a list \<Rightarrow> int \<Rightarrow> int \<Rightarrow> 'a list option" where
  "go_slice xs lo hi =
     (if 0 \<le> lo \<and> lo \<le> hi \<and> hi \<le> int (length xs) then Some (take (nat (hi - lo)) (drop (nat lo) xs)) else None)"

text \<open>The lines every list handler has: the page, the total, the offset and the limit.\<close>

definition paginate :: "api_req \<Rightarrow> 'a list \<Rightarrow> ('a list \<times> int \<times> int \<times> int) option" where
  "paginate r xs =
     (let (offset0, limit) = parsePagination r;
          total = int (length xs);
          offset = (if offset0 > total then total else offset0);
          end0 = offset + limit;
          end1 = (if end0 > total then total else end0)
      in map_option (\<lambda>page. (page, total, offset, limit)) (go_slice xs offset end1))"

definition parseVMID :: "api_req \<Rightarrow> int32 result" where
  "parseVMID r =
     (case ParseInt 32 (ar_path r ''id'') of
        None \<Rightarrow> Err (Errorf ''invalid VM ID: %s'' [FStr (ar_path r ''id'')])
      | Some i \<Rightarrow> Ok (word_of_int i))"

fun isStateError :: "go_error \<Rightarrow> bool" where
  "isStateError (FFIError code op) = (code = - 5)"
| "isStateError (Errorf f args) = Contains (error_string (Errorf f args)) ''invalid state''"
| "isStateError (ExtError s) = Contains s ''invalid state''"

definition countVMsByState :: "VMInfo list \<Rightarrow> (string \<Rightarrow> int option)" where
  "countVMsByState vms =
     fold (\<lambda>vm counts. counts(vmState vm \<mapsto> (case counts (vmState vm) of None \<Rightarrow> 0 | Some n \<Rightarrow> n) + 1)) vms Map.empty"

section \<open>Middlewares\<close>

text \<open>The headers a middleware sets, and whether it passes the request on.\<close>

definition requestIDMiddleware :: "int \<Rightarrow> uint64 \<Rightarrow> (string \<times> string) list \<times> uint64" where
  "requestIDMiddleware millis counter =
     (let cnt = counter + 1 in
      ([(''X-Request-Id'', Sprintf ''hcv-%d-%d'' [FInt millis, FInt (uint cnt)])], cnt))"

definition corsMiddleware :: "string \<Rightarrow> (string \<times> string) list \<times> response option" where
  "corsMiddleware method =
     ([(''Access-Control-Allow-Origin'', ''*''),
       (''Access-Control-Allow-Methods'', ''GET, POST, PUT, DELETE, OPTIONS''),
       (''Access-Control-Allow-Headers'', ''Content-Type, Authorization'')],
      if method = ''OPTIONS'' then Some (204, BNone) else None)"

definition recoveryMiddleware :: "response option \<Rightarrow> response" where
  "recoveryMiddleware handled =
     (case handled of
        None \<Rightarrow> (500, BFields [(''error'', ''internal server error'')])
      | Some resp \<Rightarrow> resp)"

definition isDeprecatedPath :: "string \<Rightarrow> bool" where
  "isDeprecatedPath path = False"

definition versionMiddleware :: "string \<Rightarrow> (string \<times> string) list" where
  "versionMiddleware path =
     (''X-API-Version'', ''v1'') #
       (if isDeprecatedPath path then [(''X-API-Deprecated'', ''true''), (''Sunset'', ''2027-01-01'')] else [])"

definition SecurityHeadersMiddleware :: "(string \<times> string) list" where
  "SecurityHeadersMiddleware =
     [(''X-Content-Type-Options'', ''nosniff''), (''X-Frame-Options'', ''DENY''), (''X-XSS-Protection'', ''1; mode=block'')]"

section \<open>Pages\<close>

lemma paginate_eq:
  assumes p: "parsePagination r = (offset0, limit)" and b: "0 \<le> offset0" "1 \<le> limit"
  shows "paginate r xs = Some (take (nat limit) (drop (nat offset0) xs), int (length xs), min offset0 (int (length xs)), limit)"
proof -
  define offset where "offset = (if offset0 > int (length xs) then int (length xs) else offset0)"
  have o: "0 \<le> offset" "offset \<le> int (length xs)" "offset = min offset0 (int (length xs))" using b by (auto simp: offset_def)
  have d: "drop (nat offset0) xs = drop (nat offset) xs" using b by (auto simp: offset_def)
  have e: "paginate r xs = map_option (\<lambda>page. (page, int (length xs), offset, limit))
      (go_slice xs offset (if offset + limit > int (length xs) then int (length xs) else offset + limit))"
    by (simp add: paginate_def p offset_def Let_def)
  have "go_slice xs offset (if offset + limit > int (length xs) then int (length xs) else offset + limit) =
      Some (take (nat limit) (drop (nat offset) xs))"
  proof (cases "offset + limit > int (length xs)")
    case True
    then have "take (nat (int (length xs) - offset)) (drop (nat offset) xs) = take (nat limit) (drop (nat offset) xs)"
      using o(1,2) by (simp add: nat_diff_distrib)
    then show ?thesis using True o(1,2) by (simp add: go_slice_def)
  qed (use o(1,2) b in \<open>simp add: go_slice_def\<close>)
  then show ?thesis unfolding e d o(3) [symmetric] by simp
qed

lemma parsePagination_range:
  "parsePagination r = (offset, limit) \<Longrightarrow> 0 \<le> offset \<and> 1 \<le> limit \<and> limit \<le> 1000"
  by (auto simp: parsePagination_def Let_def DefaultLimit_def MaxLimit_def split: if_splits)

text \<open>C34: A list handler never panics on its slice: whatever the query says, the page is the part of
  the list that starts at an offset between 0 and the total and has at most as many entries as a
  limit between 1 and 1000, and the total, offset and limit in the answer are these.\<close>

theorem page_in_range:
  "\<exists>offset limit. paginate r xs = Some (take (nat limit) (drop (nat offset) xs), int (length xs), offset, limit)
     \<and> 0 \<le> offset \<and> offset \<le> int (length xs) \<and> 1 \<le> limit \<and> limit \<le> 1000"
proof -
  obtain o0 l where p: "parsePagination r = (o0, l)" by fastforce
  note b = parsePagination_range [OF p]
  have "drop (nat o0) xs = drop (nat (min o0 (int (length xs)))) xs" using b by (auto simp: min_def)
  then show ?thesis
    using paginate_eq [OF p, of xs] b by (intro exI [of _ "min o0 (int (length xs))"] exI [of _ l]) auto
qed

lemma Atoi_show:
  assumes "- 9223372036854775808 \<le> i" "i \<le> 9223372036854775807"
  shows "Atoi_value (show_int i) = i"
  using assms by (cases "i < 0") (auto simp: Atoi_value_def show_int_def Let_def)

text \<open>Fetching page after page yields every entry once and in order.\<close>

definition page_req :: "int \<Rightarrow> int \<Rightarrow> api_req" where
  "page_req offset limit = \<lparr>ar_path = (\<lambda>_. []), ar_query = (\<lambda>k. if k = ''offset'' then show_int offset else if k = ''limit'' then show_int limit else [])\<rparr>"

lemma page_req_page:
  assumes "1 \<le> l" "l \<le> 1000" "0 \<le> i" "i \<le> 9223372036854775807"
  shows "map_option fst (paginate (page_req i l) xs) = Some (take (nat l) (drop (nat i) xs))"
proof -
  have "parsePagination (page_req i l) = (i, l)"
    using assms by (simp add: parsePagination_def page_req_def Atoi_show DefaultLimit_def MaxLimit_def)
  then show ?thesis using assms paginate_eq [of "page_req i l" i l xs] by simp
qed

lemma take_drop_pages: "concat (map (\<lambda>k. take l (drop (k * l) xs)) [0..<n]) = take (n * l) xs"
  by (induction n) (simp_all add: take_add [symmetric] add.commute del: take_add)

lemma pages_cover:
  assumes "1 \<le> l" "l \<le> 1000" "int (length xs) \<le> int n * l" "int n * l \<le> 9223372036854775807"
  shows "concat (map (\<lambda>k. the (map_option fst (paginate (page_req (int k * l) l) xs))) [0..<n]) = xs"
proof -
  have "the (map_option fst (paginate (page_req (int k * l) l) xs)) = take (nat l) (drop (k * nat l) xs)" if "k < n" for k
  proof -
    have "int k * l \<le> int n * l" using that assms(1) by (intro mult_right_mono) auto
    then have "int k * l \<le> 9223372036854775807" using assms(4) by linarith
    then show ?thesis using page_req_page [OF assms(1,2), of "int k * l" xs] assms(1)
      by (auto simp: nat_mult_distrib)
  qed
  then have "concat (map (\<lambda>k. the (map_option fst (paginate (page_req (int k * l) l) xs))) [0..<n]) =
      concat (map (\<lambda>k. take (nat l) (drop (k * nat l) xs)) [0..<n])" by (intro arg_cong [of _ _ concat] map_cong) auto
  also have "\<dots> = take (n * nat l) xs" by (rule take_drop_pages)
  also have "\<dots> = xs"
  proof -
    have "int (length xs) \<le> int (n * nat l)" using assms(1,3) by simp
    then show ?thesis by (simp only: of_nat_le_iff take_all)
  qed
  finally show ?thesis .
qed

end
