(* ===== verification/Api_Vm.thy ===== *)
theory Api_Vm
  imports Api_Base
begin

text \<open>
  The handlers of \<^verbatim>\<open>internal/api/router.go\<close> for virtual machines, migrations, containers and
  tasks, over the compute service.  The decoded body of a request is an argument, an error when it cannot
  be decoded; the order in which the service visits its maps is an argument as everywhere.
\<close>

section \<open>Probes\<close>

definition handleHealth :: response where
  "handleHealth = writeJSON 200 (BFields [(''status'', ''ok'')])"

definition handleReadiness :: "bool \<Rightarrow> bool \<Rightarrow> bool \<Rightarrow> response" where
  "handleReadiness compute storage ha =
     (let st = (\<lambda>b. if b then ''ok'' else ''unavailable'');
          checks = [(''compute'', st compute), (''storage'', st storage), (''ha'', st ha)]
      in if compute \<and> storage then writeJSON 200 (BFields (checks @ [(''status'', ''ready'')]))
         else writeJSON 503 (BFields (checks @ [(''status'', ''not_ready'')])))"

record VersionInfo =
  vi_Version :: string
  vi_GitCommit :: string
  vi_BuildDate :: string
  vi_VMCore :: string

definition handleVersion :: "VersionInfo \<Rightarrow> response" where
  "handleVersion v =
     writeJSON 200 (BFields [(''product'', ''HardCoreVisor''), (''version'', vi_Version v), (''arch'', ''hybrid-rust-go''),
       (''git_commit'', vi_GitCommit v), (''build_date'', vi_BuildDate v), (''vmcore_version'', vi_VMCore v)])"

section \<open>Virtual machines\<close>

definition handleListVMs :: "string list \<Rightarrow> (string \<Rightarrow> int32 list) \<Rightarrow> api_req \<Rightarrow> BackendSelector \<Rightarrow> response option" where
  "handleListVMs ord vords r s =
     (let vms = Svc_ListVMs ord vords s;
          typeFilter = ar_query r ''type'';
          vms1 = (if typeFilter \<noteq> []
                  then filter (\<lambda>vm. (if vmType vm = [] then ''vm'' else vmType vm) = typeFilter) vms else vms)
      in map_option (\<lambda>(page, total, offset, limit). writeJSON 200 (BVMPage page total offset limit)) (paginate r vms1))"

record create_req =
  cr_Name :: string
  cr_VCPUs :: uint32
  cr_MemoryMB :: uint64
  cr_Backend :: string
  cr_Type :: string
  cr_Template :: string
  cr_RestartPolicy :: string
  cr_DiskPath :: string
  cr_ISOPath :: string
  cr_NetworkMode :: string

text \<open>The handler writes the settings through the pointer the service returns, which is the entry
  of the backend's table.\<close>

fun backend_edit_vm :: "int32 \<Rightarrow> (VMInfo \<Rightarrow> VMInfo) \<Rightarrow> backend \<Rightarrow> backend" where
  "backend_edit_vm h f (BRust b) = BRust (b\<lparr>rb_vms := (rb_vms b)(h := map_option f (rb_vms b h))\<rparr>)"
| "backend_edit_vm h f (BQemu b) = BQemu (b\<lparr>qb_vms := (qb_vms b)(h := map_option f (qb_vms b h))\<rparr>)"
| "backend_edit_vm h f (BLxc b) = BLxc (b\<lparr>lb_vms := (lb_vms b)(h := map_option f (lb_vms b h))\<rparr>)"

definition edit_vm :: "VMInfo \<Rightarrow> (VMInfo \<Rightarrow> VMInfo) \<Rightarrow> BackendSelector \<Rightarrow> BackendSelector" where
  "edit_vm vm f s =
     (case sel_backends s (vmBackend vm) of
        None \<Rightarrow> s
      | Some b \<Rightarrow> set_backend (vmBackend vm) (backend_edit_vm (vmID vm) f b) s)"

definition apply_settings :: "create_req \<Rightarrow> VMInfo \<Rightarrow> VMInfo" where
  "apply_settings q vm =
     (let vm1 = (if cr_RestartPolicy q \<noteq> [] then vm\<lparr>vmRestartPolicy := cr_RestartPolicy q\<rparr> else vm);
          vm2 = (if cr_Template q \<noteq> [] then vm1\<lparr>vmTemplate := cr_Template q\<rparr> else vm1);
          vm3 = (if cr_DiskPath q \<noteq> [] then vm2\<lparr>vmDiskPath := cr_DiskPath q\<rparr> else vm2);
          vm4 = (if cr_ISOPath q \<noteq> [] then vm3\<lparr>vmISOPath := cr_ISOPath q\<rparr> else vm3)
      in (if cr_NetworkMode q \<noteq> [] then vm4\<lparr>vmNetworkMode := cr_NetworkMode q\<rparr> else vm4))"

definition handleCreateVM :: "comp_env \<Rightarrow> gotime \<Rightarrow> create_req result \<Rightarrow> BackendSelector \<Rightarrow> response \<times> BackendSelector" where
  "handleCreateVM env now body s =
     (case body of
        Inl err \<Rightarrow> (bad_body err, s)
      | Inr q \<Rightarrow>
          let name = (if cr_Name q = [] then ''unnamed'' else cr_Name q);
              vcpus = (if cr_VCPUs q = 0 then 1 else cr_VCPUs q);
              memoryMB = (if cr_MemoryMB q = 0 then 512 else cr_MemoryMB q)
          in if vcpus > 256 then (bad_request ''vcpus must be <= 256'', s)
             else if memoryMB > 1048576 then (bad_request ''memory_mb must be <= 1048576 (1TB)'', s)
             else
               let hint = (if cr_Type q = ''container'' \<and> cr_Backend q = [] then ''lxc'' else cr_Backend q) in
               (case Svc_CreateVM env name vcpus memoryMB hint now s of
                  (Inl err, s') \<Rightarrow> (internal_error (error_string err), s')
                | (Inr vm, s') \<Rightarrow> (writeJSON 201 (BVM (apply_settings q vm)), edit_vm vm (apply_settings q) s')))"

definition handleGetVM :: "string list \<Rightarrow> api_req \<Rightarrow> BackendSelector \<Rightarrow> response" where
  "handleGetVM ord r s =
     (case parseVMID r of
        Inl err \<Rightarrow> bad_request (error_string err)
      | Inr handle \<Rightarrow>
          (case Svc_GetVM ord handle s of Inl err \<Rightarrow> not_found err | Inr vm \<Rightarrow> writeJSON 200 (BVM vm)))"

definition handleDeleteVM :: "comp_env \<Rightarrow> string list \<Rightarrow> api_req \<Rightarrow> BackendSelector \<Rightarrow> response \<times> BackendSelector" where
  "handleDeleteVM env ord r s =
     (case parseVMID r of
        Inl err \<Rightarrow> (bad_request (error_string err), s)
      | Inr handle \<Rightarrow>
          (case Svc_DestroyVM env ord handle s of
             (Inl err, s') \<Rightarrow> (not_found err, s')
           | (Inr u, s') \<Rightarrow> ((204, BNone), s')))"

definition handleVMAction :: "comp_env \<Rightarrow> string list \<Rightarrow> string \<Rightarrow> api_req \<Rightarrow> BackendSelector \<Rightarrow> response \<times> BackendSelector" where
  "handleVMAction env ord action r s =
     (case parseVMID r of
        Inl err \<Rightarrow> (bad_request (error_string err), s)
      | Inr handle \<Rightarrow>
          (case Svc_ActionVM env ord handle action s of
             (Inl err, s') \<Rightarrow> (if isStateError err then conflict err else not_found err, s')
           | (Inr vm, s') \<Rightarrow> (writeJSON 200 (BVM vm), s')))"

section \<open>Migrations\<close>

text \<open>The goroutine that follows a migration: what each round of its loop finds, the deadline or
  the answer to its poll.  The result is the calls it makes on its task.\<close>

datatype poll =
    Deadline
  | Polled "MigrationStatus result"

fun track_calls :: "poll list \<Rightarrow> task_call list" where
  "track_calls [] = []"
| "track_calls (Deadline # ps) = [CallFail ''migration timeout (30 minutes)'']"
| "track_calls (Polled (Inl err) # ps) = [CallFail (error_string err)]"
| "track_calls (Polled (Inr ms) # ps) =
     CallProgress (ms_Progress ms) #
       (if ms_Phase ms = ''completed'' then [CallComplete]
        else if ms_Phase ms = ''failed'' then [CallFail (ms_Error ms)]
        else track_calls ps)"

definition track_migration :: "poll list \<Rightarrow> task_call list" where
  "track_migration polls = CallStatus ''running'' # track_calls polls"

text \<open>\<open>tasks\<close> is \<^const>\<open>None\<close> when there is no task service.  With one, the result has the goroutine that
  runs the migration and the task to follow it; without one, \<open>inputs\<close> drive the migration to its end.\<close>

definition handleMigrateVM ::
  "string list \<Rightarrow> gotime \<Rightarrow> (string list \<times> gotime) list \<Rightarrow> api_req \<Rightarrow> string result \<Rightarrow> unit TaskService option \<times> ComputeService
     \<Rightarrow> response option \<times> (goroutine \<times> nat) option \<times> unit TaskService option \<times> ComputeService" where
  "handleMigrateVM ord now inputs r body = (\<lambda>(tasks, cs).
     case parseVMID r of
       Inl err \<Rightarrow> (Some (error_field 400 (error_string err)), None, tasks, cs)
     | Inr handle \<Rightarrow>
         (case body of
            Inl err \<Rightarrow> (Some (error_field 400 (error_string err)), None, tasks, cs)
          | Inr targetNode \<Rightarrow>
              if targetNode = [] then (Some (error_field 400 ''target_node is required''), None, tasks, cs)
              else
                (case tasks of
                   Some ts \<Rightarrow>
                     (case MigrateLive ord now handle targetNode cs of
                        (Inl err, cs') \<Rightarrow> (Some (error_field 404 (error_string err)), None, Some ts, cs')
                      | (Inr g, cs') \<Rightarrow>
                          (case CreateTask now ''vm.migrate'' handle ts of
                             (t, ts') \<Rightarrow>
                               (Some (writeJSON 202 (BFields [(''task_id'', tk_ID (ts_heap ts' ! t)), (''status'', ''pending''),
                                   (''message'', Sprintf ''VM %d migration to %s initiated'' [FInt (sint handle), FStr targetNode])])),
                                Some (g, t), Some ts', cs')))
                 | None \<Rightarrow>
                     (case MigrateVM inputs handle targetNode cs of
                        (MgDone (Inl err), cs') \<Rightarrow> (Some (error_field 404 (error_string err)), None, None, cs')
                      | (MgDone (Inr u), cs') \<Rightarrow>
                          (Some (writeJSON 200 (BFields [(''status'', ''migrated''),
                             (''message'', Sprintf ''VM %d migrated to %s'' [FInt (sint handle), FStr targetNode])])), None, None, cs')
                      | (_, cs') \<Rightarrow> (None, None, None, cs')))))"

definition handleCancelMigration :: "api_req \<Rightarrow> ComputeService \<Rightarrow> response \<times> ComputeService" where
  "handleCancelMigration r cs =
     (case parseVMID r of
        Inl err \<Rightarrow> (bad_request (error_string err), cs)
      | Inr handle \<Rightarrow>
          (case CancelMigration handle cs of
             (Inl err, cs') \<Rightarrow> (not_found err, cs')
           | (Inr u, cs') \<Rightarrow>
               (writeJSON 200 (BFields [(''status'', ''cancelled''),
                  (''message'', Sprintf ''Migration for VM %d cancelled'' [FInt (sint handle)])]), cs')))"

definition handleListBackends :: "string list \<Rightarrow> BackendSelector \<Rightarrow> response" where
  "handleListBackends ord s = writeJSON 200 (BBackends (Selector_List ord s))"

definition handleGetMigrationStatus :: "api_req \<Rightarrow> ComputeService \<Rightarrow> response" where
  "handleGetMigrationStatus r cs =
     (case parseVMID r of
        Inl err \<Rightarrow> bad_request (error_string err)
      | Inr handle \<Rightarrow>
          (case GetMigrationStatus handle cs of Inl err \<Rightarrow> not_found err | Inr st \<Rightarrow> writeJSON 200 (BMigration st)))"

section \<open>Containers\<close>

definition handleVMStats :: "lxc_env \<Rightarrow> string list \<Rightarrow> api_req \<Rightarrow> LXCBackend option \<Rightarrow> BackendSelector \<Rightarrow> response" where
  "handleVMStats env ord r lxc s =
     (case parseVMID r of
        Inl err \<Rightarrow> bad_request (error_string err)
      | Inr handle \<Rightarrow>
          (case Svc_GetVM ord handle s of
             Inl err \<Rightarrow> not_found err
           | Inr vm \<Rightarrow>
               (case (if vmBackend vm = ''lxc'' then lxc else None) of
                  Some b \<Rightarrow>
                    (case LXC_GetContainerStats env handle b of
                       Inl err \<Rightarrow> internal_error (error_string err)
                     | Inr stats \<Rightarrow> writeJSON 200 (BStats stats))
                | None \<Rightarrow>
                    writeJSON 200 (BStats \<lparr>cs_CPUUsageNs = ucast (vmVCPUs vm) * 1000000000,
                      cs_MemoryUsageBytes = vmMemoryMB vm * 512 * 1024, cs_MemoryLimitBytes = vmMemoryMB vm * 1024 * 1024,
                      cs_PIDCount = 1, cs_NetRxBytes = 0, cs_NetTxBytes = 0\<rparr>))))"

definition handleContainerExec ::
  "lxc_env \<Rightarrow> string list \<Rightarrow> api_req \<Rightarrow> string list result \<Rightarrow> LXCBackend option \<Rightarrow> BackendSelector \<Rightarrow> response" where
  "handleContainerExec env ord r body lxc s =
     (case parseVMID r of
        Inl err \<Rightarrow> bad_request (error_string err)
      | Inr handle \<Rightarrow>
          (case Svc_GetVM ord handle s of
             Inl err \<Rightarrow> not_found err
           | Inr vm \<Rightarrow>
               if vmType vm \<noteq> ''container'' then bad_request ''exec is only supported for containers''
               else
                 (case body of
                    Inl err \<Rightarrow> bad_request ''invalid request body''
                  | Inr command \<Rightarrow>
                      if command = [] then bad_request ''command is required''
                      else
                        (case lxc of
                           None \<Rightarrow> internal_error ''LXC backend not available''
                         | Some b \<Rightarrow>
                             (case LXC_ExecContainer env handle command b of
                                (output, Some err) \<Rightarrow> if isStateError err then conflict err else internal_error (error_string err)
                              | (output, None) \<Rightarrow> writeJSON 200 (BFields [(''output'', output)]))))))"

definition handleLXCTemplates :: "bool \<Rightarrow> response" where
  "handleLXCTemplates lxc =
     writeJSON 200 (BStrings ''templates'' (if lxc then LXC_AvailableTemplates else [''ubuntu'', ''alpine'', ''debian'', ''centos'']))"

section \<open>Tasks\<close>

definition handleListTasks :: "string list \<Rightarrow> api_req \<Rightarrow> unit TaskService \<Rightarrow> response" where
  "handleListTasks ord r ts =
     writeJSON 200 (BTasks (map Task_Snapshot (ListTasks ord (ar_query r ''type'') (ar_query r ''status'') ts)))"

definition handleGetTask :: "api_req \<Rightarrow> unit TaskService \<Rightarrow> response" where
  "handleGetTask r ts =
     (case GetTask (ar_path r ''id'') ts of
        Inl err \<Rightarrow> not_found err
      | Inr t \<Rightarrow> writeJSON 200 (BTask (Task_Snapshot t)))"

definition handleDeleteTask :: "api_req \<Rightarrow> unit TaskService \<Rightarrow> response \<times> unit TaskService" where
  "handleDeleteTask r ts =
     (case DeleteTask (ar_path r ''id'') ts of
        (Inl err, ts') \<Rightarrow> (bad_request (error_string err), ts')
      | (Inr u, ts') \<Rightarrow> ((204, BNone), ts'))"

section \<open>Status of an action\<close>

text \<open>A backend that runs no external program.\<close>

fun backend_emulated :: "backend \<Rightarrow> bool" where
  "backend_emulated (BRust b) = True"
| "backend_emulated (BQemu b) = qb_emulated b"
| "backend_emulated (BLxc b) = lb_emulated b"

lemma invalid_state_is_state_error: "isStateError invalid_state_error"
  by (simp add: invalid_state_error_def)

lemma rust_action_error:
  assumes "rust_ok b" "rb_vms b h = Some vm" "RustVMM_act a h b = (Err e, b')"
  shows "isStateError e"
proof -
  obtain mv where "core_vms (rb_core b) h = Some mv" by (rule rust_ok_some [OF assms(1,2)])
  then show ?thesis
    using assms(3)
    by (cases a)
      (auto simp: RustVMM_StartVM_def RustVMM_StopVM_def RustVMM_PauseVM_def RustVMM_ResumeVM_def RustVMM_transitionVM_def
        Core_StartVM_def Core_StopVM_def Core_PauseVM_def Core_ResumeVM_def Core_transitionVM_def Core_GetVMState_def ErrInvalidState_def
        split: if_splits)
qed

lemma qemu_action_error:
  assumes "qb_emulated b" "qb_vms b h = Some vm" "QEMU_act env a h b = (Err e, b')"
  shows "isStateError e"
  using assms invalid_state_is_state_error
  by (cases a) (auto simp: QEMU_StartVM_def QEMU_StopVM_def QEMU_PauseVM_def QEMU_ResumeVM_def QEMU_transition_def Let_def
      split: if_splits option.splits)

lemma lxc_action_error:
  assumes "lb_emulated b" "lb_vms b h = Some vm" "LXC_act env a h b = (Err e, b')"
  shows "isStateError e"
  using assms invalid_state_is_state_error
  by (cases a) (auto simp: LXC_StartVM_def LXC_StopVM_def LXC_PauseVM_def LXC_ResumeVM_def LXC_transition_def
      split: if_splits option.splits)

lemma backend_action_error:
  assumes "backend_ok b" "backend_emulated b" "backend_table b h = Some vm" "backend_act env a h b = (Err e, b')"
  shows "isStateError e"
proof (cases b)
  case (BRust x)
  then show ?thesis using assms rust_action_error [of x h vm a e] by (cases "RustVMM_act a h x") auto
next
  case (BQemu x)
  then show ?thesis using assms qemu_action_error [of x h vm "ce_qemu env" a e] by (cases "QEMU_act (ce_qemu env) a h x") auto
next
  case (BLxc x)
  then show ?thesis using assms lxc_action_error [of x h vm "ce_lxc env" a e] by (cases "LXC_act (ce_lxc env) a h x") auto
qed

lemma vm_not_found_no_state_error: "\<not> isStateError (vm_not_found h)"
proof -
  have "error_string (vm_not_found h) = ''VM not found: '' @ show_int (sint h)" by (simp add: vm_not_found_def)
  moreover have "CHR ''v'' \<notin> set (''VM not found: '' @ show_int (sint h))"
    using show_nat_no_char [of "CHR ''v''"] by (auto simp: show_int_def)
  moreover have "CHR ''v'' \<in> set s" if "Contains s ''invalid state''" for s
    using that by (auto simp: Contains_iff)
  ultimately show ?thesis unfolding vm_not_found_def isStateError.simps by metis
qed

lemma service_action_error:
  assumes inv: "svc_inv s" and ord: "range_order ord (sel_backends s)"
    and em: "\<And>k b. sel_backends s k = Some b \<Longrightarrow> backend_emulated b" and a: "parse_action action \<noteq> None"
    and c: "Svc_ActionVM env ord h action s = (Err e, s')"
  shows "isStateError e \<longleftrightarrow> svc_view s h \<noteq> None"
  using svc_find_view [OF inv ord, of h]
proof (elim disjE exE conjE)
  assume "findBackendForVM ord h s = Err (vm_not_found h)" "svc_view s h = None"
  then show ?thesis using c vm_not_found_no_state_error [of h] by (auto simp: Svc_ActionVM_def)
next
  fix key b vm
  assume f: "findBackendForVM ord h s = Ok key" "sel_backends s key = Some b" "backend_table b h = Some vm" "svc_view s h = Some vm"
    and ok: "backend_ok b"
  obtain a' where a': "parse_action action = Some a'" using a by auto
  obtain r b' where act: "backend_act env a' h b = (r, b')" by (metis prod.exhaust)
  show ?thesis
  proof (cases r)
    case (Inl e')
    then have "isStateError e'" using backend_action_error [OF ok em [OF f(2)] f(3)] act by blast
    then show ?thesis using c f a' act Inl by (simp add: Svc_ActionVM_def)
  next
    case (Inr u)
    then have "backend_table b' h \<noteq> None" using backend_action [OF ok act] by auto
    then show ?thesis using c f a' act Inr by (auto simp: Svc_ActionVM_def backend_GetVM_eq split: option.splits)
  qed
qed

text \<open>A request to start, stop, pause or resume a machine is answered, on backends that run no
  external program, with 404 exactly when no machine has the handle; with 200 exactly when
  the machine made a move of the life cycle, and then the answer is the machine as it now is; and
  otherwise with 409, and no machine has changed.\<close>

theorem vm_action_status:
  assumes inv: "svc_inv s" and ord: "range_order ord (sel_backends s)"
    and em: "\<And>k b. sel_backends s k = Some b \<Longrightarrow> backend_emulated b"
    and a: "parse_action action = Some a" and h: "parseVMID r = Ok h"
    and c: "handleVMAction env ord action r s = ((status, body), s')"
  shows "(status = 404 \<longleftrightarrow> svc_view s h = None) \<and> status \<in> {200, 404, 409}
    \<and> (status = 200 \<longrightarrow> (\<exists>vm p. svc_view s h = Some vm \<and> vmState vm = phase_string p \<and> lifecycle p (action_target a)
          \<and> body = BVM (vm\<lparr>vmState := phase_string (action_target a)\<rparr>)
          \<and> svc_view s' = (svc_view s)(h \<mapsto> vm\<lparr>vmState := phase_string (action_target a)\<rparr>)))
    \<and> (status \<noteq> 200 \<longrightarrow> svc_view s' = svc_view s)"
proof -
  obtain res s1 where act: "Svc_ActionVM env ord h action s = (res, s1)" by (metis prod.exhaust)
  note v = svc_action_view [OF inv ord act]
  show ?thesis
  proof (cases res)
    case (Inl e)
    have "isStateError e \<longleftrightarrow> svc_view s h \<noteq> None"
      by (rule service_action_error [OF inv ord em _ act [unfolded Inl]]) (simp_all add: a)
    then show ?thesis using Inl c h act v a by (auto simp: handleVMAction_def response_defs)
  next
    case (Inr vm')
    then show ?thesis using c h act v a by (auto simp: handleVMAction_def response_defs)
  qed
qed

definition id_req :: "string \<Rightarrow> api_req" where
  "id_req i = \<lparr>ar_path = (\<lambda>k. if k = ''id'' then i else []), ar_query = (\<lambda>_. [])\<rparr>"

lemma parse_id_req: "parseVMID (id_req (show_int (sint h))) = Ok h"
  using sint_ge [of h] sint_lt [of h] by (simp add: parseVMID_def id_req_def ParseInt_show_int)

theorem vm_action_status_witness:
  "\<exists>body s'. handleVMAction quiet_env backend_names ''pause'' (id_req (show_int (sint (10000 :: int32)))) svc_one = ((409, body), s')
     \<and> svc_view s' = svc_view svc_one"
proof -
  obtain status body s' where c: "handleVMAction quiet_env backend_names ''pause'' (id_req (show_int (sint (10000 :: int32)))) svc_one = ((status, body), s')"
    by (metis prod.exhaust)
  have em: "backend_emulated b" if "sel_backends svc_one k = Some b" for k b
    using that by (auto simp: svc_one_def set_backend_def svc_fresh_backends qemu_with_one_eq NewQEMUBackend_def NewLXCBackend_def split: if_splits)
  have st: "status = 409"
    using c by (simp only: handleVMAction_def parse_id_req sum.case)
      (auto simp: Svc_ActionVM_def backend_names_def svc_one_def set_backend_def svc_fresh_backends qemu_with_one_eq
        backend_GetVM_eq NewRustVMMBackend_def parse_action_def QEMU_PauseVM_def QEMU_transition_def
        qemuValidTransitions_def new_VMInfo_def NewQEMUBackend_def invalid_state_is_state_error response_defs)
  from vm_action_status [where a = Pause, OF svc_one_inv svc_one_order em _ parse_id_req c] c st
  show ?thesis by (auto simp: parse_action_def)
qed

end
