(* ===== verification/Ha_Service.thy ===== *)
theory Ha_Service
  imports Ha_Driver
begin

text \<open>
  The HA service of \<^verbatim>\<open>internal/ha/ha.go\<close> over its two drivers, the in-memory one and the one
  that keeps the nodes in the state store.  The methods the store driver does not define are those of
  the in-memory driver it embeds.
\<close>

section \<open>Drivers\<close>

datatype HADriver =
    HaMemory ha_mem
  | HaEtcd EtcdDriver

fun ha_mem_of :: "HADriver \<Rightarrow> ha_mem" where
  "ha_mem_of (HaMemory m) = m"
| "ha_mem_of (HaEtcd d) = ed_mem d"

text \<open>The state store the driver was given, the codec of its values, and the order in which the
  store and the in-memory table are visited.\<close>

record 's ha_env =
  he_put :: "'s ha_put"
  he_list :: "'s ha_list"
  he_codec :: ha_codec
  he_keys :: "string list"
  he_nodes :: "string list"

section \<open>Service\<close>

definition Ha_NewService :: "gotime \<Rightarrow> HADriver" where
  "Ha_NewService now = HaMemory (ha_newMemoryDriver now)"

text \<open>Neither driver reports an error from the two listings, so the branches of the service for
  one are not reached.\<close>

fun Ha_GetClusterStatus :: "'s ha_env \<Rightarrow> HADriver \<Rightarrow> 's \<Rightarrow> ClusterStatus \<times> 's" where
  "Ha_GetClusterStatus env (HaMemory m) st = (HaMem_GetClusterStatus (he_nodes env) m, st)"
| "Ha_GetClusterStatus env (HaEtcd d) st = Etcd_GetClusterStatus (he_list env) (he_codec env) (he_keys env) (he_nodes env) d st"

fun Ha_ListNodes :: "'s ha_env \<Rightarrow> HADriver \<Rightarrow> 's \<Rightarrow> ClusterNode list \<times> 's" where
  "Ha_ListNodes env (HaMemory m) st = (HaMem_ListNodes (he_nodes env) m, st)"
| "Ha_ListNodes env (HaEtcd d) st = Etcd_ListNodes (he_list env) (he_codec env) (he_keys env) (he_nodes env) d st"

definition Ha_GetNode :: "string \<Rightarrow> HADriver \<Rightarrow> ClusterNode result" where
  "Ha_GetNode name drv = HaMem_GetNode name (ha_mem_of drv)"

fun Ha_FenceNode ::
  "'s ha_env \<Rightarrow> gotime \<Rightarrow> string \<Rightarrow> string \<Rightarrow> string \<Rightarrow> HADriver \<Rightarrow> 's \<Rightarrow> FenceEvent result \<times> HADriver \<times> 's" where
  "Ha_FenceNode env now nodeName reason action (HaMemory m) st =
     (case HaMem_FenceNode now nodeName reason action m of (r, m') \<Rightarrow> (r, HaMemory m', st))"
| "Ha_FenceNode env now nodeName reason action (HaEtcd d) st =
     (case Etcd_FenceNode (he_put env) (he_codec env) now nodeName reason action d st of (r, d', st') \<Rightarrow> (r, HaEtcd d', st'))"

definition Ha_ListFenceEvents :: "HADriver \<Rightarrow> FenceEvent list" where
  "Ha_ListFenceEvents drv = HaMem_ListFenceEvents (ha_mem_of drv)"

section \<open>Effect of fencing on the service\<close>

lemma Ha_FenceNode_mem:
  "Ha_FenceNode env now n reason action drv st = (r, drv', st') \<Longrightarrow>
     r = fst (HaMem_FenceNode now n reason action (ha_mem_of drv))
     \<and> ha_mem_of drv' = snd (HaMem_FenceNode now n reason action (ha_mem_of drv))"
  by (cases drv) (auto simp: Etcd_FenceNode_def Let_def split: prod.splits sum.splits)

lemma fence_get_node:
  assumes "Ha_FenceNode env now n reason action drv st = (r, drv', st')"
  shows "Ha_GetNode m drv' =
    (case Ha_GetNode m drv of Inl e \<Rightarrow> Err e | Inr node \<Rightarrow> Ok (if m = n then node\<lparr>cn_Status := NodeFenced\<rparr> else node))"
  using Ha_FenceNode_mem [OF assms]
  by (auto simp: Ha_GetNode_def HaMem_GetNode_def HaMem_FenceNode_def Let_def split: option.splits if_splits)

lemma fence_events:
  assumes "Ha_FenceNode env now n reason action drv st = (r, drv', st')"
  shows "Ha_ListFenceEvents drv' = Ha_ListFenceEvents drv @ (case r of Inl e \<Rightarrow> [] | Inr ev \<Rightarrow> [ev])"
  using Ha_FenceNode_mem [OF assms]
  by (auto simp: Ha_ListFenceEvents_def HaMem_ListFenceEvents_def HaMem_FenceNode_def Let_def split: option.splits if_splits)

end
