(* ===== verification/Api_Resources.thy ===== *)
theory Api_Resources
  imports Api_Vm Ha_Service
begin

text \<open>
  The handlers of \<^verbatim>\<open>internal/api/router.go\<close> for nodes, storage, networks, devices, the cluster,
  backups, templates, snapshots, images and OAuth2, with the disk images of \<^verbatim>\<open>internal/storage/disk.go\<close>.
  A handler takes the decoded body of its request, an error when it cannot be decoded, and
  returns its response with the state it leaves.
\<close>

section \<open>Nodes\<close>

definition handleListNodes :: response where
  "handleListNodes =
     writeJSON 200 (BNodeInfos
       [\<lparr>ni_Name = ''node-01'', ni_Status = ''online'', ni_CPUPercent = ''45.2'', ni_MemoryPercent = ''62.1'', ni_VMCount = 2\<rparr>,
        \<lparr>ni_Name = ''node-02'', ni_Status = ''online'', ni_CPUPercent = ''38.7'', ni_MemoryPercent = ''55.4'', ni_VMCount = 1\<rparr>,
        \<lparr>ni_Name = ''node-03'', ni_Status = ''online'', ni_CPUPercent = ''78.3'', ni_MemoryPercent = ''81.0'', ni_VMCount = 0\<rparr>])"

definition handleGetNode :: "api_req \<Rightarrow> HADriver option \<Rightarrow> response" where
  "handleGetNode r ha =
     (let name = ar_path r ''id'' in
      if name = [] then bad_request ''node name is required''
      else case ha of
             None \<Rightarrow> writeError 404 ErrCodeNotFound ''HA service not available''
           | Some drv \<Rightarrow>
               (case Ha_GetNode name drv of Inl err \<Rightarrow> not_found err | Inr node \<Rightarrow> writeJSON 200 (BNode node)))"

section \<open>Storage\<close>

definition handleStoragePools :: "stor_env \<Rightarrow> string list \<Rightarrow> StorageService option \<Rightarrow> response" where
  "handleStoragePools env ord st =
     (case st of None \<Rightarrow> writeJSON 200 BEmptyList | Some s \<Rightarrow> writeJSON 200 (BPools (Stor_ListPools env ord s)))"

definition handleStorageVolumes :: "string list \<Rightarrow> api_req \<Rightarrow> StorageService \<Rightarrow> response" where
  "handleStorageVolumes ord r s = writeJSON 200 (BVolumes (Stor_ListVolumes ord (ar_query r ''pool'') s))"

record volume_req =
  vq_Pool :: string
  vq_Name :: string
  vq_SizeBytes :: uint64
  vq_Format :: string

definition handleCreateVolume ::
  "stor_env \<Rightarrow> int \<Rightarrow> string list \<Rightarrow> volume_req result \<Rightarrow> StorageService \<Rightarrow> response \<times> StorageService" where
  "handleCreateVolume env now ford body s =
     (case body of
        Inl err \<Rightarrow> (bad_body err, s)
      | Inr q \<Rightarrow>
          let msg = validateRequired ford [''pool'' \<mapsto> vq_Pool q, ''name'' \<mapsto> vq_Name q] in
          if msg \<noteq> [] then (bad_request msg, s)
          else case Stor_CreateVolume env now (vq_Pool q) (vq_Name q) (vq_Format q) (vq_SizeBytes q) s of
                 (Inl err, s') \<Rightarrow> (bad_request (error_string err), s')
               | (Inr vol, s') \<Rightarrow> (writeJSON 201 (BVolume vol), s'))"

definition handleDeleteVolume :: "stor_env \<Rightarrow> api_req \<Rightarrow> StorageService \<Rightarrow> response \<times> StorageService" where
  "handleDeleteVolume env r s =
     (case Stor_DeleteVolume env (ar_path r ''id'') s of
        (Inl err, s') \<Rightarrow> (error_field 404 (error_string err), s')
      | (Inr u, s') \<Rightarrow> ((204, BNone), s'))"

definition handleGetVolume :: "stor_env \<Rightarrow> int \<Rightarrow> api_req \<Rightarrow> StorageService \<Rightarrow> response" where
  "handleGetVolume env now r s =
     (case Stor_GetVolume env now (ar_path r ''id'') s of Inl err \<Rightarrow> not_found err | Inr vol \<Rightarrow> writeJSON 200 (BVolume vol))"

definition handleResizeVolume :: "stor_env \<Rightarrow> int \<Rightarrow> api_req \<Rightarrow> uint64 result \<Rightarrow> StorageService \<Rightarrow> response \<times> StorageService" where
  "handleResizeVolume env now r body s =
     (case body of
        Inl err \<Rightarrow> (bad_body err, s)
      | Inr sizeBytes \<Rightarrow>
          if sizeBytes = 0 then (bad_request ''size_bytes must be greater than 0'', s)
          else case Stor_ResizeVolume env (ar_path r ''id'') sizeBytes s of
                 (Inl err, s') \<Rightarrow> (not_found err, s')
               | (Inr u, s') \<Rightarrow>
                   (case Stor_GetVolume env now (ar_path r ''id'') s' of
                      Inl err \<Rightarrow> (not_found err, s')
                    | Inr vol \<Rightarrow> (writeJSON 200 (BVolume vol), s')))"

definition handleExportVolume :: "stor_env \<Rightarrow> api_req \<Rightarrow> string result \<Rightarrow> StorageService \<Rightarrow> response" where
  "handleExportVolume env r body s =
     (case body of
        Inl err \<Rightarrow> bad_body err
      | Inr path \<Rightarrow>
          if path = [] then bad_request ''path is required''
          else case Stor_ExportVolume env (ar_path r ''id'') path s of
                 Inl err \<Rightarrow> not_found err
               | Inr u \<Rightarrow> writeJSON 200 (BFields [(''status'', ''exported''), (''volume_id'', ar_path r ''id''), (''path'', path)]))"

record import_req =
  iq_Path :: string
  iq_Pool :: string
  iq_Name :: string

definition handleImportVolume ::
  "stor_env \<Rightarrow> int \<Rightarrow> string list \<Rightarrow> import_req result \<Rightarrow> StorageService \<Rightarrow> response \<times> StorageService" where
  "handleImportVolume env now ford body s =
     (case body of
        Inl err \<Rightarrow> (bad_body err, s)
      | Inr q \<Rightarrow>
          let msg = validateRequired ford [''path'' \<mapsto> iq_Path q, ''pool'' \<mapsto> iq_Pool q, ''name'' \<mapsto> iq_Name q] in
          if msg \<noteq> [] then (bad_request msg, s)
          else case Stor_ImportVolume env now (iq_Path q) (iq_Pool q) (iq_Name q) s of
                 (Inl err, s') \<Rightarrow> (bad_request (error_string err), s')
               | (Inr vol, s') \<Rightarrow> (writeJSON 201 (BVolume vol), s'))"

definition handleStorageSnapshotRollback :: "stor_env \<Rightarrow> api_req \<Rightarrow> StorageService \<Rightarrow> response" where
  "handleStorageSnapshotRollback env r s =
     (case Stor_RollbackSnapshot env (ar_path r ''id'') s of
        Inl err \<Rightarrow> not_found err
      | Inr u \<Rightarrow> writeJSON 200 (BFields [(''status'', ''rolled back''), (''snapshot_id'', ar_path r ''id'')]))"

definition handleStorageSnapshotClone ::
  "stor_env \<Rightarrow> int \<Rightarrow> api_req \<Rightarrow> string result \<Rightarrow> StorageService \<Rightarrow> response \<times> StorageService" where
  "handleStorageSnapshotClone env now r body s =
     (case body of
        Inl err \<Rightarrow> (bad_body err, s)
      | Inr name \<Rightarrow>
          if name = [] then (bad_request ''name is required'', s)
          else case Stor_CloneSnapshot env now (ar_path r ''id'') name s of
                 (Inl err, s') \<Rightarrow> (not_found err, s')
               | (Inr vol, s') \<Rightarrow> (writeJSON 201 (BVolume vol), s'))"

definition handleDeleteStorageSnapshot :: "stor_env \<Rightarrow> api_req \<Rightarrow> StorageService \<Rightarrow> response \<times> StorageService" where
  "handleDeleteStorageSnapshot env r s =
     (case Stor_DeleteSnapshot env (ar_path r ''id'') s of
        (Inl err, s') \<Rightarrow> (not_found err, s')
      | (Inr u, s') \<Rightarrow> ((204, BNone), s'))"

section \<open>Disk images\<close>

text \<open>The file system and the \<^verbatim>\<open>qemu-img\<close> program: the error of creating a directory, whether a
  path exists, the error of removing it, and the output and error of a command.\<close>

record disk_env =
  de_mkdir :: "string \<Rightarrow> go_error option"
  de_stat :: "string \<Rightarrow> bool"
  de_remove :: "string \<Rightarrow> go_error option"
  de_run :: "string list \<Rightarrow> string \<times> go_error option"

text \<open>The result carries the command that was run.\<close>

definition CreateDisk :: "disk_env \<Rightarrow> string \<Rightarrow> string \<Rightarrow> string \<Rightarrow> int \<Rightarrow> string result \<times> string list list" where
  "CreateDisk env dir name format0 sizeGB =
     (let format = (if format0 = [] then ''qcow2'' else format0) in
      if sizeGB \<le> 0 then (Err (Errorf ''disk size must be > 0 GB'' []), [])
      else case de_mkdir env dir of
             Some err \<Rightarrow> (Err (Errorf ''create disk dir: %w'' [FErr err]), [])
           | None \<Rightarrow>
               let path = path_Join [dir, Sprintf ''%s.%s'' [FStr name, FStr format]];
                   cmd = [''qemu-img'', ''create'', ''-f'', format, path, Sprintf ''%dG'' [FInt sizeGB]]
               in (case de_run env cmd of
                     (out, Some err) \<Rightarrow> (Err (Errorf ''qemu-img create: %s: %w'' [FStr out, FErr err]), [cmd])
                   | (out, None) \<Rightarrow> (Ok path, [cmd])))"

definition DiskExists :: "disk_env \<Rightarrow> string \<Rightarrow> bool" where
  "DiskExists env path = de_stat env path"

definition DeleteDisk :: "disk_env \<Rightarrow> string \<Rightarrow> unit result" where
  "DeleteDisk env path = (case de_remove env path of Some err \<Rightarrow> Err err | None \<Rightarrow> Ok ())"

definition DiskInfo :: "disk_env \<Rightarrow> string \<Rightarrow> string result" where
  "DiskInfo env path =
     (case de_run env [''qemu-img'', ''info'', ''--output=json'', path] of
        (out, Some err) \<Rightarrow> Err (Errorf ''qemu-img info: %w'' [FErr err])
      | (out, None) \<Rightarrow> Ok out)"

definition diskDir :: string where
  "diskDir = ''/var/lib/hcv/disks''"

definition handleCreateDisk :: "disk_env \<Rightarrow> (string \<times> string \<times> int) result \<Rightarrow> response \<times> string list list" where
  "handleCreateDisk env body =
     (case body of
        Inl err \<Rightarrow> (bad_body err, [])
      | Inr (name, format0, size0) \<Rightarrow>
          if name = [] then (bad_request ''name is required'', [])
          else
            let sizeGB = (if size0 \<le> 0 then 10 else size0);
                format = (if format0 = [] then ''qcow2'' else format0)
            in (case CreateDisk env diskDir name format sizeGB of
                  (Inl err, cmds) \<Rightarrow> (internal_error (error_string err), cmds)
                | (Inr path, cmds) \<Rightarrow> (writeJSON 201 (BDisk name format sizeGB path), cmds)))"

section \<open>OAuth2\<close>

definition handleOAuth2Providers :: "(string \<Rightarrow> string result) \<Rightarrow> OAuth2Provider \<Rightarrow> response" where
  "handleOAuth2Providers host p = writeJSON 200 (BProviders [(ProviderName host p, op_config p)])"

definition handleOAuth2Authorize ::
  "((string \<times> string) list \<Rightarrow> string) \<Rightarrow> 8 word list + int \<Rightarrow> int \<Rightarrow> api_req \<Rightarrow> OAuth2Provider \<Rightarrow> response \<times> OAuth2Provider" where
  "handleOAuth2Authorize encode rand nanos r p =
     (let state0 = ar_query r ''state'';
          state = (if state0 = [] then Sprintf ''hcv-%d'' [FInt nanos] else state0)
      in case GetAuthorizationURL encode rand state p of
           (authURL, p') \<Rightarrow> (writeJSON 200 (BFields [(''authorization_url'', authURL), (''state'', state)]), p'))"

definition handleOAuth2Callback ::
  "8 word list + int \<Rightarrow> 8 word list + int \<Rightarrow> gotime \<Rightarrow> api_req \<Rightarrow> OAuth2Provider \<Rightarrow> response \<times> OAuth2Provider" where
  "handleOAuth2Callback rand1 rand2 now r p =
     (let code = ar_query r ''code'' in
      if code = [] then (bad_request ''code parameter is required'', p)
      else case ExchangeCode rand1 rand2 now code p of
             (Inl err, p') \<Rightarrow> (writeError 401 ErrCodeUnauthorized (error_string err), p')
           | (Inr tok, p') \<Rightarrow> (writeJSON 200 (BOAuth2Token tok), p'))"

section \<open>Networks\<close>

definition handleNetworkZones :: "string list \<Rightarrow> NetworkDriver option \<Rightarrow> response" where
  "handleNetworkZones ord net =
     (case net of None \<Rightarrow> writeJSON 200 BEmptyList | Some d \<Rightarrow> writeJSON 200 (BZones (Net_ListZones ord d)))"

definition handleNetworkVNets :: "string list \<Rightarrow> api_req \<Rightarrow> NetworkDriver \<Rightarrow> response" where
  "handleNetworkVNets ord r d = writeJSON 200 (BVNets (Net_ListVNets ord (ar_query r ''zone'') d))"

definition handleFirewallRules :: "string list \<Rightarrow> NetworkDriver \<Rightarrow> response" where
  "handleFirewallRules ord d = writeJSON 200 (BRules (Net_ListFirewallRules ord d))"

text \<open>The zone the handler answers with is the one it passed to the service, which holds a pointer
  to it: both drivers set its status on success.\<close>

definition handleCreateZone ::
  "runner \<Rightarrow> (string \<times> string \<times> string \<times> int) result \<Rightarrow> NetworkDriver option \<Rightarrow> response \<times> cmd list \<times> NetworkDriver option" where
  "handleCreateZone run body net =
     (case net of
        None \<Rightarrow> (internal_error ''network service not available'', [], None)
      | Some d \<Rightarrow>
          (case body of
             Inl err \<Rightarrow> (bad_body err, [], net)
           | Inr (name, type0, bridge, mtu) \<Rightarrow>
               if name = [] then (bad_request ''name is required'', [], net)
               else
                 let zone = \<lparr>zn_Name = name, zn_ZoneType = (if type0 = [] then ''simple'' else type0), zn_MTU = mtu,
                             zn_Bridge = bridge, zn_Status = []\<rparr>
                 in (case Net_CreateZone run zone d of
                       (Inl err, tr, d') \<Rightarrow>
                         (if Contains (error_string err) ''already exists'' then conflict err
                          else internal_error (error_string err), tr, Some d')
                     | (Inr u, tr, d') \<Rightarrow>
                         (writeJSON 201 (BZone (zone\<lparr>zn_Status := ''active''\<rparr>)), tr, Some d'))))"

definition handleDeleteZone :: "api_req \<Rightarrow> NetworkDriver option \<Rightarrow> response \<times> cmd list \<times> NetworkDriver option" where
  "handleDeleteZone r net =
     (case net of
        None \<Rightarrow> (internal_error ''network service not available'', [], None)
      | Some d \<Rightarrow>
          let name = ar_path r ''name'' in
          if name = [] then (bad_request ''zone name is required'', [], net)
          else case Net_DeleteZone name d of
                 (Inl err, tr, d') \<Rightarrow>
                   (if Contains (error_string err) ''not found'' then not_found err
                    else internal_error (error_string err), tr, Some d')
               | (Inr u, tr, d') \<Rightarrow> ((204, BNone), tr, Some d'))"

section \<open>Devices\<close>

definition handleListDevices :: "string list \<Rightarrow> string list \<Rightarrow> api_req \<Rightarrow> PeripheralDriver \<Rightarrow> response" where
  "handleListDevices ord ord0 r d = writeJSON 200 (BDevices (Per_ListDevices ord ord0 (ar_query r ''type'') d))"

definition handleAttachDevice ::
  "sysfs \<Rightarrow> api_req \<Rightarrow> int32 result \<Rightarrow> PeripheralDriver \<Rightarrow> response \<times> PeripheralDriver \<times> writes" where
  "handleAttachDevice fs r body d =
     (case body of
        Inl err \<Rightarrow> (error_field 400 (error_string err), d, [])
      | Inr vmHandle \<Rightarrow>
          (case Per_AttachDevice fs (ar_path r ''id'') vmHandle d of
             (Inl err, d', ws) \<Rightarrow> (error_field 409 (error_string err), d', ws)
           | (Inr u, d', ws) \<Rightarrow> (writeJSON 200 (BFields [(''status'', ''attached'')]), d', ws)))"

definition handleDetachDevice :: "api_req \<Rightarrow> PeripheralDriver \<Rightarrow> response \<times> PeripheralDriver" where
  "handleDetachDevice r d =
     (case Per_DetachDevice (ar_path r ''id'') d of
        (Inl err, d') \<Rightarrow> (error_field 409 (error_string err), d')
      | (Inr u, d') \<Rightarrow> (writeJSON 200 (BFields [(''status'', ''detached'')]), d'))"

section \<open>Cluster\<close>

definition handleClusterStatus :: "'s ha_env \<Rightarrow> HADriver option \<Rightarrow> 's \<Rightarrow> response \<times> 's" where
  "handleClusterStatus env ha st =
     (case ha of
        None \<Rightarrow> (writeJSON 200 (BClusterDefault ''healthy'' 3 True), st)
      | Some drv \<Rightarrow> (case Ha_GetClusterStatus env drv st of (cs, st') \<Rightarrow> (writeJSON 200 (BCluster cs), st')))"

definition handleClusterNodes :: "'s ha_env \<Rightarrow> HADriver \<Rightarrow> 's \<Rightarrow> response \<times> 's" where
  "handleClusterNodes env drv st = (case Ha_ListNodes env drv st of (ns, st') \<Rightarrow> (writeJSON 200 (BNodes ns), st'))"

definition handleFenceNode ::
  "'s ha_env \<Rightarrow> gotime \<Rightarrow> api_req \<Rightarrow> (string \<times> string) result \<Rightarrow> HADriver \<Rightarrow> 's \<Rightarrow> response \<times> HADriver \<times> 's" where
  "handleFenceNode env now r body drv st =
     (case body of
        Inl err \<Rightarrow> (error_field 400 (error_string err), drv, st)
      | Inr (reason, action) \<Rightarrow>
          (case Ha_FenceNode env now (ar_path r ''node'') reason action drv st of
             (Inl err, drv', st') \<Rightarrow> (error_field 404 (error_string err), drv', st')
           | (Inr event, drv', st') \<Rightarrow> (writeJSON 200 (BFence event), drv', st')))"

text \<open>\<open>le\<close> is \<^const>\<open>None\<close> when the HA services or their leader election are missing; \<open>query\<close> is the
  answer of the election and \<open>self\<close> the name of the node.\<close>

definition handleClusterLeader :: "string list result \<Rightarrow> string \<Rightarrow> LeaderElection option \<Rightarrow> response" where
  "handleClusterLeader query self le =
     (case le of
        Some e \<Rightarrow>
          let leader = (case LE_GetLeader query e of Inl err \<Rightarrow> ''unknown'' | Inr l \<Rightarrow> l)
          in writeJSON 200 (BLeader leader (LE_IsLeader e))
      | None \<Rightarrow> writeJSON 200 (BLeader self True))"

text \<open>\<open>Campaign\<close> never returns an error, so the branch for one is not reached.\<close>

definition handleClusterPromote ::
  "go_error option \<Rightarrow> go_error option \<Rightarrow> LeaderElection option \<Rightarrow> response \<times> LeaderElection option" where
  "handleClusterPromote resign session le =
     (case le of
        None \<Rightarrow>
          (writeJSON 200 (BFields [(''status'', ''single-node''), (''message'', ''leader election not configured'')]), None)
      | Some e \<Rightarrow>
          (case Resign resign e of
             (Inl err, e') \<Rightarrow> (internal_error (Sprintf ''resign failed: %v'' [FErr err]), Some e')
           | (Inr u, e') \<Rightarrow>
               (writeJSON 200 (BFields [(''status'', ''re-election triggered''),
                  (''message'', ''leadership resigned, re-election in progress'')]), Some (Campaign session e'))))"

section \<open>Backups\<close>

definition handleListBackups :: "string list \<Rightarrow> api_req \<Rightarrow> BackupService \<Rightarrow> response option" where
  "handleListBackups ord r s =
     map_option (\<lambda>(page, total, offset, limit). writeJSON 200 (BBackupPage page total offset limit))
       (paginate r (ListBackups ord s))"

definition handleCreateBackup ::
  "stor_env \<Rightarrow> int \<Rightarrow> string list \<Rightarrow> (int32 \<times> string \<times> string) result \<Rightarrow> BackupService \<Rightarrow> response \<times> BackupService" where
  "handleCreateBackup env now ford body s =
     (case body of
        Inl err \<Rightarrow> (bad_body err, s)
      | Inr (vid, name, pool) \<Rightarrow>
          let msg = validateRequired ford [''vm_name'' \<mapsto> name, ''pool'' \<mapsto> pool] in
          if msg \<noteq> [] then (bad_request msg, s)
          else case CreateBackup env now vid name pool s of
                 (Inl err, s') \<Rightarrow> (bad_request (error_string err), s')
               | (Inr b, s') \<Rightarrow> (writeJSON 201 (BBackup b), s'))"

definition handleGetBackup :: "api_req \<Rightarrow> BackupService \<Rightarrow> response" where
  "handleGetBackup r s =
     (case GetBackup (ar_path r ''id'') s of
        Inl err \<Rightarrow> error_field 404 (error_string err)
      | Inr b \<Rightarrow> writeJSON 200 (BBackup b))"

definition handleDeleteBackup :: "api_req \<Rightarrow> BackupService \<Rightarrow> response \<times> BackupService" where
  "handleDeleteBackup r s =
     (case DeleteBackup (ar_path r ''id'') s of
        (Inl err, s') \<Rightarrow> (error_field 404 (error_string err), s')
      | (Inr u, s') \<Rightarrow> ((204, BNone), s'))"

section \<open>Templates\<close>

definition handleListTemplates :: "string list \<Rightarrow> api_req \<Rightarrow> TemplateService \<Rightarrow> response option" where
  "handleListTemplates ord r s =
     map_option (\<lambda>(page, total, offset, limit). writeJSON 200 (BTemplatePage page total offset limit))
       (paginate r (Tpl_List ord s))"

record template_req =
  tq_Name :: string
  tq_Description :: string
  tq_VCPUs :: uint32
  tq_MemoryMB :: uint64
  tq_DiskSizeGB :: uint64
  tq_Backend :: string
  tq_OSType :: string

definition handleCreateTemplate ::
  "gotime \<Rightarrow> template_req result \<Rightarrow> TemplateService \<Rightarrow> response \<times> TemplateService" where
  "handleCreateTemplate now body s =
     (case body of
        Inl err \<Rightarrow> (bad_body err, s)
      | Inr q \<Rightarrow>
          if tq_Name q = [] then (bad_request ''name is required'', s)
          else case Tpl_Create now (tq_Name q) (tq_Description q) (tq_VCPUs q) (tq_MemoryMB q) (tq_DiskSizeGB q)
                      (tq_Backend q) (tq_OSType q) s of
                 (Inl err, s') \<Rightarrow> (bad_request (error_string err), s')
               | (Inr t, s') \<Rightarrow> (writeJSON 201 (BTemplate t), s'))"

definition handleGetTemplate :: "api_req \<Rightarrow> TemplateService \<Rightarrow> response" where
  "handleGetTemplate r s =
     (case Tpl_Get (ar_path r ''id'') s of Inl err \<Rightarrow> not_found err | Inr t \<Rightarrow> writeJSON 200 (BTemplate t))"

definition handleDeleteTemplate :: "api_req \<Rightarrow> TemplateService \<Rightarrow> response \<times> TemplateService" where
  "handleDeleteTemplate r s =
     (case Tpl_Delete (ar_path r ''id'') s of
        (Inl err, s') \<Rightarrow> (not_found err, s')
      | (Inr u, s') \<Rightarrow> ((204, BNone), s'))"

definition handleDeployTemplate ::
  "comp_env \<Rightarrow> gotime \<Rightarrow> api_req \<Rightarrow> string result \<Rightarrow> TemplateService \<Rightarrow> BackendSelector \<Rightarrow> response \<times> BackendSelector" where
  "handleDeployTemplate env now r body ts s =
     (case Tpl_Get (ar_path r ''id'') ts of
        Inl err \<Rightarrow> (not_found err, s)
      | Inr t \<Rightarrow>
          (case body of
             Inl err \<Rightarrow> (bad_body err, s)
           | Inr name0 \<Rightarrow>
               let name = (if name0 = [] then tp_Name t @ ''-vm'' else name0) in
               (case Svc_CreateVM env name (tp_VCPUs t) (tp_MemoryMB t) (tp_Backend t) now s of
                  (Inl err, s') \<Rightarrow> (internal_error (error_string err), s')
                | (Inr vm, s') \<Rightarrow> (writeJSON 201 (BVM vm), s'))))"

section \<open>Snapshots and images\<close>

definition handleListSnapshots :: "string list \<Rightarrow> api_req \<Rightarrow> SnapshotService \<Rightarrow> response" where
  "handleListSnapshots ord r s =
     (let idStr = ar_query r ''vm_id'' in
      if idStr = [] then writeJSON 200 (BSnapshots (Snap_List ord 0 s))
      else case ParseInt 32 idStr of
             None \<Rightarrow> bad_request ''invalid vm_id''
           | Some i \<Rightarrow> writeJSON 200 (BSnapshots (Snap_List ord (word_of_int i) s)))"

definition handleCreateSnapshot ::
  "'p snap_provider option \<Rightarrow> int \<Rightarrow> (int32 \<times> string) result \<Rightarrow> SnapshotService \<times> 'p \<Rightarrow> response \<times> SnapshotService \<times> 'p" where
  "handleCreateSnapshot prov now body st =
     (case body of
        Inl err \<Rightarrow> (bad_body err, st)
      | Inr (vid, name) \<Rightarrow>
          if name = [] then (bad_request ''vm_name is required'', st)
          else case Snap_Create prov now vid name st of
                 (Inl err, st') \<Rightarrow> (bad_request (error_string err), st')
               | (Inr snap, st') \<Rightarrow> (writeJSON 201 (BSnapshot snap), st'))"

definition handleGetSnapshot :: "api_req \<Rightarrow> SnapshotService \<Rightarrow> response" where
  "handleGetSnapshot r s =
     (case Snap_Get (ar_path r ''id'') s of Inl err \<Rightarrow> not_found err | Inr snap \<Rightarrow> writeJSON 200 (BSnapshot snap))"

definition handleListImages :: "string list \<Rightarrow> ImageService \<Rightarrow> response" where
  "handleListImages ord s = writeJSON 200 (BImages (Img_List ord s))"

record image_req =
  mq_Name :: string
  mq_Format :: string
  mq_Path :: string
  mq_OSType :: string

definition handleRegisterImage ::
  "(string \<Rightarrow> int64 option) \<Rightarrow> int \<Rightarrow> string list \<Rightarrow> image_req result \<Rightarrow> ImageService \<Rightarrow> response \<times> ImageService" where
  "handleRegisterImage stat now ford body s =
     (case body of
        Inl err \<Rightarrow> (bad_body err, s)
      | Inr q \<Rightarrow>
          let msg = validateRequired ford [''name'' \<mapsto> mq_Name q, ''format'' \<mapsto> mq_Format q] in
          if msg \<noteq> [] then (bad_request msg, s)
          else case Img_Register stat now (mq_Name q) (mq_Format q) (mq_Path q) (mq_OSType q) s of
                 (Inl err, s') \<Rightarrow> (bad_request (error_string err), s')
               | (Inr img, s') \<Rightarrow> (writeJSON 201 (BImage img), s'))"

definition handleGetImage :: "api_req \<Rightarrow> ImageService \<Rightarrow> response" where
  "handleGetImage r s =
     (case Img_Get (ar_path r ''id'') s of Inl err \<Rightarrow> not_found err | Inr img \<Rightarrow> writeJSON 200 (BImage img))"

definition handleDeleteImage :: "api_req \<Rightarrow> ImageService \<Rightarrow> response \<times> ImageService" where
  "handleDeleteImage r s =
     (case Img_Delete (ar_path r ''id'') s of
        (Inl err, s') \<Rightarrow> (not_found err, s')
      | (Inr u, s') \<Rightarrow> ((204, BNone), s'))"

definition handleDeleteSnapshot :: "api_req \<Rightarrow> SnapshotService \<Rightarrow> response \<times> SnapshotService" where
  "handleDeleteSnapshot r s =
     (case Snap_Delete (ar_path r ''id'') s of
        (Inl err, s') \<Rightarrow> (not_found err, s')
      | (Inr u, s') \<Rightarrow> ((204, BNone), s'))"

definition handleRestoreSnapshot ::
  "'p snap_provider option \<Rightarrow> api_req \<Rightarrow> SnapshotService \<times> 'p \<Rightarrow> response \<times> SnapshotService \<times> 'p" where
  "handleRestoreSnapshot prov r st =
     (case Snap_Restore prov (ar_path r ''id'') st of
        (Inl err, st') \<Rightarrow> (not_found err, st')
      | (Inr snap, st') \<Rightarrow> (writeJSON 200 (BSnapshot snap), st'))"

section \<open>Service information\<close>

text \<open>The webhook only logs the alerts it receives.\<close>

definition handleAlertWebhook :: "unit result \<Rightarrow> response" where
  "handleAlertWebhook body =
     (case body of
        Inl err \<Rightarrow> error_field 400 (error_string err)
      | Inr u \<Rightarrow> writeJSON 200 (BFields [(''status'', ''received'')]))"

definition handleAPIInfo :: response where
  "handleAPIInfo =
     writeJSON 200 (BAPIInfo \<lparr>ai_CurrentVersion = ''v1'', ai_SupportedVersions = [''v1''], ai_DeprecatedVersions = [],
       ai_DocsURL = ''/docs/openapi.yaml''\<rparr>)"

text \<open>The services of the statistics page; a missing one is dereferenced, which panics.\<close>

definition handleSystemStats ::
  "stor_env \<Rightarrow> 's ha_env \<Rightarrow> string list \<Rightarrow> (string \<Rightarrow> int32 list) \<Rightarrow> string list \<Rightarrow> string list \<Rightarrow> BackendSelector \<Rightarrow> StorageService
     \<Rightarrow> NetworkDriver \<Rightarrow> HADriver \<Rightarrow> PeripheralDriver \<Rightarrow> BackupService option \<Rightarrow> 's \<Rightarrow> response option \<times> 's" where
  "handleSystemStats senv henv ord vords keys devs sel stor net ha per backup st =
     (case Ha_GetClusterStatus henv ha st of
        (cs, st') \<Rightarrow>
          (case backup of
             None \<Rightarrow> (None, st')
           | Some b \<Rightarrow>
               (Some (writeJSON 200 (BSystemStats
                  \<lparr>sst_VMs = int (length (Svc_ListVMs ord vords sel)), sst_ByState = countVMsByState (Svc_ListVMs ord vords sel),
                   sst_Pools = int (length (Stor_ListPools senv keys stor)), sst_Volumes = int (length (Stor_ListVolumes keys [] stor)),
                   sst_Zones = int (length (Net_ListZones keys net)), sst_VNets = int (length (Net_ListVNets keys [] net)),
                   sst_Rules = int (length (Net_ListFirewallRules keys net)), sst_Cluster = cs,
                   sst_Devices = int (length (Per_ListDevices keys devs [] per)), sst_Backups = int (length (ListBackups keys b))\<rparr>)),
                st')))"

section \<open>Stub handlers\<close>

definition stubVMs :: "StubVMInfo list" where
  "stubVMs =
     [\<lparr>sv_ID = 1, sv_Name = ''web-prod-01'', sv_State = ''running'', sv_VCPUs = 4, sv_MemoryMB = 8192, sv_Node = ''node-01''\<rparr>,
      \<lparr>sv_ID = 2, sv_Name = ''db-prod-01'', sv_State = ''running'', sv_VCPUs = 8, sv_MemoryMB = 32768, sv_Node = ''node-01''\<rparr>,
      \<lparr>sv_ID = 3, sv_Name = ''dev-test-01'', sv_State = ''stopped'', sv_VCPUs = 2, sv_MemoryMB = 4096, sv_Node = ''node-02''\<rparr>]"

definition handleStubVersion :: response where
  "handleStubVersion =
     writeJSON 200 (BFields [(''product'', ''HardCoreVisor''), (''version'', ''0.1.0''), (''arch'', ''hybrid-rust-go'')])"

definition handleStubListVMs :: "StubVMInfo list \<Rightarrow> response" where
  "handleStubListVMs vms = writeJSON 200 (BStubVMs vms)"

definition handleStubCreateVM :: "(string \<times> int \<times> int) result \<Rightarrow> StubVMInfo list \<Rightarrow> response \<times> StubVMInfo list" where
  "handleStubCreateVM body vms =
     (case body of
        Inl err \<Rightarrow> (error_field 400 (error_string err), vms)
      | Inr (name, vcpus, memoryMB) \<Rightarrow>
          let vm = \<lparr>sv_ID = int (length vms) + 1, sv_Name = name, sv_State = ''created'', sv_VCPUs = vcpus,
                    sv_MemoryMB = memoryMB, sv_Node = ''node-01''\<rparr>
          in (writeJSON 201 (BStubVM vm), vms @ [vm]))"

definition handleStubGetVM :: "api_req \<Rightarrow> response" where
  "handleStubGetVM r = writeJSON 200 (BFields [(''status'', ''stub''), (''id'', ar_path r ''id'')])"

definition handleStubDeleteVM :: "api_req \<Rightarrow> response" where
  "handleStubDeleteVM r = writeJSON 200 (BFields [(''deleted'', ar_path r ''id'')])"

definition handleStubVMAction :: "api_req \<Rightarrow> response" where
  "handleStubVMAction r = writeJSON 200 (BFields [(''action'', ''stub''), (''id'', ar_path r ''id'')])"

end
