(* ===== verification/Api_Contract.thy ===== *)
theory Api_Contract
  imports Api_Resources
begin

text \<open>
  The contract of the resources of the REST interface: creation, lookup and deletion through the
  handlers act as insertion, lookup and removal in a map from identifiers to bodies.  The
  contract is a locale over the three handlers of a resource; it is interpreted on the handlers of
  volumes, backups, templates, snapshots and images.
\<close>

section \<open>Resources\<close>

datatype 'q rest_op =
    RestCreate 'q
  | RestDelete string

fun rest_exec ::
  "('q \<Rightarrow> 's \<Rightarrow> response \<times> 's) \<Rightarrow> (string \<Rightarrow> 's \<Rightarrow> response \<times> 's) \<Rightarrow> 'q rest_op \<Rightarrow> 's \<Rightarrow> response \<times> 's" where
  "rest_exec create delete (RestCreate q) s = create q s"
| "rest_exec create delete (RestDelete i) s = delete i s"

primrec rest_run ::
  "('q \<Rightarrow> 's \<Rightarrow> response \<times> 's) \<Rightarrow> (string \<Rightarrow> 's \<Rightarrow> response \<times> 's) \<Rightarrow> 'q rest_op list \<Rightarrow> 's
     \<Rightarrow> ('q rest_op \<times> response) list \<times> 's" where
  "rest_run create delete [] s = ([], s)"
| "rest_run create delete (op # ops) s =
     (case rest_exec create delete op s of
        (resp, s1) \<Rightarrow> (case rest_run create delete ops s1 of (tr, s2) \<Rightarrow> ((op, resp) # tr, s2)))"

text \<open>What a client reads from the answers it got.\<close>

fun rest_seen :: "(api_body \<Rightarrow> string) \<Rightarrow> ('q rest_op \<times> response) list \<Rightarrow> (string \<Rightarrow> api_body option) \<Rightarrow> string \<Rightarrow> api_body option" where
  "rest_seen ident [] m = m"
| "rest_seen ident ((RestCreate q, (c, b)) # tr) m = rest_seen ident tr (if c = 201 then m(ident b \<mapsto> b) else m)"
| "rest_seen ident ((RestDelete i, (c, b)) # tr) m = rest_seen ident tr (if c = 204 then m(i := None) else m)"

text \<open>A deletion is answered with 204 exactly when the client knows the identifier.\<close>

fun rest_deletes_ok :: "(api_body \<Rightarrow> string) \<Rightarrow> ('q rest_op \<times> response) list \<Rightarrow> (string \<Rightarrow> api_body option) \<Rightarrow> bool" where
  "rest_deletes_ok ident [] m = True"
| "rest_deletes_ok ident ((RestCreate q, (c, b)) # tr) m = rest_deletes_ok ident tr (if c = 201 then m(ident b \<mapsto> b) else m)"
| "rest_deletes_ok ident ((RestDelete i, (c, b)) # tr) m =
     ((c = 204 \<longleftrightarrow> m i \<noteq> None) \<and> rest_deletes_ok ident tr (if c = 204 then m(i := None) else m))"

definition rest_view :: "(string \<Rightarrow> 's \<Rightarrow> response) \<Rightarrow> 's \<Rightarrow> string \<Rightarrow> api_body option" where
  "rest_view get s i = (if fst (get i s) = 200 then Some (snd (get i s)) else None)"

definition rest_contract ::
  "('q \<Rightarrow> 's \<Rightarrow> response \<times> 's) \<Rightarrow> (string \<Rightarrow> 's \<Rightarrow> response) \<Rightarrow> (string \<Rightarrow> 's \<Rightarrow> response \<times> 's) \<Rightarrow> (api_body \<Rightarrow> string)
     \<Rightarrow> 'q rest_op list \<Rightarrow> 's \<Rightarrow> bool" where
  "rest_contract create get delete ident ops s =
     (case rest_run create delete ops s of
        (tr, s') \<Rightarrow> rest_view get s' = rest_seen ident tr (rest_view get s) \<and> rest_deletes_ok ident tr (rest_view get s))"

locale rest_resource =
  fixes create :: "'q \<Rightarrow> 's \<Rightarrow> response \<times> 's"
    and get :: "string \<Rightarrow> 's \<Rightarrow> response"
    and delete :: "string \<Rightarrow> 's \<Rightarrow> response \<times> 's"
    and ident :: "api_body \<Rightarrow> string"
    and usable :: "'s \<Rightarrow> bool"
  assumes create_usable: "usable s \<Longrightarrow> usable (snd (create q s))"
    and create_view: "usable s \<Longrightarrow> create q s = ((c, b), s') \<Longrightarrow>
      rest_view get s' = (if c = 201 then (rest_view get s)(ident b \<mapsto> b) else rest_view get s)"
    and delete_usable: "usable s \<Longrightarrow> usable (snd (delete i s))"
    and delete_view: "usable s \<Longrightarrow> delete i s = ((c, b), s') \<Longrightarrow>
      (c = 204 \<longleftrightarrow> rest_view get s i \<noteq> None) \<and> rest_view get s' = (rest_view get s)(i := None)"
begin

lemma exec_usable: "usable s \<Longrightarrow> rest_exec create delete op s = (resp, s') \<Longrightarrow> usable s'"
  by (cases op) (auto dest: create_usable delete_usable simp: prod_eq_iff)

lemma contract: "usable s \<Longrightarrow> rest_contract create get delete ident ops s"
proof (induction ops arbitrary: s)
  case Nil
  show ?case by (simp add: rest_contract_def)
next
  case (Cons op ops)
  obtain c b s1 where e: "rest_exec create delete op s = ((c, b), s1)" by (metis prod.exhaust)
  have IH: "rest_contract create get delete ident ops s1" using Cons.IH exec_usable [OF Cons.prems e] .
  show ?case
  proof (cases op)
    case (RestCreate q)
    then show ?thesis using IH e create_view [OF Cons.prems, of q c b s1] by (auto simp: rest_contract_def split: prod.splits)
  next
    case (RestDelete i)
    then have d: "(c = 204 \<longleftrightarrow> rest_view get s i \<noteq> None) \<and> rest_view get s1 = (rest_view get s)(i := None)"
      using e delete_view [OF Cons.prems, of i c b s1] by simp
    then have "rest_view get s1 = (if c = 204 then (rest_view get s)(i := None) else rest_view get s)" by auto
    then show ?thesis using IH e d RestDelete by (auto simp: rest_contract_def split: prod.splits)
  qed
qed

end

section \<open>The resources of the service\<close>

lemma at_id [simp]: "ar_path (id_req i) ''id'' = i"
  by (simp add: id_req_def)

fun volume_ident :: "api_body \<Rightarrow> string" where
  "volume_ident (BVolume v) = vo_ID v"
| "volume_ident _ = []"

fun backup_ident :: "api_body \<Rightarrow> string" where
  "backup_ident (BBackup b) = bk_ID b"
| "backup_ident _ = []"

fun template_ident :: "api_body \<Rightarrow> string" where
  "template_ident (BTemplate t) = tp_ID t"
| "template_ident _ = []"

fun snapshot_ident :: "api_body \<Rightarrow> string" where
  "snapshot_ident (BSnapshot x) = sp_ID x"
| "snapshot_ident _ = []"

fun image_ident :: "api_body \<Rightarrow> string" where
  "image_ident (BImage x) = im_ID x"
| "image_ident _ = []"

interpretation template_api: rest_resource "\<lambda>(now, body). handleCreateTemplate now body" "\<lambda>i. handleGetTemplate (id_req i)"
  "\<lambda>i. handleDeleteTemplate (id_req i)" template_ident "\<lambda>_. True"
  by unfold_locales
    (auto simp: handleCreateTemplate_def handleGetTemplate_def handleDeleteTemplate_def Tpl_Create_def Tpl_Get_def Tpl_Delete_def
      response_defs rest_view_def fun_eq_iff split: sum.splits option.splits if_splits prod.splits)

interpretation image_api: rest_resource "\<lambda>(stat, now, ford, body). handleRegisterImage stat now ford body" "\<lambda>i. handleGetImage (id_req i)"
  "\<lambda>i. handleDeleteImage (id_req i)" image_ident "\<lambda>_. True"
  by unfold_locales
    (auto simp: handleRegisterImage_def handleGetImage_def handleDeleteImage_def Img_Register_def Img_Get_def Img_Delete_def
      response_defs rest_view_def fun_eq_iff split: sum.splits option.splits if_splits prod.splits)

interpretation backup_api: rest_resource "\<lambda>(env, now, ford, body). handleCreateBackup env now ford body" "\<lambda>i. handleGetBackup (id_req i)"
  "\<lambda>i. handleDeleteBackup (id_req i)" backup_ident "\<lambda>_. True"
  by unfold_locales
    (auto simp: handleCreateBackup_def handleGetBackup_def handleDeleteBackup_def GetBackup_def DeleteBackup_def CreateBackup_ok CreateBackup_err
      response_defs rest_view_def fun_eq_iff split: sum.splits option.splits if_splits prod.splits)

interpretation snapshot_api: rest_resource "\<lambda>(prov, now, body). handleCreateSnapshot prov now body" "\<lambda>i st. handleGetSnapshot (id_req i) (fst st)"
  "\<lambda>i st. case handleDeleteSnapshot (id_req i) (fst st) of (resp, s') \<Rightarrow> (resp, (s', snd st))" snapshot_ident "\<lambda>_. True"
  by unfold_locales
    (auto simp: handleCreateSnapshot_def handleGetSnapshot_def handleDeleteSnapshot_def Snap_Create_def Snap_Get_def Snap_Delete_def Let_def
      response_defs rest_view_def fun_eq_iff split: sum.splits option.splits if_splits prod.splits)

definition volumes_in_memory :: "StorageService \<Rightarrow> bool" where
  "volumes_in_memory s \<longleftrightarrow> is_memory (ss_driver s)"

interpretation volume_api: rest_resource "\<lambda>(env, now, ford, body). handleCreateVolume env now ford body" "\<lambda>i. handleGetVolume env0 now0 (id_req i)"
  "\<lambda>i. handleDeleteVolume env0 (id_req i)" volume_ident volumes_in_memory
  by unfold_locales
    (auto simp: volumes_in_memory_def handleCreateVolume_def handleGetVolume_def handleDeleteVolume_def Stor_CreateVolume_def Stor_GetVolume_def Stor_DeleteVolume_def
      on_local_def Mem_CreateVolume_def Mem_GetVolume_def Mem_DeleteVolume_def upd_used_def put_volume_def
      response_defs rest_view_def fun_eq_iff split: sum.splits option.splits if_splits prod.splits)

text \<open>C8: Creating, looking up and deleting templates, images, backups, snapshots and volumes of the
  memory driver over the REST interface behaves as a map from identifiers to bodies, for every
  sequence of requests, good and bad: what GET answers is what the answers 201 and 204 to the earlier
  requests say, and a deletion is answered with 204 exactly when the resource is there.\<close>

theorem rest_resources_refine_map:
  "rest_contract (\<lambda>(now, body). handleCreateTemplate now body) (\<lambda>i. handleGetTemplate (id_req i))
     (\<lambda>i. handleDeleteTemplate (id_req i)) template_ident tops ts
   \<and> rest_contract (\<lambda>(stat, now, ford, body). handleRegisterImage stat now ford body) (\<lambda>i. handleGetImage (id_req i))
       (\<lambda>i. handleDeleteImage (id_req i)) image_ident iops is
   \<and> rest_contract (\<lambda>(env, now, ford, body). handleCreateBackup env now ford body) (\<lambda>i. handleGetBackup (id_req i))
       (\<lambda>i. handleDeleteBackup (id_req i)) backup_ident bops bs
   \<and> rest_contract (\<lambda>(prov, now, body). handleCreateSnapshot prov now body) (\<lambda>i st. handleGetSnapshot (id_req i) (fst st))
       (\<lambda>i st. case handleDeleteSnapshot (id_req i) (fst st) of (resp, s') \<Rightarrow> (resp, (s', snd st))) snapshot_ident sops ss
   \<and> rest_contract (\<lambda>(env, now, ford, body). handleCreateVolume env now ford body) (\<lambda>i. handleGetVolume env0 now0 (id_req i))
       (\<lambda>i. handleDeleteVolume env0 (id_req i)) volume_ident vops NewStorageService"
proof -
  have "volumes_in_memory NewStorageService" by (simp add: volumes_in_memory_def NewStorageService_def NewServiceWithDriver_def)
  then show ?thesis
    using template_api.contract image_api.contract backup_api.contract snapshot_api.contract volume_api.contract by blast
qed

section \<open>Files of disk images\<close>

lemma split_up: "split_char (CHR ''/'') (concat (replicate k ''../'') @ s) = replicate k ''..'' @ split_char (CHR ''/'') s"
  by (induction k) (simp_all add: split_char_def)

lemma clean_up: "f \<noteq> [] \<Longrightarrow> f \<noteq> ''.'' \<Longrightarrow> f \<noteq> ''..'' \<Longrightarrow> list_all (\<lambda>e. e \<noteq> ''..'') st \<Longrightarrow>
  clean_elems True st (replicate k ''..'' @ [f]) = rev (drop k st) @ [f]"
proof (induction k arbitrary: st)
  case (Suc k)
  then show ?case by (cases st) auto
qed simp

lemma disk_path:
  assumes "CHR ''/'' \<notin> set base" "CHR ''/'' \<notin> set f" "base \<noteq> []" "f \<noteq> []"
  shows "path_Join [diskDir, Sprintf ''%s.%s'' [FStr (concat (replicate k ''../'') @ base), FStr f]]
    = CHR ''/'' # str_join ''/'' (take (4 - k) [''var'', ''lib'', ''hcv'', ''disks''] @ [base @ ''.'' @ f])"
proof -
  let ?f = "base @ ''.'' @ f"
  have f: "?f \<noteq> []" "?f \<noteq> ''.''" "?f \<noteq> ''..''" "split_char (CHR ''/'') ?f = [?f]"
    using assms by (auto simp: append_eq_Cons_conv split_char_def intro!: split_on_single)
  have s: "Sprintf ''%s.%s'' [FStr (concat (replicate k ''../'') @ base), FStr f] = concat (replicate k ''../'') @ ?f" by (simp add: Sprintf_def)
  have j: "str_join ''/'' [diskDir, concat (replicate k ''../'') @ ?f] = ''/var/lib/hcv/disks/'' @ concat (replicate k ''../'') @ ?f"
    by (simp add: diskDir_def)
  have "clean_elems True [] (split_char (CHR ''/'') (''/var/lib/hcv/disks/'' @ concat (replicate k ''../'') @ ?f))
      = rev (drop k [''disks'', ''hcv'', ''lib'', ''var'']) @ [?f]"
    using clean_up [OF f(1-3), of "[''disks'', ''hcv'', ''lib'', ''var'']" k] f(4) split_up [of k ?f] by (simp add: split_char_def)
  then show ?thesis
    using f(1) by (simp add: path_Join_def path_Clean_def s j diskDir_def rev_drop eval_nat_numeral)
qed


text \<open>A disk image is created under the directory of disk images when its name has no slash, but
  every leading \<open>../\<close> of the name takes the file one directory up, to the root at the
  fourth: the name is not confined to the directory.  The file the answer names is the one the command
  creates.\<close>

theorem disk_image_path:
  assumes "CHR ''/'' \<notin> set base" "base \<noteq> []" "CHR ''/'' \<notin> set f" "f \<noteq> []"
    and "de_mkdir env diskDir = None" "\<And>cmd. snd (de_run env cmd) = None" "sizeGB > 0"
  shows "handleCreateDisk env (Ok (concat (replicate k ''../'') @ base, f, sizeGB)) =
    (let path = CHR ''/'' # str_join ''/'' (take (4 - k) [''var'', ''lib'', ''hcv'', ''disks''] @ [base @ ''.'' @ f])
     in ((201, BDisk (concat (replicate k ''../'') @ base) f sizeGB path),
         [[''qemu-img'', ''create'', ''-f'', f, path, show_int sizeGB @ ''G'']]))"
proof -
  have fmt: "Sprintf ''%dG'' [FInt sizeGB] = show_int sizeGB @ ''G''" by (simp add: Sprintf_def)
  obtain out where "de_run env [''qemu-img'', ''create'', ''-f'', f,
      path_Join [diskDir, Sprintf ''%s.%s'' [FStr (concat (replicate k ''../'') @ base), FStr f]], Sprintf ''%dG'' [FInt sizeGB]] = (out, None)"
    using assms(6) by (metis prod.collapse)
  then show ?thesis
    using assms disk_path [OF assms(1,3,2,4), of k] fmt
    by (simp add: handleCreateDisk_def CreateDisk_def Let_def writeJSON_def)
qed

definition demo_disk :: disk_env where
  "demo_disk = \<lparr>de_mkdir = (\<lambda>_. None), de_stat = (\<lambda>_. False), de_remove = (\<lambda>_. None), de_run = (\<lambda>_. ([], None))\<rparr>"

theorem disk_image_path_witness:
  "fst (handleCreateDisk demo_disk (Ok (''../../../../shadow'', ''raw'', 1))) = (201, BDisk ''../../../../shadow'' ''raw'' 1 ''/shadow.raw'')"
  using disk_image_path [of "''shadow''" "''raw''" demo_disk 1 4]
  by (simp add: demo_disk_def eval_nat_numeral Let_def)

end
