(* ===== verification/Json.thy ===== *)
theory Json
  imports Rbac
begin

text \<open>
  JSON values and what \<^verbatim>\<open>encoding/json\<close> does with them when a Go structure is decoded.  Values stand for
  the documents on the wire; a number is an integer or a decimal kept as its text.
\<close>

datatype json =
    JNull
  | JBool bool
  | JNum int
  | JDec string
  | JStr string
  | JArr "json list"
  | JObj "(string \<times> json) list"

section \<open>Decoding into structures\<close>

text \<open>The types of the fields of a structure, the integers with their width, and a structure as the
  names and types of its fields.\<close>

datatype ftype =
    TStr
  | TBool
  | TInt nat
  | TUint nat
  | TFloat

type_synonym schema = "(string \<times> ftype) list"

fun zero_val :: "ftype \<Rightarrow> json" where
  "zero_val TStr = JStr []"
| "zero_val TBool = JBool False"
| "zero_val (TInt w) = JNum 0"
| "zero_val (TUint w) = JNum 0"
| "zero_val TFloat = JNum 0"

text \<open>A null leaves a field at its zero value; a value of another type, or out of range, is an error.\<close>

fun dec_val :: "ftype \<Rightarrow> json \<Rightarrow> json option" where
  "dec_val t JNull = Some (zero_val t)"
| "dec_val TStr (JStr s) = Some (JStr s)"
| "dec_val TBool (JBool b) = Some (JBool b)"
| "dec_val (TInt w) (JNum n) = (if - (2 ^ (w - 1)) \<le> n \<and> n < 2 ^ (w - 1) then Some (JNum n) else None)"
| "dec_val (TUint w) (JNum n) = (if 0 \<le> n \<and> n < 2 ^ w then Some (JNum n) else None)"
| "dec_val TFloat (JNum n) = Some (JNum n)"
| "dec_val TFloat (JDec s) = Some (JDec s)"
| "dec_val t j = None"

text \<open>Keys match field names up to letter case; of several the last counts.\<close>

definition jfield :: "string \<Rightarrow> (string \<times> json) list \<Rightarrow> json option" where
  "jfield name kvs = map_of (rev (map (\<lambda>(k, v). (map lower_char k, v)) kvs)) (map lower_char name)"

definition dec_field :: "(string \<times> json) list \<Rightarrow> string \<times> ftype \<Rightarrow> (string \<times> json) option" where
  "dec_field kvs = (\<lambda>(name, t).
     map_option (Pair name) (case jfield name kvs of None \<Rightarrow> Some (zero_val t) | Some v \<Rightarrow> dec_val t v))"

fun dec_struct :: "schema \<Rightarrow> json \<Rightarrow> json option" where
  "dec_struct sc JNull = Some (JObj (map (\<lambda>(n, t). (n, zero_val t)) sc))"
| "dec_struct sc (JObj kvs) = map_option JObj (those (map (dec_field kvs) sc))"
| "dec_struct sc j = None"

text \<open>A nil slice stays null when it is encoded again.\<close>

fun dec_slice :: "schema \<Rightarrow> json \<Rightarrow> json option" where
  "dec_slice sc JNull = Some JNull"
| "dec_slice sc (JArr js) = map_option JArr (those (map (dec_struct sc) js))"
| "dec_slice sc j = None"

text \<open>A structure with the one field \<open>data\<close>, a slice.\<close>

fun dec_page :: "schema \<Rightarrow> json \<Rightarrow> json option" where
  "dec_page sc JNull = Some JNull"
| "dec_page sc (JObj kvs) = (case jfield ''data'' kvs of None \<Rightarrow> Some JNull | Some v \<Rightarrow> dec_slice sc v)"
| "dec_page sc j = None"

section \<open>Reading a decoded structure\<close>

fun elems :: "json \<Rightarrow> json list" where
  "elems (JArr js) = js"
| "elems j = []"

fun fld :: "json \<Rightarrow> string \<Rightarrow> json" where
  "fld (JObj kvs) n = (case map_of kvs n of None \<Rightarrow> JNull | Some v \<Rightarrow> v)"
| "fld j n = JNull"

fun sval :: "json \<Rightarrow> string" where
  "sval (JStr s) = s"
| "sval j = []"

fun ival :: "json \<Rightarrow> int" where
  "ival (JNum n) = n"
| "ival j = 0"

fun bval :: "json \<Rightarrow> bool" where
  "bval (JBool b) = b"
| "bval j = False"

definition show_num :: "json \<Rightarrow> string" where
  "show_num j = show_int (ival j)"

definition show_bool :: "json \<Rightarrow> string" where
  "show_bool j = (if bval j then ''true'' else ''false'')"

section \<open>Decoding what was encoded\<close>

lemma those_map_Some: "those (map (\<lambda>x. Some (f x)) xs) = Some (map f xs)"
  by (induction xs) simp_all

lemma those_map_eq: "(\<And>x. x \<in> set xs \<Longrightarrow> g x = Some (f x)) \<Longrightarrow> those (map g xs) = Some (map f xs)"
  by (induction xs) simp_all

lemma dec_slice_encoded:
  assumes "\<And>x. x \<in> set xs \<Longrightarrow> dec_struct sc (enc x) = Some (dec x)"
  shows "dec_slice sc (JArr (map enc xs)) = Some (JArr (map dec xs))"
  using assms those_map_eq [of xs "\<lambda>x. dec_struct sc (enc x)" dec] by (simp add: comp_def)

text \<open>A document that is not an array never decodes into a slice.\<close>

lemma dec_slice_obj: "dec_slice sc (JObj kvs) = None"
  by simp

end
