(* ===== verification/Hcvctl.thy ===== *)
theory Hcvctl
  imports Json
begin

text \<open>
  The command line client, \<^verbatim>\<open>cmd/hcvctl/main.go\<close>: its requests, the decoding and printing of the answers, every
  command and the interactive shell.  The server is an argument: a function from a request and the server's
  state to an answer, or an error, and the new state.  The command line itself is parsed by the library
  cobra, which hands over the words of the command, the flags that were set and the arguments; the tables of commands
  give the defaults and the handlers.
\<close>

section \<open>State and environment\<close>

datatype wire =
    WJson json
  | WText string

datatype cl_auth =
    NoAuth
  | BasicCred string string
  | Bearer string

record cl_req =
  hr_Method :: string
  hr_URL :: string
  hr_Body :: "json option"
  hr_ContentType :: string
  hr_Auth :: cl_auth

type_synonym cl_resp = "int \<times> wire"
type_synonym 's net = "cl_req \<Rightarrow> 's \<Rightarrow> cl_resp result \<times> 's"

text \<open>The values of the flags of a command.\<close>

record flagset =
  fs_str :: "string \<Rightarrow> string"
  fs_num :: "string \<Rightarrow> int"

text \<open>The global flags, the home directory, and what the client takes from outside: the bytes of a body, the
  message of the decoder, the verb \<open>%.nf\<close> for a number, the file operations and the generators of documentation,
  what the flags of a nil command are
  (\<^const>\<open>None\<close> for a panic), and the lines of the standard input.\<close>

record cli_env =
  cl_api :: string
  cl_output :: string
  cl_user :: string
  cl_pass :: string
  cl_home :: "string option"
  cl_text :: "wire \<Rightarrow> string"
  cl_decode_error :: "wire \<Rightarrow> go_error"
  cl_format :: "nat \<Rightarrow> json \<Rightarrow> string"
  cl_mkdir :: "string \<Rightarrow> go_error option"
  cl_write :: "string \<Rightarrow> go_error option"
  cl_gen :: "string \<Rightarrow> string \<Rightarrow> go_error option"
  cl_usage :: "string list \<Rightarrow> go_error"
  cl_nilflags :: "flagset option"
  cl_input :: "string list"

text \<open>The state: the content of the token file and the server.\<close>

record 's cstate =
  cs_Token :: "string option"
  cs_Server :: 's

text \<open>A command prints and then returns, fails or panics.\<close>

datatype printed =
    OText string
  | OError string
  | OTable "string list" "string list list"
  | OJson json
  | OYaml json
  | OCompletion string

datatype ending =
    Returned
  | Failed go_error
  | Panicked

type_synonym outcome = "printed list \<times> ending"

definition done_with :: "printed list \<Rightarrow> outcome" where
  "done_with os = (os, Returned)"

definition fail_with :: "go_error \<Rightarrow> outcome" where
  "fail_with e = ([], Failed e)"

definition line :: "string \<Rightarrow> printed" where
  "line s = OText (s @ [newline])"

section \<open>Requests\<close>

definition tokenFilePath :: "cli_env \<Rightarrow> string" where
  "tokenFilePath env = (case cl_home env of None \<Rightarrow> [] | Some home \<Rightarrow> home @ ''/.hcvctl/token'')"

definition loadStoredToken :: "cli_env \<Rightarrow> string option \<Rightarrow> string" where
  "loadStoredToken env tok =
     (if tokenFilePath env = [] then [] else case tok of None \<Rightarrow> [] | Some data \<Rightarrow> TrimSpace data)"

definition newRequest :: "cli_env \<Rightarrow> string option \<Rightarrow> string \<Rightarrow> string \<Rightarrow> json option \<Rightarrow> cl_req" where
  "newRequest env tok method path body =
     \<lparr>hr_Method = method, hr_URL = cl_api env @ path, hr_Body = body,
      hr_ContentType = (if body \<noteq> None then ''application/json'' else []),
      hr_Auth = (if cl_user env \<noteq> [] then BasicCred (cl_user env) (cl_pass env)
                 else let token = loadStoredToken env tok in if token \<noteq> [] then Bearer token else NoAuth)\<rparr>"

text \<open>Building and sending a request; the errors of both are wrapped alike.\<close>

definition send :: "'s net \<Rightarrow> cl_req \<Rightarrow> 's cstate \<Rightarrow> cl_resp result \<times> 's cstate" where
  "send net req st =
     (case net req (cs_Server st) of
        (Inl err, s') \<Rightarrow> (Err (Errorf ''API request failed: %w'' [FErr err]), st\<lparr>cs_Server := s'\<rparr>)
      | (Inr resp, s') \<Rightarrow> (Ok resp, st\<lparr>cs_Server := s'\<rparr>))"

definition apiGet :: "cli_env \<Rightarrow> 's net \<Rightarrow> string \<Rightarrow> 's cstate \<Rightarrow> cl_resp result \<times> 's cstate" where
  "apiGet env net path st = send net (newRequest env (cs_Token st) ''GET'' path None) st"

definition apiPost :: "cli_env \<Rightarrow> 's net \<Rightarrow> string \<Rightarrow> json option \<Rightarrow> 's cstate \<Rightarrow> cl_resp result \<times> 's cstate" where
  "apiPost env net path body st = send net (newRequest env (cs_Token st) ''POST'' path body) st"

definition apiDelete :: "cli_env \<Rightarrow> 's net \<Rightarrow> string \<Rightarrow> 's cstate \<Rightarrow> cl_resp result \<times> 's cstate" where
  "apiDelete env net path st = send net (newRequest env (cs_Token st) ''DELETE'' path None) st"

definition checkResponse :: "cli_env \<Rightarrow> cl_resp \<Rightarrow> go_error option" where
  "checkResponse env resp =
     (if fst resp \<ge> 400
      then Some (Errorf ''API error (%d): %s'' [FInt (fst resp), FStr (TrimSpace (cl_text env (snd resp)))]) else None)"

text \<open>What a command does with the answer: hand an error on, check the status, decode the body.\<close>

definition respond :: "cl_resp result \<times> 's cstate \<Rightarrow> (cl_resp \<Rightarrow> outcome) \<Rightarrow> outcome \<times> 's cstate" where
  "respond r k = (case r of (Inl err, st) \<Rightarrow> (fail_with err, st) | (Inr resp, st) \<Rightarrow> (k resp, st))"

definition checked :: "cli_env \<Rightarrow> (cl_resp \<Rightarrow> outcome) \<Rightarrow> cl_resp \<Rightarrow> outcome" where
  "checked env k resp = (case checkResponse env resp of Some err \<Rightarrow> fail_with err | None \<Rightarrow> k resp)"

fun dec_body :: "(json \<Rightarrow> 'a option) \<Rightarrow> wire \<Rightarrow> 'a option" where
  "dec_body dec (WJson j) = dec j"
| "dec_body dec (WText s) = None"

definition decoded :: "cli_env \<Rightarrow> (json \<Rightarrow> 'a option) \<Rightarrow> ('a \<Rightarrow> outcome) \<Rightarrow> cl_resp \<Rightarrow> outcome" where
  "decoded env dec k resp =
     (case dec_body dec (snd resp) of
        None \<Rightarrow> fail_with (Errorf ''decode error: %w'' [FErr (cl_decode_error env (snd resp))])
      | Some v \<Rightarrow> k v)"

definition prints :: "string \<Rightarrow> cl_resp \<Rightarrow> outcome" where
  "prints s resp = done_with [line s]"

definition printOutput :: "cli_env \<Rightarrow> json \<Rightarrow> string list \<Rightarrow> string list list \<Rightarrow> printed list" where
  "printOutput env data headers rows =
     (if cl_output env = ''json'' then [OJson data]
      else if cl_output env = ''yaml'' then [OYaml data]
      else [OTable headers rows])"

definition print_rows :: "cli_env \<Rightarrow> string list \<Rightarrow> (json \<Rightarrow> string list) \<Rightarrow> json \<Rightarrow> outcome" where
  "print_rows env headers row data = done_with (printOutput env data headers (map row (elems data)))"

lemmas cli_defs = apiGet_def apiPost_def apiDelete_def respond_def checked_def decoded_def prints_def print_rows_def
  done_with_def fail_with_def line_def

section \<open>Sizes\<close>

text \<open>The conversion of an integer to a 64-bit floating point number, exact below $2^{53}$ and else rounded to 53
  bits, and rounding to the nearest integer, both to even on a tie.\<close>

definition round_div :: "nat \<Rightarrow> nat \<Rightarrow> nat" where
  "round_div n d = (let q = n div d; r = n mod d in if d < 2 * r \<or> (2 * r = d \<and> odd q) then q + 1 else q)"

fun bit_length :: "nat \<Rightarrow> nat" where
  "bit_length n = (if n = 0 then 0 else Suc (bit_length (n div 2)))"

declare bit_length.simps [simp del]

definition float64 :: "nat \<Rightarrow> nat" where
  "float64 n = (if n < 2 ^ 53 then n else let k = bit_length n - 53 in round_div n (2 ^ k) * 2 ^ k)"

text \<open>The verb \<open>%.1f\<close> for a number of tenths.\<close>

definition show_tenths :: "nat \<Rightarrow> string" where
  "show_tenths t = show_nat (t div 10) @ ''.'' @ show_nat (t mod 10)"

definition size_tenths :: "nat \<Rightarrow> nat \<Rightarrow> nat" where
  "size_tenths b unit = round_div (10 * float64 b) unit"

definition formatBytes :: "nat \<Rightarrow> string" where
  "formatBytes b =
     (let KB = 1024; MB = KB * 1024; GB = MB * 1024; TB = GB * 1024 in
      if b \<ge> TB then show_tenths (size_tenths b TB) @ ''TB''
      else if b \<ge> GB then show_tenths (size_tenths b GB) @ ''GB''
      else if b \<ge> MB then show_tenths (size_tenths b MB) @ ''MB''
      else if b \<ge> KB then show_tenths (size_tenths b KB) @ ''KB''
      else show_nat b @ ''B'')"

definition show_size :: "json \<Rightarrow> string" where
  "show_size j = formatBytes (nat (ival j))"

section \<open>Login\<close>

definition login_fields :: schema where
  "login_fields = [(''token'', TStr), (''expires_at'', TStr)]"

text \<open>Storing the token: the directory of the file is made first.\<close>

definition storeToken :: "cli_env \<Rightarrow> json \<Rightarrow> 's cstate \<Rightarrow> outcome \<times> 's cstate" where
  "storeToken env result st =
     (let path = tokenFilePath env in
      if path = [] then (fail_with (Errorf ''cannot determine home directory'' []), st)
      else
        let dir = take (length path - length ''/token'') path in
        case cl_mkdir env dir of
          Some err \<Rightarrow> (fail_with (Errorf ''create token dir: %w'' [FErr err]), st)
        | None \<Rightarrow>
            (case cl_write env path of
               Some err \<Rightarrow> (fail_with (Errorf ''write token: %w'' [FErr err]), st)
             | None \<Rightarrow>
                 (done_with [line (Sprintf ''Login successful. Token stored in %s'' [FStr path]),
                             line (Sprintf ''Expires at: %s'' [FStr (sval (fld result ''expires_at''))])],
                  st\<lparr>cs_Token := Some (sval (fld result ''token''))\<rparr>)))"

definition loginRun :: "cli_env \<Rightarrow> 's net \<Rightarrow> flagset \<Rightarrow> 's cstate \<Rightarrow> outcome \<times> 's cstate" where
  "loginRun env net fs st =
     (let user = (if fs_str fs ''user'' = [] then cl_user env else fs_str fs ''user'');
          pass = (if fs_str fs ''password'' = [] then cl_pass env else fs_str fs ''password'')
      in if user = [] \<or> pass = [] then (fail_with (Errorf ''--user and --password are required'' []), st)
         else
           case apiPost env net ''/api/v1/auth/login'' (Some (JObj [(''username'', JStr user), (''password'', JStr pass)])) st of
             (Inl err, st') \<Rightarrow> (fail_with err, st')
           | (Inr resp, st') \<Rightarrow>
               (case checkResponse env resp of
                  Some err \<Rightarrow> (fail_with err, st')
                | None \<Rightarrow>
                    (case dec_body (dec_struct login_fields) (snd resp) of
                       None \<Rightarrow> (fail_with (Errorf ''decode response: %w'' [FErr (cl_decode_error env (snd resp))]), st')
                     | Some result \<Rightarrow> storeToken env result st')))"

section \<open>Machines and containers\<close>

definition vm_fields :: schema where
  "vm_fields = [(''id'', TInt 64), (''name'', TStr), (''state'', TStr), (''vcpus'', TInt 64), (''memory_mb'', TInt 64), (''node'', TStr), (''type'', TStr)]"

definition vm_row :: "json \<Rightarrow> string list" where
  "vm_row vm =
     [show_num (fld vm ''id''), sval (fld vm ''name''),
      if sval (fld vm ''type'') = [] then ''vm'' else sval (fld vm ''type''),
      sval (fld vm ''state''), show_num (fld vm ''vcpus''), show_num (fld vm ''memory_mb'') @ ''MB'', sval (fld vm ''node'')]"

text \<open>The flags are missing when the command is called from the shell.\<close>

definition vmList :: "cli_env \<Rightarrow> 's net \<Rightarrow> flagset option \<Rightarrow> 's cstate \<Rightarrow> outcome \<times> 's cstate" where
  "vmList env net flags st =
     (case flags of
        None \<Rightarrow> (([], Panicked), st)
      | Some fs \<Rightarrow>
          let typeFilter = fs_str fs ''type'';
              path = (if typeFilter \<noteq> [] then ''/api/v1/vms'' @ ''?type='' @ typeFilter else ''/api/v1/vms'')
          in respond (apiGet env net path st)
               (decoded env (dec_page vm_fields)
                  (print_rows env [''ID'', ''NAME'', ''TYPE'', ''STATE'', ''VCPUS'', ''MEMORY'', ''NODE''] vm_row)))"

definition container_fields :: schema where
  "container_fields = [(''id'', TInt 64), (''name'', TStr), (''state'', TStr), (''vcpus'', TInt 64), (''memory_mb'', TInt 64), (''node'', TStr), (''template'', TStr)]"

definition container_row :: "json \<Rightarrow> string list" where
  "container_row ct =
     [show_num (fld ct ''id''), sval (fld ct ''name''), sval (fld ct ''state''), show_num (fld ct ''vcpus''),
      show_num (fld ct ''memory_mb'') @ ''MB'', sval (fld ct ''node''), sval (fld ct ''template'')]"

definition containerList :: "cli_env \<Rightarrow> 's net \<Rightarrow> 's cstate \<Rightarrow> outcome \<times> 's cstate" where
  "containerList env net st =
     respond (apiGet env net ''/api/v1/vms?type=container'' st)
       (decoded env (dec_page container_fields)
          (print_rows env [''ID'', ''NAME'', ''STATE'', ''VCPUS'', ''MEMORY'', ''NODE'', ''TEMPLATE''] container_row))"

definition containerCreate :: "cli_env \<Rightarrow> 's net \<Rightarrow> flagset \<Rightarrow> 's cstate \<Rightarrow> outcome \<times> 's cstate" where
  "containerCreate env net fs st =
     (let name = fs_str fs ''name''; tmpl = fs_str fs ''template'' in
      if name = [] then (fail_with (Errorf ''--name is required'' []), st)
      else respond (apiPost env net ''/api/v1/vms''
             (Some (JObj [(''name'', JStr name), (''vcpus'', JNum (fs_num fs ''vcpus'')), (''memory_mb'', JNum (fs_num fs ''memory'')),
                          (''type'', JStr ''container''), (''template'', JStr tmpl)])) st)
             (checked env (prints (Sprintf ''Container '%s' created (template: %s).'' [FStr name, FStr tmpl]))))"

definition output_fields :: schema where
  "output_fields = [(''output'', TStr)]"

definition containerExec :: "cli_env \<Rightarrow> 's net \<Rightarrow> string list \<Rightarrow> 's cstate \<Rightarrow> outcome \<times> 's cstate" where
  "containerExec env net args st =
     (case args of
        [] \<Rightarrow> (fail_with (Errorf ''container ID is required'' []), st)
      | id0 # command \<Rightarrow>
          if command = []
          then (fail_with (Errorf ''command is required (use: container exec ID -- command args...)'' []), st)
          else respond (apiPost env net (Sprintf ''/api/v1/vms/%s/exec'' [FStr id0]) (Some (JObj [(''command'', JArr (map JStr command))])) st)
                 (checked env (decoded env (dec_struct output_fields) (\<lambda>result. done_with [OText (sval (fld result ''output''))]))))"

definition containerDelete :: "cli_env \<Rightarrow> 's net \<Rightarrow> string \<Rightarrow> 's cstate \<Rightarrow> outcome \<times> 's cstate" where
  "containerDelete env net id0 st =
     respond (apiDelete env net (Sprintf ''/api/v1/vms/%s'' [FStr id0]) st)
       (checked env (prints (Sprintf ''Container %s deleted.'' [FStr id0])))"

definition vmCreate :: "cli_env \<Rightarrow> 's net \<Rightarrow> flagset \<Rightarrow> string \<Rightarrow> 's cstate \<Rightarrow> outcome \<times> 's cstate" where
  "vmCreate env net fs name st =
     (let disk = fs_str fs ''disk''; backend = fs_str fs ''backend'' in
      respond (apiPost env net ''/api/v1/vms''
        (Some (JObj ([(''name'', JStr name), (''vcpus'', JNum (fs_num fs ''vcpus'')), (''memory_mb'', JNum (fs_num fs ''memory''))]
               @ (if backend \<noteq> [] then [(''backend'', JStr backend)] else [])
               @ (if disk \<noteq> [] then [(''disk'', JStr disk)] else [])))) st)
        (checked env (prints (Sprintf ''VM '%s' created.'' [FStr name]))))"

text \<open>The request is sent by the default client, without credentials, and the status of the answer is not read.\<close>

definition vmAction :: "cli_env \<Rightarrow> 's net \<Rightarrow> string \<Rightarrow> string \<Rightarrow> 's cstate \<Rightarrow> outcome \<times> 's cstate" where
  "vmAction env net id0 action st =
     respond (send net \<lparr>hr_Method = ''POST'', hr_URL = Sprintf ''%s/api/v1/vms/%s/%s'' [FStr (cl_api env), FStr id0, FStr action],
                        hr_Body = None, hr_ContentType = ''application/json'', hr_Auth = NoAuth\<rparr> st)
       (prints (Sprintf ''VM %s: %s OK'' [FStr id0, FStr action]))"

definition vmMigrate :: "cli_env \<Rightarrow> 's net \<Rightarrow> flagset \<Rightarrow> 's cstate \<Rightarrow> outcome \<times> 's cstate" where
  "vmMigrate env net fs st =
     (let id0 = fs_str fs ''id''; target = fs_str fs ''target'' in
      if id0 = [] then (fail_with (Errorf ''--id is required'' []), st)
      else if target = [] then (fail_with (Errorf ''--target is required'' []), st)
      else respond (apiPost env net (Sprintf ''/api/v1/vms/%s/migrate'' [FStr id0]) (Some (JObj [(''target_node'', JStr target)])) st)
             (checked env (prints (Sprintf ''VM %s migrated to node '%s'.'' [FStr id0, FStr target]))))"

section \<open>Nodes, storage and network\<close>

definition node_fields :: schema where
  "node_fields = [(''name'', TStr), (''status'', TStr), (''cpu_percent'', TFloat), (''memory_percent'', TFloat), (''vm_count'', TInt 64)]"

definition node_row :: "cli_env \<Rightarrow> json \<Rightarrow> string list" where
  "node_row env n =
     [sval (fld n ''name''), sval (fld n ''status''), cl_format env 1 (fld n ''cpu_percent'') @ ''%'',
      cl_format env 1 (fld n ''memory_percent'') @ ''%'', show_num (fld n ''vm_count'')]"

definition nodeList :: "cli_env \<Rightarrow> 's net \<Rightarrow> 's cstate \<Rightarrow> outcome \<times> 's cstate" where
  "nodeList env net st =
     respond (apiGet env net ''/api/v1/nodes'' st)
       (decoded env (dec_slice node_fields) (print_rows env [''NAME'', ''STATUS'', ''CPU%'', ''MEM%'', ''VMs''] (node_row env)))"

definition pool_fields :: schema where
  "pool_fields = [(''name'', TStr), (''pool_type'', TStr), (''total_bytes'', TUint 64), (''used_bytes'', TUint 64), (''health'', TStr)]"

definition pool_row :: "json \<Rightarrow> string list" where
  "pool_row p =
     [sval (fld p ''name''), sval (fld p ''pool_type''), show_size (fld p ''total_bytes''), show_size (fld p ''used_bytes''), sval (fld p ''health'')]"

definition storagePoolList :: "cli_env \<Rightarrow> 's net \<Rightarrow> 's cstate \<Rightarrow> outcome \<times> 's cstate" where
  "storagePoolList env net st =
     respond (apiGet env net ''/api/v1/storage/pools'' st)
       (decoded env (dec_slice pool_fields) (print_rows env [''NAME'', ''TYPE'', ''TOTAL'', ''USED'', ''HEALTH''] pool_row))"

definition volume_fields :: schema where
  "volume_fields = [(''id'', TStr), (''pool'', TStr), (''name'', TStr), (''size_bytes'', TUint 64), (''format'', TStr), (''path'', TStr)]"

definition volume_row :: "json \<Rightarrow> string list" where
  "volume_row v =
     [sval (fld v ''id''), sval (fld v ''pool''), sval (fld v ''name''), show_size (fld v ''size_bytes''), sval (fld v ''format''), sval (fld v ''path'')]"

definition storageVolumeList :: "cli_env \<Rightarrow> 's net \<Rightarrow> 's cstate \<Rightarrow> outcome \<times> 's cstate" where
  "storageVolumeList env net st =
     respond (apiGet env net ''/api/v1/storage/volumes'' st)
       (decoded env (dec_slice volume_fields) (print_rows env [''ID'', ''POOL'', ''NAME'', ''SIZE'', ''FORMAT'', ''PATH''] volume_row))"

definition storageVolumeCreate :: "cli_env \<Rightarrow> 's net \<Rightarrow> flagset \<Rightarrow> 's cstate \<Rightarrow> outcome \<times> 's cstate" where
  "storageVolumeCreate env net fs st =
     (let pool = fs_str fs ''pool''; name = fs_str fs ''name'' in
      respond (apiPost env net ''/api/v1/storage/volumes''
        (Some (JObj [(''pool'', JStr pool), (''name'', JStr name), (''size_bytes'', JNum (fs_num fs ''size'')),
                     (''format'', JStr (fs_str fs ''format''))])) st)
        (checked env (prints (Sprintf ''Volume '%s' created in pool '%s'.'' [FStr name, FStr pool]))))"

definition zone_fields :: schema where
  "zone_fields = [(''name'', TStr), (''type'', TStr), (''mtu'', TInt 64), (''bridge'', TStr), (''status'', TStr)]"

definition zone_row :: "json \<Rightarrow> string list" where
  "zone_row z = [sval (fld z ''name''), sval (fld z ''type''), show_num (fld z ''mtu''), sval (fld z ''bridge''), sval (fld z ''status'')]"

definition networkZoneList :: "cli_env \<Rightarrow> 's net \<Rightarrow> 's cstate \<Rightarrow> outcome \<times> 's cstate" where
  "networkZoneList env net st =
     respond (apiGet env net ''/api/v1/network/zones'' st)
       (decoded env (dec_slice zone_fields) (print_rows env [''NAME'', ''TYPE'', ''MTU'', ''BRIDGE'', ''STATUS''] zone_row))"

definition vnet_fields :: schema where
  "vnet_fields = [(''id'', TStr), (''zone'', TStr), (''name'', TStr), (''tag'', TInt 64), (''subnet'', TStr), (''status'', TStr)]"

definition vnet_row :: "json \<Rightarrow> string list" where
  "vnet_row v =
     [sval (fld v ''id''), sval (fld v ''zone''), sval (fld v ''name''), show_num (fld v ''tag''), sval (fld v ''subnet''), sval (fld v ''status'')]"

definition networkVnetList :: "cli_env \<Rightarrow> 's net \<Rightarrow> 's cstate \<Rightarrow> outcome \<times> 's cstate" where
  "networkVnetList env net st =
     respond (apiGet env net ''/api/v1/network/vnets'' st)
       (decoded env (dec_slice vnet_fields) (print_rows env [''ID'', ''ZONE'', ''NAME'', ''TAG'', ''SUBNET'', ''STATUS''] vnet_row))"

definition rule_fields :: schema where
  "rule_fields = [(''id'', TStr), (''direction'', TStr), (''action'', TStr), (''protocol'', TStr), (''source'', TStr), (''dest'', TStr),
     (''dport'', TStr), (''enabled'', TBool)]"

definition rule_row :: "json \<Rightarrow> string list" where
  "rule_row r =
     [sval (fld r ''id''), sval (fld r ''direction''), sval (fld r ''action''), sval (fld r ''protocol''), sval (fld r ''source''),
      sval (fld r ''dest''), sval (fld r ''dport''), show_bool (fld r ''enabled'')]"

definition networkFirewallList :: "cli_env \<Rightarrow> 's net \<Rightarrow> 's cstate \<Rightarrow> outcome \<times> 's cstate" where
  "networkFirewallList env net st =
     respond (apiGet env net ''/api/v1/network/firewall'' st)
       (decoded env (dec_slice rule_fields)
          (print_rows env [''ID'', ''DIR'', ''ACTION'', ''PROTO'', ''SOURCE'', ''DEST'', ''DPORT'', ''ENABLED''] rule_row))"

section \<open>Devices and the cluster\<close>

definition device_fields :: schema where
  "device_fields = [(''id'', TStr), (''device_type'', TStr), (''description'', TStr), (''pci_address'', TStr), (''attached_vm'', TInt 32),
     (''iommu_group'', TStr), (''driver'', TStr)]"

definition device_row :: "json \<Rightarrow> string list" where
  "device_row d =
     [sval (fld d ''id''), sval (fld d ''device_type''), sval (fld d ''description''), sval (fld d ''pci_address''),
      if ival (fld d ''attached_vm'') \<noteq> 0 then show_num (fld d ''attached_vm'') else ''-'',
      sval (fld d ''iommu_group''), sval (fld d ''driver'')]"

definition print_devices :: "cli_env \<Rightarrow> cl_resp \<Rightarrow> outcome" where
  "print_devices env =
     decoded env (dec_slice device_fields)
       (print_rows env [''ID'', ''TYPE'', ''DESCRIPTION'', ''PCI'', ''ATTACHED_VM'', ''IOMMU'', ''DRIVER''] device_row)"

definition deviceList :: "cli_env \<Rightarrow> 's net \<Rightarrow> flagset \<Rightarrow> 's cstate \<Rightarrow> outcome \<times> 's cstate" where
  "deviceList env net fs st =
     (let typeFilter = fs_str fs ''type'';
          path = (if typeFilter \<noteq> [] then ''/api/v1/devices'' @ ''?type='' @ typeFilter else ''/api/v1/devices'')
      in respond (apiGet env net path st) (print_devices env))"

definition deviceAttach :: "cli_env \<Rightarrow> 's net \<Rightarrow> flagset \<Rightarrow> 's cstate \<Rightarrow> outcome \<times> 's cstate" where
  "deviceAttach env net fs st =
     (let id0 = fs_str fs ''id''; vmHandle = fs_num fs ''vm'' in
      if id0 = [] then (fail_with (Errorf ''--id is required'' []), st)
      else respond (apiPost env net (Sprintf ''/api/v1/devices/%s/attach'' [FStr id0]) (Some (JObj [(''vm_handle'', JNum vmHandle)])) st)
             (checked env (prints (Sprintf ''Device '%s' attached to VM %d.'' [FStr id0, FInt vmHandle]))))"

definition deviceDetach :: "cli_env \<Rightarrow> 's net \<Rightarrow> flagset \<Rightarrow> 's cstate \<Rightarrow> outcome \<times> 's cstate" where
  "deviceDetach env net fs st =
     (let id0 = fs_str fs ''id'' in
      if id0 = [] then (fail_with (Errorf ''--id is required'' []), st)
      else respond (apiPost env net (Sprintf ''/api/v1/devices/%s/detach'' [FStr id0]) None st)
             (checked env (prints (Sprintf ''Device '%s' detached.'' [FStr id0]))))"

definition status_fields :: schema where
  "status_fields = [(''quorum'', TBool), (''node_count'', TInt 64), (''online_count'', TInt 64), (''leader'', TStr), (''status'', TStr)]"

definition status_rows :: "json \<Rightarrow> string list list" where
  "status_rows s =
     [[''STATUS'', sval (fld s ''status'')], [''QUORUM'', show_bool (fld s ''quorum'')], [''NODES'', show_num (fld s ''node_count'')],
      [''ONLINE'', show_num (fld s ''online_count'')], [''LEADER'', sval (fld s ''leader'')]]"

definition clusterStatus :: "cli_env \<Rightarrow> 's net \<Rightarrow> 's cstate \<Rightarrow> outcome \<times> 's cstate" where
  "clusterStatus env net st =
     respond (apiGet env net ''/api/v1/cluster/status'' st)
       (decoded env (dec_struct status_fields) (\<lambda>s. done_with (printOutput env s [''FIELD'', ''VALUE''] (status_rows s))))"

definition cnode_fields :: schema where
  "cnode_fields = [(''name'', TStr), (''status'', TStr), (''is_leader'', TBool), (''vm_count'', TInt 64), (''fence_agent'', TStr)]"

definition cnode_row :: "json \<Rightarrow> string list" where
  "cnode_row n =
     [sval (fld n ''name''), sval (fld n ''status''), if bval (fld n ''is_leader'') then ''*'' else [], show_num (fld n ''vm_count''),
      sval (fld n ''fence_agent'')]"

definition clusterNodeList :: "cli_env \<Rightarrow> 's net \<Rightarrow> 's cstate \<Rightarrow> outcome \<times> 's cstate" where
  "clusterNodeList env net st =
     respond (apiGet env net ''/api/v1/cluster/nodes'' st)
       (decoded env (dec_slice cnode_fields) (print_rows env [''NAME'', ''STATUS'', ''LEADER'', ''VMs'', ''FENCE_AGENT''] cnode_row))"

definition clusterFence :: "cli_env \<Rightarrow> 's net \<Rightarrow> flagset \<Rightarrow> 's cstate \<Rightarrow> outcome \<times> 's cstate" where
  "clusterFence env net fs st =
     (let node = fs_str fs ''node''; reason = fs_str fs ''reason''; action = fs_str fs ''action'' in
      if node = [] then (fail_with (Errorf ''--node is required'' []), st)
      else respond (apiPost env net (Sprintf ''/api/v1/cluster/fence/%s'' [FStr node])
                      (Some (JObj [(''reason'', JStr reason), (''action'', JStr action)])) st)
             (checked env (prints (Sprintf ''Node '%s' fenced (action: %s, reason: %s).'' [FStr node, FStr action, FStr reason]))))"

section \<open>Backups, templates, images and snapshots\<close>

definition backup_fields :: schema where
  "backup_fields = [(''id'', TStr), (''vm_id'', TInt 32), (''vm_name'', TStr), (''snapshot_id'', TStr), (''status'', TStr),
     (''created_at'', TInt 64), (''size_bytes'', TUint 64), (''storage_pool'', TStr)]"

definition backup_row :: "json \<Rightarrow> string list" where
  "backup_row b =
     [sval (fld b ''id''), show_num (fld b ''vm_id''), sval (fld b ''vm_name''), sval (fld b ''snapshot_id''), sval (fld b ''status''),
      show_size (fld b ''size_bytes''), sval (fld b ''storage_pool'')]"

definition backupList :: "cli_env \<Rightarrow> 's net \<Rightarrow> 's cstate \<Rightarrow> outcome \<times> 's cstate" where
  "backupList env net st =
     respond (apiGet env net ''/api/v1/backups'' st)
       (decoded env (dec_slice backup_fields)
          (print_rows env [''ID'', ''VM_ID'', ''VM_NAME'', ''SNAPSHOT'', ''STATUS'', ''SIZE'', ''POOL''] backup_row))"

definition backupCreate :: "cli_env \<Rightarrow> 's net \<Rightarrow> flagset \<Rightarrow> 's cstate \<Rightarrow> outcome \<times> 's cstate" where
  "backupCreate env net fs st =
     (let vm = fs_num fs ''vm-id''; name = fs_str fs ''vm-name''; pool = fs_str fs ''pool'' in
      respond (apiPost env net ''/api/v1/backups'' (Some (JObj [(''vm_id'', JNum vm), (''vm_name'', JStr name), (''pool'', JStr pool)])) st)
        (checked env (prints (Sprintf ''Backup created for VM '%s' (ID %d) in pool '%s'.'' [FStr name, FInt vm, FStr pool]))))"

definition backupDelete :: "cli_env \<Rightarrow> 's net \<Rightarrow> flagset \<Rightarrow> 's cstate \<Rightarrow> outcome \<times> 's cstate" where
  "backupDelete env net fs st =
     (let id0 = fs_str fs ''id'' in
      if id0 = [] then (fail_with (Errorf ''--id is required'' []), st)
      else respond (apiDelete env net (Sprintf ''/api/v1/backups/%s'' [FStr id0]) st)
             (checked env (prints (Sprintf ''Backup '%s' deleted.'' [FStr id0]))))"

definition template_fields :: schema where
  "template_fields = [(''id'', TStr), (''name'', TStr), (''description'', TStr), (''vcpus'', TUint 32), (''memory_mb'', TUint 64),
     (''disk_size_gb'', TUint 64), (''backend'', TStr), (''os_type'', TStr)]"

definition template_row :: "json \<Rightarrow> string list" where
  "template_row t =
     [sval (fld t ''id''), sval (fld t ''name''), show_num (fld t ''vcpus''), show_num (fld t ''memory_mb'') @ ''MB'',
      show_num (fld t ''disk_size_gb'') @ ''GB'', sval (fld t ''backend''), sval (fld t ''os_type''), sval (fld t ''description'')]"

definition templateList :: "cli_env \<Rightarrow> 's net \<Rightarrow> 's cstate \<Rightarrow> outcome \<times> 's cstate" where
  "templateList env net st =
     respond (apiGet env net ''/api/v1/templates'' st)
       (checked env (decoded env (dec_slice template_fields)
          (print_rows env [''ID'', ''NAME'', ''VCPUS'', ''MEMORY'', ''DISK'', ''BACKEND'', ''OS'', ''DESCRIPTION''] template_row)))"

definition templateCreate :: "cli_env \<Rightarrow> 's net \<Rightarrow> flagset \<Rightarrow> 's cstate \<Rightarrow> outcome \<times> 's cstate" where
  "templateCreate env net fs st =
     (let name = fs_str fs ''name'' in
      if name = [] then (fail_with (Errorf ''--name is required'' []), st)
      else respond (apiPost env net ''/api/v1/templates''
             (Some (JObj [(''name'', JStr name), (''description'', JStr (fs_str fs ''description'')), (''vcpus'', JNum (fs_num fs ''vcpus'')),
                          (''memory_mb'', JNum (fs_num fs ''memory'')), (''disk_size_gb'', JNum (fs_num fs ''disk'')),
                          (''backend'', JStr (fs_str fs ''backend'')), (''os_type'', JStr (fs_str fs ''os''))])) st)
             (checked env (prints (Sprintf ''Template '%s' created.'' [FStr name]))))"

definition templateDelete :: "cli_env \<Rightarrow> 's net \<Rightarrow> flagset \<Rightarrow> 's cstate \<Rightarrow> outcome \<times> 's cstate" where
  "templateDelete env net fs st =
     (let id0 = fs_str fs ''id'' in
      if id0 = [] then (fail_with (Errorf ''--id is required'' []), st)
      else respond (apiDelete env net (Sprintf ''/api/v1/templates/%s'' [FStr id0]) st)
             (checked env (prints (Sprintf ''Template '%s' deleted.'' [FStr id0]))))"

definition templateDeploy :: "cli_env \<Rightarrow> 's net \<Rightarrow> flagset \<Rightarrow> 's cstate \<Rightarrow> outcome \<times> 's cstate" where
  "templateDeploy env net fs st =
     (let id0 = fs_str fs ''id'' in
      if id0 = [] then (fail_with (Errorf ''--id is required'' []), st)
      else respond (apiPost env net (Sprintf ''/api/v1/templates/%s/deploy'' [FStr id0]) (Some (JObj [(''name'', JStr (fs_str fs ''name''))])) st)
             (checked env (prints (Sprintf ''VM deployed from template '%s'.'' [FStr id0]))))"

definition image_fields :: schema where
  "image_fields = [(''id'', TStr), (''name'', TStr), (''format'', TStr), (''size_bytes'', TUint 64), (''path'', TStr), (''os_type'', TStr),
     (''created_at'', TInt 64)]"

definition image_row :: "json \<Rightarrow> string list" where
  "image_row i =
     [sval (fld i ''id''), sval (fld i ''name''), sval (fld i ''format''), show_size (fld i ''size_bytes''), sval (fld i ''os_type''),
      sval (fld i ''path'')]"

definition imageList :: "cli_env \<Rightarrow> 's net \<Rightarrow> 's cstate \<Rightarrow> outcome \<times> 's cstate" where
  "imageList env net st =
     respond (apiGet env net ''/api/v1/images'' st)
       (checked env (decoded env (dec_slice image_fields)
          (print_rows env [''ID'', ''NAME'', ''FORMAT'', ''SIZE'', ''OS'', ''PATH''] image_row)))"

definition imageRegister :: "cli_env \<Rightarrow> 's net \<Rightarrow> flagset \<Rightarrow> 's cstate \<Rightarrow> outcome \<times> 's cstate" where
  "imageRegister env net fs st =
     (let name = fs_str fs ''name'' in
      if name = [] then (fail_with (Errorf ''--name is required'' []), st)
      else respond (apiPost env net ''/api/v1/images''
             (Some (JObj [(''name'', JStr name), (''format'', JStr (fs_str fs ''format'')), (''path'', JStr (fs_str fs ''path'')),
                          (''os_type'', JStr (fs_str fs ''os''))])) st)
             (checked env (prints (Sprintf ''Image '%s' registered.'' [FStr name]))))"

definition imageDelete :: "cli_env \<Rightarrow> 's net \<Rightarrow> flagset \<Rightarrow> 's cstate \<Rightarrow> outcome \<times> 's cstate" where
  "imageDelete env net fs st =
     (let id0 = fs_str fs ''id'' in
      if id0 = [] then (fail_with (Errorf ''--id is required'' []), st)
      else respond (apiDelete env net (Sprintf ''/api/v1/images/%s'' [FStr id0]) st)
             (checked env (prints (Sprintf ''Image '%s' deleted.'' [FStr id0]))))"

definition snapshot_fields :: schema where
  "snapshot_fields = [(''id'', TStr), (''vm_id'', TInt 32), (''vm_name'', TStr), (''state'', TStr), (''created_at'', TInt 64), (''size_bytes'', TUint 64)]"

definition snapshot_row :: "json \<Rightarrow> string list" where
  "snapshot_row s =
     [sval (fld s ''id''), show_num (fld s ''vm_id''), sval (fld s ''vm_name''), sval (fld s ''state''), show_size (fld s ''size_bytes'')]"

definition snapshotListCLI :: "cli_env \<Rightarrow> 's net \<Rightarrow> flagset \<Rightarrow> 's cstate \<Rightarrow> outcome \<times> 's cstate" where
  "snapshotListCLI env net fs st =
     (let vm = fs_num fs ''vm-id'';
          path = (if vm \<noteq> 0 then ''/api/v1/snapshots'' @ Sprintf ''?vm_id=%d'' [FInt vm] else ''/api/v1/snapshots'')
      in respond (apiGet env net path st)
           (checked env (decoded env (dec_slice snapshot_fields)
              (print_rows env [''ID'', ''VM_ID'', ''VM_NAME'', ''STATE'', ''SIZE''] snapshot_row))))"

definition snapshotCreateCLI :: "cli_env \<Rightarrow> 's net \<Rightarrow> flagset \<Rightarrow> 's cstate \<Rightarrow> outcome \<times> 's cstate" where
  "snapshotCreateCLI env net fs st =
     (let vm = fs_num fs ''vm-id''; name = fs_str fs ''vm-name'' in
      respond (apiPost env net ''/api/v1/snapshots'' (Some (JObj [(''vm_id'', JNum vm), (''vm_name'', JStr name)])) st)
        (checked env (prints (Sprintf ''Snapshot created for VM '%s' (ID %d).'' [FStr name, FInt vm]))))"

definition snapshotDeleteCLI :: "cli_env \<Rightarrow> 's net \<Rightarrow> flagset \<Rightarrow> 's cstate \<Rightarrow> outcome \<times> 's cstate" where
  "snapshotDeleteCLI env net fs st =
     (let id0 = fs_str fs ''id'' in
      if id0 = [] then (fail_with (Errorf ''--id is required'' []), st)
      else respond (apiDelete env net (Sprintf ''/api/v1/snapshots/%s'' [FStr id0]) st)
             (checked env (prints (Sprintf ''Snapshot '%s' deleted.'' [FStr id0]))))"

definition snapshotRestoreCLI :: "cli_env \<Rightarrow> 's net \<Rightarrow> flagset \<Rightarrow> 's cstate \<Rightarrow> outcome \<times> 's cstate" where
  "snapshotRestoreCLI env net fs st =
     (let id0 = fs_str fs ''id'' in
      if id0 = [] then (fail_with (Errorf ''--id is required'' []), st)
      else respond (apiPost env net (Sprintf ''/api/v1/snapshots/%s/restore'' [FStr id0]) None st)
             (checked env (prints (Sprintf ''Snapshot '%s' restore initiated.'' [FStr id0]))))"

section \<open>Status\<close>

text \<open>The statistics are decoded into a map, whose keys match exactly.\<close>

fun dec_map :: "json \<Rightarrow> json option" where
  "dec_map JNull = Some (JObj [])"
| "dec_map (JObj kvs) = Some (JObj kvs)"
| "dec_map j = None"

fun entry :: "json \<Rightarrow> string \<Rightarrow> json option" where
  "entry (JObj kvs) k = map_of (rev kvs) k"
| "entry j k = None"

fun is_number :: "json \<Rightarrow> bool" where
  "is_number (JNum n) = True"
| "is_number (JDec s) = True"
| "is_number j = False"

definition number_row :: "cli_env \<Rightarrow> string \<Rightarrow> string \<Rightarrow> string \<Rightarrow> json option \<Rightarrow> string list list" where
  "number_row env part metric suffix v =
     (case v of
        None \<Rightarrow> []
      | Some n \<Rightarrow> if is_number n then [[part, metric, cl_format env 0 n @ suffix]] else [])"

text \<open>The states are visited in the order of a map; here in that of the document.\<close>

definition state_rows :: "cli_env \<Rightarrow> json \<Rightarrow> string list list" where
  "state_rows env vms =
     (case entry vms ''by_state'' of
        Some (JObj kvs) \<Rightarrow> concat (map (\<lambda>(state, count). number_row env ''VMs'' state [] (Some count)) kvs)
      | _ \<Rightarrow> [])"

definition section_rows :: "json \<Rightarrow> string \<Rightarrow> (json \<Rightarrow> string list list) \<Rightarrow> string list list" where
  "section_rows stats name rows = (case entry stats name of Some (JObj kvs) \<Rightarrow> rows (JObj kvs) | _ \<Rightarrow> [])"

definition stats_rows :: "cli_env \<Rightarrow> json \<Rightarrow> string list list" where
  "stats_rows env stats =
     number_row env ''System'' ''Uptime'' ''s'' (entry stats ''uptime_seconds'')
     @ section_rows stats ''vms'' (\<lambda>vms. number_row env ''VMs'' ''Total'' [] (entry vms ''total'') @ state_rows env vms)
     @ section_rows stats ''storage''
         (\<lambda>stor. number_row env ''Storage'' ''Pools'' [] (entry stor ''pools'') @ number_row env ''Storage'' ''Volumes'' [] (entry stor ''volumes''))
     @ section_rows stats ''network''
         (\<lambda>n. number_row env ''Network'' ''Zones'' [] (entry n ''zones'') @ number_row env ''Network'' ''VNets'' [] (entry n ''vnets'')
           @ number_row env ''Network'' ''Firewall Rules'' [] (entry n ''firewall_rules''))
     @ number_row env ''Devices'' ''Total'' [] (entry stats ''devices'')
     @ number_row env ''Backups'' ''Total'' [] (entry stats ''backups'')"

definition handleShellStatus :: "cli_env \<Rightarrow> 's net \<Rightarrow> 's cstate \<Rightarrow> outcome \<times> 's cstate" where
  "handleShellStatus env net st =
     respond (apiGet env net ''/api/v1/system/stats'' st)
       (checked env (decoded env dec_map
          (\<lambda>stats. done_with (printOutput env stats [''SECTION'', ''METRIC'', ''VALUE''] (stats_rows env stats)))))"

definition systemStatus :: "cli_env \<Rightarrow> 's net \<Rightarrow> 's cstate \<Rightarrow> outcome \<times> 's cstate" where
  "systemStatus env net st = handleShellStatus env net st"

section \<open>The shell\<close>

definition printShellHelp :: "printed list" where
  "printShellHelp =
     map line
       [''Commands:'',
        ''  vm list                 List all VMs'',
        ''  vm create <name>        Create a VM'',
        ''  vm start <id>           Start a VM'',
        ''  vm stop <id>            Stop a VM'',
        ''  vm delete <id>          Delete a VM'',
        ''  vm migrate <id> <node>  Migrate VM'',
        ''  storage pool list       List storage pools'',
        ''  storage volume list     List storage volumes'',
        ''  network zone list       List SDN zones'',
        ''  network vnet list       List virtual networks'',
        ''  network firewall list   List firewall rules'',
        ''  device list             List devices'',
        ''  cluster status          Cluster status'',
        ''  cluster node list       List cluster nodes'',
        ''  backup list             List backups'',
        ''  version                 Show version'',
        ''  status                  System status'',
        ''  help                    Show this help'',
        ''  exit                    Exit shell'']"

definition version_line :: printed where
  "version_line = line (Sprintf ''hcvctl %s (commit: %s, built: %s)'' [FStr ''dev'', FStr ''none'', FStr ''unknown''])"

definition handleShellVersion :: outcome where
  "handleShellVersion = done_with [version_line]"

definition handleShellVM :: "cli_env \<Rightarrow> 's net \<Rightarrow> string list \<Rightarrow> 's cstate \<Rightarrow> outcome \<times> 's cstate" where
  "handleShellVM env net args st =
     (case args of
        [] \<Rightarrow> (fail_with (Errorf ''usage: vm list|create|start|stop|delete|migrate'' []), st)
      | cmd # rest \<Rightarrow>
          if cmd = ''list'' then vmList env net (cl_nilflags env) st
          else if cmd = ''create'' then
            (case rest of
               [] \<Rightarrow> (fail_with (Errorf ''usage: vm create <name>'' []), st)
             | name # _ \<Rightarrow>
                 respond (apiPost env net ''/api/v1/vms''
                   (Some (JObj [(''name'', JStr name), (''vcpus'', JNum 2), (''memory_mb'', JNum 4096)])) st)
                   (checked env (prints (Sprintf ''VM '%s' created.'' [FStr name]))))
          else if cmd = ''start'' then
            (case rest of [] \<Rightarrow> (fail_with (Errorf ''usage: vm start <id>'' []), st) | id0 # _ \<Rightarrow> vmAction env net id0 ''start'' st)
          else if cmd = ''stop'' then
            (case rest of [] \<Rightarrow> (fail_with (Errorf ''usage: vm stop <id>'' []), st) | id0 # _ \<Rightarrow> vmAction env net id0 ''stop'' st)
          else if cmd = ''delete'' then
            (case rest of
               [] \<Rightarrow> (fail_with (Errorf ''usage: vm delete <id>'' []), st)
             | id0 # _ \<Rightarrow>
                 respond (apiDelete env net (Sprintf ''/api/v1/vms/%s'' [FStr id0]) st)
                   (checked env (prints (Sprintf ''VM '%s' deleted.'' [FStr id0]))))
          else if cmd = ''migrate'' then
            (case rest of
               id0 # node # _ \<Rightarrow>
                 respond (apiPost env net (Sprintf ''/api/v1/vms/%s/migrate'' [FStr id0]) (Some (JObj [(''target_node'', JStr node)])) st)
                   (checked env (prints (Sprintf ''VM %s migrated to node '%s'.'' [FStr id0, FStr node])))
             | _ \<Rightarrow> (fail_with (Errorf ''usage: vm migrate <id> <node>'' []), st))
          else (fail_with (Errorf ''unknown vm command: %s'' [FStr cmd]), st))"

definition handleShellStorage :: "cli_env \<Rightarrow> 's net \<Rightarrow> string list \<Rightarrow> 's cstate \<Rightarrow> outcome \<times> 's cstate" where
  "handleShellStorage env net args st =
     (case args of
        a # b # _ \<Rightarrow>
          if a = ''pool'' then
            (if b = ''list'' then storagePoolList env net st else (fail_with (Errorf ''unknown storage pool command: %s'' [FStr b]), st))
          else if a = ''volume'' then
            (if b = ''list'' then storageVolumeList env net st else (fail_with (Errorf ''unknown storage volume command: %s'' [FStr b]), st))
          else (fail_with (Errorf ''unknown storage command: %s'' [FStr a]), st)
      | _ \<Rightarrow> (fail_with (Errorf ''usage: storage pool list | storage volume list'' []), st))"

definition handleShellNetwork :: "cli_env \<Rightarrow> 's net \<Rightarrow> string list \<Rightarrow> 's cstate \<Rightarrow> outcome \<times> 's cstate" where
  "handleShellNetwork env net args st =
     (case args of
        a # b # _ \<Rightarrow>
          if a = ''zone'' then
            (if b = ''list'' then networkZoneList env net st else (fail_with (Errorf ''unknown network zone command: %s'' [FStr b]), st))
          else if a = ''vnet'' then
            (if b = ''list'' then networkVnetList env net st else (fail_with (Errorf ''unknown network vnet command: %s'' [FStr b]), st))
          else if a = ''firewall'' then
            (if b = ''list'' then networkFirewallList env net st else (fail_with (Errorf ''unknown network firewall command: %s'' [FStr b]), st))
          else (fail_with (Errorf ''unknown network command: %s'' [FStr a]), st)
      | _ \<Rightarrow> (fail_with (Errorf ''usage: network zone list | network vnet list | network firewall list'' []), st))"

definition shellDeviceList :: "cli_env \<Rightarrow> 's net \<Rightarrow> 's cstate \<Rightarrow> outcome \<times> 's cstate" where
  "shellDeviceList env net st = respond (apiGet env net ''/api/v1/devices'' st) (print_devices env)"

definition handleShellDevice :: "cli_env \<Rightarrow> 's net \<Rightarrow> string list \<Rightarrow> 's cstate \<Rightarrow> outcome \<times> 's cstate" where
  "handleShellDevice env net args st =
     (case args of
        [] \<Rightarrow> (fail_with (Errorf ''usage: device list'' []), st)
      | a # _ \<Rightarrow> if a = ''list'' then shellDeviceList env net st else (fail_with (Errorf ''unknown device command: %s'' [FStr a]), st))"

definition handleShellCluster :: "cli_env \<Rightarrow> 's net \<Rightarrow> string list \<Rightarrow> 's cstate \<Rightarrow> outcome \<times> 's cstate" where
  "handleShellCluster env net args st =
     (case args of
        [] \<Rightarrow> (fail_with (Errorf ''usage: cluster status | cluster node list'' []), st)
      | a # rest \<Rightarrow>
          if a = ''status'' then clusterStatus env net st
          else if a = ''node'' then
            (if rest = [] \<or> hd rest \<noteq> ''list'' then (fail_with (Errorf ''usage: cluster node list'' []), st) else clusterNodeList env net st)
          else (fail_with (Errorf ''unknown cluster command: %s'' [FStr a]), st))"

definition handleShellBackup :: "cli_env \<Rightarrow> 's net \<Rightarrow> string list \<Rightarrow> 's cstate \<Rightarrow> outcome \<times> 's cstate" where
  "handleShellBackup env net args st =
     (case args of
        [] \<Rightarrow> (fail_with (Errorf ''usage: backup list'' []), st)
      | a # _ \<Rightarrow> if a = ''list'' then backupList env net st else (fail_with (Errorf ''unknown backup command: %s'' [FStr a]), st))"

definition executeShellCommand :: "cli_env \<Rightarrow> 's net \<Rightarrow> string \<Rightarrow> 's cstate \<Rightarrow> outcome \<times> 's cstate" where
  "executeShellCommand env net text st =
     (case Fields text of
        [] \<Rightarrow> (done_with [], st)
      | cmd # args \<Rightarrow>
          if cmd = ''help'' then (done_with printShellHelp, st)
          else if cmd = ''vm'' then handleShellVM env net args st
          else if cmd = ''storage'' then handleShellStorage env net args st
          else if cmd = ''network'' then handleShellNetwork env net args st
          else if cmd = ''device'' then handleShellDevice env net args st
          else if cmd = ''cluster'' then handleShellCluster env net args st
          else if cmd = ''backup'' then handleShellBackup env net args st
          else if cmd = ''version'' then (handleShellVersion, st)
          else if cmd = ''status'' then handleShellStatus env net st
          else (done_with [line (Sprintf ''Unknown command: %s. Type 'help' for usage.'' [FStr cmd])], st))"

text \<open>The loop over the lines of the input.\<close>

definition emit :: "printed list \<Rightarrow> outcome \<times> 's cstate \<Rightarrow> outcome \<times> 's cstate" where
  "emit os r = ((os @ fst (fst r), snd (fst r)), snd r)"

fun shell_loop :: "cli_env \<Rightarrow> 's net \<Rightarrow> string list \<Rightarrow> 's cstate \<Rightarrow> outcome \<times> 's cstate" where
  "shell_loop env net [] st = (done_with [OText ''hcv> ''], st)"
| "shell_loop env net (text # rest) st =
     (let l = TrimSpace text in
      emit [OText ''hcv> '']
        (if l = [] then shell_loop env net rest st
         else if l = ''exit'' \<or> l = ''quit'' then (done_with [], st)
         else case executeShellCommand env net l st of
                ((os, Panicked), st') \<Rightarrow> ((os, Panicked), st')
              | ((os, Failed err), st') \<Rightarrow>
                  emit (os @ [OError (Sprintf ''Error: %v'' [FErr err] @ [newline])]) (shell_loop env net rest st')
              | ((os, Returned), st') \<Rightarrow> emit os (shell_loop env net rest st')))"

definition runShell :: "cli_env \<Rightarrow> 's net \<Rightarrow> string list \<Rightarrow> 's cstate \<Rightarrow> outcome \<times> 's cstate" where
  "runShell env net input st =
     emit [line ''HardCoreVisor Interactive Shell'', line ''Type 'help' for commands, 'exit' to quit'',
           line (Sprintf ''Connected to: %s'' [FStr (cl_api env)] @ [newline])]
       (shell_loop env net input st)"

section \<open>Completion and documentation\<close>

definition completion :: "string \<Rightarrow> outcome" where
  "completion shell =
     (if shell \<in> {''bash'', ''zsh'', ''fish''} then done_with [OCompletion shell]
      else fail_with (Errorf ''unsupported shell: %s'' [FStr shell]))"

definition gendoc :: "cli_env \<Rightarrow> flagset \<Rightarrow> outcome" where
  "gendoc env fs =
     (let docType = fs_str fs ''type'';
          outDir = (if fs_str fs ''dir'' = [] then ''docs/man'' else fs_str fs ''dir'')
      in case cl_mkdir env outDir of
           Some err \<Rightarrow> fail_with (Errorf ''failed to create output directory: %w'' [FErr err])
         | None \<Rightarrow>
             if docType = ''man'' then
               (case cl_gen env ''man'' outDir of
                  Some err \<Rightarrow> fail_with (Errorf ''failed to generate man pages: %w'' [FErr err])
                | None \<Rightarrow> done_with [line (Sprintf ''Man pages generated in %s/'' [FStr outDir])])
             else if docType = ''markdown'' then
               (case cl_gen env ''markdown'' outDir of
                  Some err \<Rightarrow> fail_with (Errorf ''failed to generate markdown docs: %w'' [FErr err])
                | None \<Rightarrow> done_with [line (Sprintf ''Markdown docs generated in %s/'' [FStr outDir])])
             else fail_with (Errorf ''unsupported doc type: %s (use 'man' or 'markdown')'' [FStr docType]))"

section \<open>The commands\<close>

text \<open>A command: its words, the number of arguments it takes, its flags with their defaults, and what it runs.\<close>

datatype fval =
    VStr string
  | VNum int

type_synonym 's run = "cli_env \<Rightarrow> 's net \<Rightarrow> flagset \<Rightarrow> string list \<Rightarrow> 's cstate \<Rightarrow> outcome \<times> 's cstate"
type_synonym 's command = "string list \<times> (nat \<Rightarrow> bool) \<times> (string \<times> fval) list \<times> 's run"

definition ArbitraryArgs :: "nat \<Rightarrow> bool" where "ArbitraryArgs n = True"
definition ExactArgs :: "nat \<Rightarrow> nat \<Rightarrow> bool" where "ExactArgs k n \<longleftrightarrow> n = k"
definition MinimumNArgs :: "nat \<Rightarrow> nat \<Rightarrow> bool" where "MinimumNArgs k n \<longleftrightarrow> k \<le> n"

text \<open>A command without flags, and one that prints only.\<close>

definition plain :: "(cli_env \<Rightarrow> 's net \<Rightarrow> 's cstate \<Rightarrow> outcome \<times> 's cstate) \<Rightarrow> 's run" where
  "plain f env net fs args st = f env net st"

definition flagged :: "(cli_env \<Rightarrow> 's net \<Rightarrow> flagset \<Rightarrow> 's cstate \<Rightarrow> outcome \<times> 's cstate) \<Rightarrow> 's run" where
  "flagged f env net fs args st = f env net fs st"

definition vm_commands :: "'s command list" where
  "vm_commands =
     [([''vm'', ''list''], ArbitraryArgs, [(''type'', VStr [])], \<lambda>env net fs args. vmList env net (Some fs)),
      ([''vm'', ''create''], ExactArgs 1, [(''disk'', VStr []), (''backend'', VStr []), (''vcpus'', VNum 2), (''memory'', VNum 4096)],
       \<lambda>env net fs args. vmCreate env net fs (hd args)),
      ([''vm'', ''start''], ExactArgs 1, [], \<lambda>env net fs args. vmAction env net (hd args) ''start''),
      ([''vm'', ''stop''], ExactArgs 1, [], \<lambda>env net fs args. vmAction env net (hd args) ''stop''),
      ([''vm'', ''migrate''], ArbitraryArgs, [(''id'', VStr []), (''target'', VStr [])], flagged vmMigrate)]"

definition node_commands :: "'s command list" where
  "node_commands =
     [([''node'', ''list''], ArbitraryArgs, [], plain nodeList),
      ([''version''], ArbitraryArgs, [], \<lambda>env net fs args st. (done_with [version_line], st))]"

definition storage_commands :: "'s command list" where
  "storage_commands =
     [([''storage'', ''pool'', ''list''], ArbitraryArgs, [], plain storagePoolList),
      ([''storage'', ''volume'', ''list''], ArbitraryArgs, [], plain storageVolumeList),
      ([''storage'', ''volume'', ''create''], ArbitraryArgs,
       [(''pool'', VStr []), (''name'', VStr []), (''size'', VNum 0), (''format'', VStr ''qcow2'')], flagged storageVolumeCreate)]"

definition network_commands :: "'s command list" where
  "network_commands =
     [([''network'', ''zone'', ''list''], ArbitraryArgs, [], plain networkZoneList),
      ([''network'', ''vnet'', ''list''], ArbitraryArgs, [], plain networkVnetList),
      ([''network'', ''firewall'', ''list''], ArbitraryArgs, [], plain networkFirewallList)]"

definition device_commands :: "'s command list" where
  "device_commands =
     [([''device'', ''list''], ArbitraryArgs, [(''type'', VStr [])], flagged deviceList),
      ([''device'', ''attach''], ArbitraryArgs, [(''id'', VStr []), (''vm'', VNum 0)], flagged deviceAttach),
      ([''device'', ''detach''], ArbitraryArgs, [(''id'', VStr [])], flagged deviceDetach)]"

definition cluster_commands :: "'s command list" where
  "cluster_commands =
     [([''cluster'', ''status''], ArbitraryArgs, [], plain clusterStatus),
      ([''cluster'', ''node'', ''list''], ArbitraryArgs, [], plain clusterNodeList),
      ([''cluster'', ''fence''], ArbitraryArgs, [(''node'', VStr []), (''reason'', VStr []), (''action'', VStr ''reboot'')], flagged clusterFence)]"

definition completion_commands :: "'s command list" where
  "completion_commands = [([''completion''], ExactArgs 1, [], \<lambda>env net fs args st. (completion (hd args), st))]"

definition backup_commands :: "'s command list" where
  "backup_commands =
     [([''backup'', ''list''], ArbitraryArgs, [], plain backupList),
      ([''backup'', ''create''], ArbitraryArgs, [(''vm-id'', VNum 0), (''vm-name'', VStr []), (''pool'', VStr [])], flagged backupCreate),
      ([''backup'', ''delete''], ArbitraryArgs, [(''id'', VStr [])], flagged backupDelete)]"

definition status_commands :: "'s command list" where
  "status_commands =
     [([''status''], ArbitraryArgs, [], plain systemStatus),
      ([''shell''], ArbitraryArgs, [], plain (\<lambda>env net. runShell env net (cl_input env)))]"

definition template_commands :: "'s command list" where
  "template_commands =
     [([''template'', ''list''], ArbitraryArgs, [], plain templateList),
      ([''template'', ''create''], ArbitraryArgs,
       [(''name'', VStr []), (''description'', VStr []), (''vcpus'', VNum 2), (''memory'', VNum 4096), (''disk'', VNum 50),
        (''backend'', VStr ''rustvmm''), (''os'', VStr ''linux'')], flagged templateCreate),
      ([''template'', ''delete''], ArbitraryArgs, [(''id'', VStr [])], flagged templateDelete),
      ([''template'', ''deploy''], ArbitraryArgs, [(''id'', VStr []), (''name'', VStr [])], flagged templateDeploy)]"

definition image_commands :: "'s command list" where
  "image_commands =
     [([''image'', ''list''], ArbitraryArgs, [], plain imageList),
      ([''image'', ''register''], ArbitraryArgs,
       [(''name'', VStr []), (''format'', VStr ''qcow2''), (''path'', VStr []), (''os'', VStr ''linux'')], flagged imageRegister),
      ([''image'', ''delete''], ArbitraryArgs, [(''id'', VStr [])], flagged imageDelete)]"

definition snapshot_commands :: "'s command list" where
  "snapshot_commands =
     [([''snapshot'', ''list''], ArbitraryArgs, [(''vm-id'', VNum 0)], flagged snapshotListCLI),
      ([''snapshot'', ''create''], ArbitraryArgs, [(''vm-id'', VNum 0), (''vm-name'', VStr [])], flagged snapshotCreateCLI),
      ([''snapshot'', ''delete''], ArbitraryArgs, [(''id'', VStr [])], flagged snapshotDeleteCLI),
      ([''snapshot'', ''restore''], ArbitraryArgs, [(''id'', VStr [])], flagged snapshotRestoreCLI)]"

definition login_commands :: "'s command list" where
  "login_commands = [([''login''], ArbitraryArgs, [(''user'', VStr []), (''password'', VStr [])], flagged loginRun)]"

definition container_commands :: "'s command list" where
  "container_commands =
     [([''container'', ''list''], ArbitraryArgs, [], plain containerList),
      ([''container'', ''create''], ArbitraryArgs,
       [(''name'', VStr []), (''template'', VStr ''ubuntu''), (''vcpus'', VNum 1), (''memory'', VNum 512)], flagged containerCreate),
      ([''container'', ''start''], ExactArgs 1, [], \<lambda>env net fs args. vmAction env net (hd args) ''start''),
      ([''container'', ''stop''], ExactArgs 1, [], \<lambda>env net fs args. vmAction env net (hd args) ''stop''),
      ([''container'', ''delete''], ExactArgs 1, [], \<lambda>env net fs args. containerDelete env net (hd args)),
      ([''container'', ''exec''], MinimumNArgs 1, [], \<lambda>env net fs args. containerExec env net args)]"

definition gendoc_commands :: "'s command list" where
  "gendoc_commands =
     [([''gendoc''], ArbitraryArgs, [(''type'', VStr ''man''), (''dir'', VStr [])], \<lambda>env net fs args st. (gendoc env fs, st))]"

definition hcvctl_commands :: "'s command list" where
  "hcvctl_commands =
     vm_commands @ node_commands @ storage_commands @ network_commands @ device_commands @ cluster_commands @ completion_commands
     @ backup_commands @ status_commands @ template_commands @ image_commands @ snapshot_commands @ login_commands @ container_commands
     @ gendoc_commands"

text \<open>The flags that were set take precedence over the defaults.\<close>

definition flag_values :: "(string \<times> fval) list \<Rightarrow> (string \<Rightarrow> fval option) \<Rightarrow> flagset" where
  "flag_values defaults given =
     (let value = (\<lambda>n. case given n of Some v \<Rightarrow> Some v | None \<Rightarrow> map_of defaults n) in
      \<lparr>fs_str = (\<lambda>n. case value n of Some (VStr s) \<Rightarrow> s | _ \<Rightarrow> []),
       fs_num = (\<lambda>n. case value n of Some (VNum i) \<Rightarrow> i | _ \<Rightarrow> 0)\<rparr>)"

definition run_command :: "'s command \<Rightarrow> cli_env \<Rightarrow> 's net \<Rightarrow> (string \<Rightarrow> fval option) \<Rightarrow> string list \<Rightarrow> 's cstate \<Rightarrow> outcome \<times> 's cstate" where
  "run_command cmd env net given args st =
     (case cmd of (words, argsOk, defaults, run) \<Rightarrow>
        if argsOk (length args) then run env net (flag_values defaults given) args st
        else (fail_with (cl_usage env words), st))"

definition hcvctl_main ::
  "cli_env \<Rightarrow> 's net \<Rightarrow> string list \<Rightarrow> (string \<Rightarrow> fval option) \<Rightarrow> string list \<Rightarrow> 's cstate \<Rightarrow> outcome \<times> 's cstate" where
  "hcvctl_main env net words given args st =
     (case map_of hcvctl_commands words of
        None \<Rightarrow> (fail_with (cl_usage env words), st)
      | Some c \<Rightarrow> run_command (words, c) env net given args st)"

section \<open>Accuracy of the sizes\<close>

lemma round_div_error:
  assumes "0 < d"
  shows "2 * \<bar>int n - int (round_div n d) * int d\<bar> \<le> int d"
proof -
  define q r where "q = n div d" and "r = n mod d"
  have n: "int n = int q * int d + int r" "r < d"
    using assms by (simp_all add: q_def r_def flip: of_nat_mult of_nat_add)
  show ?thesis
  proof (cases "d < 2 * r \<or> (2 * r = d \<and> odd q)")
    case True
    then have "round_div n d = q + 1" by (simp add: round_div_def q_def r_def Let_def)
    then have "int n - int (round_div n d) * int d = int r - int d" using n(1) by (simp add: algebra_simps)
    then show ?thesis using True n(2) by auto
  next
    case False
    then have "round_div n d = q" by (auto simp: round_div_def q_def r_def Let_def)
    then have "int n - int (round_div n d) * int d = int r" using n(1) by simp
    then show ?thesis using False by auto
  qed
qed

lemma bit_length_bound: "n < 2 ^ k \<Longrightarrow> bit_length n \<le> k"
proof (induction k arbitrary: n)
  case 0
  then show ?case by (simp add: bit_length.simps)
next
  case (Suc k)
  then have "n div 2 < 2 ^ k" by auto
  then have "bit_length (n div 2) \<le> k" by (rule Suc.IH)
  then show ?case by (subst bit_length.simps) simp
qed

lemma float64_error:
  assumes "n < 2 ^ 64"
  shows "\<bar>int n - int (float64 n)\<bar> \<le> (if n < 2 ^ 53 then 0 else 2 ^ 10)"
proof (cases "n < 2 ^ 53")
  case False
  define k where "k = bit_length n - 53"
  have "bit_length n \<le> 64" using assms by (rule bit_length_bound)
  then have "(2 :: int) ^ k \<le> 2 ^ 11" by (intro power_increasing) (simp_all add: k_def)
  moreover have "2 * \<bar>int n - int (round_div n (2 ^ k)) * int (2 ^ k)\<bar> \<le> int (2 ^ k)" by (rule round_div_error) simp
  ultimately show ?thesis using False by (simp add: float64_def k_def [symmetric] Let_def)
qed (simp add: float64_def)

lemma size_tenths_error:
  assumes "b < 2 ^ 64"
  shows "2 * \<bar>10 * int b - int (size_tenths b (2 ^ e)) * 2 ^ e\<bar> \<le> 2 ^ e + (if b < 2 ^ 53 then 0 else 20480)"
proof -
  define p where "p = int (size_tenths b (2 ^ e)) * 2 ^ e"
  have "2 * \<bar>10 * int (float64 b) - p\<bar> \<le> 2 ^ e"
    using round_div_error [of "2 ^ e" "10 * float64 b"] by (simp add: size_tenths_def p_def)
  moreover have "\<bar>10 * int b - p\<bar> \<le> \<bar>10 * int (float64 b) - p\<bar> + 10 * \<bar>int b - int (float64 b)\<bar>"
    using abs_triangle_ineq [of "10 * int (float64 b) - p" "10 * (int b - int (float64 b))"] unfolding abs_mult by simp
  ultimately show ?thesis using float64_error [OF assms] unfolding p_def [symmetric] by (simp split: if_splits)
qed

text \<open>The size printed for a 64-bit number of bytes is right to the digit that is shown: below 1024 it is the number
  itself, and otherwise the number of tenths is that of the largest unit that is not larger than the size,
  off by at most half a tenth; the conversion to floating point adds at most 1024 bytes, and only from
  $2^{53}$ bytes on.\<close>

theorem formatBytes_accurate:
  assumes "b < 2 ^ 64"
  shows "if b < 1024 then formatBytes b = show_nat b @ ''B''
    else \<exists>e u t. (e, u) \<in> {(10, ''KB''), (20, ''MB''), (30, ''GB''), (40, ''TB'')} \<and> formatBytes b = show_nat (t div 10) @ ''.'' @ show_nat (t mod 10) @ u
      \<and> 2 ^ e \<le> b \<and> (b < 2 ^ (e + 10) \<or> e = 40)
      \<and> 2 * \<bar>10 * int b - int t * 2 ^ e\<bar> \<le> 2 ^ e + (if b < 2 ^ 53 then 0 else 20480)"
proof (cases "b < 1024")
  case False
  note err = size_tenths_error [OF assms]
  consider (KB) "b < 1024 * 1024" | (MB) "1024 * 1024 \<le> b" "b < 1024 * 1024 * 1024" | (GB) "1024 * 1024 * 1024 \<le> b" "b < 1024 * 1024 * 1024 * 1024"
    | (TB) "1024 * 1024 * 1024 * 1024 \<le> b" by linarith
  then show ?thesis
  proof cases
    case KB
    then have "formatBytes b = show_tenths (size_tenths b (2 ^ 10)) @ ''KB''" using False by (simp add: formatBytes_def Let_def)
    then show ?thesis using KB False err [of 10]
      by (simp only: if_False, intro exI [of _ 10] exI [of _ "''KB''"] exI [of _ "size_tenths b (2 ^ 10)"]) (simp add: show_tenths_def)
  next
    case MB
    then have "formatBytes b = show_tenths (size_tenths b (2 ^ 20)) @ ''MB''" using False by (simp add: formatBytes_def Let_def)
    then show ?thesis using MB False err [of 20]
      by (simp only: if_False, intro exI [of _ 20] exI [of _ "''MB''"] exI [of _ "size_tenths b (2 ^ 20)"]) (simp add: show_tenths_def)
  next
    case GB
    then have "formatBytes b = show_tenths (size_tenths b (2 ^ 30)) @ ''GB''" using False by (simp add: formatBytes_def Let_def)
    then show ?thesis using GB False err [of 30]
      by (simp only: if_False, intro exI [of _ 30] exI [of _ "''GB''"] exI [of _ "size_tenths b (2 ^ 30)"]) (simp add: show_tenths_def)
  next
    case TB
    then have "formatBytes b = show_tenths (size_tenths b (2 ^ 40)) @ ''TB''" using False by (simp add: formatBytes_def Let_def)
    then show ?thesis using TB False err [of 40]
      by (simp only: if_False, intro exI [of _ 40] exI [of _ "''TB''"] exI [of _ "size_tenths b (2 ^ 40)"]) (simp add: show_tenths_def)
  qed
qed (simp add: formatBytes_def)

theorem formatBytes_accurate_witness:
  "\<exists>t. formatBytes 1572864 = show_nat (t div 10) @ ''.'' @ show_nat (t mod 10) @ ''MB'' \<and> 2 * \<bar>15728640 - int t * 1048576\<bar> \<le> 1048576"
  using formatBytes_accurate [of 1572864] by (auto simp: formatBytes_def Let_def show_tenths_def)

end
