(* ===== verification/Mux.thy ===== *)
theory Mux
  imports Prelude
begin

text \<open>
  The request multiplexer of \<^verbatim>\<open>net/http\<close> that \<^verbatim>\<open>NewRouter\<close> registers its handlers with, as
  far as the patterns of the controller use it: a method, literal segments and one-segment wildcards.
  The lookup follows the library's tree: at each segment the literal child is tried before the
  wildcard one, with backtracking.  It is proved to find the most specific pattern that matches, which is what
  the library documents.
\<close>

section \<open>Patterns\<close>

datatype seg =
    Lit string
  | Wild string

definition path_segs :: "string \<Rightarrow> string list" where
  "path_segs path = tl (split_char (CHR ''/'') path)"

definition parse_seg :: "string \<Rightarrow> seg" where
  "parse_seg s = (if s \<noteq> [] \<and> hd s = CHR ''{'' then Wild (butlast (tl s)) else Lit s)"

text \<open>\<open>GET /a/{id}\<close> is the method \<open>GET\<close> with the segments \<open>a\<close> and \<open>{id}\<close>.\<close>

definition parse_pattern :: "string \<Rightarrow> string \<times> seg list" where
  "parse_pattern p =
     (takeWhile (\<lambda>c. c \<noteq> CHR '' '') p, map parse_seg (path_segs (tl (dropWhile (\<lambda>c. c \<noteq> CHR '' '') p))))"

fun seg_matches :: "seg \<Rightarrow> string \<Rightarrow> bool" where
  "seg_matches (Lit l) s = (l = s)"
| "seg_matches (Wild w) s = (s \<noteq> [])"

definition matches :: "seg list \<Rightarrow> string list \<Rightarrow> bool" where
  "matches gs ss = list_all2 seg_matches gs ss"

fun path_value :: "seg list \<Rightarrow> string list \<Rightarrow> string \<Rightarrow> string" where
  "path_value (Wild w # gs) (s # ss) name = (if w = name then s else path_value gs ss name)"
| "path_value (Lit l # gs) (s # ss) name = path_value gs ss name"
| "path_value _ _ name = []"

section \<open>Lookup\<close>

definition lit_child :: "string \<Rightarrow> (seg list \<times> 'h) list \<Rightarrow> (seg list \<times> 'h) list" where
  "lit_child s rs = List.map_filter (\<lambda>(gs, h). case gs of Lit l # gs' \<Rightarrow> if l = s then Some (gs', h) else None | _ \<Rightarrow> None) rs"

definition wild_child :: "(seg list \<times> 'h) list \<Rightarrow> (seg list \<times> 'h) list" where
  "wild_child rs = List.map_filter (\<lambda>(gs, h). case gs of Wild w # gs' \<Rightarrow> Some (gs', h) | _ \<Rightarrow> None) rs"

fun match_path :: "(seg list \<times> 'h) list \<Rightarrow> string list \<Rightarrow> 'h option" where
  "match_path rs [] = map_option snd (find (\<lambda>(gs, h). gs = []) rs)"
| "match_path rs (s # ss) =
     (case match_path (lit_child s rs) ss of
        Some h \<Rightarrow> Some h
      | None \<Rightarrow> if s = [] then None else match_path (wild_child rs) ss)"

type_synonym 'h routes = "(string \<times> 'h) list"

definition method_child :: "string \<Rightarrow> 'h routes \<Rightarrow> (seg list \<times> seg list \<times> 'h) list" where
  "method_child m rs =
     List.map_filter (\<lambda>(p, h). case parse_pattern p of (m', gs) \<Rightarrow> if m' = m then Some (gs, gs, h) else None) rs"

definition mux_match :: "'h routes \<Rightarrow> string \<Rightarrow> string \<Rightarrow> (seg list \<times> 'h) option" where
  "mux_match rs method path =
     (case match_path (method_child method rs) (path_segs path) of
        Some m \<Rightarrow> Some m
      | None \<Rightarrow> if method = ''HEAD'' then match_path (method_child ''GET'' rs) (path_segs path) else None)"

definition path_matches_some :: "'h routes \<Rightarrow> string \<Rightarrow> bool" where
  "path_matches_some rs path = list_ex (\<lambda>(p, h). matches (snd (parse_pattern p)) (path_segs path)) rs"

section \<open>Specificity\<close>

text \<open>Two patterns overlap when some path matches both; the library refuses to register two patterns of a
  method that overlap unless one of them is the more specific one.\<close>

fun seg_overlap :: "seg \<Rightarrow> seg \<Rightarrow> bool" where
  "seg_overlap (Lit a) (Lit b) = (a = b)"
| "seg_overlap (Lit a) (Wild w) = (a \<noteq> [])"
| "seg_overlap (Wild w) (Lit b) = (b \<noteq> [])"
| "seg_overlap (Wild v) (Wild w) = True"

fun seg_within :: "seg \<Rightarrow> seg \<Rightarrow> bool" where
  "seg_within (Lit a) (Lit b) = (a = b)"
| "seg_within (Lit a) (Wild w) = (a \<noteq> [])"
| "seg_within (Wild v) (Lit b) = False"
| "seg_within (Wild v) (Wild w) = True"

definition pat_within :: "seg list \<Rightarrow> seg list \<Rightarrow> bool" where
  "pat_within gs gs' = list_all2 seg_within gs gs'"

definition conflict_free2 :: "seg list \<Rightarrow> seg list \<Rightarrow> bool" where
  "conflict_free2 gs gs' \<longleftrightarrow> (list_all2 seg_overlap gs gs' \<longrightarrow> pat_within gs gs' \<noteq> pat_within gs' gs)"

fun conflict_free :: "(seg list \<times> 'h) list \<Rightarrow> bool" where
  "conflict_free [] = True"
| "conflict_free ((gs, h) # rs) = (list_all (\<lambda>(gs', h'). conflict_free2 gs gs') rs \<and> conflict_free rs)"

definition mux_ok :: "'h routes \<Rightarrow> bool" where
  "mux_ok rs = list_all (\<lambda>m. conflict_free (method_child m rs)) (remdups (map (\<lambda>(p, h). fst (parse_pattern p)) rs))"

lemma seg_within_overlap: "seg_within g g' \<Longrightarrow> seg_overlap g g'"
  by (cases g; cases g') auto

lemma seg_matches_overlap: "seg_matches g s \<Longrightarrow> seg_matches g' s \<Longrightarrow> seg_overlap g g'"
  by (cases g; cases g') auto

lemma within_matches: "pat_within gs gs' \<Longrightarrow> matches gs ss \<Longrightarrow> matches gs' ss"
proof (unfold pat_within_def matches_def, induction gs gs' arbitrary: ss rule: list_all2_induct)
  case (Cons g gs g' gs')
  then obtain s ss' where ss: "ss = s # ss'" "seg_matches g s" "list_all2 seg_matches gs ss'"
    by (auto simp: list_all2_Cons1)
  then have "seg_matches g' s" using Cons.hyps(1) by (cases g; cases g') auto
  then show ?case using Cons.IH ss by simp
qed simp

lemma matches_overlap: "matches gs ss \<Longrightarrow> matches gs' ss \<Longrightarrow> list_all2 seg_overlap gs gs'"
  using seg_matches_overlap by (auto simp: matches_def list_all2_conv_all_nth)

section \<open>The lookup finds the most specific pattern\<close>

lemma in_lit_child: "(gs, h) \<in> set (lit_child s rs) \<longleftrightarrow> (Lit s # gs, h) \<in> set rs"
  by (force simp: lit_child_def List.map_filter_def split: list.splits seg.splits if_splits)

lemma in_wild_child: "(gs, h) \<in> set (wild_child rs) \<longleftrightarrow> (\<exists>w. (Wild w # gs, h) \<in> set rs)"
  by (force simp: wild_child_def List.map_filter_def split: list.splits seg.splits if_splits)

lemma match_path_sound: "match_path rs ss = Some h \<Longrightarrow> \<exists>gs. (gs, h) \<in> set rs \<and> matches gs ss"
proof (induction rs ss rule: match_path.induct)
  case (1 rs)
  then show ?case by (auto simp: find_Some_iff matches_def) (metis nth_mem)
next
  case (2 rs s ss)
  show ?case
  proof (cases "match_path (lit_child s rs) ss")
    case None
    then have "s \<noteq> []" "match_path (wild_child rs) ss = Some h" using 2(3) by (auto split: if_splits)
    then show ?thesis using 2(2) [OF None] by (force simp: in_wild_child matches_def)
  next
    case (Some h')
    then show ?thesis using 2(1,3) by (force simp: in_lit_child matches_def)
  qed
qed

text \<open>At each segment a pattern with the literal goes before one with a wildcard.\<close>

fun before :: "seg list \<Rightarrow> seg list \<Rightarrow> bool" where
  "before (Lit a # gs) (Lit b # gs') = before gs gs'"
| "before (Wild v # gs) (Wild w # gs') = before gs gs'"
| "before (Lit a # gs) (Wild w # gs') = True"
| "before (Wild v # gs) (Lit b # gs') = False"
| "before gs gs' = True"

lemma match_path_first:
  "(gs, h) \<in> set rs \<Longrightarrow> matches gs ss \<Longrightarrow>
     \<exists>gs' h'. match_path rs ss = Some h' \<and> (gs', h') \<in> set rs \<and> matches gs' ss \<and> before gs' gs"
proof (induction rs ss arbitrary: gs rule: match_path.induct)
  case (1 rs)
  then have g: "gs = []" by (simp add: matches_def)
  have "find (\<lambda>(gs, h). gs = []) rs \<noteq> None" using 1(1) g by (auto simp: find_None_iff)
  then obtain p where p: "find (\<lambda>(gs, h). gs = []) rs = Some p" by auto
  then have "p \<in> set rs" "fst p = []" by (auto simp: find_Some_iff) (metis nth_mem)
  then have "([], snd p) \<in> set rs" by (metis prod.collapse)
  then show ?case using p g by (auto simp: matches_def)
next
  case (2 rs s ss)
  show ?case
  proof (cases "match_path (lit_child s rs) ss")
    case (Some h')
    then obtain gs' where gs': "(Lit s # gs', h') \<in> set rs" "matches gs' ss"
      using match_path_sound by (fastforce simp: in_lit_child)
    show ?thesis
    proof (cases gs)
      case (Cons g gt)
      show ?thesis
      proof (cases g)
        case (Lit l)
        then have "(gt, h) \<in> set (lit_child s rs)" "matches gt ss"
          using 2(3,4) Cons by (auto simp: in_lit_child matches_def)
        then obtain gs2 h2 where "match_path (lit_child s rs) ss = Some h2" "(gs2, h2) \<in> set (lit_child s rs)"
          "matches gs2 ss" "before gs2 gt" using 2(1) by blast
        then show ?thesis using Cons Lit by (force simp: in_lit_child matches_def)
      next
        case (Wild w)
        then show ?thesis using Some gs' Cons by (force simp: matches_def)
      qed
    next
      case Nil
      then show ?thesis using 2(4) by (simp add: matches_def)
    qed
  next
    case None
    obtain g gt where gs: "gs = g # gt" "seg_matches g s" "matches gt ss"
      using 2(4) by (auto simp: matches_def list_all2_Cons2)
    have "\<exists>w. g = Wild w"
    proof (cases g)
      case (Lit l)
      then have "(gt, h) \<in> set (lit_child s rs)" using 2(3) gs by (auto simp: in_lit_child)
      then show ?thesis using 2(1) gs(3) None by fastforce
    qed simp
    then obtain w where w: "g = Wild w" ..
    then have "s \<noteq> []" "(gt, h) \<in> set (wild_child rs)" using gs 2(3) by (auto simp: in_wild_child)
    then obtain gs2 h2 where "match_path (wild_child rs) ss = Some h2" "(gs2, h2) \<in> set (wild_child rs)"
      "matches gs2 ss" "before gs2 gt" using 2(2) [OF None] gs(3) by blast
    then show ?thesis using None \<open>s \<noteq> []\<close> gs(1) w by (force simp: in_wild_child matches_def)
  qed
qed

lemma before_within: "before gs gs' \<Longrightarrow> pat_within gs' gs \<Longrightarrow> pat_within gs gs'"
  by (induction gs gs' rule: before.induct) (auto simp: pat_within_def)

lemma conflict_freeD:
  assumes "conflict_free rs" "(gs, h) \<in> set rs" "(gs', h') \<in> set rs" "(gs, h) \<noteq> (gs', h')"
  shows "conflict_free2 gs gs'"
  using assms
proof (induction rs rule: conflict_free.induct)
  case (2 gs0 h0 rs)
  have sym: "conflict_free2 a b \<Longrightarrow> conflict_free2 b a" for a b
  proof -
    have "seg_overlap x y = seg_overlap y x" for x y by (cases x; cases y) auto
    then have "list_all2 seg_overlap a b = list_all2 seg_overlap b a" by (auto simp: list_all2_conv_all_nth)
    then show "conflict_free2 a b \<Longrightarrow> conflict_free2 b a" by (auto simp: conflict_free2_def)
  qed
  show ?case using 2 sym by (auto simp: list_all_iff)
qed simp

lemma match_path_best:
  assumes "conflict_free rs" "(gs, h) \<in> set rs" "matches gs ss"
  shows "\<exists>gs' h'. match_path rs ss = Some h' \<and> (gs', h') \<in> set rs \<and> matches gs' ss \<and> pat_within gs' gs"
proof -
  obtain gs' h' where m: "match_path rs ss = Some h'" "(gs', h') \<in> set rs" "matches gs' ss" "before gs' gs"
    using match_path_first [OF assms(2,3)] by blast
  have "pat_within gs' gs"
  proof (cases "(gs', h') = (gs, h)")
    case True
    have "seg_within g g" for g by (cases g) auto
    then show ?thesis using True by (auto simp: pat_within_def list_all2_conv_all_nth)
  next
    case False
    then show ?thesis
      using conflict_freeD [OF assms(1) m(2) assms(2)] matches_overlap [OF m(3) assms(3)] before_within [OF m(4)]
      by (auto simp: conflict_free2_def)
  qed
  then show ?thesis using m by blast
qed

lemma in_map_filter: "y \<in> set (List.map_filter f xs) \<longleftrightarrow> (\<exists>x \<in> set xs. f x = Some y)"
  by (force simp: List.map_filter_def)

lemma in_method_child: "(gs, k, h) \<in> set (method_child m rs) \<longleftrightarrow> k = gs \<and> (\<exists>p. (p, h) \<in> set rs \<and> parse_pattern p = (m, gs))"
proof -
  have "(case x of (p, h) \<Rightarrow> case parse_pattern p of (m', gs) \<Rightarrow> if m' = m then Some (gs, gs, h) else None) = Some (gs, k, h)
    \<longleftrightarrow> k = gs \<and> snd x = h \<and> parse_pattern (fst x) = (m, gs)" for x
    by (cases x; cases "parse_pattern (fst x)") auto
  then show ?thesis unfolding method_child_def in_map_filter by force
qed

lemma mux_ok_method: "mux_ok rs \<Longrightarrow> conflict_free (method_child m rs)"
proof (cases "m \<in> set (map (\<lambda>(p, h). fst (parse_pattern p)) rs)")
  case False
  then have "method_child m rs = []" by (force simp: method_child_def List.map_filter_def filter_empty_conv split: prod.splits)
  then show ?thesis by simp
qed (auto simp: mux_ok_def list_all_iff)

text \<open>With a table the library accepts, the lookup answers with the handler of the most specific
  pattern, and with none exactly when no pattern of the method matches.\<close>

lemma mux_match_best:
  assumes "mux_ok rs" "(p, h) \<in> set rs" "parse_pattern p = (m, gs)" "matches gs (path_segs path)"
  shows "\<exists>p' gs' h'. mux_match rs m path = Some (gs', h') \<and> (p', h') \<in> set rs \<and> parse_pattern p' = (m, gs')
    \<and> matches gs' (path_segs path) \<and> pat_within gs' gs"
proof -
  have "(gs, gs, h) \<in> set (method_child m rs)" using assms(2,3) by (auto simp: in_method_child)
  from match_path_best [OF mux_ok_method [OF assms(1)] this assms(4)]
  show ?thesis by (force simp: mux_match_def in_method_child)
qed

lemma mux_match_sound:
  assumes "mux_match rs m path = Some (gs, h)"
  shows "\<exists>p m'. (p, h) \<in> set rs \<and> parse_pattern p = (m', gs) \<and> matches gs (path_segs path) \<and> (m' = m \<or> m = ''HEAD'' \<and> m' = ''GET'')"
proof -
  consider "match_path (method_child m rs) (path_segs path) = Some (gs, h)"
    | "m = ''HEAD''" "match_path (method_child ''GET'' rs) (path_segs path) = Some (gs, h)"
    using assms by (auto simp: mux_match_def split: option.splits if_splits)
  then show ?thesis by cases (force dest!: match_path_sound simp: in_method_child)+
qed

end
