(* ===== verification/Rate_Limit.thy ===== *)
theory Rate_Limit
  imports Api_Base Complex_Main "HOL-Library.Log_Nat"
begin

text \<open>
  The token bucket of \<^verbatim>\<open>internal/api/ratelimit.go\<close>, with its 64-bit floating point numbers: a number is its rational
  value, and every operation is the exact one followed by rounding to 53 significant bits, to even on a tie.  Overflow
  and subnormal numbers do not occur: the values are tokens and seconds, and the smallest step of the clock is a
  nanosecond.
\<close>

section \<open>Rounding\<close>

definition round_even :: "rat \<Rightarrow> int" where
  "round_even x = (let f = \<lfloor>x\<rfloor>; r = x - of_int f in if 1 / 2 < r \<or> (r = 1 / 2 \<and> odd f) then f + 1 else f)"

text \<open>The exponent of the leading bit of a positive number.\<close>

definition exponent :: "rat \<Rightarrow> int" where
  "exponent x =
     (case quotient_of x of
        (p, q) \<Rightarrow> let e = int (floorlog 2 (nat p)) - int (floorlog 2 (nat q)) - 1
                  in if 2 powi (e + 1) \<le> x then e + 1 else e)"

definition rne :: "rat \<Rightarrow> rat" where
  "rne x =
     (if x = 0 then 0
      else let unit = 2 powi (exponent \<bar>x\<bar> - 52) in sgn x * of_int (round_even (\<bar>x\<bar> / unit)) * unit)"

lemma round_even_error: "\<bar>of_int (round_even x) - x\<bar> \<le> 1 / 2"
proof -
  have "of_int \<lfloor>x\<rfloor> \<le> x" "x < of_int \<lfloor>x\<rfloor> + 1" using floor_correct [of x] by simp_all
  then show ?thesis by (auto simp: round_even_def Let_def)
qed

lemma exponent_le:
  assumes "0 < x"
  shows "2 powi exponent x \<le> x"
proof -
  obtain p q where pq: "quotient_of x = (p, q)" by (cases "quotient_of x")
  have q: "0 < q" using quotient_of_denom_pos [OF pq] .
  have x: "x = of_int p / of_int q" using quotient_of_div [OF pq] .
  have p: "0 < p" using assms q x by (simp add: zero_less_divide_iff)
  define a b where "a = floorlog 2 (nat p)" and "b = floorlog 2 (nat q)"
  have a: "0 < a" using p by (simp add: a_def floorlog_def)
  have "2 ^ (a - 1) \<le> nat p" "nat q < 2 ^ b" using floorlog_bounds [of "nat p" 2] floorlog_bounds [of "nat q" 2] p q by (simp_all add: a_def b_def)
  then have "2 ^ (a - 1) \<le> p" "q \<le> 2 ^ b" using p q by (simp_all add: nat_less_iff le_nat_iff)
  then have "(2::rat) ^ (a - 1) \<le> of_int p" "of_int q \<le> (2::rat) ^ b"
    by (metis of_int_le_iff of_int_numeral of_int_power)+
  then have "2 ^ (a - 1) / 2 ^ b \<le> x" unfolding x using p q by (intro frac_le) simp_all
  moreover have "2 powi (int a - int b - 1) = (2::rat) ^ (a - 1) / 2 ^ b"
    using a by (simp add: power_int_diff power_diff)
  ultimately show ?thesis by (simp add: exponent_def pq Let_def a_def [symmetric] b_def [symmetric])
qed

definition roundoff :: rat where
  "roundoff = 1 / 2 ^ 53"

lemma rne_error: "\<bar>rne x - x\<bar> \<le> \<bar>x\<bar> * roundoff"
proof (cases "x = 0")
  case False
  define unit where "unit = (2::rat) powi (exponent \<bar>x\<bar> - 52)"
  have u: "0 < unit" by (simp add: unit_def)
  have "rne x - x = sgn x * ((of_int (round_even (\<bar>x\<bar> / unit)) - \<bar>x\<bar> / unit) * unit)"
    using False u by (simp add: rne_def Let_def unit_def [symmetric] algebra_simps) (simp add: abs_mult_sgn)
  then have "\<bar>rne x - x\<bar> = \<bar>of_int (round_even (\<bar>x\<bar> / unit)) - \<bar>x\<bar> / unit\<bar> * unit"
    using False u by (simp add: abs_mult abs_sgn_eq)
  also have "\<dots> \<le> 1 / 2 * unit" using round_even_error u by (intro mult_right_mono) simp_all
  also have "\<dots> = 2 powi exponent \<bar>x\<bar> * roundoff"
    by (simp add: unit_def roundoff_def power_int_diff)
  also have "\<dots> \<le> \<bar>x\<bar> * roundoff" using exponent_le [of "\<bar>x\<bar>"] False by (simp add: roundoff_def)
  finally show ?thesis .
qed (simp add: rne_def)

lemma rne_bounds:
  assumes "0 \<le> x"
  shows "rne x \<le> x * (1 + roundoff)" "x * (1 - roundoff) \<le> rne x" "0 \<le> rne x"
proof -
  have *: "rne x - x \<le> x * roundoff" "x - rne x \<le> x * roundoff" using rne_error [of x] assms by (simp_all add: abs_le_iff)
  then show "rne x \<le> x * (1 + roundoff)" "x * (1 - roundoff) \<le> rne x" by (simp_all add: algebra_simps)
  moreover have "0 \<le> x * (1 - roundoff)" using assms by (simp add: roundoff_def)
  ultimately show "0 \<le> rne x" by linarith
qed

section \<open>The token bucket\<close>

record RateLimiter =
  rl_tokens :: rat
  rl_maxTokens :: rat
  rl_refillRate :: rat
  rl_lastRefill :: gotime

definition NewRateLimiter :: "gotime \<Rightarrow> rat \<Rightarrow> int \<Rightarrow> RateLimiter" where
  "NewRateLimiter now rate burst =
     \<lparr>rl_tokens = rne (of_int burst), rl_maxTokens = rne (of_int burst), rl_refillRate = rate, rl_lastRefill = now\<rparr>"

text \<open>\<open>Seconds\<close> of package \<^verbatim>\<open>time\<close>; the clock does not go back, so the duration is not negative.\<close>

definition Seconds :: "duration \<Rightarrow> rat" where
  "Seconds d = rne (rne (of_int (d div 1000000000)) + rne (of_int (d mod 1000000000) / 1000000000))"

definition Allow :: "gotime \<Rightarrow> RateLimiter \<Rightarrow> bool \<times> RateLimiter" where
  "Allow now rl =
     (let elapsed = Seconds (now - rl_lastRefill rl);
          filled = rne (rl_tokens rl + rne (elapsed * rl_refillRate rl));
          tokens = (if filled > rl_maxTokens rl then rl_maxTokens rl else filled);
          rl' = rl\<lparr>rl_lastRefill := now, rl_tokens := tokens\<rparr>
      in if tokens < 1 then (False, rl') else (True, rl'\<lparr>rl_tokens := rne (tokens - 1)\<rparr>))"

definition Remaining :: "RateLimiter \<Rightarrow> int" where
  "Remaining rl = \<lfloor>rl_tokens rl\<rfloor>"

definition RateLimitMiddleware :: "gotime \<Rightarrow> string \<Rightarrow> RateLimiter \<Rightarrow> ((string \<times> string) list \<times> response option) \<times> RateLimiter" where
  "RateLimitMiddleware now path rl =
     (if path = ''/healthz'' \<or> path = ''/metrics'' then (([], None), rl)
      else
        let hs = [(''X-RateLimit-Limit'', show_int \<lfloor>rl_maxTokens rl\<rfloor>), (''X-RateLimit-Remaining'', show_int (Remaining rl))] in
        (case Allow now rl of
           (True, rl') \<Rightarrow> ((hs, None), rl')
         | (False, rl') \<Rightarrow>
             ((hs @ [(''Retry-After'', ''1'')], Some (writeError 429 ErrCodeTooManyRequests ''rate limit exceeded'')), rl')))"

fun allow_all :: "gotime list \<Rightarrow> RateLimiter \<Rightarrow> bool list \<times> RateLimiter" where
  "allow_all [] rl = ([], rl)"
| "allow_all (now # ts) rl = (case Allow now rl of (a, rl') \<Rightarrow> (case allow_all ts rl' of (as, rl'') \<Rightarrow> (a # as, rl'')))"

section \<open>How much is admitted\<close>

definition rl_ok :: "rat \<Rightarrow> rat \<Rightarrow> RateLimiter \<Rightarrow> bool" where
  "rl_ok r b rl \<longleftrightarrow> 0 \<le> rl_tokens rl \<and> rl_tokens rl \<le> b \<and> rl_maxTokens rl = b \<and> rl_refillRate rl = r \<and> b \<le> 2 ^ 53 \<and> 0 \<le> r"

lemma Seconds_bounds:
  assumes "0 \<le> d"
  shows "Seconds d \<le> of_int d / 1000000000 * (1 + roundoff) ^ 2" "of_int d / 1000000000 * (1 - roundoff) ^ 2 \<le> Seconds d" "0 \<le> Seconds d"
proof -
  define s n where "s = (of_int (d div 1000000000) :: rat)" and "n = (of_int (d mod 1000000000) / 1000000000 :: rat)"
  have sn: "s + n = of_int d / 1000000000"
  proof -
    have "(of_int (d div 1000000000) * 1000000000 + of_int (d mod 1000000000) :: rat) = of_int (d div 1000000000 * 1000000000 + d mod 1000000000)"
      by (simp only: of_int_add of_int_mult of_int_numeral)
    also have "\<dots> = of_int d" by (simp only: div_mult_mod_eq)
    finally show ?thesis by (simp add: s_def n_def)
  qed
  have pos: "0 \<le> s" "0 \<le> n" using assms by (simp_all add: s_def n_def)
  have m: "0 \<le> rne s + rne n" using rne_bounds(3) pos by simp
  have up: "rne s + rne n \<le> (s + n) * (1 + roundoff)" and lo: "(s + n) * (1 - roundoff) \<le> rne s + rne n"
    using rne_bounds [OF pos(1)] rne_bounds [OF pos(2)] by (simp_all add: distrib_right)
  have e: "Seconds d = rne (rne s + rne n)" by (simp add: Seconds_def s_def n_def)
  have "Seconds d \<le> (rne s + rne n) * (1 + roundoff)" unfolding e by (rule rne_bounds(1) [OF m])
  also have "\<dots> \<le> (s + n) * (1 + roundoff) * (1 + roundoff)" using up by (intro mult_right_mono) (simp_all add: roundoff_def)
  finally show "Seconds d \<le> of_int d / 1000000000 * (1 + roundoff) ^ 2" by (simp add: sn power2_eq_square mult.assoc)
  have "(s + n) * (1 - roundoff) * (1 - roundoff) \<le> (rne s + rne n) * (1 - roundoff)"
    using lo by (intro mult_right_mono) (simp_all add: roundoff_def)
  also have "\<dots> \<le> Seconds d" unfolding e by (rule rne_bounds(2) [OF m])
  finally show "of_int d / 1000000000 * (1 - roundoff) ^ 2 \<le> Seconds d" by (simp add: sn power2_eq_square mult.assoc)
  show "0 \<le> Seconds d" unfolding e by (rule rne_bounds(3) [OF m])
qed

text \<open>One call: the tokens stay between 0 and the burst, and what is taken is paid for by the refill, up to the rounding.\<close>

lemma Allow_step:
  assumes ok: "rl_ok r b rl" and t: "rl_lastRefill rl \<le> now" and c: "Allow now rl = (a, rl')"
  shows "rl_ok r b rl' \<and> rl_lastRefill rl' = now
    \<and> rl_tokens rl' + of_bool a \<le> rl_tokens rl + of_int (now - rl_lastRefill rl) / 1000000000 * r * (1 + roundoff) ^ 4 + 2 * b * roundoff"
proof -
  define u d where "u = roundoff" and "d = (of_int (now - rl_lastRefill rl) / 1000000000 :: rat)"
  define p where "p = rne (Seconds (now - rl_lastRefill rl) * r)"
  define f where "f = rne (rl_tokens rl + p)"
  define k where "k = (if f > b then b else f)"
  have u: "0 \<le> u" "u \<le> 1 / 2 ^ 53" by (simp_all add: u_def roundoff_def)
  have r: "0 \<le> r" "b \<le> 2 ^ 53" "0 \<le> rl_tokens rl" "rl_tokens rl \<le> b" using ok by (simp_all add: rl_ok_def)
  have s: "0 \<le> Seconds (now - rl_lastRefill rl)" "Seconds (now - rl_lastRefill rl) \<le> d * (1 + u) ^ 2"
    using Seconds_bounds [of "now - rl_lastRefill rl"] t by (simp_all add: d_def u_def)
  have p: "0 \<le> p" "p \<le> Seconds (now - rl_lastRefill rl) * r * (1 + u)"
    using rne_bounds [of "Seconds (now - rl_lastRefill rl) * r"] s(1) r(1) by (simp_all add: p_def u_def)
  have "p \<le> d * (1 + u) ^ 2 * r * (1 + u)"
    by (rule order_trans [OF p(2)]) (intro mult_right_mono s(2); use r(1) u in simp)
  then have "p * (1 + u) \<le> d * (1 + u) ^ 2 * r * (1 + u) * (1 + u)" using u by (intro mult_right_mono) simp_all
  then have pu: "p * (1 + u) \<le> d * r * (1 + u) ^ 4" by (simp add: power4_eq_xxxx power2_eq_square mult.assoc mult.left_commute)
  have f: "0 \<le> f" "f \<le> (rl_tokens rl + p) * (1 + u)" using rne_bounds [of "rl_tokens rl + p"] r(3) p(1) by (simp_all add: f_def u_def)
  have "rl_tokens rl * u \<le> b * u" using r(4) u(1) by (rule mult_right_mono)
  then have k: "0 \<le> k" "k \<le> b" "k \<le> rl_tokens rl + d * r * (1 + u) ^ 4 + b * u"
    using f pu r by (auto simp: k_def algebra_simps)
  have A: "Allow now rl = (if k < 1 then (False, rl\<lparr>rl_lastRefill := now, rl_tokens := k\<rparr>)
      else (True, rl\<lparr>rl_lastRefill := now, rl_tokens := rne (k - 1)\<rparr>))"
    using ok by (simp add: Allow_def Let_def k_def f_def p_def rl_ok_def)
  show ?thesis
  proof (cases "k < 1")
    case True
    moreover have "0 \<le> b * u" using r u by simp
    ultimately show ?thesis using A c ok k by (auto simp: rl_ok_def d_def u_def)
  next
    case False
    have n: "0 \<le> rne (k - 1)" "rne (k - 1) \<le> (k - 1) * (1 + u)" using rne_bounds [of "k - 1"] False by (simp_all add: u_def)
    have ku: "(k - 1) * u \<le> b * u" using k(2) u(1) by (intro mult_right_mono) simp_all
    have "b * u \<le> 2 ^ 53 * (1 / 2 ^ 53)" using r u by (intro mult_mono) simp_all
    then have "rne (k - 1) \<le> k" using n(2) ku by (simp add: algebra_simps)
    then have "rl_ok r b rl'" "rl_lastRefill rl' = now" "a" "rl_tokens rl' = rne (k - 1)" using A c ok k n False by (auto simp: rl_ok_def)
    moreover have "rne (k - 1) + 1 \<le> k + b * u" using n(2) ku by (simp add: algebra_simps)
    ultimately show ?thesis using k(3) by (simp add: d_def u_def)
  qed
qed

lemma allow_all_bound:
  assumes "rl_ok r b rl" "sorted (rl_lastRefill rl # ts)" "allow_all ts rl = (as, rl')"
  shows "rl_ok r b rl' \<and> rl_lastRefill rl' = last (rl_lastRefill rl # ts)
    \<and> rl_tokens rl' + of_nat (length (filter id as))
      \<le> rl_tokens rl + of_int (rl_lastRefill rl' - rl_lastRefill rl) / 1000000000 * r * (1 + roundoff) ^ 4 + of_nat (length ts) * (2 * b * roundoff)"
  using assms
proof (induction ts arbitrary: rl as)
  case (Cons now ts)
  obtain a rl1 where s: "Allow now rl = (a, rl1)" by (cases "Allow now rl")
  obtain as1 where as1: "allow_all ts rl1 = (as1, rl')" "as = a # as1" using Cons.prems(3) s by (auto split: prod.splits)
  note step = Allow_step [OF Cons.prems(1) _ s]
  have ok: "rl_ok r b rl1" and last1: "rl_lastRefill rl1 = now" using step Cons.prems(2) by simp_all
  have "sorted (rl_lastRefill rl1 # ts)" using Cons.prems(2) last1 by simp
  note IH = Cons.IH [OF ok this as1(1)]
  have split: "of_int (rl_lastRefill rl' - rl_lastRefill rl) / 1000000000 * r * (1 + roundoff) ^ 4
     = of_int (rl_lastRefill rl' - now) / 1000000000 * r * (1 + roundoff) ^ 4 + of_int (now - rl_lastRefill rl) / 1000000000 * r * (1 + roundoff) ^ 4"
    by (simp add: diff_divide_distrib left_diff_distrib)
  define X where "X = of_int (now - rl_lastRefill rl) / 1000000000 * r * (1 + roundoff) ^ 4"
  define Y where "Y = of_int (rl_lastRefill rl' - now) / 1000000000 * r * (1 + roundoff) ^ 4"
  define Z where "Z = 2 * b * roundoff"
  have one: "of_nat (length (filter id as)) = of_nat (length (filter id as1)) + (of_bool a :: rat)" using as1(2) by simp
  have "rl_tokens rl1 + of_bool a \<le> rl_tokens rl + X + Z" using step Cons.prems(2) by (simp add: X_def Z_def)
  moreover have "rl_tokens rl' + of_nat (length (filter id as1)) \<le> rl_tokens rl1 + Y + of_nat (length ts) * Z"
    using IH unfolding last1 Y_def Z_def by blast
  moreover have "of_nat (length (now # ts)) * Z = of_nat (length ts) * Z + Z" by (simp add: algebra_simps)
  ultimately have "rl_tokens rl' + of_nat (length (filter id as)) \<le> rl_tokens rl + (Y + X) + of_nat (length (now # ts)) * Z"
    unfolding one by linarith
  then show ?case using IH last1 unfolding split X_def Y_def Z_def by (metis last_ConsR list.distinct(1))
qed simp

lemma round_even_int: "round_even (of_int i) = i"
  by (simp add: round_even_def)

lemma rne_int:
  assumes "0 \<le> n" "n < 2 ^ 53"
  shows "rne (of_int n) = of_int n"
proof (cases "n = 0")
  case False
  define e where "e = exponent (of_int n)"
  have "2 powi e \<le> (of_int n :: rat)" using exponent_le [of "of_int n"] assms(1) False by (simp add: e_def)
  also have "\<dots> < of_int (2 ^ 53)" using assms(2) by (simp only: of_int_less_iff)
  also have "\<dots> = (2::rat) powi 53" by simp
  finally have "\<not> 53 \<le> e" using power_int_increasing [of 53 e "2::rat"] by linarith
  then have k: "e - 52 = - int k" if "k = nat (52 - e)" for k using that by simp
  define k where "k = nat (52 - e)"
  note k = k [OF k_def]
  have "\<bar>of_int n :: rat\<bar> / 2 powi (e - 52) = of_int (n * 2 ^ k)"
    using assms(1) by (simp add: k power_int_minus field_simps)
  then have "round_even (\<bar>of_int n\<bar> / 2 powi (e - 52)) = n * 2 ^ k" by (simp only: round_even_int)
  then show ?thesis using False assms(1) by (simp add: rne_def Let_def e_def [symmetric] k power_int_minus field_simps)
qed (simp add: rne_def)

text \<open>C39: The rate limiter, with its floating point arithmetic: of the requests that arrive at any times it admits at most the
  burst plus the rate times the time passed, up to the rounding errors of the arithmetic, and a request that comes when
  the refill since the last one is at least one token is admitted.\<close>

theorem rate_limit_bound:
  assumes "1 \<le> burst" "burst < 2 ^ 53" "0 \<le> rate" "sorted (t0 # ts)" "allow_all ts (NewRateLimiter t0 rate burst) = (as, rl)"
  shows "of_nat (length (filter id as))
      \<le> of_int burst + rate * of_int (last (t0 # ts) - t0) / 1000000000 * (1 + roundoff) ^ 4 + of_nat (length ts) * (2 * of_int burst * roundoff)
    \<and> (last (t0 # ts) \<le> now \<and> 1 \<le> rate * of_int (now - last (t0 # ts)) / 1000000000 * (1 - roundoff) ^ 4 \<longrightarrow> fst (Allow now rl))"
proof -
  have "(of_int burst :: rat) \<le> of_int (2 ^ 53)" using assms(2) by (simp only: of_int_le_iff)
  then have big: "(of_int burst :: rat) \<le> 2 ^ 53" by simp
  have new: "rl_ok rate (of_int burst) (NewRateLimiter t0 rate burst)" "rl_tokens (NewRateLimiter t0 rate burst) = of_int burst"
    "rl_lastRefill (NewRateLimiter t0 rate burst) = t0"
    using assms(1,3) big rne_int [of burst] assms(2) by (simp_all add: rl_ok_def NewRateLimiter_def)
  note all = allow_all_bound [OF new(1) _ assms(5), unfolded new, OF assms(4)]
  then have ok: "rl_ok rate (of_int burst) rl" and l: "rl_lastRefill rl = last (t0 # ts)" by simp_all
  have "fst (Allow now rl)" if "last (t0 # ts) \<le> now" "1 \<le> rate * of_int (now - last (t0 # ts)) / 1000000000 * (1 - roundoff) ^ 4"
  proof -
    define d v where "d = (of_int (now - last (t0 # ts)) / 1000000000 :: rat)" and "v = 1 - roundoff"
    have v: "0 \<le> v" by (simp add: v_def roundoff_def)
    define S where "S = Seconds (now - rl_lastRefill rl)"
    have S: "0 \<le> S" "d * v ^ 2 \<le> S" using Seconds_bounds [of "now - rl_lastRefill rl"] that(1) by (simp_all add: S_def d_def v_def l)
    have "d * v ^ 2 * rate * v \<le> S * rate * v" using S(2) v assms(3) by (intro mult_right_mono)
    also have "\<dots> \<le> rne (S * rate)" using rne_bounds(2) [of "S * rate"] S(1) assms(3) by (simp add: v_def)
    finally have "d * v ^ 2 * rate * v * v \<le> (rl_tokens rl + rne (S * rate)) * v"
      using ok v by (intro mult_right_mono) (simp_all add: rl_ok_def)
    also have "\<dots> \<le> rne (rl_tokens rl + rne (S * rate))"
      using rne_bounds(2) [of "rl_tokens rl + rne (S * rate)"] rne_bounds(3) [of "S * rate"] S(1) assms(3) ok by (simp add: v_def rl_ok_def)
    finally have "1 \<le> rne (rl_tokens rl + rne (S * rate))"
      using that(2) by (simp add: d_def v_def power4_eq_xxxx power2_eq_square mult_ac)
    then show ?thesis using ok assms(1) by (simp add: Allow_def Let_def S_def rl_ok_def)
  qed
  moreover have "0 \<le> rl_tokens rl" using ok by (simp add: rl_ok_def)
  ultimately show ?thesis using all l by (auto simp: mult.commute [of rate] mult.left_commute)
qed

theorem rate_limit_bound_witness:
  "length (filter id (fst (allow_all [0, 0, 0] (NewRateLimiter 0 2 2)))) \<le> 2 \<and> fst (Allow 2000000000 (snd (allow_all [0, 0, 0] (NewRateLimiter 0 2 2))))"
proof -
  have c: "(1::int) \<le> 2" "(2::int) < 2 ^ 53" "(0::rat) \<le> 2" "sorted [0, 0, 0, 0 :: gotime]" by simp_all
  note b = rate_limit_bound [OF c prod.collapse [symmetric], of 2000000000]
  have "(1::rat) \<le> 2 * of_int (2000000000 - last [0, 0, 0, 0]) / 1000000000 * (1 - roundoff) ^ 4" by (simp add: roundoff_def power_divide)
  moreover have "of_nat (length (filter id (fst (allow_all [0, 0, 0] (NewRateLimiter 0 2 2))))) < (3 :: rat)"
    by (rule le_less_trans [OF b [THEN conjunct1]]) (simp add: roundoff_def)
  ultimately show ?thesis using b by simp
qed

end
