(* ===== verification/Router.thy ===== *)
theory Router
  imports Api_Resources Mux "HOL-Library.Sublist" Rate_Limit
begin

text \<open>
  The router of \<^verbatim>\<open>internal/api/router.go\<close>: the services the handlers share, the table of routes
  \<^verbatim>\<open>NewRouter\<close> registers, the multiplexer, and the chain of middlewares around it.  The console proxy
  (\<^verbatim>\<open>vnc_proxy.go\<close>) is modelled up to the upgrade of its connection and the documentation pages
  (\<^verbatim>\<open>swagger.go\<close>) with the file they serve.
\<close>

section \<open>Console and documentation\<close>

text \<open>\<open>dial\<close> is the error of connecting to the display, \<open>upgrade\<close> what the upgrader of the WebSocket
  library answers.\<close>

definition handleVNCConsole ::
  "(string \<Rightarrow> go_error option) \<Rightarrow> response \<Rightarrow> string list \<Rightarrow> api_req \<Rightarrow> BackendSelector \<Rightarrow> response" where
  "handleVNCConsole dial upgrade ord r s =
     (case parseVMID r of
        Inl err \<Rightarrow> (400, BText (error_string err))
      | Inr handle \<Rightarrow>
          (case Svc_GetVM ord handle s of
             Inl err \<Rightarrow> (404, BText ''VM not found'')
           | Inr vm \<Rightarrow>
               if vmVNCPort vm = 0 then (400, BText ''VNC not available for this VM (QEMU Real mode required)'')
               else
                 (case dial (Sprintf ''127.0.0.1:%d'' [FInt (vmVNCPort vm)]) of
                    Some err \<Rightarrow> (503, BText (Sprintf ''VNC connection failed: %v'' [FErr err]))
                  | None \<Rightarrow> upgrade)))"

definition openAPISpecPaths :: "string list" where
  "openAPISpecPaths = [''docs/openapi.yaml'', ''../docs/openapi.yaml'', ''../../docs/openapi.yaml'']"

text \<open>The cached file: \<^const>\<open>None\<close> before the first call, then what that call found.\<close>

definition loadOpenAPISpec :: "(string \<Rightarrow> string option) \<Rightarrow> string option option \<Rightarrow> string option \<times> string option option" where
  "loadOpenAPISpec read cache =
     (case cache of
        Some spec \<Rightarrow> (spec, cache)
      | None \<Rightarrow>
          let spec = (case List.map_filter read openAPISpecPaths of [] \<Rightarrow> None | data # _ \<Rightarrow> Some data)
          in (spec, Some spec))"

definition handleSwaggerUI :: "string \<Rightarrow> response" where
  "handleSwaggerUI html = (200, BText html)"

definition handleOpenAPISpec :: "(string \<Rightarrow> string option) \<Rightarrow> string option option \<Rightarrow> response \<times> string option option" where
  "handleOpenAPISpec read cache =
     (case loadOpenAPISpec read cache of
        (None, cache') \<Rightarrow> ((404, BText ''OpenAPI spec not found''), cache')
      | (Some spec, cache') \<Rightarrow> ((200, BText spec), cache'))"

section \<open>Services\<close>

text \<open>The services of the controller; \<^const>\<open>None\<close> is a nil pointer.  The backup service shares the storage
  service, the LXC service is the backend of that name, \<open>sv_running\<close> are the migrations in progress with
  their tasks, and \<open>sv_kv\<close> is the state store.\<close>

record ('s, 'd) Services =
  sv_Compute :: ComputeService
  sv_Task :: "unit TaskService option"
  sv_running :: "(goroutine \<times> nat) list"
  sv_Storage :: StorageService
  sv_Network :: NetworkDriver
  sv_Peripheral :: PeripheralDriver
  sv_HA :: HADriver
  sv_LeaderElection :: "LeaderElection option"
  sv_kv :: 's
  sv_Backup :: "BackupService option"
  sv_Template :: "TemplateService option"
  sv_Snapshot :: "SnapshotService option"
  sv_Image :: "ImageService option"
  sv_Auth :: "(JWTService \<times> 'd) option"
  sv_OAuth2 :: "OAuth2Provider option"
  sv_EventHub :: bool
  sv_Version :: VersionInfo
  sv_spec :: "string option option"

text \<open>The JSON decoder at the types of the request bodies.\<close>

record json_dec =
  jd_vm :: "string \<Rightarrow> create_req result"
  jd_text :: "string \<Rightarrow> string \<Rightarrow> string result"
  jd_strings :: "string \<Rightarrow> string \<Rightarrow> string list result"
  jd_volume :: "string \<Rightarrow> volume_req result"
  jd_import :: "string \<Rightarrow> import_req result"
  jd_size :: "string \<Rightarrow> uint64 result"
  jd_disk :: "string \<Rightarrow> (string \<times> string \<times> int) result"
  jd_zone :: "string \<Rightarrow> (string \<times> string \<times> string \<times> int) result"
  jd_handle :: "string \<Rightarrow> int32 result"
  jd_fence :: "string \<Rightarrow> (string \<times> string) result"
  jd_backup :: "string \<Rightarrow> (int32 \<times> string \<times> string) result"
  jd_template :: "string \<Rightarrow> template_req result"
  jd_snapshot :: "string \<Rightarrow> (int32 \<times> string) result"
  jd_image :: "string \<Rightarrow> image_req result"
  jd_alert :: "string \<Rightarrow> unit result"
  jd_login :: "string \<Rightarrow> (string \<times> string) result"
  jd_user :: "string \<Rightarrow> (string \<times> string \<times> string) result"
  jd_stub :: "string \<Rightarrow> (string \<times> int \<times> int) result"

text \<open>What a request finds in its environment: the clock, the random source, the programs and files, the
  order in which each map is visited, the rate limiter and the answer of the login limiter.\<close>

record ('s, 'd) world =
  w_json :: json_dec
  w_now :: gotime
  w_comp :: comp_env
  w_stor :: stor_env
  w_ha :: "'s ha_env"
  w_disk :: disk_env
  w_run :: runner
  w_sysfs :: sysfs
  w_auth :: "'d auth_libs"
  w_order :: "string \<Rightarrow> string list"
  w_handles :: "string \<Rightarrow> int32 list"
  w_migration :: "(string list \<times> gotime) list"
  w_stat :: "string \<Rightarrow> int64 option"
  w_read :: "string \<Rightarrow> string option"
  w_rand :: "8 word list"
  w_rand1 :: "8 word list + int"
  w_rand2 :: "8 word list + int"
  w_encode :: "(string \<times> string) list \<Rightarrow> string"
  w_host :: "string \<Rightarrow> string result"
  w_self :: string
  w_leader :: "string list result"
  w_resign :: "go_error option"
  w_session :: "go_error option"
  w_dial :: "string \<Rightarrow> go_error option"
  w_upgrade :: response
  w_html :: string
  w_metrics :: string
  w_loginAllowed :: bool
  w_limiter :: RateLimiter
  w_elapsed :: duration

record in_req =
  in_http :: http_req
  in_query :: "string \<Rightarrow> string"
  in_body :: string

type_synonym ('s, 'd) handler = "('s, 'd) world \<Rightarrow> api_req \<Rightarrow> in_req \<Rightarrow> ('s, 'd) Services \<Rightarrow> response option \<times> ('s, 'd) Services"

text \<open>A handler that only reads the services.\<close>

definition reads :: "(('s, 'd) world \<Rightarrow> api_req \<Rightarrow> in_req \<Rightarrow> ('s, 'd) Services \<Rightarrow> response option) \<Rightarrow> ('s, 'd) handler" where
  "reads f w r q sv = (f w r q sv, sv)"

abbreviation selector :: "('s, 'd) Services \<Rightarrow> BackendSelector" where
  "selector sv \<equiv> cs_selector (sv_Compute sv)"

definition set_selector :: "BackendSelector \<Rightarrow> ('s, 'd) Services \<Rightarrow> ('s, 'd) Services" where
  "set_selector s sv = sv\<lparr>sv_Compute := (sv_Compute sv)\<lparr>cs_selector := s\<rparr>\<rparr>"

definition lxc_of :: "BackendSelector \<Rightarrow> LXCBackend option" where
  "lxc_of s = (case sel_backends s ''lxc'' of Some (BLxc b) \<Rightarrow> Some b | _ \<Rightarrow> None)"

text \<open>The backup service as the handlers see it, over the shared storage service.\<close>

definition backup_of :: "('s, 'd) Services \<Rightarrow> BackupService option" where
  "backup_of sv = map_option (\<lambda>b. b\<lparr>bks_storage := sv_Storage sv\<rparr>) (sv_Backup sv)"

definition set_backup :: "BackupService \<Rightarrow> ('s, 'd) Services \<Rightarrow> ('s, 'd) Services" where
  "set_backup b sv = sv\<lparr>sv_Backup := Some b, sv_Storage := bks_storage b\<rparr>"

section \<open>Handlers over the shared services\<close>

text \<open>Each handler of the table applies the handler of its name to the part of the services it uses and
  writes the result back.\<close>

definition on_selector :: "(('s, 'd) world \<Rightarrow> api_req \<Rightarrow> in_req \<Rightarrow> BackendSelector \<Rightarrow> response \<times> BackendSelector) \<Rightarrow> ('s, 'd) handler" where
  "on_selector f w r q sv = (case f w r q (selector sv) of (resp, s') \<Rightarrow> (Some resp, set_selector s' sv))"

definition on_storage :: "(('s, 'd) world \<Rightarrow> api_req \<Rightarrow> in_req \<Rightarrow> StorageService \<Rightarrow> response \<times> StorageService) \<Rightarrow> ('s, 'd) handler" where
  "on_storage f w r q sv = (case f w r q (sv_Storage sv) of (resp, s') \<Rightarrow> (Some resp, sv\<lparr>sv_Storage := s'\<rparr>))"

definition on_network :: "(('s, 'd) world \<Rightarrow> api_req \<Rightarrow> in_req \<Rightarrow> NetworkDriver option \<Rightarrow> response \<times> cmd list \<times> NetworkDriver option) \<Rightarrow> ('s, 'd) handler" where
  "on_network f w r q sv =
     (case f w r q (Some (sv_Network sv)) of
        (resp, cmds, net) \<Rightarrow> (Some resp, case net of None \<Rightarrow> sv | Some d \<Rightarrow> sv\<lparr>sv_Network := d\<rparr>))"

definition on_backup :: "(('s, 'd) world \<Rightarrow> api_req \<Rightarrow> in_req \<Rightarrow> BackupService \<Rightarrow> response \<times> BackupService) \<Rightarrow> ('s, 'd) handler" where
  "on_backup f w r q sv =
     (case backup_of sv of
        None \<Rightarrow> (None, sv)
      | Some b \<Rightarrow> (case f w r q b of (resp, b') \<Rightarrow> (Some resp, set_backup b' sv)))"

definition on_template :: "(('s, 'd) world \<Rightarrow> api_req \<Rightarrow> in_req \<Rightarrow> TemplateService \<Rightarrow> response \<times> TemplateService) \<Rightarrow> ('s, 'd) handler" where
  "on_template f w r q sv =
     (case sv_Template sv of
        None \<Rightarrow> (None, sv)
      | Some t \<Rightarrow> (case f w r q t of (resp, t') \<Rightarrow> (Some resp, sv\<lparr>sv_Template := Some t'\<rparr>)))"

definition on_snapshot :: "(('s, 'd) world \<Rightarrow> api_req \<Rightarrow> in_req \<Rightarrow> SnapshotService \<Rightarrow> response \<times> SnapshotService) \<Rightarrow> ('s, 'd) handler" where
  "on_snapshot f w r q sv =
     (case sv_Snapshot sv of
        None \<Rightarrow> (None, sv)
      | Some t \<Rightarrow> (case f w r q t of (resp, t') \<Rightarrow> (Some resp, sv\<lparr>sv_Snapshot := Some t'\<rparr>)))"

definition on_image :: "(('s, 'd) world \<Rightarrow> api_req \<Rightarrow> in_req \<Rightarrow> ImageService \<Rightarrow> response \<times> ImageService) \<Rightarrow> ('s, 'd) handler" where
  "on_image f w r q sv =
     (case sv_Image sv of
        None \<Rightarrow> (None, sv)
      | Some t \<Rightarrow> (case f w r q t of (resp, t') \<Rightarrow> (Some resp, sv\<lparr>sv_Image := Some t'\<rparr>)))"

definition on_ha :: "(('s, 'd) world \<Rightarrow> api_req \<Rightarrow> in_req \<Rightarrow> HADriver \<Rightarrow> 's \<Rightarrow> response \<times> HADriver \<times> 's) \<Rightarrow> ('s, 'd) handler" where
  "on_ha f w r q sv =
     (case f w r q (sv_HA sv) (sv_kv sv) of (resp, d, st) \<Rightarrow> (Some resp, sv\<lparr>sv_HA := d, sv_kv := st\<rparr>))"

text \<open>A handler that reads the services and the state store; reading the store can change the
  circuit breaker in front of it.\<close>

definition asks_store :: "(('s, 'd) world \<Rightarrow> ('s, 'd) Services \<Rightarrow> response option \<times> 's) \<Rightarrow> ('s, 'd) handler" where
  "asks_store f w r q sv = (case f w sv of (resp, st) \<Rightarrow> (resp, sv\<lparr>sv_kv := st\<rparr>))"

definition on_oauth2 :: "(('s, 'd) world \<Rightarrow> api_req \<Rightarrow> OAuth2Provider \<Rightarrow> response \<times> OAuth2Provider) \<Rightarrow> ('s, 'd) handler" where
  "on_oauth2 f w r q sv =
     (case sv_OAuth2 sv of
        None \<Rightarrow> (None, sv)
      | Some p \<Rightarrow> (case f w r p of (resp, p') \<Rightarrow> (Some resp, sv\<lparr>sv_OAuth2 := Some p'\<rparr>)))"

definition auth_response :: "int \<times> auth_body \<Rightarrow> response" where
  "auth_response = map_prod id BAuth"

definition on_auth ::
  "(('s, 'd) world \<Rightarrow> api_req \<Rightarrow> in_req \<Rightarrow> JWTService \<times> 'd \<Rightarrow> (int \<times> auth_body) \<times> JWTService \<times> 'd) \<Rightarrow> ('s, 'd) handler" where
  "on_auth f w r q sv =
     (case sv_Auth sv of
        None \<Rightarrow> (None, sv)
      | Some a \<Rightarrow> (case f w r q a of (resp, a') \<Rightarrow> (Some (auth_response resp), sv\<lparr>sv_Auth := Some a'\<rparr>)))"

definition migrate_handler :: "('s, 'd) handler" where
  "migrate_handler w r q sv =
     (case handleMigrateVM (w_order w ''backends'') (w_now w) (w_migration w) r (jd_text (w_json w) ''target_node'' (in_body q))
             (sv_Task sv, sv_Compute sv) of
        (resp, started, ts, cs) \<Rightarrow>
          (resp, sv\<lparr>sv_Task := ts, sv_Compute := cs,
                    sv_running := sv_running sv @ (case started of None \<Rightarrow> [] | Some g \<Rightarrow> [g])\<rparr>))"

definition cancel_handler :: "('s, 'd) handler" where
  "cancel_handler w r q sv = (case handleCancelMigration r (sv_Compute sv) of (resp, cs) \<Rightarrow> (Some resp, sv\<lparr>sv_Compute := cs\<rparr>))"

definition delete_task_handler :: "('s, 'd) handler" where
  "delete_task_handler w r q sv =
     (case sv_Task sv of
        None \<Rightarrow> (None, sv)
      | Some ts \<Rightarrow> (case handleDeleteTask r ts of (resp, ts') \<Rightarrow> (Some resp, sv\<lparr>sv_Task := Some ts'\<rparr>)))"

definition deploy_handler :: "('s, 'd) handler" where
  "deploy_handler w r q sv =
     (case sv_Template sv of
        None \<Rightarrow> (None, sv)
      | Some ts \<Rightarrow>
          (case handleDeployTemplate (w_comp w) (w_now w) r (jd_text (w_json w) ''name'' (in_body q)) ts (selector sv) of
             (resp, s') \<Rightarrow> (Some resp, set_selector s' sv)))"

definition attach_handler :: "('s, 'd) handler" where
  "attach_handler w r q sv =
     (case handleAttachDevice (w_sysfs w) r (jd_handle (w_json w) (in_body q)) (sv_Peripheral sv) of
        (resp, d, ws) \<Rightarrow> (Some resp, sv\<lparr>sv_Peripheral := d\<rparr>))"

definition detach_handler :: "('s, 'd) handler" where
  "detach_handler w r q sv =
     (case handleDetachDevice r (sv_Peripheral sv) of (resp, d) \<Rightarrow> (Some resp, sv\<lparr>sv_Peripheral := d\<rparr>))"

definition promote_handler :: "('s, 'd) handler" where
  "promote_handler w r q sv =
     (case handleClusterPromote (w_resign w) (w_session w) (sv_LeaderElection sv) of
        (resp, le) \<Rightarrow> (Some resp, sv\<lparr>sv_LeaderElection := le\<rparr>))"

definition spec_handler :: "('s, 'd) handler" where
  "spec_handler w r q sv = (case handleOpenAPISpec (w_read w) (sv_spec sv) of (resp, c) \<Rightarrow> (Some resp, sv\<lparr>sv_spec := c\<rparr>))"

section \<open>The table of routes\<close>

abbreviation fields_order :: "('s, 'd) world \<Rightarrow> string list" where
  "fields_order w \<equiv> w_order w ''fields''"

definition vm_routes :: "('s, 'd) handler routes" where
  "vm_routes =
     [(''GET /healthz'', reads (\<lambda>w r q sv. Some handleHealth)),
      (''GET /readyz'', reads (\<lambda>w r q sv. Some (handleReadiness True True True))),
      (''GET /startupz'', reads (\<lambda>w r q sv. Some handleHealth)),
      (''GET /api/v1/version'', reads (\<lambda>w r q sv. Some (handleVersion (sv_Version sv)))),
      (''GET /api/v1/vms'', reads (\<lambda>w r q sv. handleListVMs (w_order w ''backends'') (w_handles w) r (selector sv))),
      (''POST /api/v1/vms'', on_selector (\<lambda>w r q. handleCreateVM (w_comp w) (w_now w) (jd_vm (w_json w) (in_body q)))),
      (''GET /api/v1/vms/{id}'', reads (\<lambda>w r q sv. Some (handleGetVM (w_order w ''backends'') r (selector sv)))),
      (''DELETE /api/v1/vms/{id}'', on_selector (\<lambda>w r q. handleDeleteVM (w_comp w) (w_order w ''backends'') r)),
      (''POST /api/v1/vms/{id}/start'', on_selector (\<lambda>w r q. handleVMAction (w_comp w) (w_order w ''backends'') ''start'' r)),
      (''POST /api/v1/vms/{id}/stop'', on_selector (\<lambda>w r q. handleVMAction (w_comp w) (w_order w ''backends'') ''stop'' r)),
      (''POST /api/v1/vms/{id}/pause'', on_selector (\<lambda>w r q. handleVMAction (w_comp w) (w_order w ''backends'') ''pause'' r)),
      (''POST /api/v1/vms/{id}/resume'', on_selector (\<lambda>w r q. handleVMAction (w_comp w) (w_order w ''backends'') ''resume'' r)),
      (''POST /api/v1/vms/{id}/migrate'', migrate_handler),
      (''GET /api/v1/vms/{id}/migration'', reads (\<lambda>w r q sv. Some (handleGetMigrationStatus r (sv_Compute sv)))),
      (''DELETE /api/v1/vms/{id}/migration'', cancel_handler),
      (''GET /api/v1/vms/{id}/stats'',
        reads (\<lambda>w r q sv. Some (handleVMStats (ce_lxc (w_comp w)) (w_order w ''backends'') r (lxc_of (selector sv)) (selector sv)))),
      (''GET /api/v1/vms/{id}/console'',
        reads (\<lambda>w r q sv. Some (handleVNCConsole (w_dial w) (w_upgrade w) (w_order w ''backends'') r (selector sv)))),
      (''POST /api/v1/vms/{id}/exec'',
        reads (\<lambda>w r q sv. Some (handleContainerExec (ce_lxc (w_comp w)) (w_order w ''backends'') r
          (jd_strings (w_json w) ''command'' (in_body q)) (lxc_of (selector sv)) (selector sv)))),
      (''GET /api/v1/nodes'', reads (\<lambda>w r q sv. Some handleListNodes)),
      (''GET /api/v1/nodes/{id}'', reads (\<lambda>w r q sv. Some (handleGetNode r (Some (sv_HA sv))))),
      (''GET /api/v1/backends'', reads (\<lambda>w r q sv. Some (handleListBackends (w_order w ''backends'') (selector sv)))),
      (''GET /api/v1/templates/lxc'', reads (\<lambda>w r q sv. Some (handleLXCTemplates (lxc_of (selector sv) \<noteq> None))))]"

definition task_routes :: "('s, 'd) handler routes" where
  "task_routes =
     [(''GET /api/v1/tasks'', reads (\<lambda>w r q sv. map_option (handleListTasks (w_order w ''tasks'') r) (sv_Task sv))),
      (''GET /api/v1/tasks/{id}'', reads (\<lambda>w r q sv. map_option (handleGetTask r) (sv_Task sv))),
      (''DELETE /api/v1/tasks/{id}'', delete_task_handler)]"

definition storage_routes :: "('s, 'd) handler routes" where
  "storage_routes =
     [(''GET /api/v1/storage/pools'', reads (\<lambda>w r q sv. Some (handleStoragePools (w_stor w) (w_order w ''pools'') (Some (sv_Storage sv))))),
      (''GET /api/v1/storage/volumes'', reads (\<lambda>w r q sv. Some (handleStorageVolumes (w_order w ''volumes'') r (sv_Storage sv)))),
      (''POST /api/v1/storage/volumes'',
        on_storage (\<lambda>w r q. handleCreateVolume (w_stor w) (w_now w) (fields_order w) (jd_volume (w_json w) (in_body q)))),
      (''POST /api/v1/storage/disks'', reads (\<lambda>w r q sv. Some (fst (handleCreateDisk (w_disk w) (jd_disk (w_json w) (in_body q)))))),
      (''GET /api/v1/storage/volumes/{id}'', reads (\<lambda>w r q sv. Some (handleGetVolume (w_stor w) (w_now w) r (sv_Storage sv)))),
      (''DELETE /api/v1/storage/volumes/{id}'', on_storage (\<lambda>w r q. handleDeleteVolume (w_stor w) r)),
      (''POST /api/v1/storage/volumes/{id}/resize'',
        on_storage (\<lambda>w r q. handleResizeVolume (w_stor w) (w_now w) r (jd_size (w_json w) (in_body q)))),
      (''POST /api/v1/storage/volumes/{id}/export'',
        reads (\<lambda>w r q sv. Some (handleExportVolume (w_stor w) r (jd_text (w_json w) ''path'' (in_body q)) (sv_Storage sv)))),
      (''POST /api/v1/storage/volumes/import'',
        on_storage (\<lambda>w r q. handleImportVolume (w_stor w) (w_now w) (fields_order w) (jd_import (w_json w) (in_body q)))),
      (''POST /api/v1/storage/snapshots/{id}/rollback'',
        reads (\<lambda>w r q sv. Some (handleStorageSnapshotRollback (w_stor w) r (sv_Storage sv)))),
      (''POST /api/v1/storage/snapshots/{id}/clone'',
        on_storage (\<lambda>w r q. handleStorageSnapshotClone (w_stor w) (w_now w) r (jd_text (w_json w) ''name'' (in_body q)))),
      (''DELETE /api/v1/storage/snapshots/{id}'', on_storage (\<lambda>w r q. handleDeleteStorageSnapshot (w_stor w) r))]"

definition network_routes :: "('s, 'd) handler routes" where
  "network_routes =
     [(''GET /api/v1/network/zones'', reads (\<lambda>w r q sv. Some (handleNetworkZones (w_order w ''zones'') (Some (sv_Network sv))))),
      (''POST /api/v1/network/zones'', on_network (\<lambda>w r q. handleCreateZone (w_run w) (jd_zone (w_json w) (in_body q)))),
      (''DELETE /api/v1/network/zones/{name}'', on_network (\<lambda>w r q. handleDeleteZone r)),
      (''GET /api/v1/network/vnets'', reads (\<lambda>w r q sv. Some (handleNetworkVNets (w_order w ''vnets'') r (sv_Network sv)))),
      (''GET /api/v1/network/firewall'', reads (\<lambda>w r q sv. Some (handleFirewallRules (w_order w ''rules'') (sv_Network sv)))),
      (''GET /api/v1/devices'',
        reads (\<lambda>w r q sv. Some (handleListDevices (w_order w ''devices'') (w_order w ''default-devices'') r (sv_Peripheral sv)))),
      (''POST /api/v1/devices/{id}/attach'', attach_handler),
      (''POST /api/v1/devices/{id}/detach'', detach_handler)]"

definition cluster_routes :: "('s, 'd) handler routes" where
  "cluster_routes =
     [(''GET /api/v1/cluster/status'', asks_store (\<lambda>w sv. map_prod Some id (handleClusterStatus (w_ha w) (Some (sv_HA sv)) (sv_kv sv)))),
      (''GET /api/v1/cluster/nodes'', asks_store (\<lambda>w sv. map_prod Some id (handleClusterNodes (w_ha w) (sv_HA sv) (sv_kv sv)))),
      (''POST /api/v1/cluster/fence/{node}'',
        on_ha (\<lambda>w r q. handleFenceNode (w_ha w) (w_now w) r (jd_fence (w_json w) (in_body q)))),
      (''GET /api/v1/cluster/leader'', reads (\<lambda>w r q sv. Some (handleClusterLeader (w_leader w) (w_self w) (sv_LeaderElection sv)))),
      (''POST /api/v1/cluster/promote'', promote_handler)]"

definition backup_routes :: "('s, 'd) handler routes" where
  "backup_routes =
     [(''GET /api/v1/backups'', reads (\<lambda>w r q sv. Option.bind (backup_of sv) (handleListBackups (w_order w ''backups'') r))),
      (''POST /api/v1/backups'',
        on_backup (\<lambda>w r q. handleCreateBackup (w_stor w) (w_now w) (fields_order w) (jd_backup (w_json w) (in_body q)))),
      (''GET /api/v1/backups/{id}'', reads (\<lambda>w r q sv. map_option (handleGetBackup r) (backup_of sv))),
      (''DELETE /api/v1/backups/{id}'', on_backup (\<lambda>w r q. handleDeleteBackup r))]"

definition template_routes :: "('s, 'd) handler routes" where
  "template_routes =
     [(''GET /api/v1/templates'', reads (\<lambda>w r q sv. Option.bind (sv_Template sv) (handleListTemplates (w_order w ''templates'') r))),
      (''POST /api/v1/templates'', on_template (\<lambda>w r q. handleCreateTemplate (w_now w) (jd_template (w_json w) (in_body q)))),
      (''GET /api/v1/templates/{id}'', reads (\<lambda>w r q sv. map_option (handleGetTemplate r) (sv_Template sv))),
      (''DELETE /api/v1/templates/{id}'', on_template (\<lambda>w r q. handleDeleteTemplate r)),
      (''POST /api/v1/templates/{id}/deploy'', deploy_handler)]"

definition snapshot_routes :: "('s, 'd) handler routes" where
  "snapshot_routes =
     [(''GET /api/v1/snapshots'', reads (\<lambda>w r q sv. map_option (handleListSnapshots (w_order w ''snapshots'') r) (sv_Snapshot sv))),
      (''POST /api/v1/snapshots'',
        on_snapshot (\<lambda>w r q s. case handleCreateSnapshot (None :: unit snap_provider option) (w_now w) (jd_snapshot (w_json w) (in_body q)) (s, ())
                               of (resp, s', u) \<Rightarrow> (resp, s'))),
      (''GET /api/v1/snapshots/{id}'', reads (\<lambda>w r q sv. map_option (handleGetSnapshot r) (sv_Snapshot sv))),
      (''DELETE /api/v1/snapshots/{id}'', on_snapshot (\<lambda>w r q. handleDeleteSnapshot r)),
      (''POST /api/v1/snapshots/{id}/restore'',
        on_snapshot (\<lambda>w r q s. case handleRestoreSnapshot (None :: unit snap_provider option) r (s, ()) of (resp, s', u) \<Rightarrow> (resp, s')))]"

definition image_routes :: "('s, 'd) handler routes" where
  "image_routes =
     [(''GET /api/v1/images'', reads (\<lambda>w r q sv. map_option (handleListImages (w_order w ''images'')) (sv_Image sv))),
      (''POST /api/v1/images'',
        on_image (\<lambda>w r q. handleRegisterImage (w_stat w) (w_now w) (fields_order w) (jd_image (w_json w) (in_body q)))),
      (''GET /api/v1/images/{id}'', reads (\<lambda>w r q sv. map_option (handleGetImage r) (sv_Image sv))),
      (''DELETE /api/v1/images/{id}'', on_image (\<lambda>w r q. handleDeleteImage r))]"

definition system_routes :: "('s, 'd) handler routes" where
  "system_routes =
     [(''POST /api/v1/webhooks/alert'', reads (\<lambda>w r q sv. Some (handleAlertWebhook (jd_alert (w_json w) (in_body q))))),
      (''GET /api/v1/system/stats'',
        asks_store (\<lambda>w sv. handleSystemStats (w_stor w) (w_ha w) (w_order w ''backends'') (w_handles w) (w_order w ''keys'')
          (w_order w ''default-devices'') (selector sv) (sv_Storage sv) (sv_Network sv) (sv_HA sv) (sv_Peripheral sv) (backup_of sv) (sv_kv sv))),
      (''GET /api/v1/api-info'', reads (\<lambda>w r q sv. Some handleAPIInfo))]"

definition auth_routes :: "('s, 'd) handler routes" where
  "auth_routes =
     [(''POST /api/v1/auth/login'',
        on_auth (\<lambda>w r q (j, d). (handleAuthLogin (w_auth w) (w_loginAllowed w) (w_rand w) (w_now w)
          (result_value (jd_login (w_json w) (in_body q))) j d, j, d))),
      (''POST /api/v1/auth/refresh'', on_auth (\<lambda>w r q (j, d). (handleAuthRefresh (w_auth w) (w_rand w) (w_now w) (in_http q) j, j, d))),
      (''POST /api/v1/auth/logout'',
        on_auth (\<lambda>w r q (j, d). case handleAuthLogout (w_auth w) (w_now w) (in_http q) j of (resp, j') \<Rightarrow> (resp, j', d))),
      (''GET /api/v1/auth/users'',
        reads (\<lambda>w r q sv. map_option (\<lambda>(j, d). auth_response (handleAuthListUsers (w_auth w) (w_now w) (in_http q) j d)) (sv_Auth sv))),
      (''POST /api/v1/auth/users'',
        on_auth (\<lambda>w r q (j, d). case handleAuthCreateUser (w_auth w) (w_now w) (in_http q) (result_value (jd_user (w_json w) (in_body q))) j d of
          (resp, d') \<Rightarrow> (resp, j, d'))),
      (''DELETE /api/v1/auth/users/{username}'',
        on_auth (\<lambda>w r q (j, d). case handleAuthDeleteUser (w_auth w) (w_now w) (in_http q) (ar_path r ''username'') j d of
          (resp, d') \<Rightarrow> (resp, j, d')))]"

definition oauth2_routes :: "('s, 'd) handler routes" where
  "oauth2_routes =
     [(''GET /api/v1/auth/oauth2/providers'', reads (\<lambda>w r q sv. map_option (handleOAuth2Providers (w_host w)) (sv_OAuth2 sv))),
      (''GET /api/v1/auth/oauth2/authorize'', on_oauth2 (\<lambda>w r. handleOAuth2Authorize (w_encode w) (w_rand1 w) (w_now w) r)),
      (''GET /api/v1/auth/oauth2/callback'', on_oauth2 (\<lambda>w r. handleOAuth2Callback (w_rand1 w) (w_rand2 w) (w_now w) r))]"

definition common_routes :: "('s, 'd) handler routes" where
  "common_routes =
     [(''GET /api/v1/docs'', reads (\<lambda>w r q sv. Some (handleSwaggerUI (w_html w)))),
      (''GET /api/v1/docs/openapi.yaml'', spec_handler),
      (''GET /metrics'', asks_store (\<lambda>w sv. (Some (200, BText (w_metrics w)), snd (Ha_ListNodes (w_ha w) (sv_HA sv) (sv_kv sv)))))]"

definition opt :: "bool \<Rightarrow> 'a list \<Rightarrow> 'a list" where
  "opt b xs = (if b then xs else [])"

definition live_routes :: "('s, 'd) Services \<Rightarrow> ('s, 'd) handler routes" where
  "live_routes sv =
     vm_routes @ opt (sv_Task sv \<noteq> None) task_routes @ storage_routes @ network_routes @ cluster_routes
     @ opt (sv_Backup sv \<noteq> None) backup_routes @ opt (sv_Template sv \<noteq> None) template_routes
     @ opt (sv_Snapshot sv \<noteq> None) snapshot_routes @ opt (sv_Image sv \<noteq> None) image_routes @ system_routes
     @ opt (sv_EventHub sv) [(''GET /ws'', reads (\<lambda>w r q sv. Some (w_upgrade w)))]
     @ opt (sv_Auth sv \<noteq> None) auth_routes @ opt (sv_OAuth2 sv \<noteq> None) oauth2_routes @ common_routes"

definition stub_routes :: "(json_dec \<Rightarrow> api_req \<Rightarrow> in_req \<Rightarrow> StubVMInfo list \<Rightarrow> response option \<times> StubVMInfo list) routes" where
  "stub_routes =
     [(''GET /healthz'', \<lambda>js r q vms. (Some handleHealth, vms)),
      (''GET /api/v1/version'', \<lambda>js r q vms. (Some handleStubVersion, vms)),
      (''GET /api/v1/vms'', \<lambda>js r q vms. (Some (handleStubListVMs vms), vms)),
      (''POST /api/v1/vms'', \<lambda>js r q vms. map_prod Some id (handleStubCreateVM (jd_stub js (in_body q)) vms)),
      (''GET /api/v1/vms/{id}'', \<lambda>js r q vms. (Some (handleStubGetVM r), vms)),
      (''DELETE /api/v1/vms/{id}'', \<lambda>js r q vms. (Some (handleStubDeleteVM r), vms)),
      (''POST /api/v1/vms/{id}/start'', \<lambda>js r q vms. (Some (handleStubVMAction r), vms)),
      (''POST /api/v1/vms/{id}/stop'', \<lambda>js r q vms. (Some (handleStubVMAction r), vms)),
      (''POST /api/v1/vms/{id}/pause'', \<lambda>js r q vms. (Some (handleStubVMAction r), vms)),
      (''GET /api/v1/nodes'', \<lambda>js r q vms. (Some handleListNodes, vms)),
      (''POST /api/v1/webhooks/alert'', \<lambda>js r q vms. (Some (handleAlertWebhook (jd_alert js (in_body q))), vms)),
      (''GET /api/v1/api-info'', \<lambda>js r q vms. (Some handleAPIInfo, vms))]"

section \<open>The multiplexer\<close>

definition cleanPath :: "string \<Rightarrow> string" where
  "cleanPath p0 =
     (let p = (if p0 = [] \<or> hd p0 \<noteq> CHR ''/'' then CHR ''/'' # p0 else p0);
          np = path_Clean p
      in if last p = CHR ''/'' \<and> np \<noteq> ''/'' then np @ ''/'' else np)"

text \<open>A path that is not clean is redirected; a path that only other methods have is answered with 405.\<close>

definition mux_serve ::
  "('w \<Rightarrow> api_req \<Rightarrow> in_req \<Rightarrow> 'st \<Rightarrow> response option \<times> 'st) routes \<Rightarrow> 'w \<Rightarrow> in_req \<Rightarrow> 'st \<Rightarrow> response option \<times> 'st" where
  "mux_serve rs w q st =
     (let method = rq_Method (in_http q);
          path0 = rq_Path (in_http q);
          path = (if method = ''CONNECT'' then path0 else cleanPath path0)
      in if path \<noteq> path0 then (Some (301, BRedirect path), st)
         else case mux_match rs method path of
                None \<Rightarrow>
                  (Some (if path_matches_some rs path then (405, BText ''Method Not Allowed'') else (404, BText ''404 page not found'')), st)
              | Some (gs, h) \<Rightarrow> h w \<lparr>ar_path = path_value gs (path_segs path), ar_query = in_query q\<rparr> q st)"

section \<open>The chain of middlewares\<close>

record http_out =
  ho_Status :: int
  ho_Headers :: "(string \<times> string) list"
  ho_Body :: api_body
  ho_Audit :: AuditEntry

definition rbac_config :: "('s, 'd) Services \<Rightarrow> 'd RBACConfig option" where
  "rbac_config sv = map_option (\<lambda>(j, d). \<lparr>rc_JWTService = Some j, rc_UserDB = Some d\<rparr>) (sv_Auth sv)"

text \<open>The part inside the access control: CORS, the security headers, the rate limit and the recovery
  of a panic.  \<open>limited\<close> says whether a rate limit is configured; the limiter is the one the
  request finds.\<close>

definition inner_chain ::
  "bool \<Rightarrow> ('s, 'd) world \<Rightarrow> in_req \<Rightarrow> ('s, 'd) Services \<Rightarrow> (string \<times> string) list \<times> response \<times> ('s, 'd) Services" where
  "inner_chain limited w q sv =
     (case corsMiddleware (rq_Method (in_http q)) of
        (hs, Some resp) \<Rightarrow> (hs, resp, sv)
      | (hs, None) \<Rightarrow>
          (case (if limited then fst (RateLimitMiddleware (w_now w) (rq_Path (in_http q)) (w_limiter w)) else ([], None)) of
             (rs, Some resp) \<Rightarrow> (hs @ SecurityHeadersMiddleware @ rs, resp, sv)
           | (rs, None) \<Rightarrow>
               (case mux_serve (live_routes sv) w q sv of
                  (handled, sv') \<Rightarrow> (hs @ SecurityHeadersMiddleware @ rs, recoveryMiddleware handled, sv'))))"

definition rbac_chain ::
  "bool \<Rightarrow> (string \<Rightarrow> RBACUser option) option \<Rightarrow> ('s, 'd) world \<Rightarrow> in_req \<Rightarrow> ('s, 'd) Services
     \<Rightarrow> (string \<times> string) list \<times> response \<times> ('s, 'd) Services" where
  "rbac_chain limited users w q sv =
     (case users of
        None \<Rightarrow> inner_chain limited w q sv
      | Some us \<Rightarrow>
          (case RBACMiddleware (w_auth w) (w_now w) users (rbac_config sv) (in_http q) of
             RbacNext \<Rightarrow> inner_chain limited w q sv
           | RbacError code msg \<Rightarrow>
               (if code = 401 then [(''WWW-Authenticate'', ''Bearer realm=\"hardcorevisor\", Basic realm=\"hardcorevisor\"'')] else [],
                (code, BFields [(''error'', msg)]), sv)))"

definition NewRouter ::
  "bool \<Rightarrow> (string \<Rightarrow> RBACUser option) option \<Rightarrow> ('s, 'd) world \<Rightarrow> in_req \<Rightarrow> uint64 \<times> ('s, 'd) Services
     \<Rightarrow> http_out \<times> uint64 \<times> ('s, 'd) Services" where
  "NewRouter limited users w q = (\<lambda>(counter, sv).
     case requestIDMiddleware (w_now w div 1000000) counter of
       (h1, counter') \<Rightarrow>
         let h2 = versionMiddleware (rq_Path (in_http q)) in
         (case rbac_chain limited users w q sv of
            (h3, resp, sv') \<Rightarrow>
              (\<lparr>ho_Status = fst resp, ho_Headers = h1 @ h2 @ h3, ho_Body = snd resp,
                ho_Audit = AuditMiddleware (w_now w) (w_elapsed w) (Some (fst resp)) (in_http q)\<rparr>, counter', sv')))"

section \<open>The table is accepted by the multiplexer\<close>

definition compatible :: "string \<times> seg list \<Rightarrow> string \<times> seg list \<Rightarrow> bool" where
  "compatible p p' \<longleftrightarrow> fst p \<noteq> fst p' \<or> conflict_free2 (snd p) (snd p')"

lemma method_child_Cons:
  "method_child m ((p, h) # rs) =
     (if fst (parse_pattern p) = m then (snd (parse_pattern p), snd (parse_pattern p), h) # method_child m rs else method_child m rs)"
  by (simp add: method_child_def map_filter_simps split: prod.split)

lemma conflict_free_method:
  "sorted_wrt compatible (map (\<lambda>(p, h). parse_pattern p) rs) \<Longrightarrow> conflict_free (method_child m rs)"
proof (induction rs)
  case (Cons r rs)
  obtain p h where r: "r = (p, h)" by (cases r)
  have "conflict_free2 (snd (parse_pattern p)) gs'" if "fst (parse_pattern p) = m" "(gs', k, h') \<in> set (method_child m rs)" for gs' k h'
    using Cons.prems that r by (force simp: in_method_child compatible_def)
  then show ?case using Cons r by (force simp: method_child_Cons list_all_iff)
qed (simp add: method_child_def map_filter_simps)

lemma mux_okI: "sorted_wrt compatible (map (\<lambda>(p, h). parse_pattern p) rs) \<Longrightarrow> mux_ok rs"
  by (simp add: mux_ok_def list_all_iff conflict_free_method)

lemma sorted_wrt_opt: "sorted_wrt f (xs @ ys @ zs) \<Longrightarrow> sorted_wrt f (xs @ opt b ys @ zs)"
  by (auto simp: opt_def sorted_wrt_append)

definition all_patterns :: "string list" where
  "all_patterns = map fst (vm_routes @ task_routes @ storage_routes @ network_routes @ cluster_routes @ backup_routes @ template_routes
     @ snapshot_routes @ image_routes @ system_routes @ [(''GET /ws'', reads (\<lambda>w r q sv. Some (w_upgrade w)))]
     @ auth_routes @ oauth2_routes @ (common_routes :: (unit, unit) handler routes))"

lemmas route_defs = vm_routes_def task_routes_def storage_routes_def network_routes_def cluster_routes_def backup_routes_def
  template_routes_def snapshot_routes_def image_routes_def system_routes_def auth_routes_def oauth2_routes_def common_routes_def


lemma patterns_compatible: "sorted_wrt compatible (map parse_pattern all_patterns)"
  unfolding all_patterns_def route_defs append.simps list.map fst_conv by code_simp

lemma sorted_wrt_subseq: "subseq xs ys \<Longrightarrow> sorted_wrt f ys \<Longrightarrow> sorted_wrt f xs"
  by (induction rule: list_emb.induct) (auto dest: list_emb_set)

lemma subseq_opt: "subseq (opt b xs) xs"
  by (simp add: opt_def)

lemma map_opt: "map f (opt b xs) = opt b (map f xs)"
  by (simp add: opt_def)

lemma live_patterns: "subseq (map fst (live_routes sv)) all_patterns"
proof -
  have "map fst (vm_routes :: ('a, 'b) handler routes) = map fst (vm_routes :: (unit, unit) handler routes)"
    "map fst (task_routes :: ('a, 'b) handler routes) = map fst (task_routes :: (unit, unit) handler routes)"
    "map fst (storage_routes :: ('a, 'b) handler routes) = map fst (storage_routes :: (unit, unit) handler routes)"
    "map fst (network_routes :: ('a, 'b) handler routes) = map fst (network_routes :: (unit, unit) handler routes)"
    "map fst (cluster_routes :: ('a, 'b) handler routes) = map fst (cluster_routes :: (unit, unit) handler routes)"
    "map fst (backup_routes :: ('a, 'b) handler routes) = map fst (backup_routes :: (unit, unit) handler routes)"
    "map fst (template_routes :: ('a, 'b) handler routes) = map fst (template_routes :: (unit, unit) handler routes)"
    "map fst (snapshot_routes :: ('a, 'b) handler routes) = map fst (snapshot_routes :: (unit, unit) handler routes)"
    "map fst (image_routes :: ('a, 'b) handler routes) = map fst (image_routes :: (unit, unit) handler routes)"
    "map fst (system_routes :: ('a, 'b) handler routes) = map fst (system_routes :: (unit, unit) handler routes)"
    "map fst (auth_routes :: ('a, 'b) handler routes) = map fst (auth_routes :: (unit, unit) handler routes)"
    "map fst (oauth2_routes :: ('a, 'b) handler routes) = map fst (oauth2_routes :: (unit, unit) handler routes)"
    "map fst (common_routes :: ('a, 'b) handler routes) = map fst (common_routes :: (unit, unit) handler routes)"
    by (simp_all only: route_defs list.map fst_conv)
  then show ?thesis
    unfolding live_routes_def all_patterns_def map_append map_opt
    by (simp only: list.map fst_conv) (intro list_emb_append_mono subseq_opt subseq_order.refl)
qed

lemma live_routes_ok: "mux_ok (live_routes sv)"
proof (rule mux_okI)
  have "subseq (map parse_pattern (map fst (live_routes sv))) (map parse_pattern all_patterns)"
    by (rule subseq_map [OF live_patterns])
  moreover have "map (\<lambda>(p, h). parse_pattern p) (live_routes sv) = map parse_pattern (map fst (live_routes sv))"
    by (simp add: case_prod_beta)
  ultimately show "sorted_wrt compatible (map (\<lambda>(p, h). parse_pattern p) (live_routes sv))"
    using sorted_wrt_subseq [OF _ patterns_compatible] by metis
qed

text \<open>C9: The controller's table of routes is one the multiplexer accepts, whatever services are present,
  and a request whose path a registered pattern matches is handed to a handler of the same method
  whose pattern matches the path and is at least as specific.\<close>

theorem routed_to_most_specific:
  assumes "(p, h) \<in> set (live_routes sv)" "parse_pattern p = (rq_Method (in_http q), gs)"
    and "matches gs (path_segs (rq_Path (in_http q)))" "cleanPath (rq_Path (in_http q)) = rq_Path (in_http q)"
  shows "mux_ok (live_routes sv) \<and>
    (\<exists>p' gs' h'. (p', h') \<in> set (live_routes sv) \<and> parse_pattern p' = (rq_Method (in_http q), gs')
       \<and> matches gs' (path_segs (rq_Path (in_http q))) \<and> pat_within gs' gs
       \<and> mux_serve (live_routes sv) w q st =
           h' w \<lparr>ar_path = path_value gs' (path_segs (rq_Path (in_http q))), ar_query = in_query q\<rparr> q st)"
proof -
  obtain p' gs' h' where m: "mux_match (live_routes sv) (rq_Method (in_http q)) (rq_Path (in_http q)) = Some (gs', h')"
    "(p', h') \<in> set (live_routes sv)" "parse_pattern p' = (rq_Method (in_http q), gs')"
    "matches gs' (path_segs (rq_Path (in_http q)))" "pat_within gs' gs"
    using mux_match_best [OF live_routes_ok assms(1-3)] by blast
  have "mux_serve (live_routes sv) w q st =
      h' w \<lparr>ar_path = path_value gs' (path_segs (rq_Path (in_http q))), ar_query = in_query q\<rparr> q st"
    using m(1) assms(4) by (simp add: mux_serve_def Let_def)
  then show ?thesis using live_routes_ok m by blast
qed

section \<open>What changes the services\<close>

text \<open>Apart from the state store, which a read can touch through its circuit breaker, and the cached
  documentation.\<close>

definition unchanged :: "('s, 'd) Services \<Rightarrow> ('s, 'd) Services \<Rightarrow> bool" where
  "unchanged sv sv' \<longleftrightarrow> sv' = sv\<lparr>sv_kv := sv_kv sv', sv_spec := sv_spec sv'\<rparr>"

definition quiet :: "('s, 'd) handler \<Rightarrow> bool" where
  "quiet h \<longleftrightarrow> (\<forall>w r q sv. unchanged sv (snd (h w r q sv)))"

lemma unchanged_refl [simp]: "unchanged sv sv"
  by (simp add: unchanged_def)

lemma quiet_reads [simp]: "quiet (reads f)"
  by (simp add: quiet_def reads_def)

lemma quiet_asks_store [simp]: "quiet (asks_store f)"
  by (simp add: quiet_def asks_store_def unchanged_def split: prod.split)

lemma quiet_spec [simp]: "quiet spec_handler"
  by (simp add: quiet_def spec_handler_def unchanged_def split: prod.split)

lemma quiet_login: "quiet (on_auth (\<lambda>w r q (j, d). (f w r q j d, j, d)))"
  by (auto simp: quiet_def on_auth_def unchanged_def split: option.split)

text \<open>A handler that is not quiet is not registered for GET, except those of the OAuth2 flow, and its path is not
  one of those that need no credentials.\<close>

definition oauth2_path :: "seg list \<Rightarrow> bool" where
  "oauth2_path gs \<longleftrightarrow> gs = map Lit [''api'', ''v1'', ''auth'', ''oauth2'', ''authorize'']
     \<or> gs = map Lit [''api'', ''v1'', ''auth'', ''oauth2'', ''callback'']"

fun third_lit :: "seg list \<Rightarrow> string" where
  "third_lit (a # b # Lit l # gs) = l"
| "third_lit _ = []"

definition guarded_route :: "string \<times> ('s, 'd) handler \<Rightarrow> bool" where
  "guarded_route = (\<lambda>(p, h). quiet h \<or> (case parse_pattern p of (m, gs) \<Rightarrow>
     oauth2_path gs \<and> m = ''GET'' \<or> m \<noteq> ''GET'' \<and> third_lit gs \<noteq> [] \<and> \<not> HasPrefix (third_lit gs) ''docs''
       \<and> \<not> matches gs [''healthz''] \<and> \<not> matches gs [''metrics''] \<and> \<not> matches gs [''api'', ''v1'', ''auth'', ''login'']))"

lemmas pattern_eval = guarded_route_def parse_pattern_def path_segs_def split_char_def parse_seg_def oauth2_path_def matches_def

lemma guarded_tables:
  "list_all guarded_route vm_routes" "list_all guarded_route task_routes" "list_all guarded_route storage_routes"
  "list_all guarded_route network_routes" "list_all guarded_route cluster_routes" "list_all guarded_route backup_routes"
  "list_all guarded_route template_routes" "list_all guarded_route snapshot_routes" "list_all guarded_route image_routes"
  "list_all guarded_route system_routes" "list_all guarded_route auth_routes" "list_all guarded_route oauth2_routes"
  "list_all guarded_route common_routes"
  by (simp_all add: route_defs pattern_eval quiet_login)

lemma guarded_reads: "guarded_route (p, reads f)"
  by (simp add: guarded_route_def)

lemma guarded_live: "list_all guarded_route (live_routes sv)"
  by (simp add: live_routes_def opt_def guarded_tables guarded_reads)

lemma docs_segs:
  assumes "HasPrefix path ''/api/v1/docs''"
  shows "\<exists>x segs. path_segs path = ''api'' # ''v1'' # (''docs'' @ x) # segs"
proof -
  obtain rest where "path = ''/api/v1/docs'' @ rest" using assms by (auto simp: HasPrefix_iff)
  moreover obtain x segs where "split_on (\<lambda>c. c = CHR ''/'') rest = x # segs"
    by (metis neq_Nil_conv split_on_ne)
  ultimately show ?thesis by (simp add: path_segs_def split_char_def)
qed

lemma third_lit_matches: "matches gs (a # b # s # segs) \<Longrightarrow> third_lit gs \<noteq> [] \<Longrightarrow> third_lit gs = s"
  by (cases gs rule: third_lit.cases) (auto simp: matches_def)

lemma oauth2_prefix:
  assumes "oauth2_path gs" "matches gs (path_segs path)" "cleanPath path = path"
  shows "HasPrefix path ''/api/v1/auth/oauth2/''"
proof -
  have "matches (map Lit ls) ss \<longleftrightarrow> ss = ls" for ls ss
    by (induction ls arbitrary: ss) (auto simp: matches_def list_all2_Cons1)
  then have ss: "path_segs path = [''api'', ''v1'', ''auth'', ''oauth2'', ''authorize'']
      \<or> path_segs path = [''api'', ''v1'', ''auth'', ''oauth2'', ''callback'']"
    using assms unfolding oauth2_path_def by metis
  have "hd path = CHR ''/'' \<and> path \<noteq> []"
  proof (rule ccontr)
    assume a: "\<not> (hd path = CHR ''/'' \<and> path \<noteq> [])"
    then have "hd (cleanPath path) = CHR ''/'' \<and> cleanPath path \<noteq> []"
      by (auto simp: cleanPath_def path_Clean_def Let_def)
    then show False using a assms(3) by simp
  qed
  then obtain rest where r: "path = CHR ''/'' # rest" by (cases path) auto
  then have "path_segs path = split_char (CHR ''/'') rest" by (simp add: path_segs_def split_char_def)
  moreover have "str_join ''/'' (split_char (CHR ''/'') s) = s" for s
  proof (induction s)
    case (Cons c s)
    obtain x xs where "split_on (\<lambda>c. c = CHR ''/'') s = x # xs" by (metis neq_Nil_conv split_on_ne)
    then show ?case using Cons by (cases xs) (auto simp: split_char_def)
  qed (simp add: split_char_def)
  ultimately have "rest = str_join ''/'' (path_segs path)" by simp
  then show ?thesis using ss r by auto
qed

lemma mux_serve_unchanged:
  assumes "\<not> unchanged sv (snd (mux_serve (live_routes sv) w q sv))"
  shows "HasPrefix (rq_Path (in_http q)) ''/api/v1/auth/oauth2/''
    \<or> rq_Method (in_http q) \<noteq> ''GET'' \<and> \<not> rbac_exempt (rq_Path (in_http q))"
proof -
  let ?m = "rq_Method (in_http q)" and ?path = "rq_Path (in_http q)"
  obtain gs h where h: "mux_match (live_routes sv) ?m ?path = Some (gs, h)" and c: "?m = ''CONNECT'' \<or> cleanPath ?path = ?path"
    and n: "\<not> unchanged sv (snd (h w \<lparr>ar_path = path_value gs (path_segs ?path), ar_query = in_query q\<rparr> q sv))"
    using assms by (auto simp: mux_serve_def Let_def split: if_splits option.splits)
  obtain p m' where p: "(p, h) \<in> set (live_routes sv)" "parse_pattern p = (m', gs)" "matches gs (path_segs ?path)"
    "m' = ?m \<or> ?m = ''HEAD'' \<and> m' = ''GET''" using mux_match_sound [OF h] by blast
  have "\<not> quiet h" using n unfolding quiet_def by blast
  then have g: "oauth2_path gs \<and> m' = ''GET'' \<or> m' \<noteq> ''GET'' \<and> third_lit gs \<noteq> [] \<and> \<not> HasPrefix (third_lit gs) ''docs''
      \<and> \<not> matches gs [''healthz''] \<and> \<not> matches gs [''metrics''] \<and> \<not> matches gs [''api'', ''v1'', ''auth'', ''login'']"
    using guarded_live [of sv] p(1,2) by (auto simp: list_all_iff guarded_route_def)
  show ?thesis
  proof (cases "oauth2_path gs \<and> m' = ''GET''")
    case True
    then have "cleanPath ?path = ?path" using c p(4) by auto
    then show ?thesis using oauth2_prefix p(3) True by blast
  next
    case False
    then have f: "m' \<noteq> ''GET''" "third_lit gs \<noteq> []" "\<not> HasPrefix (third_lit gs) ''docs''" "\<not> matches gs [''healthz'']"
      "\<not> matches gs [''metrics'']" "\<not> matches gs [''api'', ''v1'', ''auth'', ''login'']" using g by auto
    have segs: "path_segs ''/healthz'' = [''healthz'']" "path_segs ''/metrics'' = [''metrics'']"
      "path_segs ''/api/v1/auth/login'' = [''api'', ''v1'', ''auth'', ''login'']"
      by (simp_all add: path_segs_def split_char_def)
    have "\<not> HasPrefix ?path ''/api/v1/docs''"
    proof
      assume "HasPrefix ?path ''/api/v1/docs''"
      then obtain x segs where "path_segs ?path = ''api'' # ''v1'' # (''docs'' @ x) # segs" using docs_segs by blast
      then have "third_lit gs = ''docs'' @ x" using third_lit_matches p(3) f(2) by metis
      then show False using f(3) by simp
    qed
    moreover have "?path \<noteq> ''/healthz''" "?path \<noteq> ''/metrics''" "?path \<noteq> ''/api/v1/auth/login''"
      using p(3) f(4-6) segs by metis+
    moreover have "?m \<noteq> ''GET''" using p(4) f(1) by auto
    ultimately show ?thesis by (auto simp: rbac_exempt_def)
  qed
qed


section \<open>Examples\<close>

definition get_req :: "string \<Rightarrow> in_req" where
  "get_req path = \<lparr>in_http = \<lparr>rq_Method = ''GET'', rq_Path = path, rq_Authorization = [], rq_RemoteAddr = []\<rparr>,
     in_query = (\<lambda>_. []), in_body = []\<rparr>"

theorem routed_to_most_specific_witness:
  "\<forall>w (sv :: ('s, 'd) Services) st. mux_ok (live_routes sv) \<and>
    (\<exists>p' gs' h'. (p', h') \<in> set (live_routes sv) \<and> parse_pattern p' = (''GET'', gs')
       \<and> matches gs' [''api'', ''v1'', ''vms'', ''7''] \<and> pat_within gs' [Lit ''api'', Lit ''v1'', Lit ''vms'', Wild ''id'']
       \<and> mux_serve (live_routes sv) w (get_req ''/api/v1/vms/7'') st =
           h' w \<lparr>ar_path = path_value gs' [''api'', ''v1'', ''vms'', ''7''], ar_query = (\<lambda>_. [])\<rparr> (get_req ''/api/v1/vms/7'') st)"
proof (intro allI)
  fix w and sv :: "('s, 'd) Services" and st
  let ?q = "get_req ''/api/v1/vms/7''"
  obtain h where h: "(''GET /api/v1/vms/{id}'', h) \<in> set (live_routes sv)" by (simp add: live_routes_def vm_routes_def) blast
  have "parse_pattern ''GET /api/v1/vms/{id}'' = (rq_Method (in_http ?q), [Lit ''api'', Lit ''v1'', Lit ''vms'', Wild ''id''])"
    by (simp add: parse_pattern_def path_segs_def split_char_def parse_seg_def get_req_def)
  moreover have s: "path_segs (rq_Path (in_http ?q)) = [''api'', ''v1'', ''vms'', ''7'']"
    by (simp add: path_segs_def split_char_def get_req_def)
  moreover have "matches [Lit ''api'', Lit ''v1'', Lit ''vms'', Wild ''id''] [''api'', ''v1'', ''vms'', ''7'']" by (simp add: matches_def)
  moreover have "cleanPath (rq_Path (in_http ?q)) = rq_Path (in_http ?q)"
    by (simp add: cleanPath_def path_Clean_def split_char_def get_req_def Let_def)
  ultimately have "mux_ok (live_routes sv) \<and>
    (\<exists>p' gs' h'. (p', h') \<in> set (live_routes sv) \<and> parse_pattern p' = (rq_Method (in_http ?q), gs')
       \<and> matches gs' (path_segs (rq_Path (in_http ?q))) \<and> pat_within gs' [Lit ''api'', Lit ''v1'', Lit ''vms'', Wild ''id'']
       \<and> mux_serve (live_routes sv) w ?q st =
           h' w \<lparr>ar_path = path_value gs' (path_segs (rq_Path (in_http ?q))), ar_query = in_query ?q\<rparr> ?q st)"
    using routed_to_most_specific [OF h, of ?q] by presburger
  then show "mux_ok (live_routes sv) \<and>
    (\<exists>p' gs' h'. (p', h') \<in> set (live_routes sv) \<and> parse_pattern p' = (''GET'', gs')
       \<and> matches gs' [''api'', ''v1'', ''vms'', ''7''] \<and> pat_within gs' [Lit ''api'', Lit ''v1'', Lit ''vms'', Wild ''id'']
       \<and> mux_serve (live_routes sv) w ?q st = h' w \<lparr>ar_path = path_value gs' [''api'', ''v1'', ''vms'', ''7''], ar_query = (\<lambda>_. [])\<rparr> ?q st)"
    unfolding s by (simp add: get_req_def)
qed

definition demo_services :: "(unit, unit) Services" where
  "demo_services =
     \<lparr>sv_Compute = NewComputeService svc_fresh, sv_Task = Some NewTaskService, sv_running = [], sv_Storage = NewStorageService,
      sv_Network = NetMemory newMemoryDriver, sv_Peripheral = Per_NewService, sv_HA = Ha_NewService 0,
      sv_LeaderElection = Some \<lparr>le_nodeName = ''n'', le_sessionTTL = 15, le_isLeader = False, le_singleNode = True, le_election = False\<rparr>,
      sv_kv = (), sv_Backup = Some (NewBackupService NewStorageService), sv_Template = None, sv_Snapshot = None, sv_Image = None,
      sv_Auth = None, sv_OAuth2 = None, sv_EventHub = True,
      sv_Version = \<lparr>vi_Version = ''0.1.0'', vi_GitCommit = ''dev'', vi_BuildDate = [], vi_VMCore = []\<rparr>, sv_spec = None\<rparr>"

definition promote_req :: in_req where
  "promote_req = \<lparr>in_http = \<lparr>rq_Method = ''POST'', rq_Path = ''/api/v1/cluster/promote'',
     rq_Authorization = ''Basic YTpi'', rq_RemoteAddr = []\<rparr>, in_query = (\<lambda>_. []), in_body = []\<rparr>"

definition demo_users :: "string \<Rightarrow> RBACUser option" where
  "demo_users = [''a'' \<mapsto> \<lparr>ru_Username = ''a'', ru_Password = ''b'', ru_Role = ''operator''\<rparr>]"

lemma promote_match:
  "mux_match (live_routes demo_services) ''POST'' ''/api/v1/cluster/promote'' =
     Some (map Lit [''api'', ''v1'', ''cluster'', ''promote''], promote_handler)"
  unfolding live_routes_def route_defs
  by (simp add: mux_match_def method_child_Cons lit_child_def map_filter_simps opt_def demo_services_def parse_pattern_def path_segs_def
      split_char_def parse_seg_def)


text \<open>The access control lies outside the CORS middleware, so with users configured the preflight
  request of a browser, which carries no credentials, is answered with 401 for every path that
  needs credentials; CORS answers it with 204 only where no credentials are needed.\<close>

theorem preflight_needs_credentials:
  assumes "rq_Method (in_http q) = ''OPTIONS''" "rq_Authorization (in_http q) = []"
  shows "ho_Status (fst (NewRouter limited (Some us) w q (n, sv))) = (if rbac_exempt (rq_Path (in_http q)) then 204 else 401)
    \<and> snd (snd (NewRouter limited (Some us) w q (n, sv))) = sv"
proof -
  have "BasicAuth [] = None" by (simp add: BasicAuth_def)
  then have "rbac_role (w_auth w) (w_now w) (Some us) (rbac_config sv) (in_http q) = None"
    using assms by (simp add: rbac_role_def split: option.split)
  then show ?thesis
    using assms by (auto simp: NewRouter_def rbac_chain_def RBACMiddleware_def inner_chain_def corsMiddleware_def Let_def split: prod.splits)
qed

theorem preflight_needs_credentials_witness:
  "\<forall>w. ho_Status (fst (NewRouter True (Some demo_users) w
     \<lparr>in_http = \<lparr>rq_Method = ''OPTIONS'', rq_Path = ''/api/v1/vms'', rq_Authorization = [], rq_RemoteAddr = []\<rparr>, in_query = (\<lambda>_. []), in_body = []\<rparr>
     (0, demo_services))) = 401"
  using preflight_needs_credentials [of "\<lparr>in_http = \<lparr>rq_Method = ''OPTIONS'', rq_Path = ''/api/v1/vms'', rq_Authorization = [], rq_RemoteAddr = []\<rparr>,
    in_query = (\<lambda>_. []), in_body = []\<rparr>" True demo_users _ 0 demo_services]
  by (simp add: rbac_exempt_def)

end
