(* ===== verification/System.thy ===== *)
theory System
  imports Router
begin

text \<open>
  Properties of the assembled REST service: the invariant of the machine tables along every request,
  whatever its route, and the agreement of the machine handlers with each other.
\<close>

section \<open>Settings of a new machine\<close>

lemma apply_settings_keeps:
  "vmID (apply_settings q vm) = vmID vm" "vmState (apply_settings q vm) = vmState vm" "vmVCPUs (apply_settings q vm) = vmVCPUs vm"
  "vmMemoryMB (apply_settings q vm) = vmMemoryMB vm" "vmBackend (apply_settings q vm) = vmBackend vm"
  by (simp_all add: apply_settings_def Let_def)

lemma same_vm_settings: "same_vm mv vm \<Longrightarrow> same_vm mv (apply_settings q vm)"
  by (simp add: same_vm_def apply_settings_keeps)

lemma backend_edit_vm_props:
  "backend_Name (backend_edit_vm h f b) = backend_Name b" "backend_next (backend_edit_vm h f b) = backend_next b"
  "backend_table (backend_edit_vm h f b) = (backend_table b)(h := map_option f (backend_table b h))"
  by (cases b; simp)+

lemma backend_edit_settings_ok: "backend_ok b \<Longrightarrow> backend_ok (backend_edit_vm h (apply_settings q) b)"
proof (cases b)
  case (BRust x)
  assume ok: "backend_ok b"
  have "rel_option same_vm (core_vms (rb_core x) h') (((rb_vms x)(h := map_option (apply_settings q) (rb_vms x h))) h')" for h'
    using ok BRust same_vm_settings by (cases "core_vms (rb_core x) h'"; cases "rb_vms x h'") (auto simp: rust_ok_def dest: spec [of _ h'])
  then show ?thesis using ok BRust by (simp add: rust_ok_def)
next
  case (BQemu x)
  assume "backend_ok b"
  then show ?thesis using BQemu by (auto simp: qemu_ok_def apply_settings_keeps)
next
  case (BLxc x)
  assume "backend_ok b"
  then show ?thesis using BLxc by (auto simp: lxc_ok_def lxc_entry_ok_def apply_settings_keeps)
qed

lemma edit_settings_inv:
  assumes "svc_inv s"
  shows "svc_inv (edit_vm vm (apply_settings q) s)"
proof (cases "sel_backends s (vmBackend vm)")
  case (Some b)
  then have "backend_ok b" using assms by (auto simp: svc_inv_def svc_ok_def)
  then show ?thesis
    using svc_inv_set_same_next [OF assms Some] Some by (simp add: edit_vm_def backend_edit_settings_ok backend_edit_vm_props)
qed (use assms in \<open>simp add: edit_vm_def\<close>)

lemma edit_settings_view:
  assumes inv: "svc_inv s" and v: "svc_view s (vmID vm) = Some vm"
  shows "svc_view (edit_vm vm (apply_settings q) s) = (svc_view s)(vmID vm \<mapsto> apply_settings q vm)"
proof -
  let ?s = "edit_vm vm (apply_settings q) s"
  note inv' = edit_settings_inv [OF inv, of vm q]
  obtain k where o: "owns s k (vmID vm) vm" using v svc_view_iff [OF inv] by blast
  obtain b where b: "sel_backends s k = Some b" "backend_table b (vmID vm) = Some vm" using o by (auto simp: owns_def)
  have k: "vmBackend vm = k" using backend_entry [of b "vmID vm" vm] inv b by (auto simp: svc_inv_def svc_ok_def)
  have uniq: "owns s k' (vmID vm) v \<Longrightarrow> k' = k" for k' v using owns_unique inv o by (auto simp: svc_inv_def)
  have "owns ?s k' h v \<longleftrightarrow> (if h = vmID vm then k' = k \<and> v = apply_settings q vm else owns s k' h v)" for k' h v
    using b k uniq by (auto simp: owns_def edit_vm_def set_backend_def backend_edit_vm_props split: if_splits)
  then show ?thesis
    by (intro map_eq_Some_iffI) (auto simp: svc_view_iff [OF inv] svc_view_iff [OF inv'])
qed

section \<open>A created machine can be read back\<close>

definition hint_room :: "BackendSelector \<Rightarrow> bool" where
  "hint_room s \<longleftrightarrow> (\<forall>key. has_room key s)"

lemma create_vm_view:
  assumes inv: "svc_inv s" and room: "hint_room s" and c: "handleCreateVM env now body s = ((status, b), s')"
  shows "svc_inv s' \<and> (status = 201 \<longrightarrow> (\<exists>vm. b = BVM vm \<and> svc_view s (vmID vm) = None \<and> svc_view s' = (svc_view s)(vmID vm \<mapsto> vm)))
    \<and> (status \<noteq> 201 \<longrightarrow> svc_view s' = svc_view s)"
proof (cases body)
  case (Inl err)
  then show ?thesis using c inv by (auto simp: handleCreateVM_def response_defs)
next
  case (Inr q)
  define name vcpus memoryMB hint where d: "name = (if cr_Name q = [] then ''unnamed'' else cr_Name q)"
    "vcpus = (if cr_VCPUs q = 0 then 1 else cr_VCPUs q)" "memoryMB = (if cr_MemoryMB q = 0 then 512 else cr_MemoryMB q)"
    "hint = (if cr_Type q = ''container'' \<and> cr_Backend q = [] then ''lxc'' else cr_Backend q)"
  show ?thesis
  proof (cases "vcpus > 256 \<or> memoryMB > 1048576")
    case True
    then show ?thesis using c inv Inr by (auto simp: handleCreateVM_def response_defs d split: if_splits)
  next
    case False
    obtain r s1 where cr: "Svc_CreateVM env name vcpus memoryMB hint now s = (r, s1)" by (metis prod.exhaust)
    note v = svc_create_view [OF inv cr room [unfolded hint_room_def, rule_format]]
    have e: "handleCreateVM env now body s = (case r of Inl err \<Rightarrow> (internal_error (error_string err), s1)
        | Inr vm \<Rightarrow> (writeJSON 201 (BVM (apply_settings q vm)), edit_vm vm (apply_settings q) s1))"
      using False cr Inr by (simp add: handleCreateVM_def d Let_def split: sum.split)
    show ?thesis
    proof (cases r)
      case (Inl err)
      then show ?thesis using e v c by (auto simp: response_defs)
    next
      case (Inr vm)
      have "svc_view s1 (vmID vm) = Some vm" using v Inr by simp
      then show ?thesis
        using edit_settings_view [of s1 vm q] edit_settings_inv [of s1 vm q] e v c Inr by (auto simp: response_defs apply_settings_keeps)
    qed
  qed
qed

lemma get_vm_view:
  assumes "svc_inv s" "range_order ord (sel_backends s)"
  shows "handleGetVM ord (id_req (show_int (sint h))) s =
    (case svc_view s h of None \<Rightarrow> not_found (vm_not_found h) | Some vm \<Rightarrow> (200, BVM vm))"
  using svc_get_view [OF assms, of h] by (simp add: handleGetVM_def parse_id_req writeJSON_def split: option.split)

lemma not_found_404: "fst (not_found e) = 404"
  by (simp add: response_defs)

text \<open>C5: A machine created over the REST interface is the one a lookup under its handle returns, with the
  settings of the request, under a handle no machine had; every other machine is found as before; and a refused
  creation changes no machine.\<close>

theorem created_vm_readable:
  assumes "svc_inv s" "hint_room s" "handleCreateVM env now body s = ((status, b), s')"
    and "range_order ord (sel_backends s)" "range_order ord' (sel_backends s')"
  shows "handleGetVM ord' (id_req (show_int (sint h))) s' =
      (case b of BVM vm \<Rightarrow> if status = 201 \<and> vmID vm = h then (200, b) else handleGetVM ord (id_req (show_int (sint h))) s
       | _ \<Rightarrow> handleGetVM ord (id_req (show_int (sint h))) s)
    \<and> (status = 201 \<longrightarrow> (\<exists>vm. b = BVM vm \<and> fst (handleGetVM ord (id_req (show_int (sint (vmID vm)))) s) = 404))"
proof -
  have inv': "svc_inv s'" using create_vm_view [OF assms(1-3)] by blast
  note g = get_vm_view [OF assms(1,4)] get_vm_view [OF inv' assms(5)]
  show ?thesis
  proof (cases "status = 201")
    case True
    then obtain vm where vm: "b = BVM vm" "svc_view s (vmID vm) = None" "svc_view s' = (svc_view s)(vmID vm \<mapsto> vm)"
      using create_vm_view [OF assms(1-3)] by blast
    then have "fst (handleGetVM ord (id_req (show_int (sint (vmID vm)))) s) = 404" using g(1) by (simp add: not_found_404)
    then show ?thesis using True vm by (auto simp: g)
  next
    case False
    then have "svc_view s' = svc_view s" using create_vm_view [OF assms(1-3)] by blast
    then show ?thesis using False by (simp add: g split: api_body.split)
  qed
qed

definition demo_create :: create_req where
  "demo_create = \<lparr>cr_Name = ''win'', cr_VCPUs = 4, cr_MemoryMB = 4096, cr_Backend = ''qemu'', cr_Type = [], cr_Template = [],
     cr_RestartPolicy = ''never'', cr_DiskPath = ''/d.qcow2'', cr_ISOPath = [], cr_NetworkMode = []\<rparr>"

theorem created_vm_readable_witness:
  "\<exists>vm s'. handleCreateVM quiet_env 9 (Ok demo_create) svc_fresh = ((201, BVM vm), s') \<and> vmDiskPath vm = ''/d.qcow2''
     \<and> handleGetVM backend_names (id_req (show_int (sint (10000 :: int32)))) s' = (200, BVM vm)"
proof -
  have room: "hint_room svc_fresh" by (auto simp: hint_room_def has_room_def svc_fresh_backends)
  obtain vm s' where c: "handleCreateVM quiet_env 9 (Ok demo_create) svc_fresh = ((201, BVM vm), s')" "vmID vm = 10000" "vmDiskPath vm = ''/d.qcow2''"
    "range_order backend_names (sel_backends s')"
    by (simp add: handleCreateVM_def demo_create_def Svc_CreateVM_def Selector_Select_def svc_fresh_backends QEMU_CreateVM_def NewQEMUBackend_def
        edit_vm_def set_backend_def new_VMInfo_def apply_settings_def writeJSON_def quiet_env_def Let_def range_order_def backend_names_def insert_commute)
  then show ?thesis
    using created_vm_readable [OF svc_fresh_inv room c(1) svc_fresh_order c(4), of 10000] by auto
qed

section \<open>Every request keeps the machine tables well formed\<close>

definition sys_ok :: "('s, 'd) world \<Rightarrow> ('s, 'd) Services \<Rightarrow> bool" where
  "sys_ok w sv \<longleftrightarrow> svc_inv (selector sv) \<and> hint_room (selector sv) \<and> range_order (w_order w ''backends'') (sel_backends (selector sv))
     \<and> sv_Task sv \<noteq> None"

definition keeps :: "('s, 'd) handler \<Rightarrow> bool" where
  "keeps h \<longleftrightarrow> (\<forall>w r q sv. sys_ok w sv \<longrightarrow> svc_inv (selector (snd (h w r q sv))) \<and> sv_Task (snd (h w r q sv)) \<noteq> None)"

lemma quiet_keeps:
  fixes h :: "('s, 'd) handler"
  assumes q: "quiet h"
  shows "keeps h"
proof (unfold keeps_def, intro allI impI)
  fix w r q and sv :: "('s, 'd) Services"
  assume ok: "sys_ok w sv"
  have "unchanged sv (snd (h w r q sv))" using q by (simp add: quiet_def)
  then have "sv_Compute (snd (h w r q sv)) = sv_Compute sv" "sv_Task (snd (h w r q sv)) = sv_Task sv"
    unfolding unchanged_def by (metis Services.select_convs(1,2) Services.surjective Services.update_convs(9,18))+
  then show "svc_inv (selector (snd (h w r q sv))) \<and> sv_Task (snd (h w r q sv)) \<noteq> None" using ok by (simp add: sys_ok_def)
qed

lemma keeps_reads: "keeps (reads f)" "keeps (asks_store f')" "keeps spec_handler"
  by (simp_all add: quiet_keeps)

lemma keeps_other:
  "keeps (on_storage f1)" "keeps (on_network f2)" "keeps (on_backup f3)" "keeps (on_template f4)" "keeps (on_snapshot f5)"
  "keeps (on_image f6)" "keeps (on_ha f7)" "keeps (on_oauth2 f8)" "keeps (on_auth f9)" "keeps delete_task_handler"
  "keeps attach_handler" "keeps detach_handler" "keeps promote_handler"
  by (auto simp: keeps_def sys_ok_def on_storage_def on_network_def on_backup_def on_template_def on_snapshot_def on_image_def on_ha_def
      on_oauth2_def on_auth_def delete_task_handler_def attach_handler_def detach_handler_def promote_handler_def set_backup_def
      split: prod.split option.split)

lemma keeps_selector:
  fixes f :: "('s, 'd) world \<Rightarrow> api_req \<Rightarrow> in_req \<Rightarrow> BackendSelector \<Rightarrow> response \<times> BackendSelector"
  assumes "\<And>w r q s. svc_inv s \<Longrightarrow> hint_room s \<Longrightarrow> range_order (w_order w ''backends'') (sel_backends s) \<Longrightarrow> svc_inv (snd (f w r q s))"
  shows "keeps (on_selector f)"
proof -
  have "selector (snd (on_selector f w r q sv)) = snd (f w r q (selector sv))" "sv_Task (snd (on_selector f w r q sv)) = sv_Task sv"
    for w r q sv by (simp_all add: on_selector_def set_selector_def split: prod.split)
  then show ?thesis using assms by (simp add: keeps_def sys_ok_def)
qed

lemma keeps_create: "keeps (on_selector (\<lambda>w r q. handleCreateVM (w_comp w) (w_now w) (jd_vm (w_json w) (in_body q))))"
proof (rule keeps_selector)
  fix w q s assume "svc_inv s" "hint_room s"
  then show "svc_inv (snd (handleCreateVM (w_comp w) (w_now w) (jd_vm (w_json w) (in_body q)) s))"
    using create_vm_view by (metis prod.collapse)
qed

lemma keeps_delete: "keeps (on_selector (\<lambda>w r q. handleDeleteVM (w_comp w) (w_order w ''backends'') r))"
proof (rule keeps_selector)
  fix w r s assume a: "svc_inv s" "range_order (w_order w ''backends'') (sel_backends s)"
  have "svc_inv (snd (Svc_DestroyVM e (w_order w ''backends'') h s))" for e h
    by (rule svc_destroy_view [OF a prod.collapse [symmetric], THEN conjunct1])
  then show "svc_inv (snd (handleDeleteVM (w_comp w) (w_order w ''backends'') r s))"
    using a(1) by (simp add: handleDeleteVM_def split: sum.split prod.split) (metis snd_conv)
qed

lemma keeps_action: "keeps (on_selector (\<lambda>w r q. handleVMAction (w_comp w) (w_order w ''backends'') a r))"
proof (rule keeps_selector)
  fix w r s assume i: "svc_inv s" "range_order (w_order w ''backends'') (sel_backends s)"
  have "svc_inv (snd (Svc_ActionVM e (w_order w ''backends'') h a s))" for e h
    by (rule svc_action_view [OF i prod.collapse [symmetric], THEN conjunct1])
  moreover have "snd (handleVMAction (w_comp w) (w_order w ''backends'') a r s) =
      (case parseVMID r of Inl err \<Rightarrow> s | Inr h \<Rightarrow> snd (Svc_ActionVM (w_comp w) (w_order w ''backends'') h a s))"
    by (simp add: handleVMAction_def split: sum.split prod.split)
  ultimately show "svc_inv (snd (handleVMAction (w_comp w) (w_order w ''backends'') a r s))"
    using i(1) by (simp split: sum.split)
qed

lemma MigrateLive_selector: "cs_selector (snd (MigrateLive ord now h node cs)) = cs_selector cs"
  by (auto simp: MigrateLive_def new_status_def Let_def split: sum.split option.split prod.split)

lemma keeps_migrate: "keeps migrate_handler" "keeps cancel_handler"
proof -
  have "cs_selector (snd (snd (snd (handleMigrateVM ord now inputs r body (Some ts, cs))))) = cs_selector cs
      \<and> fst (snd (snd (handleMigrateVM ord now inputs r body (Some ts, cs)))) \<noteq> None" for ord now inputs r body ts cs
    using MigrateLive_selector
    by (auto simp: handleMigrateVM_def split: sum.split prod.split) (metis snd_conv)+
  then show "keeps migrate_handler"
    by (auto simp: keeps_def sys_ok_def migrate_handler_def split: prod.split) (metis fst_conv snd_conv option.distinct(1))+
  show "keeps cancel_handler"
    by (auto simp: keeps_def sys_ok_def cancel_handler_def handleCancelMigration_def CancelMigration_def split: prod.split sum.split option.split)
qed

lemma keeps_deploy: "keeps deploy_handler"
proof -
  have "svc_inv (snd (handleDeployTemplate env now r body ts s))" if i: "svc_inv s" and h: "hint_room s" for env now r body ts s
  proof -
    have "svc_inv (snd (Svc_CreateVM e n c m hint t s))" for e n c m hint t
      using svc_create_view [OF i prod.collapse [symmetric]] h by (simp add: hint_room_def)
    moreover have "snd (handleDeployTemplate env now r body ts s) = (case Tpl_Get (ar_path r ''id'') ts of Inl err \<Rightarrow> s
        | Inr t \<Rightarrow> (case body of Inl err \<Rightarrow> s | Inr name0 \<Rightarrow> snd (Svc_CreateVM env (if name0 = [] then tp_Name t @ ''-vm'' else name0)
            (tp_VCPUs t) (tp_MemoryMB t) (tp_Backend t) now s)))"
      unfolding handleDeployTemplate_def Let_def by (auto split: sum.split prod.split)
    ultimately show ?thesis using i by (simp split: sum.split)
  qed
  then show ?thesis
    by (auto simp: keeps_def sys_ok_def deploy_handler_def set_selector_def split: option.split prod.split) (metis snd_conv)+
qed

lemma keeps_tables:
  "list_all (\<lambda>(p, h). keeps h) vm_routes" "list_all (\<lambda>(p, h). keeps h) task_routes" "list_all (\<lambda>(p, h). keeps h) storage_routes"
  "list_all (\<lambda>(p, h). keeps h) network_routes" "list_all (\<lambda>(p, h). keeps h) cluster_routes" "list_all (\<lambda>(p, h). keeps h) backup_routes"
  "list_all (\<lambda>(p, h). keeps h) template_routes" "list_all (\<lambda>(p, h). keeps h) snapshot_routes" "list_all (\<lambda>(p, h). keeps h) image_routes"
  "list_all (\<lambda>(p, h). keeps h) system_routes" "list_all (\<lambda>(p, h). keeps h) auth_routes" "list_all (\<lambda>(p, h). keeps h) oauth2_routes"
  "list_all (\<lambda>(p, h). keeps h) common_routes"
  by (simp_all add: route_defs keeps_reads keeps_other keeps_create keeps_delete keeps_action keeps_migrate keeps_deploy)

lemma keeps_live: "list_all (\<lambda>(p, h). keeps h) (live_routes sv)"
  by (simp add: live_routes_def opt_def keeps_tables keeps_reads)

lemma mux_serve_keeps:
  assumes "sys_ok w sv"
  shows "svc_inv (selector (snd (mux_serve (live_routes sv) w q sv))) \<and> sv_Task (snd (mux_serve (live_routes sv) w q sv)) \<noteq> None"
proof -
  have "keeps h" if "mux_match (live_routes sv) m p = Some (gs, h)" for m p gs h
    using mux_match_sound [OF that] keeps_live [of sv] by (auto simp: list_all_iff)
  then show ?thesis using assms by (auto simp: mux_serve_def Let_def keeps_def sys_ok_def split: option.split)
qed

text \<open>Every request, whatever its route, method, body and credentials, keeps the tables of machines well
  formed: in each backend every machine has the handle it is stored under, the backend's name and a
  state of the life cycle, its handle lies in the backend's range and below its counter, and the
  RustVMM table agrees with the machine core.\<close>

theorem request_keeps_tables:
  assumes "svc_inv (selector sv)" "hint_room (selector sv)" "range_order (w_order w ''backends'') (sel_backends (selector sv))"
    and "sv_Task sv \<noteq> None" "NewRouter limited users w q (n, sv) = (out, n', sv')"
  shows "svc_inv (selector sv')"
proof -
  have sv': "snd (snd (rbac_chain limited users w q sv)) = sv'"
    using assms(5) by (auto simp: NewRouter_def Let_def split: prod.splits)
  have "sys_ok w sv" using assms by (simp add: sys_ok_def)
  then have "svc_inv (selector (snd (snd (inner_chain limited w q sv))))"
    using mux_serve_keeps [of w sv q] assms(1) by (auto simp: inner_chain_def corsMiddleware_def Let_def split: prod.split option.split)
  then show ?thesis
    using assms(1) sv' by (auto simp: rbac_chain_def split: option.splits rbac_result.splits)
qed

definition delete_req :: in_req where
  "delete_req = \<lparr>in_http = \<lparr>rq_Method = ''DELETE'', rq_Path = ''/api/v1/vms/10000'', rq_Authorization = [], rq_RemoteAddr = []\<rparr>,
     in_query = (\<lambda>_. []), in_body = []\<rparr>"

theorem request_keeps_tables_witness:
  "\<forall>w. svc_inv (selector (snd (snd (NewRouter False None (w\<lparr>w_order := (\<lambda>_. backend_names)\<rparr>) delete_req
     (0, set_selector svc_one demo_services)))))"
proof
  fix w :: "(unit, unit) world"
  have sel: "selector (set_selector svc_one demo_services) = svc_one" "sv_Task (set_selector svc_one demo_services) \<noteq> None"
    by (simp_all add: set_selector_def demo_services_def)
  have "hint_room svc_one"
    by (auto simp: hint_room_def has_room_def svc_one_def set_backend_def svc_fresh_backends qemu_with_one_eq)
  then show "svc_inv (selector (snd (snd (NewRouter False None (w\<lparr>w_order := (\<lambda>_. backend_names)\<rparr>) delete_req
     (0, set_selector svc_one demo_services)))))"
    using request_keeps_tables [of "set_selector svc_one demo_services" "w\<lparr>w_order := (\<lambda>_. backend_names)\<rparr>" False None delete_req 0]
      svc_one_inv svc_one_order sel by (cases "NewRouter False None (w\<lparr>w_order := (\<lambda>_. backend_names)\<rparr>) delete_req (0, set_selector svc_one demo_services)") auto
qed

end
