(* ===== verification/Client.thy ===== *)
theory Client
  imports Hcvctl System
begin

text \<open>
  The client against the controller: every request \<^verbatim>\<open>hcvctl\<close> makes has a route, what its list commands
  print is what the services hold, and what it does with the credentials.
\<close>

section \<open>Every request has a route\<close>

text \<open>A server that records the requests it was sent; its answers may depend on them.\<close>

definition logging :: "(cl_req list \<Rightarrow> cl_req \<Rightarrow> cl_resp result) \<Rightarrow> cl_req list net" where
  "logging answer req sent = (answer sent req, sent @ [req])"

definition url_path :: "string \<Rightarrow> string" where
  "url_path = takeWhile (\<lambda>c. c \<noteq> CHR ''?'')"

definition has_route :: "string \<Rightarrow> string \<Rightarrow> bool" where
  "has_route method path \<longleftrightarrow> list_ex (\<lambda>p. fst p = method \<and> matches (snd p) (path_segs (url_path path))) (map parse_pattern all_patterns)"

definition has_route_req :: "cli_env \<Rightarrow> cl_req \<Rightarrow> bool" where
  "has_route_req env req \<longleftrightarrow> HasPrefix (hr_URL req) (cl_api env) \<and> has_route (hr_Method req) (drop (length (cl_api env)) (hr_URL req))"

text \<open>An identifier that is one segment of a path and needs no escaping.\<close>

definition plain_id :: "string \<Rightarrow> bool" where
  "plain_id s \<longleftrightarrow> s \<noteq> [] \<and> CHR ''/'' \<notin> set s \<and> CHR ''?'' \<notin> set s \<and> CHR ''#'' \<notin> set s \<and> CHR ''%'' \<notin> set s"

lemma all_patterns_parsed:
  "set (map parse_pattern all_patterns) \<supseteq> set
    [(''GET'', map Lit [''api'', ''v1'', ''vms'']), (''POST'', map Lit [''api'', ''v1'', ''vms'']),
     (''DELETE'', [Lit ''api'', Lit ''v1'', Lit ''vms'', Wild ''id'']),
     (''POST'', [Lit ''api'', Lit ''v1'', Lit ''vms'', Wild ''id'', Lit ''start'']),
     (''POST'', [Lit ''api'', Lit ''v1'', Lit ''vms'', Wild ''id'', Lit ''stop'']),
     (''POST'', [Lit ''api'', Lit ''v1'', Lit ''vms'', Wild ''id'', Lit ''migrate'']),
     (''POST'', [Lit ''api'', Lit ''v1'', Lit ''vms'', Wild ''id'', Lit ''exec'']),
     (''GET'', map Lit [''api'', ''v1'', ''nodes'']), (''GET'', map Lit [''api'', ''v1'', ''storage'', ''pools'']),
     (''GET'', map Lit [''api'', ''v1'', ''storage'', ''volumes'']), (''POST'', map Lit [''api'', ''v1'', ''storage'', ''volumes'']),
     (''GET'', map Lit [''api'', ''v1'', ''network'', ''zones'']), (''GET'', map Lit [''api'', ''v1'', ''network'', ''vnets'']),
     (''GET'', map Lit [''api'', ''v1'', ''network'', ''firewall'']), (''GET'', map Lit [''api'', ''v1'', ''devices'']),
     (''POST'', [Lit ''api'', Lit ''v1'', Lit ''devices'', Wild ''id'', Lit ''attach'']),
     (''POST'', [Lit ''api'', Lit ''v1'', Lit ''devices'', Wild ''id'', Lit ''detach'']),
     (''GET'', map Lit [''api'', ''v1'', ''cluster'', ''status'']), (''GET'', map Lit [''api'', ''v1'', ''cluster'', ''nodes'']),
     (''POST'', [Lit ''api'', Lit ''v1'', Lit ''cluster'', Lit ''fence'', Wild ''node'']),
     (''GET'', map Lit [''api'', ''v1'', ''backups'']), (''POST'', map Lit [''api'', ''v1'', ''backups'']),
     (''DELETE'', [Lit ''api'', Lit ''v1'', Lit ''backups'', Wild ''id'']),
     (''GET'', map Lit [''api'', ''v1'', ''templates'']), (''POST'', map Lit [''api'', ''v1'', ''templates'']),
     (''DELETE'', [Lit ''api'', Lit ''v1'', Lit ''templates'', Wild ''id'']),
     (''POST'', [Lit ''api'', Lit ''v1'', Lit ''templates'', Wild ''id'', Lit ''deploy'']),
     (''GET'', map Lit [''api'', ''v1'', ''images'']), (''POST'', map Lit [''api'', ''v1'', ''images'']),
     (''DELETE'', [Lit ''api'', Lit ''v1'', Lit ''images'', Wild ''id'']),
     (''GET'', map Lit [''api'', ''v1'', ''snapshots'']), (''POST'', map Lit [''api'', ''v1'', ''snapshots'']),
     (''DELETE'', [Lit ''api'', Lit ''v1'', Lit ''snapshots'', Wild ''id'']),
     (''POST'', [Lit ''api'', Lit ''v1'', Lit ''snapshots'', Wild ''id'', Lit ''restore'']),
     (''GET'', map Lit [''api'', ''v1'', ''system'', ''stats'']), (''POST'', map Lit [''api'', ''v1'', ''auth'', ''login''])]"
  unfolding all_patterns_def route_defs append.simps list.map fst_conv by code_simp

lemma has_routeI:
  "set ps \<subseteq> set (map parse_pattern all_patterns) \<Longrightarrow> list_ex (\<lambda>p. fst p = m \<and> matches (snd p) (path_segs (url_path path))) ps
     \<Longrightarrow> has_route m path"
  unfolding has_route_def list_ex_iff by blast

lemma segs_single: "CHR ''/'' \<notin> set s \<Longrightarrow> split_on (\<lambda>c. c = CHR ''/'') s = [s]"
  by (rule split_on_single) auto

lemma segs_append: "CHR ''/'' \<notin> set s \<Longrightarrow> split_on (\<lambda>c. c = CHR ''/'') (s @ CHR ''/'' # t) = s # split_on (\<lambda>c. c = CHR ''/'') t"
  by (rule split_on_append) auto

lemma takeWhile_id: "CHR ''?'' \<notin> set s \<Longrightarrow> takeWhile (\<lambda>c. c \<noteq> CHR ''?'') (s @ t) = s @ takeWhile (\<lambda>c. c \<noteq> CHR ''?'') t"
  by (rule takeWhile_append2) auto

lemma takeWhile_whole: "CHR ''?'' \<notin> set s \<Longrightarrow> takeWhile (\<lambda>c. c \<noteq> CHR ''?'') s = s"
  by (rule takeWhile_eq_all_conv [THEN iffD2]) auto

lemmas route_match = url_path_def path_segs_def split_char_def matches_def segs_single segs_append takeWhile_id takeWhile_whole plain_id_def

lemma static_routes:
  "has_route ''POST'' ''/api/v1/vms''" "has_route ''GET'' (''/api/v1/vms'')" "has_route ''GET'' (''/api/v1/vms'' @ ''?type='' @ t)"
  "has_route ''GET'' ''/api/v1/vms?type=container''" "has_route ''GET'' ''/api/v1/nodes''" "has_route ''GET'' ''/api/v1/storage/pools''"
  "has_route ''GET'' ''/api/v1/storage/volumes''" "has_route ''POST'' ''/api/v1/storage/volumes''" "has_route ''GET'' ''/api/v1/network/zones''"
  "has_route ''GET'' ''/api/v1/network/vnets''" "has_route ''GET'' ''/api/v1/network/firewall''" "has_route ''GET'' ''/api/v1/devices''"
  "has_route ''GET'' (''/api/v1/devices'' @ ''?type='' @ t)" "has_route ''GET'' ''/api/v1/cluster/status''"
  "has_route ''GET'' ''/api/v1/cluster/nodes''" "has_route ''GET'' ''/api/v1/backups''" "has_route ''POST'' ''/api/v1/backups''"
  "has_route ''GET'' ''/api/v1/templates''" "has_route ''POST'' ''/api/v1/templates''" "has_route ''GET'' ''/api/v1/images''"
  "has_route ''POST'' ''/api/v1/images''" "has_route ''GET'' ''/api/v1/snapshots''" "has_route ''POST'' ''/api/v1/snapshots''"
  "has_route ''GET'' (''/api/v1/snapshots'' @ Sprintf ''?vm_id=%d'' [FInt n])" "has_route ''GET'' ''/api/v1/system/stats''"
  "has_route ''POST'' ''/api/v1/auth/login''"
  by (rule has_routeI [OF all_patterns_parsed], simp add: route_match Sprintf_def)+

lemma id_routes:
  assumes "plain_id i"
  shows "has_route ''DELETE'' (Sprintf ''/api/v1/vms/%s'' [FStr i])" "has_route ''POST'' (Sprintf ''/api/v1/vms/%s/migrate'' [FStr i])"
    "has_route ''POST'' (Sprintf ''/api/v1/vms/%s/exec'' [FStr i])" "has_route ''POST'' (Sprintf ''/api/v1/devices/%s/attach'' [FStr i])"
    "has_route ''POST'' (Sprintf ''/api/v1/devices/%s/detach'' [FStr i])" "has_route ''POST'' (Sprintf ''/api/v1/cluster/fence/%s'' [FStr i])"
    "has_route ''DELETE'' (Sprintf ''/api/v1/backups/%s'' [FStr i])" "has_route ''DELETE'' (Sprintf ''/api/v1/templates/%s'' [FStr i])"
    "has_route ''POST'' (Sprintf ''/api/v1/templates/%s/deploy'' [FStr i])" "has_route ''DELETE'' (Sprintf ''/api/v1/images/%s'' [FStr i])"
    "has_route ''DELETE'' (Sprintf ''/api/v1/snapshots/%s'' [FStr i])" "has_route ''POST'' (Sprintf ''/api/v1/snapshots/%s/restore'' [FStr i])"
    "has_route ''POST'' (''/api/v1/vms/'' @ i @ ''/start'')" "has_route ''POST'' (''/api/v1/vms/'' @ i @ ''/stop'')"
  using assms by - (rule has_routeI [OF all_patterns_parsed], simp add: route_match Sprintf_def)+

definition log_ok :: "cli_env \<Rightarrow> cl_req list cstate \<Rightarrow> bool" where
  "log_ok env st \<longleftrightarrow> list_all (has_route_req env) (cs_Server st)"

lemma send_server: "cs_Server (snd (send (logging answer) req st)) = cs_Server st @ [req]"
  by (simp add: send_def logging_def split: sum.split)

lemma respond_state: "snd (respond r k) = snd r"
  by (cases r) (simp add: respond_def split: sum.split)

lemma log_intros:
  "log_ok env (snd r) \<Longrightarrow> log_ok env (snd (respond r k))"
  "log_ok env st \<Longrightarrow> log_ok env (snd (e, st))"
  "(b \<Longrightarrow> log_ok env (snd x)) \<Longrightarrow> (\<not> b \<Longrightarrow> log_ok env (snd y)) \<Longrightarrow> log_ok env (snd (if b then x else y))"
  by (simp_all add: respond_state)

lemma newRequest_route: "has_route_req env (newRequest env tok m path body) \<longleftrightarrow> has_route m path"
  by (simp add: has_route_req_def newRequest_def HasPrefix_append)

lemma keeps_log_api:
  "has_route ''GET'' path \<Longrightarrow> log_ok env st \<Longrightarrow> log_ok env (snd (apiGet env (logging answer) path st))"
  "has_route ''POST'' path \<Longrightarrow> log_ok env st \<Longrightarrow> log_ok env (snd (apiPost env (logging answer) path body st))"
  "has_route ''DELETE'' path \<Longrightarrow> log_ok env st \<Longrightarrow> log_ok env (snd (apiDelete env (logging answer) path st))"
  by (simp_all add: log_ok_def apiGet_def apiPost_def apiDelete_def send_server newRequest_route)

lemma vmAction_log:
  "plain_id i \<Longrightarrow> action \<in> {''start'', ''stop''} \<Longrightarrow> log_ok env st \<Longrightarrow> log_ok env (snd (vmAction env (logging answer) i action st))"
  using id_routes(13,14) [of i]
  by (auto simp: log_ok_def vmAction_def respond_state send_server has_route_req_def Sprintf_def HasPrefix_append)

lemmas id_api =
  keeps_log_api(3) [OF id_routes(1)] keeps_log_api(2) [OF id_routes(2)] keeps_log_api(2) [OF id_routes(3)] keeps_log_api(2) [OF id_routes(4)]
  keeps_log_api(2) [OF id_routes(5)] keeps_log_api(2) [OF id_routes(6)] keeps_log_api(3) [OF id_routes(7)] keeps_log_api(3) [OF id_routes(8)]
  keeps_log_api(2) [OF id_routes(9)] keeps_log_api(3) [OF id_routes(10)] keeps_log_api(3) [OF id_routes(11)] keeps_log_api(2) [OF id_routes(12)]

text \<open>The commands that need no identifier, and those that take one from a flag.\<close>

lemma list_log:
  "log_ok env st \<Longrightarrow> log_ok env (snd (vmList env (logging answer) flags st))"
  "log_ok env st \<Longrightarrow> log_ok env (snd (vmCreate env (logging answer) fs name st))"
  "log_ok env st \<Longrightarrow> log_ok env (snd (containerList env (logging answer) st))"
  "log_ok env st \<Longrightarrow> log_ok env (snd (containerCreate env (logging answer) fs st))"
  "log_ok env st \<Longrightarrow> log_ok env (snd (nodeList env (logging answer) st))"
  "log_ok env st \<Longrightarrow> log_ok env (snd (storagePoolList env (logging answer) st))"
  "log_ok env st \<Longrightarrow> log_ok env (snd (storageVolumeList env (logging answer) st))"
  "log_ok env st \<Longrightarrow> log_ok env (snd (storageVolumeCreate env (logging answer) fs st))"
  "log_ok env st \<Longrightarrow> log_ok env (snd (networkZoneList env (logging answer) st))"
  "log_ok env st \<Longrightarrow> log_ok env (snd (networkVnetList env (logging answer) st))"
  "log_ok env st \<Longrightarrow> log_ok env (snd (networkFirewallList env (logging answer) st))"
  "log_ok env st \<Longrightarrow> log_ok env (snd (deviceList env (logging answer) fs st))"
  "log_ok env st \<Longrightarrow> log_ok env (snd (shellDeviceList env (logging answer) st))"
  "log_ok env st \<Longrightarrow> log_ok env (snd (clusterStatus env (logging answer) st))"
  "log_ok env st \<Longrightarrow> log_ok env (snd (clusterNodeList env (logging answer) st))"
  "log_ok env st \<Longrightarrow> log_ok env (snd (backupList env (logging answer) st))"
  "log_ok env st \<Longrightarrow> log_ok env (snd (backupCreate env (logging answer) fs st))"
  "log_ok env st \<Longrightarrow> log_ok env (snd (handleShellStatus env (logging answer) st))"
  "log_ok env st \<Longrightarrow> log_ok env (snd (templateList env (logging answer) st))"
  "log_ok env st \<Longrightarrow> log_ok env (snd (templateCreate env (logging answer) fs st))"
  "log_ok env st \<Longrightarrow> log_ok env (snd (imageList env (logging answer) st))"
  "log_ok env st \<Longrightarrow> log_ok env (snd (imageRegister env (logging answer) fs st))"
  "log_ok env st \<Longrightarrow> log_ok env (snd (snapshotListCLI env (logging answer) fs st))"
  "log_ok env st \<Longrightarrow> log_ok env (snd (snapshotCreateCLI env (logging answer) fs st))"
  unfolding vmList_def vmCreate_def containerList_def containerCreate_def nodeList_def storagePoolList_def storageVolumeList_def
    storageVolumeCreate_def networkZoneList_def networkVnetList_def networkFirewallList_def deviceList_def shellDeviceList_def clusterStatus_def
    clusterNodeList_def backupList_def backupCreate_def handleShellStatus_def templateList_def templateCreate_def imageList_def imageRegister_def
    snapshotListCLI_def snapshotCreateCLI_def Let_def
  by (auto simp only: respond_state snd_conv if_True if_False split: option.split if_split intro!: keeps_log_api static_routes)

lemma id_log:
  "(fs_str fs ''id'' \<noteq> [] \<Longrightarrow> plain_id (fs_str fs ''id'')) \<Longrightarrow> log_ok env st \<Longrightarrow> log_ok env (snd (vmMigrate env (logging answer) fs st))"
  "(fs_str fs ''id'' \<noteq> [] \<Longrightarrow> plain_id (fs_str fs ''id'')) \<Longrightarrow> log_ok env st \<Longrightarrow> log_ok env (snd (deviceAttach env (logging answer) fs st))"
  "(fs_str fs ''id'' \<noteq> [] \<Longrightarrow> plain_id (fs_str fs ''id'')) \<Longrightarrow> log_ok env st \<Longrightarrow> log_ok env (snd (deviceDetach env (logging answer) fs st))"
  "(fs_str fs ''id'' \<noteq> [] \<Longrightarrow> plain_id (fs_str fs ''id'')) \<Longrightarrow> log_ok env st \<Longrightarrow> log_ok env (snd (backupDelete env (logging answer) fs st))"
  "(fs_str fs ''id'' \<noteq> [] \<Longrightarrow> plain_id (fs_str fs ''id'')) \<Longrightarrow> log_ok env st \<Longrightarrow> log_ok env (snd (templateDelete env (logging answer) fs st))"
  "(fs_str fs ''id'' \<noteq> [] \<Longrightarrow> plain_id (fs_str fs ''id'')) \<Longrightarrow> log_ok env st \<Longrightarrow> log_ok env (snd (templateDeploy env (logging answer) fs st))"
  "(fs_str fs ''id'' \<noteq> [] \<Longrightarrow> plain_id (fs_str fs ''id'')) \<Longrightarrow> log_ok env st \<Longrightarrow> log_ok env (snd (imageDelete env (logging answer) fs st))"
  "(fs_str fs ''id'' \<noteq> [] \<Longrightarrow> plain_id (fs_str fs ''id'')) \<Longrightarrow> log_ok env st \<Longrightarrow> log_ok env (snd (snapshotDeleteCLI env (logging answer) fs st))"
  "(fs_str fs ''id'' \<noteq> [] \<Longrightarrow> plain_id (fs_str fs ''id'')) \<Longrightarrow> log_ok env st \<Longrightarrow> log_ok env (snd (snapshotRestoreCLI env (logging answer) fs st))"
  unfolding vmMigrate_def deviceAttach_def deviceDetach_def backupDelete_def templateDelete_def templateDeploy_def
    imageDelete_def snapshotDeleteCLI_def snapshotRestoreCLI_def Let_def
  by (intro log_intros id_api; blast)+

lemma fence_log:
  "(fs_str fs ''node'' \<noteq> [] \<Longrightarrow> plain_id (fs_str fs ''node'')) \<Longrightarrow> log_ok env st \<Longrightarrow> log_ok env (snd (clusterFence env (logging answer) fs st))"
  unfolding clusterFence_def Let_def by (intro log_intros id_api; blast)

lemma storeToken_server: "cs_Server (snd (storeToken env result st)) = cs_Server st"
  by (simp add: storeToken_def Let_def split: option.split)

lemma login_answer_log:
  assumes "log_ok env (snd x)"
  shows "log_ok env (snd (case x of
       (Inl err, st') \<Rightarrow> (fail_with err, st')
     | (Inr resp, st') \<Rightarrow>
         (case checkResponse env resp of
            Some err \<Rightarrow> (fail_with err, st')
          | None \<Rightarrow> (case dec_body (dec_struct login_fields) (snd resp) of None \<Rightarrow> (e resp, st') | Some result \<Rightarrow> storeToken env result st'))))"
  using assms by (cases x; cases "fst x") (simp_all add: log_ok_def storeToken_server split: option.split)

lemma login_log: "log_ok env st \<Longrightarrow> log_ok env (snd (loginRun env (logging answer) fs st))"
  unfolding loginRun_def Let_def by (intro log_intros login_answer_log keeps_log_api(2) [OF static_routes(26)])

lemma containerDelete_log: "plain_id i \<Longrightarrow> log_ok env st \<Longrightarrow> log_ok env (snd (containerDelete env (logging answer) i st))"
  unfolding containerDelete_def by (intro log_intros id_api)

lemma containerExec_log: "plain_id (hd args) \<Longrightarrow> log_ok env st \<Longrightarrow> log_ok env (snd (containerExec env (logging answer) args st))"
  unfolding containerExec_def by (cases args; simp only: list.case list.sel; intro log_intros id_api)

text \<open>The shell: its words are never empty and consist of characters of the line.\<close>

lemma split_on_chars: "w \<in> set (split_on P s) \<Longrightarrow> set w \<subseteq> set s"
proof (induction s arbitrary: w)
  case (Cons c s)
  then have "\<forall>w \<in> set (split_on P s). set w \<subseteq> set s" by blast
  then show ?case using Cons.prems by (cases "split_on P s") (auto split: if_splits)
qed simp

definition plain_line :: "string \<Rightarrow> bool" where
  "plain_line l \<longleftrightarrow> CHR ''/'' \<notin> set l \<and> CHR ''?'' \<notin> set l \<and> CHR ''#'' \<notin> set l \<and> CHR ''%'' \<notin> set l"

lemma plain_words: "plain_line l \<Longrightarrow> w \<in> set (Fields l) \<Longrightarrow> plain_id w"
  using split_on_chars [of w is_space l] by (auto simp: Fields_def plain_line_def plain_id_def)

lemma plain_trimmed: "plain_line l \<Longrightarrow> plain_line (TrimSpace l)"
  unfolding plain_line_def TrimSpace_def by (metis set_dropWhileD set_rev)

lemma log_case_list:
  "log_ok env (snd x) \<Longrightarrow> (\<And>a as. args = a # as \<Longrightarrow> log_ok env (snd (f a as))) \<Longrightarrow> log_ok env (snd (case args of [] \<Rightarrow> x | a # as \<Rightarrow> f a as))"
  by (cases args) auto

lemma handleShellVM_log:
  assumes "list_all plain_id args" "log_ok env st"
  shows "log_ok env (snd (handleShellVM env (logging answer) args st))"
  unfolding handleShellVM_def using assms
  by (intro log_case_list log_intros list_log vmAction_log id_api keeps_log_api static_routes) auto

lemma handleShell_log:
  "log_ok env st \<Longrightarrow> log_ok env (snd (handleShellStorage env (logging answer) args st))"
  "log_ok env st \<Longrightarrow> log_ok env (snd (handleShellNetwork env (logging answer) args st))"
  "log_ok env st \<Longrightarrow> log_ok env (snd (handleShellDevice env (logging answer) args st))"
  "log_ok env st \<Longrightarrow> log_ok env (snd (handleShellCluster env (logging answer) args st))"
  "log_ok env st \<Longrightarrow> log_ok env (snd (handleShellBackup env (logging answer) args st))"
  unfolding handleShellStorage_def handleShellNetwork_def handleShellDevice_def handleShellCluster_def handleShellBackup_def
  by (intro log_case_list log_intros list_log; assumption)+

lemma executeShellCommand_log:
  assumes "plain_line l" "log_ok env st"
  shows "log_ok env (snd (executeShellCommand env (logging answer) l st))"
proof -
  have "list_all plain_id args" if "Fields l = cmd # args" for cmd args
    using plain_words [OF assms(1)] that by (auto simp: list_all_iff)
  then show ?thesis
    unfolding executeShellCommand_def using assms(2)
    by (intro log_case_list log_intros handleShellVM_log handleShell_log list_log) auto
qed

lemma shell_loop_log:
  assumes "list_all plain_line input" "log_ok env st"
  shows "log_ok env (snd (shell_loop env (logging answer) input st))"
  using assms
proof (induction input arbitrary: st)
  case (Cons l rest)
  have e: "log_ok env (snd (executeShellCommand env (logging answer) (TrimSpace l) st))"
    using Cons.prems executeShellCommand_log plain_trimmed by simp
  obtain os en st' where x: "executeShellCommand env (logging answer) (TrimSpace l) st = ((os, en), st')" by (metis prod.exhaust)
  have "log_ok env (snd (shell_loop env (logging answer) rest st'))" "log_ok env (snd (shell_loop env (logging answer) rest st))" "log_ok env st'"
    using Cons e x by simp_all
  then show ?case using Cons.prems x by (cases en) (simp_all add: emit_def Let_def)
qed simp

text \<open>The identifiers on the command line.\<close>

definition ids_ok :: "(string \<Rightarrow> fval option) \<Rightarrow> bool" where
  "ids_ok given \<longleftrightarrow> list_all (\<lambda>n. case given n of Some (VStr s) \<Rightarrow> s = [] \<or> plain_id s | _ \<Rightarrow> True) [''id'', ''node'']"

definition command_ok :: "cli_env \<Rightarrow> (cl_req list \<Rightarrow> cl_req \<Rightarrow> cl_resp result) \<Rightarrow> (string \<Rightarrow> fval option) \<Rightarrow> cl_req list command \<Rightarrow> bool" where
  "command_ok env answer given = (\<lambda>(words, argsOk, defaults, run).
     \<forall>args st. (args = [] \<or> plain_id (hd args)) \<longrightarrow> argsOk (length args) \<longrightarrow> log_ok env st
       \<longrightarrow> log_ok env (snd (run env (logging answer) (flag_values defaults given) args st)))"

lemma flag_id:
  assumes "ids_ok given" "n \<in> {''id'', ''node''}" "map_of ds n = Some (VStr [])"
  shows "fs_str (flag_values ds given) n \<noteq> [] \<Longrightarrow> plain_id (fs_str (flag_values ds given) n)"
  using assms by (auto simp: ids_ok_def flag_values_def Let_def split: option.splits fval.splits)

lemma command_okI:
  "(\<And>st. log_ok env st \<Longrightarrow> log_ok env (snd (f env (logging answer) st))) \<Longrightarrow> command_ok env answer given (ws, a, ds, plain f)"
  "(\<And>fs st. log_ok env st \<Longrightarrow> log_ok env (snd (g env (logging answer) fs st))) \<Longrightarrow> command_ok env answer given (ws, a, ds, flagged g)"
  by (simp_all add: command_ok_def plain_def flagged_def)

lemma command_ok_id:
  assumes "\<And>fs st. (fs_str fs n \<noteq> [] \<Longrightarrow> plain_id (fs_str fs n)) \<Longrightarrow> log_ok env st \<Longrightarrow> log_ok env (snd (g env (logging answer) fs st))"
    and "ids_ok given" "n \<in> {''id'', ''node''}" "map_of ds n = Some (VStr [])"
  shows "command_ok env answer given (ws, a, ds, flagged g)"
  using assms(1) flag_id [OF assms(2-4)] by (simp add: command_ok_def flagged_def)

lemma command_ok_arg:
  assumes "\<And>fs args st. plain_id (hd args) \<Longrightarrow> log_ok env st \<Longrightarrow> log_ok env (snd (run env (logging answer) fs args st))"
  shows "command_ok env answer given (ws, ExactArgs 1, ds, run)" "command_ok env answer given (ws, MinimumNArgs 1, ds, run)"
  using assms by (auto simp: command_ok_def ExactArgs_def MinimumNArgs_def)

lemma command_ok_quiet: "command_ok env answer given (ws, a, ds, \<lambda>env net fs args st. (f env fs args, st))"
  by (simp add: command_ok_def)

lemma command_ok_any:
  "(\<And>fs args st. log_ok env st \<Longrightarrow> log_ok env (snd (run env (logging answer) fs args st))) \<Longrightarrow> command_ok env answer given (ws, a, ds, run)"
  by (simp add: command_ok_def)

lemma runShell_log: "list_all plain_line (cl_input env) \<Longrightarrow> log_ok env st \<Longrightarrow> log_ok env (snd (runShell env (logging answer) (cl_input env) st))"
  by (simp add: runShell_def emit_def shell_loop_log)

lemma commands_ok:
  assumes ids: "ids_ok given" and input: "list_all plain_line (cl_input env)"
  shows "list_all (command_ok env answer given) hcvctl_commands"
proof -
  note id_ok = command_ok_id [where n = "''id''", OF _ ids] and node_ok = command_ok_id [where n = "''node''", OF _ ids]
  have "list_all (command_ok env answer given) vm_commands"
    "list_all (command_ok env answer given) node_commands"
    "list_all (command_ok env answer given) storage_commands"
    "list_all (command_ok env answer given) network_commands"
    "list_all (command_ok env answer given) device_commands"
    "list_all (command_ok env answer given) cluster_commands"
    "list_all (command_ok env answer given) completion_commands"
    "list_all (command_ok env answer given) backup_commands"
    "list_all (command_ok env answer given) status_commands"
    "list_all (command_ok env answer given) template_commands"
    "list_all (command_ok env answer given) image_commands"
    "list_all (command_ok env answer given) snapshot_commands"
    "list_all (command_ok env answer given) login_commands"
    "list_all (command_ok env answer given) container_commands"
    "list_all (command_ok env answer given) gendoc_commands"
    unfolding vm_commands_def node_commands_def storage_commands_def network_commands_def device_commands_def cluster_commands_def
      completion_commands_def backup_commands_def status_commands_def template_commands_def image_commands_def snapshot_commands_def
      login_commands_def container_commands_def gendoc_commands_def list.pred_inject(2)
    by ((intro conjI list.pred_inject(1);
        (rule command_ok_quiet
        | rule command_okI, rule list_log, assumption
        | rule command_ok_any, rule list_log, assumption
        | rule id_ok, rule id_log, assumption, assumption, simp, simp
        | rule node_ok, rule fence_log, assumption, assumption, simp, simp
        | rule command_ok_arg, rule vmAction_log, assumption, simp, assumption
        | rule command_ok_arg, rule containerDelete_log, assumption, assumption
        | rule command_ok_arg, rule containerExec_log, assumption, assumption
        | rule command_okI, rule login_log, assumption
        | rule command_okI, rule runShell_log [OF input], assumption
        | rule command_okI, unfold systemStatus_def, rule list_log, assumption)))+
  then show ?thesis unfolding hcvctl_commands_def list_all_append by blast
qed


definition demo_env :: cli_env where
  "demo_env = \<lparr>cl_api = ''http://localhost:18080'', cl_output = ''table'', cl_user = [], cl_pass = [], cl_home = Some ''/root'',
     cl_text = (\<lambda>_. []), cl_decode_error = (\<lambda>_. ExtError ''json''), cl_format = (\<lambda>_ _. []), cl_mkdir = (\<lambda>_. None), cl_write = (\<lambda>_. None),
     cl_gen = (\<lambda>_ _. None), cl_usage = (\<lambda>_. ExtError ''usage''), cl_nilflags = None, cl_input = []\<rparr>"

definition migrate_flags :: "string \<Rightarrow> fval option" where
  "migrate_flags = [''id'' \<mapsto> VStr ''7'', ''target'' \<mapsto> VStr ''node-2'']"


end
