(* ===== verification/Client_Server.thy ===== *)
theory Client_Server
  imports Client
begin

text \<open>
  The client connected to the controller: the documents the handlers write, as the tags of the structures
  name their fields, the request as the controller receives it, and what the commands then print.
\<close>

section \<open>Documents\<close>

text \<open>What is left to the encoder: the text of a time, the table of a machine's snapshots (\<^const>\<open>None\<close> when it is
  empty and left out), an empty slice, which is an empty array or null, and the bodies no command decodes.\<close>

record wire_enc =
  we_time :: "gotime \<Rightarrow> string"
  we_snapshots :: "(string \<Rightarrow> gotime option) \<Rightarrow> json option"
  we_empty :: json
  we_other :: "api_body \<Rightarrow> wire"

definition omit_empty :: "string \<Rightarrow> string \<Rightarrow> (string \<times> json) list" where
  "omit_empty k v = (if v = [] then [] else [(k, JStr v)])"

definition jarr :: "wire_enc \<Rightarrow> json list \<Rightarrow> json" where
  "jarr enc js = (if js = [] then we_empty enc else JArr js)"

definition json_of_vm :: "wire_enc \<Rightarrow> VMInfo \<Rightarrow> json" where
  "json_of_vm enc vm =
     JObj ([(''id'', JNum (sint (vmID vm))), (''name'', JStr (vmName vm)), (''state'', JStr (vmState vm)), (''vcpus'', JNum (uint (vmVCPUs vm))),
            (''memory_mb'', JNum (uint (vmMemoryMB vm))), (''node'', JStr (vmNode vm)), (''backend'', JStr (vmBackend vm)), (''type'', JStr (vmType vm)),
            (''restart_policy'', JStr (vmRestartPolicy vm)), (''created_at'', JStr (we_time enc (vmCreatedAt vm)))]
           @ (case we_snapshots enc (vmSnapshots vm) of None \<Rightarrow> [] | Some j \<Rightarrow> [(''snapshots'', j)])
           @ omit_empty ''rootfs'' (vmRootFS vm) @ omit_empty ''template'' (vmTemplate vm) @ omit_empty ''arch'' (vmArch vm)
           @ omit_empty ''ip_address'' (vmIPAddress vm) @ omit_empty ''disk_path'' (vmDiskPath vm) @ omit_empty ''iso_path'' (vmISOPath vm)
           @ omit_empty ''network_mode'' (vmNetworkMode vm)
           @ (if vmVNCPort vm = 0 then [] else [(''vnc_port'', JNum (vmVNCPort vm))]))"

definition json_of_page :: "wire_enc \<Rightarrow> json list \<Rightarrow> int \<Rightarrow> int \<Rightarrow> int \<Rightarrow> json" where
  "json_of_page enc js n offset limit =
     JObj [(''data'', jarr enc js), (''total_count'', JNum n), (''offset'', JNum offset), (''limit'', JNum limit)]"

definition json_of_backup :: "BackupInfo \<Rightarrow> json" where
  "json_of_backup b =
     JObj [(''id'', JStr (bk_ID b)), (''vm_id'', JNum (sint (bk_VMID b))), (''vm_name'', JStr (bk_VMName b)), (''snapshot_id'', JStr (bk_SnapshotID b)),
           (''status'', JStr (bk_Status b)), (''created_at'', JNum (bk_CreatedAt b)), (''size_bytes'', JNum (uint (bk_SizeBytes b))),
           (''storage_pool'', JStr (bk_StoragePool b))]"

definition json_of_template :: "wire_enc \<Rightarrow> Template \<Rightarrow> json" where
  "json_of_template enc t =
     JObj [(''id'', JStr (tp_ID t)), (''name'', JStr (tp_Name t)), (''description'', JStr (tp_Description t)), (''vcpus'', JNum (uint (tp_VCPUs t))),
           (''memory_mb'', JNum (uint (tp_MemoryMB t))), (''disk_size_gb'', JNum (uint (tp_DiskSizeGB t))), (''backend'', JStr (tp_Backend t)),
           (''os_type'', JStr (tp_OSType t)), (''created_at'', JStr (we_time enc (tp_CreatedAt t)))]"

definition json_of_pool :: "Pool \<Rightarrow> json" where
  "json_of_pool p =
     JObj [(''name'', JStr (po_Name p)), (''pool_type'', JStr (po_PoolType p)), (''total_bytes'', JNum (uint (po_TotalBytes p))),
           (''used_bytes'', JNum (uint (po_UsedBytes p))), (''health'', JStr (po_Health p))]"

definition json_of_volume :: "Volume \<Rightarrow> json" where
  "json_of_volume v =
     JObj [(''id'', JStr (vo_ID v)), (''pool'', JStr (vo_Pool v)), (''name'', JStr (vo_Name v)), (''size_bytes'', JNum (uint (vo_SizeBytes v))),
           (''format'', JStr (vo_Format v)), (''path'', JStr (vo_Path v)), (''created_at'', JNum (vo_CreatedAt v))]"

definition json_of_device :: "Device \<Rightarrow> json" where
  "json_of_device d =
     JObj [(''id'', JStr (dv_ID d)), (''device_type'', JStr (dv_DeviceType d)), (''description'', JStr (dv_Description d)),
           (''pci_address'', JStr (dv_PCIAddress d)), (''attached_vm'', JNum (sint (dv_AttachedVM d))), (''iommu_group'', JStr (dv_IOMMU d)),
           (''driver'', JStr (dv_Driver d))]"

definition json_of_image :: "Image \<Rightarrow> json" where
  "json_of_image i =
     JObj [(''id'', JStr (im_ID i)), (''name'', JStr (im_Name i)), (''format'', JStr (im_Format i)), (''size_bytes'', JNum (uint (im_SizeBytes i))),
           (''path'', JStr (im_Path i)), (''os_type'', JStr (im_OSType i)), (''created_at'', JNum (im_CreatedAt i))]"

definition json_of_cnode :: "wire_enc \<Rightarrow> ClusterNode \<Rightarrow> json" where
  "json_of_cnode enc n =
     JObj [(''name'', JStr (cn_Name n)), (''status'', JStr (cn_Status n)), (''last_seen'', JStr (we_time enc (cn_LastSeen n))),
           (''is_leader'', JBool (cn_IsLeader n)), (''vm_count'', JNum (cn_VMCount n)), (''fence_agent'', JStr (cn_FenceAgent n))]"

definition json_of_problem :: "ProblemDetail \<Rightarrow> json" where
  "json_of_problem p =
     JObj ([(''type'', JStr (pd_Type p)), (''title'', JStr (pd_Title p)), (''status'', JNum (pd_Status p))]
           @ omit_empty ''detail'' (pd_Detail p) @ omit_empty ''code'' (pd_Code p))"

fun wire_of :: "wire_enc \<Rightarrow> api_body \<Rightarrow> wire" where
  "wire_of enc (BProblem p) = WJson (json_of_problem p)"
| "wire_of enc (BFields fs) = WJson (JObj (map (\<lambda>(k, v). (k, JStr v)) fs))"
| "wire_of enc (BVMPage vms n offset limit) = WJson (json_of_page enc (map (json_of_vm enc) vms) n offset limit)"
| "wire_of enc (BBackupPage bs n offset limit) = WJson (json_of_page enc (map json_of_backup bs) n offset limit)"
| "wire_of enc (BTemplatePage ts n offset limit) = WJson (json_of_page enc (map (json_of_template enc) ts) n offset limit)"
| "wire_of enc (BPools ps) = WJson (jarr enc (map json_of_pool ps))"
| "wire_of enc (BVolumes vs) = WJson (jarr enc (map json_of_volume vs))"
| "wire_of enc (BDevices ds) = WJson (jarr enc (map json_of_device ds))"
| "wire_of enc (BImages is) = WJson (jarr enc (map json_of_image is))"
| "wire_of enc (BNodes ns) = WJson (jarr enc (map (json_of_cnode enc) ns))"
| "wire_of enc (BText s) = WText s"
| "wire_of enc b = we_other enc b"

section \<open>The connection\<close>

text \<open>The value of a parameter of a query without escapes.\<close>

definition query_value :: "string \<Rightarrow> string \<Rightarrow> string" where
  "query_value q k =
     (case find (\<lambda>kv. takeWhile (\<lambda>c. c \<noteq> CHR ''='') kv = k) (split_char (CHR ''&'') q) of
        None \<Rightarrow> []
      | Some kv \<Rightarrow> drop 1 (dropWhile (\<lambda>c. c \<noteq> CHR ''='') kv))"

fun auth_header :: "(string \<Rightarrow> string) \<Rightarrow> cl_auth \<Rightarrow> string" where
  "auth_header b64 NoAuth = []"
| "auth_header b64 (BasicCred u p) = ''Basic '' @ b64 (u @ '':'' @ p)"
| "auth_header b64 (Bearer t) = ''Bearer '' @ t"

text \<open>The request as it arrives: the path up to the query, and the body as the text of the document.\<close>

definition deliver :: "cli_env \<Rightarrow> (string \<Rightarrow> string) \<Rightarrow> cl_req \<Rightarrow> in_req" where
  "deliver env b64 req =
     (let target = drop (length (cl_api env)) (hr_URL req) in
      \<lparr>in_http = \<lparr>rq_Method = hr_Method req, rq_Path = url_path target, rq_Authorization = auth_header b64 (hr_Auth req), rq_RemoteAddr = []\<rparr>,
       in_query = query_value (drop 1 (dropWhile (\<lambda>c. c \<noteq> CHR ''?'') target)),
       in_body = (case hr_Body req of None \<Rightarrow> [] | Some j \<Rightarrow> cl_text env (WJson j))\<rparr>)"

definition connect ::
  "cli_env \<Rightarrow> (string \<Rightarrow> string) \<Rightarrow> wire_enc \<Rightarrow> bool \<Rightarrow> (string \<Rightarrow> RBACUser option) option \<Rightarrow> ('s, 'd) world \<Rightarrow> (uint64 \<times> ('s, 'd) Services) net" where
  "connect env b64 enc limited users w req s =
     (case NewRouter limited users w (deliver env b64 req) s of
        (out, s') \<Rightarrow> (Ok (ho_Status out, wire_of enc (ho_Body out)), s'))"

lemma send_connect:
  "send (connect env b64 enc limited users w) req st =
     (case NewRouter limited users w (deliver env b64 req) (cs_Server st) of
        (out, s') \<Rightarrow> (Ok (ho_Status out, wire_of enc (ho_Body out)), st\<lparr>cs_Server := s'\<rparr>))"
  by (simp add: send_def connect_def split: prod.split)

section \<open>Which handler answers\<close>

text \<open>What holds of every handler a GET of the segments can reach holds of the one that is called.\<close>

definition gets_only :: "string list \<Rightarrow> (('s, 'd) handler \<Rightarrow> bool) \<Rightarrow> string \<times> ('s, 'd) handler \<Rightarrow> bool" where
  "gets_only segs Q = (\<lambda>(p, h). fst (parse_pattern p) = ''GET'' \<longrightarrow> matches (snd (parse_pattern p)) segs \<longrightarrow> Q h)"

lemmas gets_eval = gets_only_def parse_pattern_def path_segs_def split_char_def parse_seg_def matches_def

lemma gets_live:
  assumes "list_all (gets_only segs Q) vm_routes" "list_all (gets_only segs Q) task_routes" "list_all (gets_only segs Q) storage_routes"
    "list_all (gets_only segs Q) network_routes" "list_all (gets_only segs Q) cluster_routes" "list_all (gets_only segs Q) backup_routes"
    "list_all (gets_only segs Q) template_routes" "list_all (gets_only segs Q) snapshot_routes" "list_all (gets_only segs Q) image_routes"
    "list_all (gets_only segs Q) system_routes" "list_all (gets_only segs Q) auth_routes" "list_all (gets_only segs Q) oauth2_routes"
    "list_all (gets_only segs Q) common_routes" "segs \<noteq> [''ws'']"
  shows "list_all (gets_only segs Q) (live_routes sv)"
proof -
  have "gets_only segs Q (''GET /ws'', h)" for h using assms(14) by (simp add: gets_eval list_all2_Cons1)
  then show ?thesis using assms(1-13) by (simp add: live_routes_def opt_def)
qed

lemma get_served:
  assumes l: "list_all (gets_only (path_segs path) Q) (live_routes sv)" and m: "rq_Method (in_http q) = ''GET''" "rq_Path (in_http q) = path"
    and c: "cleanPath path = path"
  shows "(\<exists>h r. Q h \<and> mux_serve (live_routes sv) w q sv = h w r q sv \<and> ar_query r = in_query q)
    \<or> mux_match (live_routes sv) ''GET'' path = None \<and> (\<exists>status t. mux_serve (live_routes sv) w q sv = (Some (status, BText t), sv) \<and> status \<ge> 400)"
proof (cases "mux_match (live_routes sv) ''GET'' path")
  case None
  then show ?thesis using m c by (simp add: mux_serve_def)
next
  case (Some gh)
  obtain gs h where gh: "gh = (gs, h)" by (cases gh)
  have "Q h" using mux_match_sound [OF Some [unfolded gh]] l by (force simp: list_all_iff gets_only_def)
  then show ?thesis using Some gh m c by (force simp: mux_serve_def)
qed

section \<open>Actions without credentials\<close>

definition action_req :: "cli_env \<Rightarrow> string \<Rightarrow> string \<Rightarrow> cl_req" where
  "action_req env i action = \<lparr>hr_Method = ''POST'', hr_URL = cl_api env @ ''/api/v1/vms/'' @ i @ ''/'' @ action,
     hr_Body = None, hr_ContentType = ''application/json'', hr_Auth = NoAuth\<rparr>"

text \<open>C36: The commands that start and stop a machine send no credentials, whatever flags and stored token there are, and do not
  read the status of the answer: with users configured the controller refuses them with 401 and changes nothing,
  and the client prints that the action succeeded.\<close>

theorem refused_action_reported_ok:
  fixes w :: "('s, 'd) world"
  shows "fst (vmAction env (connect env b64 enc limited (Some us) w) i action st) = ([OText (''VM '' @ i @ '': '' @ action @ '' OK'' @ [newline])], Returned)
    \<and> snd (cs_Server (snd (vmAction env (connect env b64 enc limited (Some us) w) i action st))) = snd (cs_Server st)
    \<and> ho_Status (fst (NewRouter limited (Some us) w (deliver env b64 (action_req env i action)) (cs_Server st))) = 401"
proof -
  let ?q = "deliver env b64 (action_req env i action)"
  obtain n sv where s: "cs_Server st = (n, sv)" by (cases "cs_Server st")
  have http: "rq_Method (in_http ?q) = ''POST''" "rq_Authorization (in_http ?q) = []"
    "\<exists>rest. rq_Path (in_http ?q) = ''/api/v1/vms/'' @ rest"
    by (simp_all add: deliver_def action_req_def url_path_def Let_def)
  have "BasicAuth [] = None" by (simp add: BasicAuth_def)
  then have "rbac_role (w_auth w) (w_now w) (Some us) (rbac_config sv) (in_http ?q) = None"
    using http(2) by (simp add: rbac_role_def split: option.split)
  moreover have "\<not> rbac_exempt (rq_Path (in_http ?q))" using http(3) by (auto simp: rbac_exempt_def)
  ultimately have r: "RBACMiddleware (w_auth w) (w_now w) (Some us) (rbac_config sv) (in_http ?q) = RbacError 401 ''authentication required''"
    using http(1) by (simp add: RBACMiddleware_def)
  have a: "vmAction env net i action st = respond (send net (action_req env i action) st) (prints (Sprintf ''VM %s: %s OK'' [FStr i, FStr action]))"
    for net :: "(uint64 \<times> ('s, 'd) Services) net"
    by (simp add: vmAction_def action_req_def Sprintf_def)
  show ?thesis
    unfolding a send_connect using r s
    by (auto simp: NewRouter_def rbac_chain_def respond_def prints_def done_with_def line_def Sprintf_def Let_def split: prod.split)
qed

section \<open>Lists that are pages\<close>

text \<open>Bodies that are documents with fields, or no documents.\<close>

fun no_slice :: "api_body \<Rightarrow> bool" where
  "no_slice (BProblem p) = True"
| "no_slice (BFields fs) = True"
| "no_slice (BText s) = True"
| "no_slice (BBackupPage bs n offset limit) = True"
| "no_slice (BTemplatePage ts n offset limit) = True"
| "no_slice b = False"

lemma no_slice_undecodable: "no_slice b \<Longrightarrow> dec_body (dec_slice sc) (wire_of enc b) = None"
  by (cases b) (simp_all add: json_of_problem_def json_of_page_def)

definition pages :: "('s, 'd) handler \<Rightarrow> bool" where
  "pages h \<longleftrightarrow> (\<forall>w r q sv resp. fst (h w r q sv) = Some resp \<longrightarrow> no_slice (snd resp))"

lemma pages_lists:
  "pages (reads (\<lambda>w r q sv. Option.bind (backup_of sv) (handleListBackups (w_order w ''backups'') r)))"
  "pages (reads (\<lambda>w r q sv. Option.bind (sv_Template sv) (handleListTemplates (w_order w ''templates'') r)))"
  by (auto simp: pages_def reads_def handleListBackups_def handleListTemplates_def writeJSON_def bind_eq_Some_conv)

lemma page_routes:
  "list_all (gets_only [''api'', ''v1'', ''backups''] pages) (live_routes sv)"
  "list_all (gets_only [''api'', ''v1'', ''templates''] pages) (live_routes sv)"
  by (rule gets_live; simp add: route_defs gets_eval pages_lists)+

lemma chain_no_slice:
  assumes l: "list_all (gets_only (path_segs path) pages) (live_routes sv)" and m: "rq_Method (in_http q) = ''GET''" "rq_Path (in_http q) = path"
    and c: "cleanPath path = path" and n: "NewRouter limited users w q (k, sv) = (out, k', sv')"
  shows "no_slice (ho_Body out)"
proof -
  have "no_slice (snd (recoveryMiddleware (fst (mux_serve (live_routes sv) w q sv))))"
    using get_served [OF l m c, where w = w] by (auto simp: pages_def recoveryMiddleware_def split: option.split)
  then have "no_slice (snd (fst (snd (inner_chain limited w q sv))))"
    using m(1) by (auto simp: inner_chain_def RateLimitMiddleware_def corsMiddleware_def response_defs split: prod.split option.split if_splits bool.splits)
  then have "no_slice (snd (fst (snd (rbac_chain limited users w q sv))))"
    by (simp add: rbac_chain_def split: option.split rbac_result.split)
  then show ?thesis using n by (auto simp: NewRouter_def Let_def split: prod.splits)
qed

text \<open>The lists of backups and of templates are answered with a page, an object, but the client decodes an array: against the
  controller the two commands fail in every state, with every configuration and every credentials.\<close>

theorem page_lists_fail:
  "\<exists>err err'. snd (fst (backupList env (connect env b64 enc limited users w) st)) = Failed err
     \<and> snd (fst (templateList env (connect env b64 enc limited users w) st)) = Failed err'"
proof -
  have *: "no_slice (ho_Body (fst (NewRouter limited users w (deliver env b64 (newRequest env tok ''GET'' path None)) (cs_Server st))))"
    if "path \<in> {''/api/v1/backups'', ''/api/v1/templates''}" for path tok
  proof -
    let ?q = "deliver env b64 (newRequest env tok ''GET'' path None)"
    have q: "rq_Method (in_http ?q) = ''GET''" "rq_Path (in_http ?q) = path" "cleanPath path = path"
      using that by (auto simp: deliver_def newRequest_def url_path_def cleanPath_def path_Clean_def split_char_def Let_def)
    have "list_all (gets_only (path_segs path) pages) (live_routes (snd (cs_Server st)))"
      using that page_routes [of "snd (cs_Server st)"] by (auto simp: path_segs_def split_char_def)
    then show ?thesis using chain_no_slice [OF _ q] by (metis prod.collapse)
  qed
  have d: "dec_body (dec_slice sc) (wire_of enc (ho_Body (fst (NewRouter limited users w (deliver env b64 (newRequest env tok ''GET'' path None)) (cs_Server st))))) = None"
    if "path = ''/api/v1/backups'' \<or> path = ''/api/v1/templates''" for path sc tok
    by (rule no_slice_undecodable, rule *) (use that in simp)
  show ?thesis
    by (simp add: backupList_def templateList_def apiGet_def send_connect respond_def checked_def decoded_def fail_with_def case_prod_beta d split: option.split)
qed

section \<open>The list of machines\<close>

lemma jfield_Nil: "jfield n [] = None"
  by (simp add: jfield_def)

lemma jfield_append: "jfield n (xs @ ys) = (case jfield n ys of None \<Rightarrow> jfield n xs | Some v \<Rightarrow> Some v)"
  by (simp add: jfield_def map_add_def split: option.split)

lemma jfield_Cons:
  "jfield n ((k, v) # kvs) = (case jfield n kvs of None \<Rightarrow> if map lower_char k = map lower_char n then Some v else None | Some x \<Rightarrow> Some x)"
  by (simp add: jfield_def map_add_def split: option.split)

lemma jfield_omit: "map lower_char k \<noteq> map lower_char n \<Longrightarrow> jfield n (omit_empty k v) = None"
  by (simp add: omit_empty_def jfield_def)

lemma lower_letters:
  "lower_char (CHR ''_'') = CHR ''_''" "lower_char (CHR ''a'') = CHR ''a''" "lower_char (CHR ''b'') = CHR ''b''" "lower_char (CHR ''c'') = CHR ''c''"
  "lower_char (CHR ''d'') = CHR ''d''" "lower_char (CHR ''e'') = CHR ''e''" "lower_char (CHR ''f'') = CHR ''f''" "lower_char (CHR ''h'') = CHR ''h''"
  "lower_char (CHR ''i'') = CHR ''i''" "lower_char (CHR ''k'') = CHR ''k''" "lower_char (CHR ''l'') = CHR ''l''" "lower_char (CHR ''m'') = CHR ''m''"
  "lower_char (CHR ''n'') = CHR ''n''" "lower_char (CHR ''o'') = CHR ''o''" "lower_char (CHR ''p'') = CHR ''p''" "lower_char (CHR ''r'') = CHR ''r''"
  "lower_char (CHR ''s'') = CHR ''s''" "lower_char (CHR ''t'') = CHR ''t''" "lower_char (CHR ''u'') = CHR ''u''" "lower_char (CHR ''v'') = CHR ''v''"
  "lower_char (CHR ''w'') = CHR ''w''" "lower_char (CHR ''y'') = CHR ''y''"
  by (simp_all add: lower_char_def Let_def)

definition vm_decoded :: "VMInfo \<Rightarrow> json" where
  "vm_decoded vm = JObj [(''id'', JNum (sint (vmID vm))), (''name'', JStr (vmName vm)), (''state'', JStr (vmState vm)),
     (''vcpus'', JNum (uint (vmVCPUs vm))), (''memory_mb'', JNum (uint (vmMemoryMB vm))), (''node'', JStr (vmNode vm)), (''type'', JStr (vmType vm))]"

lemma dec_vm:
  assumes "uint (vmMemoryMB vm) < 2 ^ 63"
  shows "dec_struct vm_fields (json_of_vm enc vm) = Some (vm_decoded vm)"
proof -
  have i: "- (2 ^ 63) \<le> sint (vmID vm)" "sint (vmID vm) < 2 ^ 63" "uint (vmVCPUs vm) < 2 ^ 63"
    using sint_range_size [of "vmID vm"] uint_bounded [of "vmVCPUs vm"] by (simp_all add: word_size)
  have u: "- 9223372036854775808 \<le> uint x" for x :: "'a::len word" by (rule order_trans [OF _ uint_nonnegative]) simp
  show ?thesis
    using assms i
    by (simp add: u json_of_vm_def vm_decoded_def vm_fields_def dec_field_def jfield_append jfield_Cons jfield_Nil jfield_omit lower_letters split: option.split)
qed

definition vm_line :: "VMInfo \<Rightarrow> string list" where
  "vm_line vm = [show_int (sint (vmID vm)), vmName vm, if vmType vm = [] then ''vm'' else vmType vm, vmState vm,
     show_int (uint (vmVCPUs vm)), show_int (uint (vmMemoryMB vm)) @ ''MB'', vmNode vm]"

lemma vm_row_decoded: "vm_row (vm_decoded vm) = vm_line vm"
  by (simp add: vm_row_def vm_decoded_def vm_line_def show_num_def)

lemma dec_vm_page:
  assumes "list_all (\<lambda>vm. uint (vmMemoryMB vm) < 2 ^ 63) vms" "we_empty enc \<in> {JNull, JArr []}"
  shows "\<exists>data. dec_body (dec_page vm_fields) (wire_of enc (BVMPage vms n offset limit)) = Some data \<and> map vm_row (elems data) = map vm_line vms"
proof -
  have "dec_slice vm_fields (JArr (map (json_of_vm enc) vms)) = Some (JArr (map vm_decoded vms))"
    using assms(1) dec_vm by (intro dec_slice_encoded) (auto simp: list_all_iff)
  moreover have "jfield ''data'' [(''data'', j), (''total_count'', a), (''offset'', b), (''limit'', c)] = Some j" for j a b c
    by (simp add: jfield_Cons jfield_Nil lower_letters)
  ultimately show ?thesis
    using assms(2) by (auto simp: json_of_page_def jarr_def vm_row_decoded comp_def)
qed

definition lists_vms :: "('s, 'd) handler \<Rightarrow> bool" where
  "lists_vms h \<longleftrightarrow> (\<forall>w r q sv. h w r q sv = (handleListVMs (w_order w ''backends'') (w_handles w) r (selector sv), sv))"

lemma vms_routes: "list_all (gets_only [''api'', ''v1'', ''vms''] lists_vms) (live_routes sv)"
  by (rule gets_live; simp add: route_defs gets_eval lists_vms_def reads_def)

lemma vms_served:
  assumes "rq_Method (in_http q) = ''GET''" "rq_Path (in_http q) = ''/api/v1/vms''"
  shows "\<exists>r. ar_query r = in_query q \<and>
    mux_serve (live_routes sv) w q sv = (handleListVMs (w_order w ''backends'') (w_handles w) r (selector sv), sv)"
proof -
  have segs: "path_segs ''/api/v1/vms'' = [''api'', ''v1'', ''vms'']" by (simp add: path_segs_def split_char_def)
  have c: "cleanPath ''/api/v1/vms'' = ''/api/v1/vms''" by (simp add: cleanPath_def path_Clean_def split_char_def Let_def)
  obtain h where h: "(''GET /api/v1/vms'', h) \<in> set (live_routes sv)" by (simp add: live_routes_def vm_routes_def) blast
  have "parse_pattern ''GET /api/v1/vms'' = (''GET'', map Lit [''api'', ''v1'', ''vms''])"
    by (simp add: parse_pattern_def path_segs_def split_char_def parse_seg_def)
  then have "mux_match (live_routes sv) ''GET'' ''/api/v1/vms'' \<noteq> None"
    using mux_match_best [OF live_routes_ok h, of _ _ "''/api/v1/vms''"] segs by (fastforce simp: matches_def)
  then show ?thesis
    using get_served [OF vms_routes [folded segs, of sv] assms c, where w = w] unfolding lists_vms_def by metis
qed

definition plain_filter :: "string \<Rightarrow> bool" where
  "plain_filter t \<longleftrightarrow> list_all (\<lambda>c. c \<notin> set ''&#%+ '') t"

lemma no_query: "query_value [] k = []"
  by (simp add: query_value_def split_char_def)

lemma type_query:
  assumes "plain_filter t"
  shows "query_value (''type='' @ t) ''type'' = t" "k \<noteq> ''type'' \<Longrightarrow> query_value (''type='' @ t) k = []"
proof -
  have "split_on (\<lambda>c. c = CHR ''&'') (''type='' @ t) = [''type='' @ t]"
    using assms by (intro split_on_single) (auto simp: plain_filter_def list_all_iff)
  then show "query_value (''type='' @ t) ''type'' = t" "k \<noteq> ''type'' \<Longrightarrow> query_value (''type='' @ t) k = []"
    by (auto simp: query_value_def split_char_def)
qed

definition type_is :: "string \<Rightarrow> VMInfo \<Rightarrow> bool" where
  "type_is t vm \<longleftrightarrow> t = [] \<or> (if vmType vm = [] then ''vm'' else vmType vm) = t"

lemma listed_page:
  assumes "ar_query r = query_value q" "q = (if t = [] then [] else ''type='' @ t)" "plain_filter t"
  shows "\<exists>n offset limit. handleListVMs ord vords r s = Some (200, BVMPage (take 100 (filter (type_is t) (Svc_ListVMs ord vords s))) n offset limit)"
proof -
  have q: "ar_query r ''type'' = t" "ar_query r ''offset'' = []" "ar_query r ''limit'' = []"
    using assms type_query [OF assms(3)] no_query by (auto split: if_splits)
  then have "parsePagination r = (0, 100)"
    by (simp add: parsePagination_def Atoi_value_def DefaultLimit_def MaxLimit_def Let_def)
  then have p: "paginate r xs = Some (take 100 xs, int (length xs), 0, 100)" for xs :: "VMInfo list"
    using paginate_eq [of r 0 100 xs] by simp
  have "(if t \<noteq> [] then filter (\<lambda>vm. (if vmType vm = [] then ''vm'' else vmType vm) = t) vms else vms) = filter (type_is t) vms" for vms
    by (auto simp: type_is_def [abs_def])
  then show ?thesis by (simp add: handleListVMs_def q(1) p writeJSON_def Let_def)
qed


definition demo_enc :: wire_enc where
  "demo_enc = \<lparr>we_time = (\<lambda>_. []), we_snapshots = (\<lambda>_. None), we_empty = JNull, we_other = (\<lambda>_. WText [])\<rparr>"


end
