(* ===== verification/Config.thy ===== *)
theory Config
  imports Auth
begin

text \<open>
  The configuration of the controller, \<^verbatim>\<open>internal/config/config.go\<close>: the defaults, the YAML file and the
  environment variables that override it.  The YAML decoder is an argument: it takes the text and
  the configuration it fills.
\<close>

section \<open>Data\<close>

record QEMUCfg =
  qc_Mode :: string
  qc_SocketDir :: string
  qc_DiskDir :: string

record OAuth2Cfg =
  o2_ProviderURL :: string
  o2_ClientID :: string
  o2_ClientSecret :: string
  o2_RedirectURL :: string

record Config =
  cf_Addr :: string
  cf_RateLimit :: int
  cf_GRPCAddr :: string
  cf_Endpoints :: string
  cf_CertFile :: string
  cf_KeyFile :: string
  cf_Users :: string
  cf_JWTSecret :: string
  cf_DBPath :: string
  cf_OAuth2 :: OAuth2Cfg
  cf_LogLevel :: string
  cf_LogFormat :: string
  cf_StorageDriver :: string
  cf_CephPool :: string
  cf_PeripheralDriver :: string
  cf_OtelEndpoint :: string
  cf_QEMU :: QEMUCfg

definition GetEndpoints :: "string \<Rightarrow> string list" where
  "GetEndpoints endpoints =
     (if endpoints = [] then []
      else filter (\<lambda>p. p \<noteq> []) (map TrimSpace (split_char (CHR '','') endpoints)))"

definition DefaultConfig :: Config where
  "DefaultConfig =
     \<lparr>cf_Addr = '':18080'', cf_RateLimit = 0, cf_GRPCAddr = '':19090'', cf_Endpoints = [], cf_CertFile = [], cf_KeyFile = [],
      cf_Users = [], cf_JWTSecret = [], cf_DBPath = ''hcv.db'',
      cf_OAuth2 = \<lparr>o2_ProviderURL = [], o2_ClientID = [], o2_ClientSecret = [], o2_RedirectURL = []\<rparr>,
      cf_LogLevel = ''info'', cf_LogFormat = ''text'', cf_StorageDriver = [], cf_CephPool = [], cf_PeripheralDriver = [],
      cf_OtelEndpoint = [], cf_QEMU = \<lparr>qc_Mode = [], qc_SocketDir = [], qc_DiskDir = []\<rparr>\<rparr>"

section \<open>Loading\<close>

text \<open>What reading the file gives.\<close>

datatype file_read =
    FileMissing
  | FileError go_error
  | FileData string

definition overlay :: "(string \<Rightarrow> string) \<Rightarrow> string \<Rightarrow> (string \<Rightarrow> Config \<Rightarrow> Config) \<Rightarrow> Config \<Rightarrow> Config" where
  "overlay getenv name upd c = (if getenv name \<noteq> [] then upd (getenv name) c else c)"

definition env_settings :: "(string \<times> (string \<Rightarrow> Config \<Rightarrow> Config)) list" where
  "env_settings =
     [(''HCV_API_ADDR'', \<lambda>v c. c\<lparr>cf_Addr := v\<rparr>),
      (''HCV_GRPC_ADDR'', \<lambda>v c. c\<lparr>cf_GRPCAddr := v\<rparr>),
      (''HCV_ETCD_ENDPOINTS'', \<lambda>v c. c\<lparr>cf_Endpoints := v\<rparr>),
      (''HCV_TLS_CERT'', \<lambda>v c. c\<lparr>cf_CertFile := v\<rparr>),
      (''HCV_TLS_KEY'', \<lambda>v c. c\<lparr>cf_KeyFile := v\<rparr>),
      (''HCV_RBAC_USERS'', \<lambda>v c. c\<lparr>cf_Users := v\<rparr>),
      (''HCV_LOG_LEVEL'', \<lambda>v c. c\<lparr>cf_LogLevel := v\<rparr>),
      (''HCV_LOG_FORMAT'', \<lambda>v c. c\<lparr>cf_LogFormat := v\<rparr>),
      (''HCV_STORAGE_DRIVER'', \<lambda>v c. c\<lparr>cf_StorageDriver := v\<rparr>),
      (''HCV_PERIPHERAL_DRIVER'', \<lambda>v c. c\<lparr>cf_PeripheralDriver := v\<rparr>),
      (''HCV_CEPH_POOL'', \<lambda>v c. c\<lparr>cf_CephPool := v\<rparr>),
      (''HCV_JWT_SECRET'', \<lambda>v c. c\<lparr>cf_JWTSecret := v\<rparr>),
      (''HCV_DB_PATH'', \<lambda>v c. c\<lparr>cf_DBPath := v\<rparr>),
      (''HCV_OAUTH2_PROVIDER'', \<lambda>v c. c\<lparr>cf_OAuth2 := (cf_OAuth2 c)\<lparr>o2_ProviderURL := v\<rparr>\<rparr>),
      (''HCV_OAUTH2_CLIENT_ID'', \<lambda>v c. c\<lparr>cf_OAuth2 := (cf_OAuth2 c)\<lparr>o2_ClientID := v\<rparr>\<rparr>),
      (''HCV_OAUTH2_CLIENT_SECRET'', \<lambda>v c. c\<lparr>cf_OAuth2 := (cf_OAuth2 c)\<lparr>o2_ClientSecret := v\<rparr>\<rparr>),
      (''HCV_OTEL_ENDPOINT'', \<lambda>v c. c\<lparr>cf_OtelEndpoint := v\<rparr>),
      (''HCV_QEMU_MODE'', \<lambda>v c. c\<lparr>cf_QEMU := (cf_QEMU c)\<lparr>qc_Mode := v\<rparr>\<rparr>),
      (''HCV_QEMU_SOCKET_DIR'', \<lambda>v c. c\<lparr>cf_QEMU := (cf_QEMU c)\<lparr>qc_SocketDir := v\<rparr>\<rparr>),
      (''HCV_QEMU_DISK_DIR'', \<lambda>v c. c\<lparr>cf_QEMU := (cf_QEMU c)\<lparr>qc_DiskDir := v\<rparr>\<rparr>)]"

definition Load :: "(string \<Rightarrow> Config \<Rightarrow> Config result) \<Rightarrow> (string \<Rightarrow> string) \<Rightarrow> file_read \<Rightarrow> Config result" where
  "Load yaml getenv file =
     (case (case file of
              FileMissing \<Rightarrow> Ok DefaultConfig
            | FileError err \<Rightarrow> Err err
            | FileData data \<Rightarrow> yaml data DefaultConfig) of
        Inl err \<Rightarrow> Err err
      | Inr cfg \<Rightarrow> Ok (fold (\<lambda>(name, upd) c. overlay getenv name upd c) env_settings cfg))"

definition Validate :: "Config \<Rightarrow> string list" where
  "Validate c =
     (if cf_Addr c = [] then [''api.addr is empty''] else [])
     @ (if cf_GRPCAddr c = [] then [''grpc.addr is empty''] else [])
     @ (if cf_JWTSecret c = [] then [''auth.jwt_secret not set '' @ [CHR 0xE2, CHR 0x80, CHR 0x94] @ '' random key will be used (tokens invalidated on restart)''] else [])
     @ (if cf_LogLevel c \<noteq> [] \<and> cf_LogLevel c \<notin> {''debug'', ''info'', ''warn'', ''error''}
        then [''log.level must be one of: debug, info, warn, error''] else [])
     @ (if cf_LogFormat c \<noteq> [] \<and> cf_LogFormat c \<notin> {''text'', ''json''} then [''log.format must be one of: text, json''] else [])
     @ (if cf_StorageDriver c \<noteq> [] \<and> cf_StorageDriver c \<notin> {''memory'', ''zfs'', ''ceph''}
        then [''storage.driver must be one of: memory, zfs, ceph''] else [])"

section \<open>Precedence\<close>

text \<open>A setting of the configuration, by the environment variable that overrides it.\<close>

definition env_fields :: "(string \<times> (Config \<Rightarrow> string)) list" where
  "env_fields =
     [(''HCV_API_ADDR'', cf_Addr), (''HCV_GRPC_ADDR'', cf_GRPCAddr), (''HCV_ETCD_ENDPOINTS'', cf_Endpoints),
      (''HCV_TLS_CERT'', cf_CertFile), (''HCV_TLS_KEY'', cf_KeyFile), (''HCV_RBAC_USERS'', cf_Users),
      (''HCV_LOG_LEVEL'', cf_LogLevel), (''HCV_LOG_FORMAT'', cf_LogFormat), (''HCV_STORAGE_DRIVER'', cf_StorageDriver),
      (''HCV_PERIPHERAL_DRIVER'', cf_PeripheralDriver), (''HCV_CEPH_POOL'', cf_CephPool),
      (''HCV_JWT_SECRET'', cf_JWTSecret), (''HCV_DB_PATH'', cf_DBPath),
      (''HCV_OAUTH2_PROVIDER'', \<lambda>c. o2_ProviderURL (cf_OAuth2 c)), (''HCV_OAUTH2_CLIENT_ID'', \<lambda>c. o2_ClientID (cf_OAuth2 c)),
      (''HCV_OAUTH2_CLIENT_SECRET'', \<lambda>c. o2_ClientSecret (cf_OAuth2 c)), (''HCV_OTEL_ENDPOINT'', cf_OtelEndpoint),
      (''HCV_QEMU_MODE'', \<lambda>c. qc_Mode (cf_QEMU c)), (''HCV_QEMU_SOCKET_DIR'', \<lambda>c. qc_SocketDir (cf_QEMU c)),
      (''HCV_QEMU_DISK_DIR'', \<lambda>c. qc_DiskDir (cf_QEMU c))]"

definition setting :: "string \<Rightarrow> Config \<Rightarrow> string" where
  "setting name c = (case map_of env_fields name of Some field \<Rightarrow> field c | None \<Rightarrow> [])"

lemma field_update:
  "list_all (\<lambda>(m, upd). list_all (\<lambda>(n, field). \<forall>v c. field (upd v c) = (if n = m then v else field c)) env_fields) env_settings"
  by (simp add: env_settings_def env_fields_def)

lemma settings_named: "map fst env_fields = map fst env_settings"
  by (simp add: env_settings_def env_fields_def)

lemma setting_update_one:
  assumes m: "(m, upd) \<in> set env_settings"
  shows "setting n (upd v c) = (if n = m then v else setting n c)"
proof (cases "map_of env_fields n")
  case None
  moreover have "m \<in> fst ` set env_fields"
    using m settings_named by (metis fst_conv image_eqI set_map)
  ultimately have "n \<noteq> m" by (auto simp: map_of_eq_None_iff)
  then show ?thesis using None by (simp add: setting_def)
next
  case (Some field)
  then have "(n, field) \<in> set env_fields" by (rule map_of_SomeD)
  then have "field (upd v c) = (if n = m then v else field c)"
    using field_update m unfolding list_all_iff by fastforce
  then show ?thesis using Some by (simp add: setting_def)
qed

lemma setting_update:
  "list_all (\<lambda>(m, upd). \<forall>n v c. setting n (upd v c) = (if n = m then v else setting n c)) env_settings"
  unfolding list_all_iff using setting_update_one by blast

lemma fold_overlay:
  assumes "list_all (\<lambda>(m, upd). \<forall>n v c. setting n (upd v c) = (if n = m then v else setting n c)) ss"
  shows "setting n (fold (\<lambda>(name, upd) c. overlay getenv name upd c) ss c) =
    (if getenv n \<noteq> [] \<and> n \<in> fst ` set ss then getenv n else setting n c)"
  using assms
proof (induction ss arbitrary: c)
  case (Cons s ss)
  obtain m upd where s: "s = (m, upd)" by (cases s)
  have "setting n (overlay getenv m upd c) = (if getenv n \<noteq> [] \<and> n = m then getenv n else setting n c)"
    using Cons.prems s by (auto simp: overlay_def)
  moreover have "setting n (fold (\<lambda>(name, upd) c. overlay getenv name upd c) ss (overlay getenv m upd c)) =
    (if getenv n \<noteq> [] \<and> n \<in> fst ` set ss then getenv n else setting n (overlay getenv m upd c))"
    using Cons by simp
  ultimately show ?case by (auto simp: s)
qed simp

definition base_config :: "(string \<Rightarrow> Config \<Rightarrow> Config result) \<Rightarrow> file_read \<Rightarrow> Config result" where
  "base_config yaml file =
     (case file of FileMissing \<Rightarrow> Ok DefaultConfig | FileError err \<Rightarrow> Err err | FileData data \<Rightarrow> yaml data DefaultConfig)"

text \<open>Loading succeeds exactly when the file is missing or can be read and decoded; then every setting
  that has an environment variable is the value of that variable if it is set, and otherwise what the file or
  the defaults say; no variable changes the setting of another.\<close>

theorem load_precedence:
  "case Load yaml getenv file of
     Inl err \<Rightarrow> base_config yaml file = Err err
   | Inr cfg \<Rightarrow> (\<exists>base. base_config yaml file = Ok base
       \<and> list_all (\<lambda>n. setting n cfg = (if getenv n \<noteq> [] then getenv n else setting n base)) (map fst env_settings))"
proof (cases "base_config yaml file")
  case (Inl err)
  then show ?thesis by (simp add: Load_def base_config_def split: file_read.splits sum.splits)
next
  case (Inr base)
  then have "Load yaml getenv file = Ok (fold (\<lambda>(name, upd) c. overlay getenv name upd c) env_settings base)"
    by (simp add: Load_def base_config_def)
  then show ?thesis using Inr fold_overlay [OF setting_update, of _ getenv base] by (auto simp: list_all_iff)
qed

text \<open>The list of endpoints is what was written: joining endpoints that are not empty and have neither
  commas nor spaces with commas and splitting the text gives them back.\<close>

theorem endpoints_roundtrip:
  assumes "list_all (\<lambda>e. e \<noteq> [] \<and> CHR '','' \<notin> set e \<and> TrimSpace e = e) es"
  shows "GetEndpoints (str_join '','' es) = es"
proof (cases "es = []")
  case False
  have s: "split_char (CHR '','') (str_join '','' es) = es"
    using split_char_join [OF False, of "CHR '',''"] assms by (auto simp: list_all_iff)
  have "str_join '','' es \<noteq> []"
  proof
    assume "str_join '','' es = []"
    then have "es = [[]]" using s by (simp add: split_char_def)
    then show False using assms by simp
  qed
  moreover have "map TrimSpace es = es" "filter (\<lambda>p. p \<noteq> []) es = es"
    using assms by (auto simp: list_all_iff map_idI filter_id_conv)
  ultimately show ?thesis by (simp add: GetEndpoints_def s)
qed (simp add: GetEndpoints_def)

theorem endpoints_roundtrip_witness: "GetEndpoints (str_join '','' [''10.0.0.1:2379'', ''10.0.0.2:2379'']) = [''10.0.0.1:2379'', ''10.0.0.2:2379'']"
  using endpoints_roundtrip [of "[''10.0.0.1:2379'', ''10.0.0.2:2379'']"] by (simp add: TrimSpace_def is_space_def)

end
