(* ===== verification/Boot.thy ===== *)
theory Boot
  imports System Config
begin

text \<open>
  The start of the controller, \<^verbatim>\<open>cmd/controller/main.go\<close>: which services are built from the configuration, and what
  the REST interface then offers.  The branch with an in-memory state store is modelled as a whole; with etcd the
  compute service is the persistent one of theory \<open>Persistent\<close>, and the other services are the same.
\<close>

section \<open>The services\<close>

text \<open>A configuration that cannot be read is replaced by the defaults.\<close>

definition boot_config :: "(string \<Rightarrow> Config \<Rightarrow> Config result) \<Rightarrow> (string \<Rightarrow> string) \<Rightarrow> file_read \<Rightarrow> Config" where
  "boot_config yaml getenv file = (case Load yaml getenv file of Inl err \<Rightarrow> DefaultConfig | Inr cfg \<Rightarrow> cfg)"

definition boot_selector :: "Config \<Rightarrow> BackendSelector" where
  "boot_selector cfg =
     (let rustVMM = NewRustVMMBackend (snd (Core_Init NewMockVMCore));
          qemuEmulated = (qc_Mode (cf_QEMU cfg) \<noteq> ''real'');
          qemuSocketDir = (if qc_SocketDir (cf_QEMU cfg) = [] then ''/tmp/hcv'' else qc_SocketDir (cf_QEMU cfg));
          qemuBackend = NewQEMUBackend (Some \<lparr>qcfg_QMPSocket = qemuSocketDir, qcfg_Emulated = qemuEmulated, qcfg_DefaultDisk = [], qcfg_NetworkMode = []\<rparr>);
          lxcBackend = NewLXCBackend (Some \<lparr>lbc_Emulated = True, lbc_LXCPath = [], lbc_BridgeName = []\<rparr>)
      in Selector_Register (BLxc lxcBackend) (Selector_Register (BQemu qemuBackend)
           (Selector_Register (BRust rustVMM) (NewBackendSelector ''auto''))))"

definition boot_storage :: "Config \<Rightarrow> StorageService" where
  "boot_storage cfg =
     (if cf_StorageDriver cfg = ''zfs'' then NewServiceWithDriver ZFSDriver
      else if cf_StorageDriver cfg = ''ceph'' then NewServiceWithDriver (Ceph (NewCephDriver (cf_CephPool cfg)))
      else NewStorageService)"

definition boot_peripheral :: "sysfs \<Rightarrow> Config \<Rightarrow> PeripheralDriver" where
  "boot_peripheral fs cfg = (if cf_PeripheralDriver cfg = ''sysfs'' then PerSysfs (NewSysfsDriver fs) else Per_NewService)"

text \<open>\<open>opened\<close> is the database file and \<open>wal\<close> setting its journal; \<open>rnd\<close> is the random key that replaces an empty
  secret.\<close>

definition boot_auth ::
  "'d auth_libs \<Rightarrow> (string \<Rightarrow> 'd result) \<Rightarrow> ('d \<Rightarrow> go_error option) \<Rightarrow> string \<Rightarrow> Config \<Rightarrow> (JWTService \<times> 'd) option" where
  "boot_auth libs opened wal rnd cfg =
     (let dbPath = (if cf_DBPath cfg = [] then ''hcv.db'' else cf_DBPath cfg) in
      case NewUserDB (al_sql libs) (opened dbPath) wal of
        Inl err \<Rightarrow> None
      | Inr d \<Rightarrow> Some (NewJWTService rnd (cf_JWTSecret cfg) (24 * 3600 * second), SeedDefaultAdmin (al_sql libs) (al_bcrypt libs) d))"

record 'd boot_env =
  be_now :: gotime
  be_unix :: int
  be_sysfs :: sysfs
  be_nodeName :: string
  be_hostname :: "string result"
  be_libs :: "'d auth_libs"
  be_open :: "string \<Rightarrow> 'd result"
  be_wal :: "'d \<Rightarrow> go_error option"
  be_random :: string
  be_buildDate :: string

definition boot_services :: "'d boot_env \<Rightarrow> 's \<Rightarrow> Config \<Rightarrow> ('s, 'd) Services" where
  "boot_services env kv cfg =
     (let storageSvc = boot_storage cfg in
      \<lparr>sv_Compute = NewComputeService (boot_selector cfg), sv_Task = Some NewTaskService, sv_running = [], sv_Storage = storageSvc,
       sv_Network = NetMemory newMemoryDriver, sv_Peripheral = boot_peripheral (be_sysfs env) cfg, sv_HA = Ha_NewService (be_now env),
       sv_LeaderElection = Some (NewLeaderElection (\<lambda>_. None) (\<lambda>_. None) [] (GetNodeName (be_nodeName env) (be_hostname env)) 15),
       sv_kv = kv, sv_Backup = Some (NewBackupService storageSvc), sv_Template = None, sv_Snapshot = None,
       sv_Image = Some (NewImageService (be_unix env) ''/var/lib/hcv/images''), sv_Auth = boot_auth (be_libs env) (be_open env) (be_wal env) (be_random env) cfg,
       sv_OAuth2 = None, sv_EventHub = True, 
       sv_Version = \<lparr>vi_Version = ''0.1.0'', vi_GitCommit = ''dev'', vi_BuildDate = be_buildDate env, vi_VMCore = ''mock-0.1.0''\<rparr>, sv_spec = None\<rparr>)"

text \<open>The router is built with the users of the configuration.\<close>

definition controller_serve ::
  "'d boot_env \<Rightarrow> bool \<Rightarrow> Config \<Rightarrow> ('s, 'd) world \<Rightarrow> in_req \<Rightarrow> uint64 \<times> ('s, 'd) Services \<Rightarrow> http_out \<times> uint64 \<times> ('s, 'd) Services" where
  "controller_serve env limited cfg = NewRouter limited (ParseUsers (cf_Users cfg))"

fun serve_all ::
  "'d boot_env \<Rightarrow> bool \<Rightarrow> Config \<Rightarrow> (('s, 'd) world \<times> in_req) list \<Rightarrow> uint64 \<times> ('s, 'd) Services \<Rightarrow> uint64 \<times> ('s, 'd) Services" where
  "serve_all env limited cfg [] s = s"
| "serve_all env limited cfg ((w, q) # rs) s = serve_all env limited cfg rs (snd (controller_serve env limited cfg w q s))"

lemma boot_backends:
  "sel_backends (boot_selector cfg) = [''rustvmm'' \<mapsto> BRust (NewRustVMMBackend (snd (Core_Init NewMockVMCore))),
     ''qemu'' \<mapsto> BQemu (NewQEMUBackend (Some \<lparr>qcfg_QMPSocket = (if qc_SocketDir (cf_QEMU cfg) = [] then ''/tmp/hcv'' else qc_SocketDir (cf_QEMU cfg)),
       qcfg_Emulated = (qc_Mode (cf_QEMU cfg) \<noteq> ''real''), qcfg_DefaultDisk = [], qcfg_NetworkMode = []\<rparr>)),
     ''lxc'' \<mapsto> BLxc (NewLXCBackend (Some \<lparr>lbc_Emulated = True, lbc_LXCPath = [], lbc_BridgeName = []\<rparr>))]"
  by (auto simp: boot_selector_def Selector_Register_def NewBackendSelector_def Let_def)

section \<open>The machine tables stay well formed\<close>

lemma boot_inv: "svc_inv (boot_selector cfg)"
proof -
  have "rust_ok (NewRustVMMBackend (snd (Core_Init NewMockVMCore)))"
    using rust_ok_New by (simp add: rust_ok_def NewRustVMMBackend_def Core_Init_def core_ok_def NewMockVMCore_def)
  then show ?thesis
    by (auto simp: svc_inv_def svc_ok_def ranges_ok_def boot_backends Core_Init_def NewRustVMMBackend_def NewMockVMCore_def split: if_splits)
qed

lemma chain_keeps:
  assumes "sys_ok w sv"
  shows "svc_inv (selector (snd (snd (NewRouter limited users w q (n, sv))))) \<and> sv_Task (snd (snd (NewRouter limited users w q (n, sv)))) \<noteq> None"
proof -
  have "svc_inv (selector (snd (snd (inner_chain limited w q sv)))) \<and> sv_Task (snd (snd (inner_chain limited w q sv))) \<noteq> None"
    using mux_serve_keeps [OF assms, of q] assms by (auto simp: inner_chain_def corsMiddleware_def sys_ok_def Let_def split: prod.split option.split)
  then have "svc_inv (selector (snd (snd (rbac_chain limited users w q sv)))) \<and> sv_Task (snd (snd (rbac_chain limited users w q sv))) \<noteq> None"
    using assms by (auto simp: rbac_chain_def sys_ok_def split: option.split rbac_result.split)
  then show ?thesis by (simp add: NewRouter_def Let_def case_prod_beta)
qed

lemma boot_room: "hint_room (boot_selector cfg)" "range_order backend_names (sel_backends (boot_selector cfg))"
  by (auto simp: hint_room_def has_room_def boot_backends range_order_def backend_names_def Core_Init_def NewRustVMMBackend_def NewMockVMCore_def)

section \<open>Endpoints that are never offered\<close>

text \<open>The start never sets the services of templates, snapshots and OAuth2, and no handler does.\<close>

definition unset :: "('s, 'd) Services \<Rightarrow> bool" where
  "unset sv \<longleftrightarrow> sv_Template sv = None \<and> sv_Snapshot sv = None \<and> sv_OAuth2 sv = None"

definition keeps_unset :: "('s, 'd) handler \<Rightarrow> bool" where
  "keeps_unset h \<longleftrightarrow> (\<forall>w r q sv. unset sv \<longrightarrow> unset (snd (h w r q sv)))"

lemma keeps_unset_handlers:
  "keeps_unset (reads f)" "keeps_unset (asks_store f')" "keeps_unset spec_handler" "keeps_unset (on_selector f0)"
  "keeps_unset (on_storage f1)" "keeps_unset (on_network f2)" "keeps_unset (on_backup f3)" "keeps_unset (on_template f4)"
  "keeps_unset (on_snapshot f5)" "keeps_unset (on_image f6)" "keeps_unset (on_ha f7)" "keeps_unset (on_oauth2 f8)" "keeps_unset (on_auth f9)"
  "keeps_unset delete_task_handler" "keeps_unset attach_handler" "keeps_unset detach_handler" "keeps_unset promote_handler"
  "keeps_unset migrate_handler" "keeps_unset cancel_handler" "keeps_unset deploy_handler"
  by (auto simp: keeps_unset_def unset_def reads_def asks_store_def spec_handler_def on_selector_def on_storage_def on_network_def on_backup_def
      on_template_def on_snapshot_def on_image_def on_ha_def on_oauth2_def on_auth_def delete_task_handler_def attach_handler_def detach_handler_def
      promote_handler_def migrate_handler_def cancel_handler_def deploy_handler_def set_backup_def set_selector_def
      split: prod.split option.split)

lemma keeps_unset_live: "list_all (\<lambda>(p, h). keeps_unset h) (live_routes sv)"
  by (simp add: live_routes_def opt_def route_defs keeps_unset_handlers)

lemma serve_unset:
  assumes "unset (snd s)"
  shows "unset (snd (snd (NewRouter limited users w q s)))"
proof -
  obtain n sv where s: "s = (n, sv)" by (cases s)
  have "keeps_unset h" if "mux_match (live_routes sv) m p = Some (gs, h)" for m p gs h
    using mux_match_sound [OF that] keeps_unset_live [of sv] by (auto simp: list_all_iff)
  then have "unset (snd (mux_serve (live_routes sv) w q sv))"
    using assms s by (auto simp: mux_serve_def Let_def keeps_unset_def split: option.split)
  then have "unset (snd (snd (inner_chain limited w q sv)))"
    using assms s by (auto simp: inner_chain_def corsMiddleware_def Let_def split: prod.split option.split)
  then have "unset (snd (snd (rbac_chain limited users w q sv)))"
    using assms s by (auto simp: rbac_chain_def split: option.split rbac_result.split)
  then show ?thesis using s by (simp add: NewRouter_def Let_def case_prod_beta)
qed

lemma serve_all_unset: "unset (snd s) \<Longrightarrow> unset (snd (serve_all env limited cfg rs s))"
proof (induction rs arbitrary: s)
  case (Cons wq rs)
  then show ?case using serve_unset [of s] by (cases wq) (simp add: controller_serve_def)
qed simp

definition unoffered :: "string list \<Rightarrow> bool" where
  "unoffered segs \<longleftrightarrow> (\<exists>x rest. segs = ''api'' # ''v1'' # x # rest \<and> (x = ''snapshots'' \<or> x = ''templates'' \<and> rest \<noteq> [''lxc'']
     \<or> x = ''auth'' \<and> rest \<noteq> [] \<and> hd rest = ''oauth2''))"

lemma unoffered_tables:
  assumes "unoffered segs" "unset sv"
  shows "list_all (\<lambda>(p, h). \<not> matches (snd (parse_pattern p)) segs) (live_routes sv)"
proof -
  obtain x rest where x: "segs = ''api'' # ''v1'' # x # rest"
    "x = ''snapshots'' \<or> x = ''templates'' \<and> rest \<noteq> [''lxc''] \<or> x = ''auth'' \<and> rest \<noteq> [] \<and> hd rest = ''oauth2''"
    using assms(1) by (auto simp: unoffered_def)
  have n: "opt (sv_Template sv \<noteq> None) rs = []" "opt (sv_Snapshot sv \<noteq> None) rs = []" "opt (sv_OAuth2 sv \<noteq> None) rs = []" for rs :: "'x list"
    using assms(2) by (simp_all add: opt_def unset_def)
  show ?thesis
    unfolding live_routes_def n route_defs x(1)
    using x(2) by (auto simp: opt_def parse_pattern_def path_segs_def split_char_def parse_seg_def matches_def list_all2_Cons1)
qed

text \<open>C37: The services of templates, snapshots and OAuth2 are never set: whatever the configuration and the requests served
  before, every request for a path of theirs is answered with 404 once it is past the access control and the rate limit, although
  the controller has the handlers and the client has the commands.\<close>

theorem endpoints_never_offered:
  assumes "unoffered (path_segs path)" "cleanPath path = path" "rq_Path (in_http q) = path" "rq_Method (in_http q) \<notin> {''OPTIONS'', ''CONNECT''}"
    and "s = serve_all env False cfg rs (n, boot_services env kv cfg)" "cf_Users cfg = []"
  shows "ho_Status (fst (controller_serve env False cfg w q s)) = 404 \<and> snd (snd (controller_serve env False cfg w q s)) = snd s"
proof -
  have u: "unset (snd s)" unfolding assms(5) by (rule serve_all_unset) (simp add: boot_services_def unset_def Let_def)
  note no = unoffered_tables [OF assms(1) u]
  have "mux_match (live_routes (snd s)) (rq_Method (in_http q)) path = None"
  proof (rule ccontr)
    assume "mux_match (live_routes (snd s)) (rq_Method (in_http q)) path \<noteq> None"
    then obtain gs h where "mux_match (live_routes (snd s)) (rq_Method (in_http q)) path = Some (gs, h)" by (metis not_None_eq surj_pair)
    from mux_match_sound [OF this] no show False by (force simp: list_all_iff)
  qed
  moreover have "\<not> path_matches_some (live_routes (snd s)) path"
    using no by (auto simp: path_matches_some_def list_all_iff list_ex_iff)
  ultimately have "mux_serve (live_routes (snd s)) w q (snd s) = (Some (404, BText ''404 page not found''), snd s)"
    using assms(2-4) by (simp add: mux_serve_def Let_def)
  then show ?thesis
    using assms(4,6) by (cases s) (simp add: controller_serve_def ParseUsers_def NewRouter_def rbac_chain_def inner_chain_def corsMiddleware_def
        recoveryMiddleware_def Let_def case_prod_beta)
qed

theorem endpoints_never_offered_witness:
  "\<forall>w env. ho_Status (fst (controller_serve env False DefaultConfig w (get_req ''/api/v1/templates'')
     (0, boot_services env () DefaultConfig :: (unit, unit) Services))) = 404"
proof (intro allI)
  fix w :: "(unit, unit) world" and env :: "unit boot_env"
  have "unoffered (path_segs ''/api/v1/templates'')" "cleanPath ''/api/v1/templates'' = ''/api/v1/templates''"
    by (simp_all add: unoffered_def path_segs_def split_char_def cleanPath_def path_Clean_def Let_def)
  then show "ho_Status (fst (controller_serve env False DefaultConfig w (get_req ''/api/v1/templates'') (0, boot_services env () DefaultConfig))) = 404"
    using endpoints_never_offered [of "''/api/v1/templates''" "get_req ''/api/v1/templates''" _ env DefaultConfig "[]" 0 "()" w]
    by (simp add: get_req_def DefaultConfig_def)
qed

end
