(* ===== verification/Grpc.thy ===== *)
theory Grpc
  imports Boot
begin

text \<open>
  The gRPC interface, \<^verbatim>\<open>internal/grpcapi\<close>: the servers for machines, storage and peripherals over the same services as
  the REST interface, and the controller as a whole, where REST requests, gRPC calls and the goroutines of running
  migrations interleave.  Enumerations of the protocol are open, so they are the 32-bit integers of the generated code.
\<close>

section \<open>Messages\<close>

type_synonym VMState = int32
type_synonym DeviceType = int32

definition VM_STATE_UNSPECIFIED :: VMState where "VM_STATE_UNSPECIFIED = 0"
definition VM_STATE_CREATED :: VMState where "VM_STATE_CREATED = 1"
definition VM_STATE_CONFIGURED :: VMState where "VM_STATE_CONFIGURED = 2"
definition VM_STATE_RUNNING :: VMState where "VM_STATE_RUNNING = 3"
definition VM_STATE_PAUSED :: VMState where "VM_STATE_PAUSED = 4"
definition VM_STATE_STOPPED :: VMState where "VM_STATE_STOPPED = 5"

definition DEVICE_TYPE_UNSPECIFIED :: DeviceType where "DEVICE_TYPE_UNSPECIFIED = 0"
definition DEVICE_TYPE_GPU :: DeviceType where "DEVICE_TYPE_GPU = 1"
definition DEVICE_TYPE_NIC :: DeviceType where "DEVICE_TYPE_NIC = 2"
definition DEVICE_TYPE_USB :: DeviceType where "DEVICE_TYPE_USB = 3"
definition DEVICE_TYPE_DISK :: DeviceType where "DEVICE_TYPE_DISK = 4"

lemmas vm_state_defs = VM_STATE_UNSPECIFIED_def VM_STATE_CREATED_def VM_STATE_CONFIGURED_def VM_STATE_RUNNING_def
  VM_STATE_PAUSED_def VM_STATE_STOPPED_def
lemmas device_type_defs = DEVICE_TYPE_UNSPECIFIED_def DEVICE_TYPE_GPU_def DEVICE_TYPE_NIC_def DEVICE_TYPE_USB_def DEVICE_TYPE_DISK_def

text \<open>The fields the servers read and fill; the messages have more, which are never looked at or stay zero.\<close>

record pb_VMInfo =
  pb_Handle :: int32
  pb_Name :: string
  pb_State :: VMState
  pb_Vcpus :: uint32
  pb_MemoryMb :: uint64
  pb_Node :: string

record CreateVMRequest =
  cvr_Name :: string
  cvr_Vcpus :: uint32
  cvr_MemoryMb :: uint64

record LiveMigrateResponse =
  lmr_Success :: bool
  lmr_Message :: string

record pb_StoragePool =
  pbp_Name :: string
  pbp_PoolType :: string
  pbp_TotalBytes :: uint64
  pbp_UsedBytes :: uint64
  pbp_Health :: string

record pb_Volume =
  pbv_Id :: string
  pbv_Pool :: string
  pbv_Name :: string
  pbv_SizeBytes :: uint64
  pbv_Path :: string

record pb_Snapshot =
  pbs_Id :: string
  pbs_VolumeId :: string
  pbs_Name :: string
  pbs_CreatedAt :: int

record pb_DeviceInfo =
  pbd_Id :: string
  pbd_DeviceType :: DeviceType
  pbd_Description :: string
  pbd_PciAddress :: string
  pbd_AttachedVm :: int32

section \<open>Machines\<close>

definition stateToProto :: "string \<Rightarrow> VMState" where
  "stateToProto state =
     (if state = ''created'' then VM_STATE_CREATED
      else if state = ''configured'' then VM_STATE_CONFIGURED
      else if state = ''running'' then VM_STATE_RUNNING
      else if state = ''paused'' then VM_STATE_PAUSED
      else if state = ''stopped'' then VM_STATE_STOPPED
      else VM_STATE_UNSPECIFIED)"

definition vmToProto :: "VMInfo \<Rightarrow> pb_VMInfo" where
  "vmToProto vm =
     \<lparr>pb_Handle = vmID vm, pb_Name = vmName vm, pb_State = stateToProto (vmState vm), pb_Vcpus = vmVCPUs vm,
      pb_MemoryMb = vmMemoryMB vm, pb_Node = vmNode vm\<rparr>"

definition wrap :: "string \<Rightarrow> ('a \<Rightarrow> 'b) \<Rightarrow> 'a result \<Rightarrow> 'b result" where
  "wrap doing f r = map_sum (\<lambda>err. Errorf (doing @ '': %w'') [FErr err]) f r"

definition Grpc_CreateVM :: "comp_env \<Rightarrow> gotime \<Rightarrow> CreateVMRequest \<Rightarrow> BackendSelector \<Rightarrow> pb_VMInfo result \<times> BackendSelector" where
  "Grpc_CreateVM env now req s =
     (case Svc_CreateVM env (cvr_Name req) (cvr_Vcpus req) (cvr_MemoryMb req) [] now s of
        (r, s') \<Rightarrow> (wrap ''create VM'' vmToProto r, s'))"

definition Grpc_DestroyVM :: "comp_env \<Rightarrow> string list \<Rightarrow> int32 \<Rightarrow> BackendSelector \<Rightarrow> unit result \<times> BackendSelector" where
  "Grpc_DestroyVM env ord handle s =
     (case Svc_DestroyVM env ord handle s of (r, s') \<Rightarrow> (wrap ''destroy VM'' (\<lambda>u. ()) r, s'))"

definition Grpc_StartVM :: "comp_env \<Rightarrow> string list \<Rightarrow> int32 \<Rightarrow> BackendSelector \<Rightarrow> VMState result \<times> BackendSelector" where
  "Grpc_StartVM env ord handle s =
     (case Svc_ActionVM env ord handle ''start'' s of (r, s') \<Rightarrow> (wrap ''start VM'' (\<lambda>vm. stateToProto (vmState vm)) r, s'))"

definition Grpc_StopVM :: "comp_env \<Rightarrow> string list \<Rightarrow> int32 \<Rightarrow> BackendSelector \<Rightarrow> VMState result \<times> BackendSelector" where
  "Grpc_StopVM env ord handle s =
     (case Svc_ActionVM env ord handle ''stop'' s of (r, s') \<Rightarrow> (wrap ''stop VM'' (\<lambda>vm. stateToProto (vmState vm)) r, s'))"

definition Grpc_PauseVM :: "comp_env \<Rightarrow> string list \<Rightarrow> int32 \<Rightarrow> BackendSelector \<Rightarrow> VMState result \<times> BackendSelector" where
  "Grpc_PauseVM env ord handle s =
     (case Svc_ActionVM env ord handle ''pause'' s of (r, s') \<Rightarrow> (wrap ''pause VM'' (\<lambda>vm. stateToProto (vmState vm)) r, s'))"

definition Grpc_ResumeVM :: "comp_env \<Rightarrow> string list \<Rightarrow> int32 \<Rightarrow> BackendSelector \<Rightarrow> VMState result \<times> BackendSelector" where
  "Grpc_ResumeVM env ord handle s =
     (case Svc_ActionVM env ord handle ''resume'' s of (r, s') \<Rightarrow> (wrap ''resume VM'' (\<lambda>vm. stateToProto (vmState vm)) r, s'))"

text \<open>The filters of the request are not read.\<close>

definition Grpc_ListVMs :: "string list \<Rightarrow> (string \<Rightarrow> int32 list) \<Rightarrow> BackendSelector \<Rightarrow> pb_VMInfo list" where
  "Grpc_ListVMs ord vords s = map vmToProto (Svc_ListVMs ord vords s)"

definition Grpc_GetVM :: "string list \<Rightarrow> int32 \<Rightarrow> BackendSelector \<Rightarrow> pb_VMInfo result" where
  "Grpc_GetVM ord handle s = wrap ''get VM'' vmToProto (Svc_GetVM ord handle s)"

text \<open>The call waits for the migration; \<open>inputs\<close> gives each step of it its map order and clock.  It has answered
  once the steps have ended.\<close>

definition LiveMigrate :: "(string list \<times> gotime) list \<Rightarrow> int32 \<Rightarrow> string \<Rightarrow> ComputeService \<Rightarrow> LiveMigrateResponse option \<times> ComputeService" where
  "LiveMigrate inputs handle targetNode cs =
     (case MigrateVM inputs handle targetNode cs of
        (MgDone (Inl err), cs') \<Rightarrow> (Some \<lparr>lmr_Success = False, lmr_Message = Sprintf ''migration failed: %v'' [FErr err]\<rparr>, cs')
      | (MgDone (Inr u), cs') \<Rightarrow>
          (Some \<lparr>lmr_Success = True, lmr_Message = Sprintf ''VM %d migrated to %s'' [FInt (sint handle), FStr targetNode]\<rparr>, cs')
      | (pc, cs') \<Rightarrow> (None, cs'))"

section \<open>Storage\<close>

definition poolToProto :: "Pool \<Rightarrow> pb_StoragePool" where
  "poolToProto p =
     \<lparr>pbp_Name = po_Name p, pbp_PoolType = po_PoolType p, pbp_TotalBytes = po_TotalBytes p, pbp_UsedBytes = po_UsedBytes p, pbp_Health = po_Health p\<rparr>"

definition volumeToProto :: "Volume \<Rightarrow> pb_Volume" where
  "volumeToProto v =
     \<lparr>pbv_Id = vo_ID v, pbv_Pool = vo_Pool v, pbv_Name = vo_Name v, pbv_SizeBytes = vo_SizeBytes v, pbv_Path = vo_Path v\<rparr>"

definition snapToProto :: "StSnapshot \<Rightarrow> pb_Snapshot" where
  "snapToProto n = \<lparr>pbs_Id = sn_ID n, pbs_VolumeId = sn_VolumeID n, pbs_Name = sn_Name n, pbs_CreatedAt = sn_CreatedAt n\<rparr>"

definition Grpc_ListPools :: "stor_env \<Rightarrow> string list \<Rightarrow> StorageService \<Rightarrow> pb_StoragePool list" where
  "Grpc_ListPools env ord s = map poolToProto (Stor_ListPools env ord s)"

definition Grpc_CreateVolume :: "stor_env \<Rightarrow> int \<Rightarrow> volume_req \<Rightarrow> StorageService \<Rightarrow> pb_Volume result \<times> StorageService" where
  "Grpc_CreateVolume env now req s =
     (case Stor_CreateVolume env now (vq_Pool req) (vq_Name req) (vq_Format req) (vq_SizeBytes req) s of
        (r, s') \<Rightarrow> (wrap ''create volume'' volumeToProto r, s'))"

definition Grpc_DeleteVolume :: "stor_env \<Rightarrow> string \<Rightarrow> StorageService \<Rightarrow> unit result \<times> StorageService" where
  "Grpc_DeleteVolume env i s = (case Stor_DeleteVolume env i s of (r, s') \<Rightarrow> (wrap ''delete volume'' (\<lambda>u. ()) r, s'))"

definition Grpc_CreateSnapshot :: "stor_env \<Rightarrow> int \<Rightarrow> string \<Rightarrow> string \<Rightarrow> StorageService \<Rightarrow> pb_Snapshot result \<times> StorageService" where
  "Grpc_CreateSnapshot env now volumeId name s =
     (case Stor_CreateSnapshot env now volumeId name s of (r, s') \<Rightarrow> (wrap ''create snapshot'' snapToProto r, s'))"

definition Grpc_ListSnapshots :: "stor_env \<Rightarrow> string list \<Rightarrow> int \<Rightarrow> string \<Rightarrow> StorageService \<Rightarrow> pb_Snapshot list" where
  "Grpc_ListSnapshots env ord now volumeId s = map snapToProto (Stor_ListSnapshots env ord now volumeId s)"

section \<open>Peripherals\<close>

definition protoToDeviceType :: "DeviceType \<Rightarrow> string" where
  "protoToDeviceType dt =
     (if dt = DEVICE_TYPE_GPU then DeviceGPU
      else if dt = DEVICE_TYPE_NIC then DeviceNIC
      else if dt = DEVICE_TYPE_USB then DeviceUSB
      else if dt = DEVICE_TYPE_DISK then DeviceDisk
      else [])"

definition deviceTypeToProto :: "string \<Rightarrow> DeviceType" where
  "deviceTypeToProto dt =
     (if dt = DeviceGPU then DEVICE_TYPE_GPU
      else if dt = DeviceNIC then DEVICE_TYPE_NIC
      else if dt = DeviceUSB then DEVICE_TYPE_USB
      else if dt = DeviceDisk then DEVICE_TYPE_DISK
      else DEVICE_TYPE_UNSPECIFIED)"

definition deviceToProto :: "Device \<Rightarrow> pb_DeviceInfo" where
  "deviceToProto d =
     \<lparr>pbd_Id = dv_ID d, pbd_DeviceType = deviceTypeToProto (dv_DeviceType d), pbd_Description = dv_Description d,
      pbd_PciAddress = dv_PCIAddress d, pbd_AttachedVm = dv_AttachedVM d\<rparr>"

definition Grpc_ListDevices :: "string list \<Rightarrow> string list \<Rightarrow> DeviceType \<Rightarrow> PeripheralDriver \<Rightarrow> pb_DeviceInfo list" where
  "Grpc_ListDevices ord ord0 typeFilter d = map deviceToProto (Per_ListDevices ord ord0 (protoToDeviceType typeFilter) d)"

text \<open>A response whose call returns an error is dropped by the library, so the flag is seen only when it is true.\<close>

definition Grpc_AttachDevice :: "sysfs \<Rightarrow> string \<Rightarrow> int32 \<Rightarrow> PeripheralDriver \<Rightarrow> bool result \<times> PeripheralDriver \<times> writes" where
  "Grpc_AttachDevice fs deviceId vmHandle d =
     (case Per_AttachDevice fs deviceId vmHandle d of (r, d', ws) \<Rightarrow> (wrap ''attach'' (\<lambda>u. True) r, d', ws))"

definition Grpc_DetachDevice :: "string \<Rightarrow> PeripheralDriver \<Rightarrow> bool result \<times> PeripheralDriver" where
  "Grpc_DetachDevice deviceId d = (case Per_DetachDevice deviceId d of (r, d') \<Rightarrow> (wrap ''detach'' (\<lambda>u. True) r, d'))"

section \<open>The server\<close>

text \<open>The calls of the three services.  The services are the ones of the REST interface and are always set, so all
  three servers are registered.\<close>

datatype rpc =
    RCreateVM CreateVMRequest
  | RDestroyVM int32
  | RStartVM int32
  | RStopVM int32
  | RPauseVM int32
  | RResumeVM int32
  | RListVMs
  | RGetVM int32
  | RLiveMigrate int32 string
  | RListPools
  | RCreateVolume volume_req
  | RDeleteVolume string
  | RCreateSnapshot string string
  | RListSnapshots string
  | RListDevices DeviceType
  | RAttachDevice string int32
  | RDetachDevice string

datatype rpc_reply =
    PVM pb_VMInfo
  | PNone
  | PState VMState
  | PVMs "pb_VMInfo list"
  | PMigrated LiveMigrateResponse
  | PPools "pb_StoragePool list"
  | PVolume pb_Volume
  | PSnapshot pb_Snapshot
  | PSnapshots "pb_Snapshot list"
  | PDevices "pb_DeviceInfo list"
  | PSuccess bool

definition rpc_selector ::
  "('a \<Rightarrow> rpc_reply) \<Rightarrow> (BackendSelector \<Rightarrow> 'a result \<times> BackendSelector) \<Rightarrow> ('s, 'd) Services \<Rightarrow> rpc_reply result option \<times> ('s, 'd) Services" where
  "rpc_selector mk f sv = (case f (selector sv) of (r, s') \<Rightarrow> (Some (map_sum id mk r), set_selector s' sv))"

definition rpc_storage ::
  "('a \<Rightarrow> rpc_reply) \<Rightarrow> (StorageService \<Rightarrow> 'a result \<times> StorageService) \<Rightarrow> ('s, 'd) Services \<Rightarrow> rpc_reply result option \<times> ('s, 'd) Services" where
  "rpc_storage mk f sv = (case f (sv_Storage sv) of (r, s') \<Rightarrow> (Some (map_sum id mk r), sv\<lparr>sv_Storage := s'\<rparr>))"

fun NewServer :: "('s, 'd) world \<Rightarrow> rpc \<Rightarrow> ('s, 'd) Services \<Rightarrow> rpc_reply result option \<times> ('s, 'd) Services" where
  "NewServer w (RCreateVM req) sv = rpc_selector PVM (Grpc_CreateVM (w_comp w) (w_now w) req) sv"
| "NewServer w (RDestroyVM h) sv = rpc_selector (\<lambda>u. PNone) (Grpc_DestroyVM (w_comp w) (w_order w ''backends'') h) sv"
| "NewServer w (RStartVM h) sv = rpc_selector PState (Grpc_StartVM (w_comp w) (w_order w ''backends'') h) sv"
| "NewServer w (RStopVM h) sv = rpc_selector PState (Grpc_StopVM (w_comp w) (w_order w ''backends'') h) sv"
| "NewServer w (RPauseVM h) sv = rpc_selector PState (Grpc_PauseVM (w_comp w) (w_order w ''backends'') h) sv"
| "NewServer w (RResumeVM h) sv = rpc_selector PState (Grpc_ResumeVM (w_comp w) (w_order w ''backends'') h) sv"
| "NewServer w RListVMs sv = (Some (Ok (PVMs (Grpc_ListVMs (w_order w ''backends'') (w_handles w) (selector sv)))), sv)"
| "NewServer w (RGetVM h) sv = (Some (map_sum id PVM (Grpc_GetVM (w_order w ''backends'') h (selector sv))), sv)"
| "NewServer w (RLiveMigrate h node) sv =
     (case LiveMigrate (w_migration w) h node (sv_Compute sv) of
        (resp, cs) \<Rightarrow> (map_option (\<lambda>p. Ok (PMigrated p)) resp, sv\<lparr>sv_Compute := cs\<rparr>))"
| "NewServer w RListPools sv = (Some (Ok (PPools (Grpc_ListPools (w_stor w) (w_order w ''pools'') (sv_Storage sv)))), sv)"
| "NewServer w (RCreateVolume req) sv = rpc_storage PVolume (Grpc_CreateVolume (w_stor w) (w_now w) req) sv"
| "NewServer w (RDeleteVolume i) sv = rpc_storage (\<lambda>u. PNone) (Grpc_DeleteVolume (w_stor w) i) sv"
| "NewServer w (RCreateSnapshot v n) sv = rpc_storage PSnapshot (Grpc_CreateSnapshot (w_stor w) (w_now w) v n) sv"
| "NewServer w (RListSnapshots v) sv = (Some (Ok (PSnapshots (Grpc_ListSnapshots (w_stor w) (w_order w ''snapshots'') (w_now w) v (sv_Storage sv)))), sv)"
| "NewServer w (RListDevices t) sv =
     (Some (Ok (PDevices (Grpc_ListDevices (w_order w ''devices'') (w_order w ''default-devices'') t (sv_Peripheral sv)))), sv)"
| "NewServer w (RAttachDevice i h) sv =
     (case Grpc_AttachDevice (w_sysfs w) i h (sv_Peripheral sv) of
        (r, d, ws) \<Rightarrow> (Some (map_sum id PSuccess r), sv\<lparr>sv_Peripheral := d\<rparr>))"
| "NewServer w (RDetachDevice i) sv =
     (case Grpc_DetachDevice i (sv_Peripheral sv) of (r, d) \<Rightarrow> (Some (map_sum id PSuccess r), sv\<lparr>sv_Peripheral := d\<rparr>))"

section \<open>Agreement with the REST interface\<close>

text \<open>A REST answer that reports success with the machine a call's reply shows, or an error.\<close>

fun same_vm_answer :: "(VMInfo \<Rightarrow> 'a) \<Rightarrow> int \<Rightarrow> response \<Rightarrow> 'a result \<Rightarrow> bool" where
  "same_vm_answer f code resp (Inr x) \<longleftrightarrow> (\<exists>vm. resp = (code, BVM vm) \<and> f vm = x)"
| "same_vm_answer f code resp (Inl err) \<longleftrightarrow> 400 \<le> fst resp"

lemma error_codes: "fst (not_found e) = 404" "fst (conflict e) = 409" "fst (bad_request m) = 400" "fst (internal_error m) = 500"
  by (simp_all add: not_found_def conflict_def bad_request_def internal_error_def writeError_text_def writeError_def writeJSON_def Let_def)

lemma not_found_no_content: "not_found e \<noteq> (204, BNone)"
  using error_codes(1) [of e] by auto

lemma action_agrees:
  assumes "parseVMID r = Ok h"
  shows "snd (handleVMAction env ord a r s) = snd (Svc_ActionVM env ord h a s)
    \<and> same_vm_answer f 200 (fst (handleVMAction env ord a r s)) (wrap doing f (fst (Svc_ActionVM env ord h a s)))"
  using assms by (auto simp: handleVMAction_def wrap_def writeJSON_def error_codes split: prod.split sum.split)

lemma apply_settings_none: "apply_settings (create_req.make n c m b t [] [] [] [] []) vm = vm"
  by (simp add: apply_settings_def create_req.make_def)

text \<open>Editing a record with nothing changes no table.\<close>

lemma backend_edit_id: "backend_edit_vm h (\<lambda>vm. vm) b = b"
  by (cases b) (simp_all add: option.map_ident)

lemma edit_vm_id: "edit_vm vm (\<lambda>vm. vm) s = s"
  by (auto simp: edit_vm_def set_backend_def backend_edit_id fun_upd_idem split: option.split)


definition vm_10000 :: api_req where
  "vm_10000 = \<lparr>ar_path = (\<lambda>_. ''10000''), ar_query = (\<lambda>_. [])\<rparr>"


section \<open>The controller\<close>

text \<open>What can happen next in the controller: a REST request, a gRPC call, or a step of a running migration, in any order.
  Each request and call is a single step; the locks of the services make their operations atomic.\<close>

datatype ('s, 'd) event =
    Rest "('s, 'd) world" in_req
  | Rpc "('s, 'd) world" rpc
  | Migrating nat "string list" gotime

definition migration_tick :: "nat \<Rightarrow> string list \<Rightarrow> gotime \<Rightarrow> ('s, 'd) Services \<Rightarrow> ('s, 'd) Services" where
  "migration_tick i ord now sv =
     (if i < length (sv_running sv)
      then case sv_running sv ! i of
             (g, t) \<Rightarrow> (case mig_step ord now (sv_Compute sv, g) of (cs, g') \<Rightarrow> sv\<lparr>sv_Compute := cs, sv_running := (sv_running sv)[i := (g', t)]\<rparr>)
      else sv)"

fun controller_step :: "'d boot_env \<Rightarrow> bool \<Rightarrow> Config \<Rightarrow> ('s, 'd) event \<Rightarrow> uint64 \<times> ('s, 'd) Services \<Rightarrow> uint64 \<times> ('s, 'd) Services" where
  "controller_step env limited cfg (Rest w q) s = snd (controller_serve env limited cfg w q s)"
| "controller_step env limited cfg (Rpc w c) s = (fst s, snd (NewServer w c (snd s)))"
| "controller_step env limited cfg (Migrating i ord now) s = (fst s, migration_tick i ord now (snd s))"

definition controller_run :: "'d boot_env \<Rightarrow> bool \<Rightarrow> Config \<Rightarrow> ('s, 'd) event list \<Rightarrow> uint64 \<times> ('s, 'd) Services \<Rightarrow> uint64 \<times> ('s, 'd) Services" where
  "controller_run env limited cfg = fold (controller_step env limited cfg)"

text \<open>The orders in which the map of backends is visited during an event.\<close>

fun event_orders :: "('s, 'd) event \<Rightarrow> string list list" where
  "event_orders (Rest w q) = [w_order w ''backends'']"
| "event_orders (Rpc w c) = w_order w ''backends'' # map fst (w_migration w)"
| "event_orders (Migrating i ord now) = [ord]"

definition event_ok :: "('s, 'd) event \<Rightarrow> ('s, 'd) Services \<Rightarrow> bool" where
  "event_ok e sv \<longleftrightarrow> hint_room (selector sv) \<and> list_all (\<lambda>ord. range_order ord (sel_backends (selector sv))) (event_orders e)"

fun room_during :: "'d boot_env \<Rightarrow> bool \<Rightarrow> Config \<Rightarrow> ('s, 'd) event list \<Rightarrow> uint64 \<times> ('s, 'd) Services \<Rightarrow> bool" where
  "room_during env limited cfg [] s \<longleftrightarrow> True"
| "room_during env limited cfg (e # es) s \<longleftrightarrow> event_ok e (snd s) \<and> room_during env limited cfg es (controller_step env limited cfg e s)"

lemma mig_step_selector:
  "cs_selector (fst (mig_step ord now (cs, g))) = cs_selector cs
   \<or> cs_selector (fst (mig_step ord now (cs, g))) = updateVMNode ord (g_handle g) (g_target g) (cs_selector cs)"
  by (auto simp: mig_step_def mig_start_def new_status_def upd_status_def Let_def split: mig_pc.split list.split sum.split option.split)

lemma updateVMNode_keys: "dom (sel_backends (updateVMNode ord h node s)) = dom (sel_backends s)"
  by (induction ord) (auto simp: set_backend_def dom_def split: option.splits if_splits)

lemma mig_step_inv:
  assumes "svc_inv (cs_selector cs)" "range_order ord (sel_backends (cs_selector cs))"
  shows "svc_inv (cs_selector (fst (mig_step ord now (cs, g))))"
    "dom (sel_backends (cs_selector (fst (mig_step ord now (cs, g))))) = dom (sel_backends (cs_selector cs))"
  using mig_step_selector [of ord now cs g] assms updateVMNode_inv updateVMNode_keys by metis+

lemma doMigration_inv:
  assumes "svc_inv (cs_selector cs)" "list_all (\<lambda>ord. range_order ord (sel_backends (cs_selector cs))) (map fst inputs)"
  shows "svc_inv (cs_selector (fst (doMigration inputs (cs, g))))"
  using assms
proof (induction inputs arbitrary: cs g)
  case (Cons i inputs)
  obtain ord now where i: "i = (ord, now)" by (cases i)
  obtain cs' g' where m: "mig_step ord now (cs, g) = (cs', g')" by (cases "mig_step ord now (cs, g)")
  have "svc_inv (cs_selector cs')" "dom (sel_backends (cs_selector cs')) = dom (sel_backends (cs_selector cs))"
    using mig_step_inv [of cs ord now g] Cons.prems m i by simp_all
  then show ?case using Cons i m by (simp add: range_order_def)
qed simp

lemma LiveMigrate_inv:
  assumes "svc_inv (cs_selector cs)" "list_all (\<lambda>ord. range_order ord (sel_backends (cs_selector cs))) (map fst inputs)"
  shows "svc_inv (cs_selector (snd (LiveMigrate inputs h node cs)))"
proof -
  have "snd (LiveMigrate inputs h node cs) = snd (MigrateVM inputs h node cs)"
    by (simp add: LiveMigrate_def split: prod.split mig_pc.split sum.split)
  then show ?thesis
    using doMigration_inv [of "cs\<lparr>cs_nextCtx := Suc (cs_nextCtx cs)\<rparr>" inputs] assms by (simp add: MigrateVM_def Let_def case_prod_beta)
qed

lemma rpc_selector_keeps:
  assumes "svc_inv (snd (f (selector sv)))" "sv_Task sv \<noteq> None"
  shows "svc_inv (selector (snd (rpc_selector mk f sv))) \<and> sv_Task (snd (rpc_selector mk f sv)) \<noteq> None"
  using assms by (simp add: rpc_selector_def set_selector_def case_prod_beta)

lemma NewServer_keeps:
  assumes ok: "svc_inv (selector sv)" "sv_Task sv \<noteq> None" "event_ok (Rpc w c) sv"
  shows "svc_inv (selector (snd (NewServer w c sv))) \<and> sv_Task (snd (NewServer w c sv)) \<noteq> None"
proof -
  have ord: "range_order (w_order w ''backends'') (sel_backends (selector sv))" and room: "hint_room (selector sv)"
    and mig: "list_all (\<lambda>ord. range_order ord (sel_backends (selector sv))) (map fst (w_migration w))"
    using ok(3) by (simp_all add: event_ok_def)
  have create: "svc_inv (snd (Svc_CreateVM e n c m hint t (selector sv)))" for e n c m hint t
    using svc_create_view [OF ok(1) prod.collapse [symmetric]] room by (simp add: hint_room_def)
  have destroy: "svc_inv (snd (Svc_DestroyVM e (w_order w ''backends'') h (selector sv)))" for e h
    by (rule svc_destroy_view [OF ok(1) ord prod.collapse [symmetric], THEN conjunct1])
  have act: "svc_inv (snd (Svc_ActionVM e (w_order w ''backends'') h a (selector sv)))" for e h a
    by (rule svc_action_view [OF ok(1) ord prod.collapse [symmetric], THEN conjunct1])
  show ?thesis
    using ok(1,2) LiveMigrate_inv [OF ok(1) mig] create destroy act
    by (cases c) (simp_all add: rpc_selector_keeps Grpc_CreateVM_def Grpc_DestroyVM_def Grpc_StartVM_def Grpc_StopVM_def Grpc_PauseVM_def
        Grpc_ResumeVM_def rpc_storage_def case_prod_beta)
qed

lemma migration_tick_keeps:
  assumes "svc_inv (selector sv)" "sv_Task sv \<noteq> None" "range_order ord (sel_backends (selector sv))"
  shows "svc_inv (selector (migration_tick i ord now sv)) \<and> sv_Task (migration_tick i ord now sv) \<noteq> None"
  using assms mig_step_inv(1) [OF assms(1,3), of now] by (auto simp: migration_tick_def case_prod_beta)

lemma controller_step_keeps:
  assumes "svc_inv (selector (snd s))" "sv_Task (snd s) \<noteq> None" "event_ok e (snd s)"
  shows "svc_inv (selector (snd (controller_step env limited cfg e s))) \<and> sv_Task (snd (controller_step env limited cfg e s)) \<noteq> None"
proof (cases e)
  case (Rest w q)
  then have "sys_ok w (snd s)" using assms by (simp add: sys_ok_def event_ok_def)
  then show ?thesis using chain_keeps [of w "snd s" limited _ q "fst s"] by (simp add: Rest controller_serve_def)
next
  case (Rpc w c)
  then show ?thesis using NewServer_keeps [of "snd s" w c] assms by simp
next
  case (Migrating i ord now)
  then show ?thesis using migration_tick_keeps [of "snd s" ord i now] assms by (simp add: event_ok_def)
qed

lemma controller_run_keeps:
  assumes "svc_inv (selector (snd s))" "sv_Task (snd s) \<noteq> None" "room_during env limited cfg es s"
  shows "svc_inv (selector (snd (controller_run env limited cfg es s)))"
  using assms
proof (induction es arbitrary: s)
  case (Cons e es)
  then show ?case using controller_step_keeps [of s e env limited cfg] by (simp add: controller_run_def)
qed (simp add: controller_run_def)



section \<open>What the replies show\<close>

text \<open>The states of the life cycle and the types of devices are told apart, and a filter by type is the type it names.\<close>

lemma stateToProto_inj: "stateToProto (phase_string p) = stateToProto (phase_string p') \<longleftrightarrow> p = p'"
  by (cases p; cases p') (simp_all add: stateToProto_def vm_state_defs)

lemma device_type_roundtrip:
  "dt \<in> {DeviceGPU, DeviceNIC, DeviceUSB, DeviceDisk} \<Longrightarrow> protoToDeviceType (deviceTypeToProto dt) = dt"
  by (auto simp: protoToDeviceType_def deviceTypeToProto_def device_type_defs DeviceGPU_def DeviceNIC_def DeviceUSB_def DeviceDisk_def)

end
