(* ===== verification/Event_Hub.thy ===== *)
theory Event_Hub
  imports Prelude "HOL-Library.Multiset"
begin

text \<open>
  The event hub of \<^verbatim>\<open>internal/api/websocket.go\<close>: the connected WebSocket clients, the handler of a connection with its read
  loop, and the broadcast of an event.  Connections are an abstract type; each handler runs in its own goroutine, so its
  registration and the ends of its reads interleave with those of other connections and with broadcasts.
\<close>

section \<open>The hub\<close>

record 'c EventHub =
  hub_clients :: "'c \<Rightarrow> bool option"

definition NewEventHub :: "'c EventHub" where
  "NewEventHub = \<lparr>hub_clients = Map.empty\<rparr>"

text \<open>\<open>HandleWS\<close> up to its read loop: \<open>upgraded\<close> is the answer of the upgrader.  The result says whether the handler goes
  on to read.\<close>

definition HandleWS_open :: "'c result \<Rightarrow> 'c EventHub \<Rightarrow> 'c option \<times> 'c EventHub" where
  "HandleWS_open upgraded hub =
     (case upgraded of
        Inl err \<Rightarrow> (None, hub)
      | Inr conn \<Rightarrow> (Some conn, hub\<lparr>hub_clients := (hub_clients hub)(conn \<mapsto> True)\<rparr>))"

text \<open>One round of the read loop: a message is dropped, an error ends the loop and the deferred function removes the
  client.  The result says whether the loop goes on.\<close>

definition HandleWS_read :: "'c \<Rightarrow> go_error option \<Rightarrow> 'c EventHub \<Rightarrow> bool \<times> 'c EventHub" where
  "HandleWS_read conn err hub =
     (case err of
        None \<Rightarrow> (True, hub)
      | Some e \<Rightarrow> (False, hub\<lparr>hub_clients := (hub_clients hub)(conn := None)\<rparr>))"

text \<open>An event that cannot be encoded is dropped; a failed write is logged and the loop goes on.  The result is the writes
  made, \<open>ord\<close> the order in which the map is visited.\<close>

definition Broadcast :: "'c list \<Rightarrow> string result \<Rightarrow> 'c EventHub \<Rightarrow> ('c \<times> string) list" where
  "Broadcast ord encoded hub =
     (case encoded of
        Inl err \<Rightarrow> []
      | Inr bytes \<Rightarrow> map (\<lambda>conn. (conn, bytes)) (filter (\<lambda>conn. hub_clients hub conn \<noteq> None) ord))"

definition ClientCount :: "'c list \<Rightarrow> 'c EventHub \<Rightarrow> nat" where
  "ClientCount ord hub = length (filter (\<lambda>conn. hub_clients hub conn \<noteq> None) ord)"

section \<open>Interleaving\<close>

text \<open>The state is the hub with the goroutines that are in their read loop.\<close>

datatype 'c hub_event =
    Accept "'c result"
  | Read 'c "go_error option"

fun hub_step :: "'c hub_event \<Rightarrow> 'c list \<times> 'c EventHub \<Rightarrow> 'c list \<times> 'c EventHub" where
  "hub_step (Accept upgraded) (readers, hub) =
     (case HandleWS_open upgraded hub of (None, hub') \<Rightarrow> (readers, hub') | (Some conn, hub') \<Rightarrow> (readers @ [conn], hub'))"
| "hub_step (Read conn err) (readers, hub) =
     (if conn \<in> set readers
      then case HandleWS_read conn err hub of (goes_on, hub') \<Rightarrow> (if goes_on then readers else remove1 conn readers, hub')
      else (readers, hub))"

definition hub_run :: "'c hub_event list \<Rightarrow> 'c list \<times> 'c EventHub" where
  "hub_run es = fold hub_step es ([], NewEventHub)"

text \<open>A connection is a new object: none is accepted twice.\<close>

fun accepted :: "'c hub_event \<Rightarrow> 'c list" where
  "accepted (Accept (Inr conn)) = [conn]"
| "accepted e = []"

fun failed_reads :: "'c hub_event \<Rightarrow> 'c list" where
  "failed_reads (Read conn (Some e)) = [conn]"
| "failed_reads e = []"

text \<open>The clients that are open after a sequence of events: accepted, and no read has failed since.\<close>

fun open_after :: "'c hub_event list \<Rightarrow> 'c \<Rightarrow> bool" where
  "open_after [] c \<longleftrightarrow> False"
| "open_after (e # es) c \<longleftrightarrow> open_after es c \<or> c \<in> set (accepted e) \<and> c \<notin> set (concat (map failed_reads es))"

lemma open_after_append: "open_after (es @ [e]) c \<longleftrightarrow> (open_after es c \<and> c \<notin> set (failed_reads e)) \<or> c \<in> set (accepted e)"
  by (induction es) auto

lemma open_after_accepted: "open_after es c \<Longrightarrow> c \<in> set (concat (map accepted es))"
  by (induction es) auto

lemma hub_run_clients:
  assumes "distinct (concat (map accepted es))"
  shows "distinct (fst (hub_run es)) \<and> (\<forall>c. c \<in> set (fst (hub_run es)) \<longleftrightarrow> open_after es c)
    \<and> (\<forall>c. hub_clients (snd (hub_run es)) c \<noteq> None \<longleftrightarrow> open_after es c)"
  using assms
proof (induction es rule: rev_induct)
  case (snoc e es)
  obtain readers hub where r: "hub_run es = (readers, hub)" by (cases "hub_run es")
  have step: "hub_run (es @ [x]) = hub_step x (readers, hub)" for x using r by (simp add: hub_run_def)
  have IH: "distinct readers" "\<And>c. c \<in> set readers \<longleftrightarrow> open_after es c" "\<And>c. hub_clients hub c \<noteq> None \<longleftrightarrow> open_after es c"
    using snoc r by simp_all
  show ?case
  proof (cases e)
    case (Accept u)
    then have "u = Inr c \<Longrightarrow> \<not> open_after es c" for c using snoc.prems open_after_accepted [of es c] by auto
    then show ?thesis using IH by (cases u) (auto simp: step Accept open_after_append HandleWS_open_def)
  next
    case (Read c err)
    then show ?thesis using IH
      by (cases err) (auto simp: step Read open_after_append HandleWS_read_def)
  qed
qed (simp add: hub_run_def NewEventHub_def)

text \<open>C38: After any interleaving of connections, messages and disconnections, a broadcast writes the event exactly once to
  each client that has connected and has not failed a read since, and to no other; \<open>ClientCount\<close> is their
  number, and each has its goroutine reading.\<close>

theorem broadcast_reaches_open:
  assumes "distinct (concat (map accepted es))" "hub_run es = (readers, hub)"
    and "distinct ord" "set ord = dom (hub_clients hub)"
  shows "mset (Broadcast ord (Ok bytes) hub) = image_mset (\<lambda>c. (c, bytes)) (mset_set {c. open_after es c})
    \<and> ClientCount ord hub = card {c. open_after es c} \<and> set readers = {c. open_after es c}"
proof -
  have all: "filter (\<lambda>c. hub_clients hub c \<noteq> None) ord = ord"
    using assms(4) by (auto simp: filter_id_conv)
  have o: "set ord = {c. open_after es c}" "set readers = {c. open_after es c}"
    using hub_run_clients [OF assms(1)] assms(2,4) by auto
  show ?thesis
    unfolding Broadcast_def ClientCount_def all using assms(3) o
    by (simp add: mset_set_set distinct_card flip: o(1))
qed

theorem broadcast_reaches_open_witness:
  "set (Broadcast [2] (Ok ''x'') (snd (hub_run [Accept (Ok 1), Accept (Ok (2::nat)), Read 1 (Some (ExtError ''closed''))]))) = {(2, ''x'')}"
proof -
  define es where "es = [Accept (Ok 1), Accept (Ok (2::nat)), Read 1 (Some (ExtError ''closed''))]"
  obtain readers hub where r: "hub_run es = (readers, hub)" by (cases "hub_run es")
  have op: "{c. open_after es c} = {2}" by (auto simp: es_def)
  have d: "distinct (concat (map accepted es))" by (simp add: es_def)
  have "set [2::nat] = dom (hub_clients hub)"
    using r by (auto simp: es_def hub_run_def HandleWS_open_def HandleWS_read_def NewEventHub_def split: if_splits)
  then have "mset (Broadcast [2] (Ok ''x'') hub) = image_mset (\<lambda>c. (c, ''x'')) (mset_set {2})"
    using broadcast_reaches_open [OF d r, of "[2]" "''x''"] op by simp
  then have "set_mset (mset (Broadcast [2] (Ok ''x'') hub)) = {(2, ''x'')}" by simp
  then show ?thesis using r by (simp add: es_def)
qed

end
