(* ===== verification/Metrics.thy ===== *)
theory Metrics
  imports Router
begin

text \<open>
  The Prometheus metrics of the controller, \<^verbatim>\<open>internal/metrics\<close>: the label of a path, the counting of requests, and the
  gauges that are set from the services when the metrics are read.  A family of gauges or counters is a map from labels
  to values; a value that Prometheus keeps as a 64-bit floating point number is its rational value.
\<close>

section \<open>Labels of paths\<close>

text \<open>A pattern of the list of normalizers: a literal followed by at least one character of a class, anywhere in
  the path.\<close>

definition is_digit :: "char \<Rightarrow> bool" where
  "is_digit c \<longleftrightarrow> c \<in> set ''0123456789''"

definition no_slash :: "char \<Rightarrow> bool" where
  "no_slash c \<longleftrightarrow> c \<noteq> CHR ''/''"

definition MatchString :: "string \<times> (char \<Rightarrow> bool) \<Rightarrow> string \<Rightarrow> bool" where
  "MatchString re path =
     list_ex (\<lambda>n. take (length (fst re)) (drop n path) = fst re
        \<and> (case drop (n + length (fst re)) path of [] \<Rightarrow> False | c # cs \<Rightarrow> snd re c)) [0..<Suc (length path)]"

definition pathNormalizers :: "(string \<times> (char \<Rightarrow> bool)) list" where
  "pathNormalizers =
     [(''/api/v1/vms/'', is_digit), (''/api/v1/devices/'', no_slash), (''/api/v1/backups/'', no_slash), (''/api/v1/snapshots/'', no_slash),
      (''/api/v1/templates/'', no_slash), (''/api/v1/images/'', no_slash), (''/api/v1/tasks/'', no_slash), (''/api/v1/storage/volumes/'', no_slash),
      (''/api/v1/cluster/fence/'', no_slash), (''/api/v1/auth/users/'', no_slash), (''/api/v1/nodes/'', no_slash), (''/api/v1/network/zones/'', no_slash)]"

definition pathReplacements :: "string list" where
  "pathReplacements =
     [''/api/v1/vms/{id}'', ''/api/v1/devices/{id}'', ''/api/v1/backups/{id}'', ''/api/v1/snapshots/{id}'', ''/api/v1/templates/{id}'',
      ''/api/v1/images/{id}'', ''/api/v1/tasks/{id}'', ''/api/v1/storage/volumes/{id}'', ''/api/v1/cluster/fence/{node}'',
      ''/api/v1/auth/users/{username}'', ''/api/v1/nodes/{id}'', ''/api/v1/network/zones/{name}'']"

definition normalizePath :: "string \<Rightarrow> string" where
  "normalizePath path =
     (case find (\<lambda>(re, repl). MatchString re path) (zip pathNormalizers pathReplacements) of None \<Rightarrow> path | Some (re, repl) \<Rightarrow> repl)"

section \<open>Counting requests\<close>

record Collectors =
  VMsTotal :: "string \<times> string \<Rightarrow> rat option"
  APIRequestsTotal :: "string \<times> string \<times> string \<Rightarrow> nat option"
  APIRequestDuration :: "string \<times> string \<Rightarrow> duration list option"
  NodesTotal :: rat
  StoragePoolBytes :: "string \<times> string \<Rightarrow> rat option"

text \<open>\<open>status\<close> is the code the inner handler has written, if it has written one.\<close>

definition InstrumentHandler :: "string \<Rightarrow> string \<Rightarrow> int option \<Rightarrow> duration \<Rightarrow> Collectors \<Rightarrow> Collectors" where
  "InstrumentHandler method rpath status elapsed c =
     (let path = normalizePath rpath;
          code = show_int (case status of None \<Rightarrow> 200 | Some s \<Rightarrow> s);
          key = (method, path, code)
      in c\<lparr>APIRequestsTotal := (APIRequestsTotal c)(key \<mapsto> (case APIRequestsTotal c key of None \<Rightarrow> 0 | Some n \<Rightarrow> n) + 1),
           APIRequestDuration := (APIRequestDuration c)((method, path) \<mapsto>
             (case APIRequestDuration c (method, path) of None \<Rightarrow> [] | Some ds \<Rightarrow> ds) @ [elapsed])\<rparr>)"

section \<open>Gauges\<close>

definition count_step :: "VMInfo \<Rightarrow> (string \<times> string \<Rightarrow> rat option) \<Rightarrow> (string \<times> string \<Rightarrow> rat option)" where
  "count_step vm counts =
     (let key = (vmState vm, vmBackend vm) in counts(key \<mapsto> rne ((case counts key of None \<Rightarrow> 0 | Some n \<Rightarrow> n) + 1)))"

definition pool_step :: "Pool \<Rightarrow> (string \<times> string \<Rightarrow> rat option) \<Rightarrow> (string \<times> string \<Rightarrow> rat option)" where
  "pool_step p g =
     g((po_Name p, ''total'') \<mapsto> rne (of_int (uint (po_TotalBytes p))), (po_Name p, ''used'') \<mapsto> rne (of_int (uint (po_UsedBytes p))))"

text \<open>The services of the router are always set; the lists are the ones the services return.\<close>

definition CollectFromServices :: "VMInfo list \<Rightarrow> ClusterNode list \<Rightarrow> Pool list \<Rightarrow> Collectors \<Rightarrow> Collectors" where
  "CollectFromServices vms nodes pools c =
     c\<lparr>VMsTotal := fold count_step vms Map.empty,
       NodesTotal := rne (of_nat (length nodes)),
       StoragePoolBytes := fold pool_step pools Map.empty\<rparr>"

lemma rne_nat: "n < 2 ^ 53 \<Longrightarrow> rne (of_nat n) = of_nat n"
  using rne_int [of "int n"] by simp

lemma fold_counts:
  "length vms < 2 ^ 53 \<Longrightarrow> fold count_step vms Map.empty key =
     (let n = length (filter (\<lambda>vm. (vmState vm, vmBackend vm) = key) vms) in if n = 0 then None else Some (of_nat n))"
proof (induction vms rule: rev_induct)
  case (snoc vm vms)
  let ?n = "length (filter (\<lambda>vm. (vmState vm, vmBackend vm) = key) vms)"
  have "?n \<le> length vms" by simp
  then have "Suc ?n < 2 ^ 53" using snoc.prems by (simp only: length_append_singleton)
  then have "rne (1 + of_nat ?n) = 1 + of_nat ?n" using rne_nat [of "Suc ?n"] by simp
  moreover have "rne 1 = 1" using rne_nat [of 1] by simp
  ultimately show ?case using snoc by (auto simp: count_step_def Let_def add.commute)
qed simp

section \<open>The gauges count the machines\<close>

definition lists_ordered :: "string list \<Rightarrow> (string \<Rightarrow> int32 list) \<Rightarrow> BackendSelector \<Rightarrow> bool" where
  "lists_ordered ord vords s \<longleftrightarrow> range_order ord (sel_backends s)
     \<and> (\<forall>key b. sel_backends s key = Some b \<longrightarrow> range_order (vords key) (backend_table b))"

lemma backend_ListVMs_values: "backend_ListVMs ks b = map_values ks (backend_table b)"
  by (cases b) (simp_all add: RustVMM_ListVMs_def QEMU_ListVMs_def LXC_ListVMs_def)

text \<open>The list of machines has every machine of the tables once.\<close>

lemma list_vms_ids:
  assumes inv: "svc_inv s" and o: "lists_ordered ord vords s"
  shows "map (\<lambda>vm. (vmID vm, Some vm)) (Svc_ListVMs ord vords s) =
    map (\<lambda>h. (h, svc_view s h)) (concat (map vords ord)) \<and> distinct (concat (map vords ord)) \<and> set (concat (map vords ord)) = dom (svc_view s)"
proof -
  have d: "distinct ord" "set ord = dom (sel_backends s)" using o by (simp_all add: lists_ordered_def range_order_def)
  have tab: "distinct (vords k)" "set (vords k) = dom (backend_table b)" if "sel_backends s k = Some b" for k b
    using o that by (simp_all add: lists_ordered_def range_order_def)
  have view: "svc_view s h = Some vm \<longleftrightarrow> (\<exists>k b. sel_backends s k = Some b \<and> backend_table b h = Some vm)" for h vm
    using svc_view_iff [OF inv] by (simp add: owns_def)
  have vid: "vmID vm = h" if "sel_backends s k = Some b" "backend_table b h = Some vm" for k b h vm
    using inv that backend_entry [of b h vm] by (auto simp: svc_inv_def svc_ok_def)
  have one: "map (\<lambda>vm. (vmID vm, Some vm)) (backend_ListVMs (vords k) b) = map (\<lambda>h. (h, svc_view s h)) (vords k)" if k: "sel_backends s k = Some b" for k b
  proof -
    have "backend_ListVMs (vords k) b = map (\<lambda>h. the (backend_table b h)) (vords k)"
      using tab [OF k] by (simp add: backend_ListVMs_values map_values_eq)
    moreover have "svc_view s h = backend_table b h \<and> vmID (the (backend_table b h)) = h \<and> Some (the (backend_table b h)) = backend_table b h" if "h \<in> set (vords k)" for h
      using that tab(2) [OF k] view [of h] vid [OF k] k by force
    ultimately show ?thesis by simp
  qed
  have "map (\<lambda>vm. (vmID vm, Some vm)) (concat (map (\<lambda>key. case sel_backends s key of None \<Rightarrow> [] | Some b \<Rightarrow> backend_ListVMs (vords key) b) ks))
      = map (\<lambda>h. (h, svc_view s h)) (concat (map vords ks))" if "set ks \<subseteq> dom (sel_backends s)" for ks
    using that by (induction ks) (auto simp: one)
  then have "map (\<lambda>vm. (vmID vm, Some vm)) (Svc_ListVMs ord vords s) = map (\<lambda>h. (h, svc_view s h)) (concat (map vords ord))"
    using d by (simp add: Svc_ListVMs_def)
  moreover have "distinct (concat (map vords ord))"
  proof -
    have apart: "set (vords k) \<inter> set (vords k') = {}" if kk: "k \<noteq> k'" "k \<in> dom (sel_backends s)" "k' \<in> dom (sel_backends s)" for k k'
    proof (rule ccontr)
      assume "set (vords k) \<inter> set (vords k') \<noteq> {}"
      then obtain h where h: "h \<in> set (vords k)" "h \<in> set (vords k')" by blast
      obtain b b' where b: "sel_backends s k = Some b" "sel_backends s k' = Some b'" using kk(2,3) by blast
      obtain vm vm' where "backend_table b h = Some vm" "backend_table b' h = Some vm'" using h tab(2) [OF b(1)] tab(2) [OF b(2)] by auto
      then have "owns s k h vm" "owns s k' h vm'" using b by (auto simp: owns_def)
      then show False using owns_unique inv kk(1) by (auto simp: svc_inv_def)
    qed
    have "distinct (concat (map vords ks))" if "distinct ks" "set ks \<subseteq> dom (sel_backends s)" for ks
      using that
    proof (induction ks)
      case (Cons k ks)
      obtain b where "sel_backends s k = Some b" using Cons.prems(2) by auto
      moreover have "set (vords k) \<inter> set (vords k') = {}" if "k' \<in> set ks" for k' using apart [of k k'] Cons.prems that by auto
      ultimately show ?case using Cons tab(1) by auto
    qed simp
    then show ?thesis using d by simp
  qed
  moreover have "set (concat (map vords ord)) = dom (svc_view s)"
    using d(2) tab(2) view by (fastforce simp: dom_def)
  ultimately show ?thesis by blast
qed

lemma list_vms_count:
  assumes "svc_inv s" "lists_ordered ord vords s"
  shows "length (filter P (Svc_ListVMs ord vords s)) = card {h. \<exists>vm. svc_view s h = Some vm \<and> P vm}"
    "length (Svc_ListVMs ord vords s) = card (dom (svc_view s))"
proof -
  let ?vms = "Svc_ListVMs ord vords s" and ?hs = "concat (map vords ord)"
  note l = list_vms_ids [OF assms, THEN conjunct1] list_vms_ids [OF assms, THEN conjunct2, THEN conjunct1]
    list_vms_ids [OF assms, THEN conjunct2, THEN conjunct2]
  have "length (filter P ?vms) = length (filter (\<lambda>(h, v). P (the v)) (map (\<lambda>vm. (vmID vm, Some vm)) ?vms))"
    by (simp add: filter_map comp_def)
  also have "\<dots> = length (filter (\<lambda>h. P (the (svc_view s h))) ?hs)" unfolding l(1) by (simp add: filter_map comp_def)
  also have "\<dots> = card (set (filter (\<lambda>h. P (the (svc_view s h))) ?hs))" using distinct_card [OF distinct_filter [OF l(2)]] by metis
  also have "set (filter (\<lambda>h. P (the (svc_view s h))) ?hs) = {h. \<exists>vm. svc_view s h = Some vm \<and> P vm}" using l(3) by auto
  finally show "length (filter P ?vms) = card {h. \<exists>vm. svc_view s h = Some vm \<and> P vm}" .
  have "length ?vms = length ?hs" using arg_cong [OF l(1), of length] by simp
  then show "length ?vms = card (dom (svc_view s))" using distinct_card [OF l(2)] unfolding l(3) by simp
qed

text \<open>C40: Reading the metrics sets the gauge of every state and backend to the number of machines the tables have in that
  state and backend, and removes the gauges of states and backends without machines, whatever was set before and whatever
  the order in which the tables are visited.\<close>

theorem vm_gauges_exact:
  assumes "svc_inv s" "lists_ordered ord vords s" "card (dom (svc_view s)) < 2 ^ 53"
  shows "VMsTotal (CollectFromServices (Svc_ListVMs ord vords s) nodes pools c) (st, b) =
    (let n = card {h. \<exists>vm. svc_view s h = Some vm \<and> vmState vm = st \<and> vmBackend vm = b} in if n = 0 then None else Some (of_nat n))"
  using fold_counts [of "Svc_ListVMs ord vords s" "(st, b)"] list_vms_count [OF assms(1,2)] assms(3)
  by (simp add: CollectFromServices_def)

theorem vm_gauges_exact_witness:
  "\<forall>nodes pools c. VMsTotal (CollectFromServices (Svc_ListVMs backend_names (\<lambda>k. if k = ''qemu'' then [10000] else []) svc_one) nodes pools c)
     (''configured'', ''qemu'') = Some 1"
proof (intro allI)
  fix nodes pools c
  let ?vo = "\<lambda>k. if k = ''qemu'' then [10000] else [] :: int32 list"
  have tab: "backend_table (BRust (NewRustVMMBackend NewMockVMCore)) = Map.empty" "backend_table (BLxc (NewLXCBackend None)) = Map.empty"
    "backend_table qemu_with_one = [10000 \<mapsto> new_VMInfo 10000 ''win'' 4 4096 ''qemu'' ''vm'' 9]"
    by (simp_all add: NewRustVMMBackend_def NewLXCBackend_def qemu_with_one_eq NewQEMUBackend_def)
  have sel: "sel_backends svc_one = [''rustvmm'' \<mapsto> BRust (NewRustVMMBackend NewMockVMCore), ''lxc'' \<mapsto> BLxc (NewLXCBackend None), ''qemu'' \<mapsto> qemu_with_one]"
    by (auto simp: svc_one_def set_backend_def svc_fresh_backends)
  have cs: "key = ''rustvmm'' \<and> b = BRust (NewRustVMMBackend NewMockVMCore) \<or> key = ''lxc'' \<and> b = BLxc (NewLXCBackend None) \<or> key = ''qemu'' \<and> b = qemu_with_one"
    if "sel_backends svc_one key = Some b" for key b using that by (simp add: sel split: if_splits)
  have o: "lists_ordered backend_names ?vo svc_one"
  proof (unfold lists_ordered_def, intro conjI svc_one_order allI impI)
    fix key b assume "sel_backends svc_one key = Some b"
    from cs [OF this] show "range_order (?vo key) (backend_table b)" by (elim disjE conjE) (simp_all only: tab range_order_def, simp_all)
  qed
  have "(\<exists>k. owns svc_one k h vm) \<longleftrightarrow> h = 10000 \<and> vm = new_VMInfo 10000 ''win'' 4 4096 ''qemu'' ''vm'' 9" (is "?l \<longleftrightarrow> ?r") for h vm
  proof
    assume ?l
    then obtain k b where b: "sel_backends svc_one k = Some b" "backend_table b h = Some vm" by (auto simp: owns_def)
    from cs [OF b(1)] b(2) tab have "backend_table qemu_with_one h = Some vm" by (elim disjE conjE) (simp_all only: option.distinct)
    then show ?r unfolding tab(3) by (simp split: if_splits)
  next
    assume ?r
    moreover have "sel_backends svc_one ''qemu'' = Some qemu_with_one" by (simp add: sel)
    moreover have "backend_table qemu_with_one 10000 = Some (new_VMInfo 10000 ''win'' 4 4096 ''qemu'' ''vm'' 9)" unfolding tab(3) by simp
    ultimately show ?l unfolding owns_def by blast
  qed
  then have v: "svc_view svc_one h = Some vm \<longleftrightarrow> h = 10000 \<and> vm = new_VMInfo 10000 ''win'' 4 4096 ''qemu'' ''vm'' 9" for h vm
    using svc_view_iff [OF svc_one_inv] by simp
  have "dom (svc_view svc_one) = {10000}" "{h. \<exists>vm. svc_view svc_one h = Some vm \<and> vmState vm = ''configured'' \<and> vmBackend vm = ''qemu''} = {10000}"
    by (auto simp: v new_VMInfo_def)
  then show "VMsTotal (CollectFromServices (Svc_ListVMs backend_names ?vo svc_one) nodes pools c) (''configured'', ''qemu'') = Some 1"
    using vm_gauges_exact [OF svc_one_inv o, of nodes pools c "''configured''" "''qemu''"] by simp
qed

section \<open>The counters count the requests\<close>

type_synonym served = "string \<times> string \<times> int option \<times> duration"

definition served_key :: "served \<Rightarrow> string \<times> string \<times> string" where
  "served_key r = (case r of (method, path, status, elapsed) \<Rightarrow>
     (method, normalizePath path, show_int (case status of None \<Rightarrow> 200 | Some s \<Rightarrow> s)))"

lemma requests_counted:
  assumes "APIRequestsTotal c = Map.empty"
  shows "APIRequestsTotal (fold (\<lambda>(method, path, status, elapsed). InstrumentHandler method path status elapsed) rs c) key =
    (let n = length (filter (\<lambda>r. served_key r = key) rs) in if n = 0 then None else Some n)"
proof (induction rs rule: rev_induct)
  case (snoc r rs)
  then show ?case by (cases r) (auto simp: InstrumentHandler_def served_key_def Let_def)
qed (simp add: assms)

end
